(* ===== verification/Endian.thy ===== *)
theory Endian
  imports Prelude
begin

text \<open>
  The big-endian accessors of GmSSL's \<^verbatim>\<open>endian.h\<close>.  Reading back what was written is the
  identity in both directions, and a byte string read as a number (\<open>be_nat\<close>) is what the
  counter arithmetic of the CTR mode is specified with.
\<close>

definition GETU32 :: "bytes \<Rightarrow> u32" where
  "GETU32 p = push_bit 24 (ucast (p ! 0)) OR push_bit 16 (ucast (p ! 1))
     OR push_bit 8 (ucast (p ! 2)) OR ucast (p ! 3)"

definition GETU64 :: "bytes \<Rightarrow> u64" where
  "GETU64 p = push_bit 56 (ucast (p ! 0)) OR push_bit 48 (ucast (p ! 1))
     OR push_bit 40 (ucast (p ! 2)) OR push_bit 32 (ucast (p ! 3))
     OR push_bit 24 (ucast (p ! 4)) OR push_bit 16 (ucast (p ! 5))
     OR push_bit 8 (ucast (p ! 6)) OR ucast (p ! 7)"

definition PUTU32 :: "u32 \<Rightarrow> bytes" where
  "PUTU32 V = [ucast (drop_bit 24 V), ucast (drop_bit 16 V), ucast (drop_bit 8 V), ucast V]"

definition PUTU64 :: "u64 \<Rightarrow> bytes" where
  "PUTU64 V = [ucast (drop_bit 56 V), ucast (drop_bit 48 V), ucast (drop_bit 40 V),
     ucast (drop_bit 32 V), ucast (drop_bit 24 V), ucast (drop_bit 16 V),
     ucast (drop_bit 8 V), ucast V]"

definition ROL32 :: "u32 \<Rightarrow> nat \<Rightarrow> u32" where
  "ROL32 a n = push_bit n a OR drop_bit (32 - n) a"

section \<open>Bytes of a word\<close>

lemma not_bit_u8: "8 \<le> n \<Longrightarrow> \<not> bit (a :: u8) n"
  by (auto dest: bit_imp_le_length)
lemma length_PUTU32 [simp]: "length (PUTU32 V) = 4"
  by (simp add: PUTU32_def)

lemma length_PUTU64 [simp]: "length (PUTU64 V) = 8"
  by (simp add: PUTU64_def)

lemma GETU32_PUTU32 [byte_simps]: "GETU32 (PUTU32 V @ xs) = V"
proof (rule bit_word_eqI)
  fix n assume "n < LENGTH(32)"
  then consider "n < 8" | "8 \<le> n \<and> n < 16" | "16 \<le> n \<and> n < 24" | "24 \<le> n \<and> n < 32"
    by fastforce
  then show "bit (GETU32 (PUTU32 V @ xs)) n = bit V n"
    by cases (auto simp: GETU32_def PUTU32_def bit_simps)
qed

lemma bytes_eqI: "(\<And>n. n < 8 \<Longrightarrow> bit (a::u8) n = bit b n) \<Longrightarrow> a = b"
  by (rule bit_word_eqI) simp
lemma PUTU32_GETU32 [byte_simps]: "PUTU32 (GETU32 (a # b # c # d # xs)) = [a, b, c, d]"
  unfolding GETU32_def PUTU32_def list.inject
  by (intro conjI refl; rule bytes_eqI; simp add: bit_simps not_bit_u8)

lemma xor_PUTU32 [byte_simps]: "PUTU32 (U XOR V) = xor_bytes (PUTU32 U) (PUTU32 V)"
  unfolding PUTU32_def by (auto intro!: bytes_eqI simp: bit_simps)

lemma PUTU64_GETU64 [byte_simps]:
  "PUTU64 (GETU64 (a # b # c # d # e # f # g # h # xs)) = [a, b, c, d, e, f, g, h]"
  unfolding GETU64_def PUTU64_def list.inject
  by (intro conjI refl; rule bytes_eqI; simp add: bit_simps not_bit_u8)
lemma GETU64_high: "(ucast (drop_bit 32 (GETU64 (a # b # c # d # xs))) :: u32) = GETU32 (a # b # c # d # ys)"
  unfolding GETU64_def GETU32_def
  by (rule bit_word_eqI) (simp add: bit_simps not_bit_u8, auto)
lemma GETU64_low:
  "(ucast (GETU64 (a # b # c # d # e # f # g # h # xs)) :: u32) = GETU32 (e # f # g # h # ys)"
  unfolding GETU64_def GETU32_def
  by (rule bit_word_eqI) (simp add: bit_simps not_bit_u8, auto)

section \<open>Bytes as a number\<close>

fun be_nat :: "bytes \<Rightarrow> nat" where
  "be_nat [] = 0"
| "be_nat (b # bs) = unat b * 256 ^ length bs + be_nat bs"

lemma be_nat_append: "be_nat (bs @ cs) = be_nat bs * 256 ^ length cs + be_nat cs"
  by (induction bs) (simp_all add: power_add algebra_simps)

lemma be_nat_bound: "be_nat bs < 256 ^ length bs"
proof (induction bs)
  case (Cons b bs)
  have "unat b \<le> 255" using unsigned_less [of b, where 'a=nat] by simp
  then have "unat b * 256 ^ length bs \<le> 255 * 256 ^ length bs" by (rule mult_le_mono1)
  moreover have "256 ^ length (b # bs) = 256 * (256 :: nat) ^ length bs" by simp
  ultimately show ?case using Cons by (simp only: be_nat.simps)
qed simp

lemma radix_inject:
  "(a::nat) * m + x = b * m + y \<Longrightarrow> x < m \<Longrightarrow> y < m \<Longrightarrow> a = b \<and> x = y"
  by (metis add.commute add_right_cancel bot_nat_0.not_eq_extremum div_less div_mult_self3 not_less_zero add_0_right)

lemma be_nat_inject: "length xs = length ys \<Longrightarrow> be_nat xs = be_nat ys \<Longrightarrow> xs = ys"
proof (induction xs ys rule: list_induct2)
  case (Cons x xs y ys)
  have "unat x = unat y \<and> be_nat xs = be_nat ys"
    using Cons be_nat_bound [of xs] be_nat_bound [of ys] by (intro radix_inject) simp_all
  with Cons.IH show ?case by (simp add: word_unat_eq_iff)
qed simp

lemma unat_byte: "unat (ucast (drop_bit k (V :: 'a::len word)) :: u8) = unat V div 2 ^ k mod 256"
  by (simp add: unsigned_ucast_eq  take_bit_eq_mod unsigned_drop_bit_eq drop_bit_eq_div flip: drop_bit_eq_div)

lemma digit_step: "(n :: nat) div 2 ^ k = 256 * (n div 2 ^ (k + 8)) + n div 2 ^ k mod 256"
  by (simp add: power_add div_mult2_eq)

lemma horner8:
  assumes "n = 256 * a1 + d0" "a1 = 256 * a2 + d1" "a2 = 256 * a3 + d2" "a3 = 256 * a4 + d3"
    "a4 = 256 * a5 + d4" "a5 = 256 * a6 + d5" "a6 = 256 * a7 + d6" "a7 = d7"
  shows "d7 * 256 ^ 7 + (d6 * 256 ^ 6 + (d5 * 256 ^ 5 + (d4 * 256 ^ 4 + (d3 * 256 ^ 3 +
    (d2 * 256 ^ 2 + (d1 * 256 + d0)))))) = (n :: nat)"
  unfolding assms by simp

lemma digits_64:
  assumes "(n :: nat) < 2 ^ 64"
  shows "n div 2 ^ 56 mod 256 * 256 ^ 7 + (n div 2 ^ 48 mod 256 * 256 ^ 6 +
    (n div 2 ^ 40 mod 256 * 256 ^ 5 + (n div 2 ^ 32 mod 256 * 256 ^ 4 +
    (n div 2 ^ 24 mod 256 * 256 ^ 3 + (n div 2 ^ 16 mod 256 * 256 ^ 2 +
    (n div 2 ^ 8 mod 256 * 256 + n mod 256)))))) = n"
proof (rule horner8)
  have "n div 2 ^ 56 < 256" using assms by (simp add: less_mult_imp_div_less)
  then show "n div 2 ^ 56 = n div 2 ^ 56 mod 256" by simp
  show "n = 256 * (n div 2 ^ 8) + n mod 256" by simp
qed (use digit_step [of n 8] digit_step [of n 16] digit_step [of n 24] digit_step [of n 32]
      digit_step [of n 40] digit_step [of n 48] in simp_all)

lemma be_nat_PUTU64 [byte_simps]: "be_nat (PUTU64 V) = unat V"
proof -
  have "unat V < 2 ^ 64" using unsigned_less [of V, where 'a=nat] by simp
  from digits_64 [OF this] show ?thesis
    using unat_byte [of 0 V] by (simp add: PUTU64_def unat_byte)
qed

lemma unat_Suc_mod: "unat (a + 1) = Suc (unat a) mod 2 ^ LENGTH('a)" for a :: "'a::len word"
  by (simp add: unat_word_ariths)

lemma be_nat_PUTU64_pair:
  "be_nat (PUTU64 a @ PUTU64 b) = unat a * 2 ^ 64 + unat b"
  by (simp add: be_nat_append be_nat_PUTU64 del: One_nat_def)

lemma be_nat_incr64:
  "be_nat (PUTU64 (if b + 1 = 0 then a + 1 else a) @ PUTU64 (b + 1))
     = Suc (be_nat (PUTU64 a @ PUTU64 b)) mod 2 ^ 128"
proof (cases "b + 1 = 0")
  case True
  then have "unat (b + 1) = 0" by simp
  then have "Suc (unat b) mod 2 ^ 64 = 0" by (simp add: unat_Suc_mod)
  moreover have "unat b < 2 ^ 64" using unsigned_less [of b, where 'a=nat] by simp
  ultimately have b: "unat b = 2 ^ 64 - 1" by (metis diff_Suc_1 mod_less not_less_eq less_SucE mod_self Suc_lessI nat.distinct(1))
  have "Suc (unat a) mod 2 ^ 64 * 2 ^ 64 = (Suc (unat a) * 2 ^ 64) mod (2 ^ 64 * 2 ^ 64)"
    by (rule mod_mult_mult2 [symmetric])
  then show ?thesis using True by (simp add: be_nat_PUTU64_pair unat_Suc_mod b)
next
  case False
  then have "unat (b + 1) = Suc (unat b)" using unatSuc [of b] by (simp add: add.commute)
  moreover have "Suc (unat b) \<le> 2 ^ 64 - 1" using unsigned_less [of "b + 1", where 'a=nat] calculation by simp
  moreover have "unat a \<le> 2 ^ 64 - 1"  using unsigned_less [of a, where 'a=nat] by simp
  ultimately show ?thesis using False by (simp add: be_nat_PUTU64_pair)
qed
section \<open>Numbers as bytes\<close>

fun nat_be :: "nat \<Rightarrow> nat \<Rightarrow> bytes" where
  "nat_be 0 n = []"
| "nat_be (Suc k) n = nat_be k (n div 256) @ [of_nat (n mod 256)]"

lemma length_nat_be [simp]: "length (nat_be k n) = k"
  by (induction k n rule: nat_be.induct) simp_all

lemma be_nat_nat_be [byte_simps]: "be_nat (nat_be k n) = n mod 256 ^ k"
proof (induction k n rule: nat_be.induct)
  case (2 k n)
  have "unat (of_nat (n mod 256) :: u8) = n mod 256"
    by (simp add: unat_of_nat take_bit_eq_mod)
  then have "be_nat (nat_be (Suc k) n) = n div 256 mod 256 ^ k * 256 + n mod 256"
    using 2 by (simp add: be_nat_append)
  also have "\<dots> = n mod 256 ^ Suc k"
    using mod_mult2_eq [of n 256 "256 ^ k"] by (simp add: mult.commute)
  finally show ?case .
qed simp

lemma nat_be_be_nat [byte_simps]: "length bs = k \<Longrightarrow> nat_be k (be_nat bs) = bs"
  using be_nat_bound [of bs] by (intro be_nat_inject) (simp_all add: be_nat_nat_be)

lemma nat_be_mod: "nat_be k (n mod 256 ^ k) = nat_be k n"
  by (rule be_nat_inject) (simp_all add: be_nat_nat_be)

end
