(* ===== verification/Sm4.thy ===== *)
theory Sm4
  imports Sm4_Tables
begin

text \<open>
  The SM4 block cipher of GmSSL (\<^verbatim>\<open>sm4.c\<close>): the key schedules, the reference
  implementation (\<open>sm4_encrypt_small\<close>, the \<^verbatim>\<open>ENABLE_SMALL_FOOTPRINT\<close> branch) and the
  unrolled table-driven one (\<open>sm4_encrypt\<close>, the branch the build compiles).  A 16-byte
  buffer is a list of bytes.  The lemmas show that the two implementations agree, that the
  decryption schedule is the encryption schedule backwards, and that it undoes encryption.
\<close>

section \<open>Definitions\<close>

record SM4_KEY =
  rk :: "u32 list"

type_synonym st4 = "u32 \<times> u32 \<times> u32 \<times> u32"

fun fourth :: "st4 \<Rightarrow> u32" where
  "fourth (X0, X1, X2, X3) = X3"

text \<open>The body of the key schedule loop: the new word becomes the last of the window.\<close>

fun key_round :: "nat \<Rightarrow> st4 \<Rightarrow> st4" where
  "key_round i (X0, X1, X2, X3) =
     (let X4 = X1 XOR X2 XOR X3 XOR CK ! i;
          X4 = S32 X4;
          X4 = X0 XOR L32' X4
      in (X1, X2, X3, X4))"

definition key_window :: "bytes \<Rightarrow> st4" where
  "key_window user_key =
     (GETU32 user_key XOR FK ! 0, GETU32 (drop 4 user_key) XOR FK ! 1,
      GETU32 (drop 8 user_key) XOR FK ! 2, GETU32 (drop 12 user_key) XOR FK ! 3)"

definition sm4_set_encrypt_key :: "SM4_KEY \<Rightarrow> bytes \<Rightarrow> SM4_KEY" where
  "sm4_set_encrypt_key key user_key =
     key\<lparr>rk := snd (fold (\<lambda>i (X, r). let X' = key_round i X in (X', r[i := fourth X']))
       [0..<32] (key_window user_key, rk key))\<rparr>"

definition sm4_set_decrypt_key :: "SM4_KEY \<Rightarrow> bytes \<Rightarrow> SM4_KEY" where
  "sm4_set_decrypt_key key user_key =
     key\<lparr>rk := snd (fold (\<lambda>i (X, r). let X' = key_round i X in (X', r[31 - i := fourth X']))
       [0..<32] (key_window user_key, rk key))\<rparr>"

text \<open>One round of the reference implementation.\<close>

fun enc_round :: "u32 \<Rightarrow> st4 \<Rightarrow> st4" where
  "enc_round k (X0, X1, X2, X3) =
     (let X4 = X1 XOR X2 XOR X3 XOR k;
          X4 = S32 X4;
          X4 = X0 XOR L32 X4
      in (X1, X2, X3, X4))"

definition load_block :: "bytes \<Rightarrow> st4" where
  "load_block p = (GETU32 p, GETU32 (drop 4 p), GETU32 (drop 8 p), GETU32 (drop 12 p))"

definition sm4_encrypt_small :: "SM4_KEY \<Rightarrow> bytes \<Rightarrow> bytes" where
  "sm4_encrypt_small key inp =
     (let (X0, X1, X2, X3) = fold (\<lambda>i. enc_round (rk key ! i)) [0..<32] (load_block inp)
      in PUTU32 X3 @ PUTU32 X2 @ PUTU32 X1 @ PUTU32 X0)"

text \<open>
  The macro ROUND of the table-driven version, as a function of the four words it reads; the
  caller stores the result in the fifth.
\<close>

definition ROUND :: "u32 list \<Rightarrow> nat \<Rightarrow> u32 \<Rightarrow> u32 \<Rightarrow> u32 \<Rightarrow> u32 \<Rightarrow> u32" where
  "ROUND k i X0 X1 X2 X3 =
     (let X4 = X1 XOR X2 XOR X3 XOR k ! i
      in T0 ! unat (ucast (drop_bit 24 X4) :: u8) XOR T1 ! unat (ucast (drop_bit 16 X4) :: u8)
         XOR T2 ! unat (ucast (drop_bit 8 X4) :: u8) XOR T3 ! unat (ucast X4 :: u8) XOR X0)"

text \<open>
  The unrolled rounds repeat every five lines with the roles of X0 to X4 rotated back to
  where they started; \<open>rounds5 k i\<close> is the five lines from round \<open>i\<close> on.
\<close>

fun rounds5 :: "u32 list \<Rightarrow> nat \<Rightarrow> st4 \<Rightarrow> st4" where
  "rounds5 k i (X0, X1, X2, X3) =
     (let X4 = ROUND k i X0 X1 X2 X3;
          X0 = ROUND k (i + 1) X1 X2 X3 X4;
          X1 = ROUND k (i + 2) X2 X3 X4 X0;
          X2 = ROUND k (i + 3) X3 X4 X0 X1;
          X3 = ROUND k (i + 4) X4 X0 X1 X2
      in (X0, X1, X2, X3))"

text \<open>All 32 rounds; the result is the four output words in the order they are stored.\<close>

definition sm4_rounds :: "u32 list \<Rightarrow> st4 \<Rightarrow> st4" where
  "sm4_rounds k X =
     (let (X0, X1, X2, X3) = rounds5 k 25 (rounds5 k 20 (rounds5 k 15 (rounds5 k 10
            (rounds5 k 5 (rounds5 k 0 X)))));
          X4 = ROUND k 30 X0 X1 X2 X3;
          X0 = ROUND k 31 X1 X2 X3 X4
      in (X0, X4, X3, X2))"

definition store_block :: "st4 \<Rightarrow> bytes" where
  "store_block X = (case X of (X0, X1, X2, X3) \<Rightarrow> PUTU32 X0 @ PUTU32 X1 @ PUTU32 X2 @ PUTU32 X3)"

definition sm4_encrypt :: "SM4_KEY \<Rightarrow> bytes \<Rightarrow> bytes" where
  "sm4_encrypt key inp = store_block (sm4_rounds (rk key) (load_block inp))"

text \<open>The loop over consecutive blocks, in the table-driven and in the small version.\<close>

fun sm4_encrypt_blocks :: "SM4_KEY \<Rightarrow> bytes \<Rightarrow> nat \<Rightarrow> bytes" where
  "sm4_encrypt_blocks key inp 0 = []"
| "sm4_encrypt_blocks key inp (Suc nblocks) =
     store_block (sm4_rounds (rk key) (load_block inp)) @ sm4_encrypt_blocks key (drop 16 inp) nblocks"

fun sm4_encrypt_blocks_small :: "SM4_KEY \<Rightarrow> bytes \<Rightarrow> nat \<Rightarrow> bytes" where
  "sm4_encrypt_blocks_small key inp 0 = []"
| "sm4_encrypt_blocks_small key inp (Suc nblocks) =
     sm4_encrypt_small key inp @ sm4_encrypt_blocks_small key (drop 16 inp) nblocks"

section \<open>Key schedules\<close>

lemma fold_store_up:
  "n \<le> length r \<Longrightarrow>
     fold (\<lambda>i (X, r). let X' = f i X in (X', r[i := g X'])) [0..<n] (X, r)
     = (fold f [0..<n] X, map (\<lambda>i. g (fold f [0..<Suc i] X)) [0..<n] @ drop n r)"
  by (induction n) (auto simp: Let_def list_update_append upd_conv_take_nth_drop simp flip: Cons_nth_drop_Suc)

lemma fold_store_down:
  "n \<le> 32 \<Longrightarrow> length r = 32 \<Longrightarrow>
     fold (\<lambda>i (X, r). let X' = f i X in (X', r[31 - i := g X'])) [0..<n] (X, r)
     = (fold f [0..<n] X, take (32 - n) r @ rev (map (\<lambda>i. g (fold f [0..<Suc i] X)) [0..<n]))"
proof (induction n)
  case (Suc n)
  then have "32 - n = Suc (31 - n)" by simp
  then have "take (32 - n) r = take (31 - n) r @ [r ! (31 - n)]"
    using Suc.prems by (simp add: take_Suc_conv_app_nth del: diff_Suc_Suc)
  then show ?case using Suc by (simp add: Let_def list_update_append)
qed simp

definition round_keys :: "bytes \<Rightarrow> u32 list" where
  "round_keys user_key = map (\<lambda>i. fourth (fold key_round [0..<Suc i] (key_window user_key))) [0..<32]"

lemma length_round_keys [simp]: "length (round_keys user_key) = 32"
  by (simp add: round_keys_def)

lemma rk_set_encrypt_key:
  "length (rk key) = 32 \<Longrightarrow> rk (sm4_set_encrypt_key key user_key) = round_keys user_key"
  by (simp add: sm4_set_encrypt_key_def fold_store_up round_keys_def)

lemma rk_set_decrypt_key:
  "length (rk key) = 32 \<Longrightarrow> rk (sm4_set_decrypt_key key user_key) = rev (round_keys user_key)"
  by (simp add: sm4_set_decrypt_key_def fold_store_down round_keys_def)

section \<open>The table-driven rounds are the reference rounds\<close>

lemma unat_u8_bound [simp]: "unat (b :: u8) < 256"
  using unsigned_less [of b, where 'a = nat] by simp

lemma unat_low_byte: "unat (w AND 0xff) = unat (ucast w :: u8)" for w :: u32
proof -
  have "w AND 0xff = take_bit 8 w" by (simp add: take_bit_eq_mask mask_eq_exp_minus_1)
  then show ?thesis by (simp add: unsigned_take_bit_eq unsigned_ucast_eq)
qed

lemma unat_high_byte: "unat (drop_bit 24 w) = unat (ucast (drop_bit 24 w) :: u8)" for w :: u32
proof -
  have b: "unat w < 2 ^ 32" using unsigned_less [of w, where 'a = nat] by simp
  then have d: "unat (drop_bit 24 w) = unat w div 2 ^ 24"
    by (simp only: unsigned_drop_bit_eq) (simp add: take_bit_nat_eq_self drop_bit_eq_div)
  from b have "unat w div 2 ^ 24 < 256" by (simp add: less_mult_imp_div_less)
  then show ?thesis unfolding d unat_byte by (rule mod_less [symmetric])
qed

lemma ROL32_byte24: "ROL32 (push_bit 24 (ucast s)) 24 = push_bit 16 (ucast (s :: u8))"
  unfolding ROL32_def by (rule bit_word_eqI) (auto simp: bit_simps, auto dest: bit_imp_le_length)

lemma ROL32_byte16: "ROL32 (push_bit 24 (ucast s)) 16 = push_bit 8 (ucast (s :: u8))"
  unfolding ROL32_def by (rule bit_word_eqI) (auto simp: bit_simps, auto dest: bit_imp_le_length)

lemma ROL32_byte8: "ROL32 (push_bit 24 (ucast s)) 8 = ucast (s :: u8)"
  unfolding ROL32_def by (rule bit_word_eqI) (auto simp: bit_simps, auto dest: bit_imp_le_length)

lemma T_nth:
  "T0 ! unat b = L32 (push_bit 24 (ucast (S_tab ! unat b)))"
  "T1 ! unat b = L32 (push_bit 16 (ucast (S_tab ! unat b)))"
  "T2 ! unat b = L32 (push_bit 8 (ucast (S_tab ! unat b)))"
  "T3 ! unat b = L32 (ucast (S_tab ! unat b))" for b :: u8
  by (simp_all add: T1_eq T2_eq T3_eq T0_eq ROL32_byte24 ROL32_byte16 ROL32_byte8 flip: L32_ROL32)

lemma or_bytes_xor:
  "push_bit 24 (ucast a) OR push_bit 16 (ucast b) OR push_bit 8 (ucast c) OR ucast d
   = (push_bit 24 (ucast a) XOR push_bit 16 (ucast b) XOR push_bit 8 (ucast c) XOR ucast d :: u32)"
  for a b c d :: u8
proof (rule bit_word_eqI, goal_cases)
  case (1 n)
  then consider "n < 8" | "8 \<le> n \<and> n < 16" | "16 \<le> n \<and> n < 24" | "24 \<le> n \<and> n < 32"
    by fastforce
  then show ?case by cases (auto simp: bit_simps not_bit_u8)
qed

lemma ROUND_eq: "ROUND k i X0 X1 X2 X3 = X0 XOR L32 (S32 (X1 XOR X2 XOR X3 XOR k ! i))"
  unfolding ROUND_def S32_def Let_def unat_low_byte unat_high_byte or_bytes_xor T_nth L32_xor
  by (simp add: ac_simps)

lemma ROUND_enc_round:
  "enc_round (k ! i) (X0, X1, X2, X3) = (X1, X2, X3, ROUND k i X0 X1 X2 X3)"
  by (simp add: ROUND_eq)

lemma rounds5_fold: "rounds5 k i X = fold (\<lambda>i. enc_round (k ! i)) [i..<i + 5] X"
proof -
  have "[i..<i + 5] = [i, i + 1, i + 2, i + 3, i + 4]"
    by (simp add: upt_conv_Cons)
  then show ?thesis by (cases X) (simp add: ROUND_enc_round Let_def del: enc_round.simps)
qed

fun rev4 :: "st4 \<Rightarrow> st4" where
  "rev4 (X0, X1, X2, X3) = (X3, X2, X1, X0)"

lemma rev4_rev4 [simp]: "rev4 (rev4 X) = X"
  by (cases X) simp

lemma sm4_rounds_fold: "sm4_rounds k X = rev4 (fold (\<lambda>i. enc_round (k ! i)) [0..<32] X)"
proof -
  let ?f = "fold (\<lambda>i. enc_round (k ! i))"
  define Y where "Y = rounds5 k 25 (rounds5 k 20 (rounds5 k 15 (rounds5 k 10 (rounds5 k 5 (rounds5 k 0 X)))))"
  have "[0..<32] = [0..<0 + 5] @ [5..<5 + 5] @ [10..<10 + 5] @ [15..<15 + 5] @ [20..<20 + 5]
      @ [25..<25 + 5] @ [30, 31]"
    by (simp add: upt_conv_Cons)
  then have "?f [0..<32] X = ?f [30, 31] Y"
    by (simp only: Y_def rounds5_fold fold_append comp_def)
  then show ?thesis
    unfolding sm4_rounds_def Y_def [symmetric]
    by (cases Y) (simp add: ROUND_enc_round Let_def del: enc_round.simps)
qed

lemma sm4_encrypt_small_eq:
  "sm4_encrypt_small key inp
   = store_block (rev4 (fold (\<lambda>i. enc_round (rk key ! i)) [0..<32] (load_block inp)))"
  unfolding sm4_encrypt_small_def
  by (cases "fold (\<lambda>i. enc_round (rk key ! i)) [0..<32] (load_block inp)")
    (simp add: store_block_def del: upt_rec_numeral)

lemma sm4_encrypt_eq_small: "sm4_encrypt key inp = sm4_encrypt_small key inp"
  by (simp only: sm4_encrypt_def sm4_encrypt_small_eq sm4_rounds_fold)

lemma sm4_encrypt_blocks_eq_small:
  "sm4_encrypt_blocks key inp n = sm4_encrypt_blocks_small key inp n"
  by (induction key inp n rule: sm4_encrypt_blocks.induct)
    (simp_all add: sm4_encrypt_eq_small flip: sm4_encrypt_def)

section \<open>Decryption undoes encryption\<close>

lemma length_store_block [simp]: "length (store_block X) = 16"
  by (simp add: store_block_def split: prod.splits)

lemma length_sm4_encrypt [simp]: "length (sm4_encrypt key inp) = 16"
  by (simp add: sm4_encrypt_def)

lemma load_store [simp]: "load_block (store_block X) = X"
  using GETU32_PUTU32 [where xs = "[]"]
  by (cases X) (simp add: load_block_def store_block_def byte_simps)

lemma store_load: "length p = 16 \<Longrightarrow> store_block (load_block p) = p"
  by (erule length_16_cases) (simp add: load_block_def store_block_def byte_simps)

lemma enc_round_undo: "enc_round k (rev4 (enc_round k X)) = rev4 X"
  by (cases X) (simp add: Let_def ac_simps)

lemma fold_enc_round_undo:
  "fold enc_round (rev ks) (rev4 (fold enc_round ks X)) = rev4 X"
  by (induction ks arbitrary: X rule: rev_induct) (simp_all add: enc_round_undo)

lemma fold_nth:
  assumes "length ks = n"
  shows "fold (\<lambda>i. f (ks ! i)) [0..<n] = fold f ks"
proof -
  have "fold (\<lambda>i. f (ks ! i)) [0..<n] = fold f (map ((!) ks) [0..<n])"
    by (simp only: fold_map comp_def)
  also have "map ((!) ks) [0..<n] = ks" using assms by (simp add: map_nth flip: assms)
  finally show ?thesis .
qed

lemma sm4_encrypt_rev:
  assumes "rk key' = rev (rk key)" and "length (rk key) = 32" and "length p = 16"
  shows "sm4_encrypt key' (sm4_encrypt key p) = p"
proof -
  have "length (rk key') = 32" using assms by simp
  then show ?thesis
    using assms(2,3)
    by (simp only: sm4_encrypt_def sm4_rounds_fold fold_nth load_store assms(1)
        fold_enc_round_undo rev4_rev4 store_load)
qed

section \<open>Properties\<close>

text \<open>C11. The schedule written by sm4_set_decrypt_key inverts the one written by
  sm4_set_encrypt_key: for every user key and every 16-byte block, sm4_encrypt under the decrypt
  schedule returns the block that was encrypted, whatever the two key structures held before.\<close>

theorem sm4_decrypt_encrypt:
  assumes "length (rk k) = 32" and "length (rk k') = 32" and "length p = 16"
  shows "sm4_encrypt (sm4_set_decrypt_key k' user_key) (sm4_encrypt (sm4_set_encrypt_key k user_key) p) = p"
  using assms by (intro sm4_encrypt_rev) (simp_all only: rk_set_encrypt_key rk_set_decrypt_key length_round_keys)

theorem sm4_decrypt_encrypt_witness:
  "sm4_encrypt (sm4_set_decrypt_key \<lparr>rk = replicate 32 7\<rparr> (replicate 16 3))
     (sm4_encrypt (sm4_set_encrypt_key \<lparr>rk = replicate 32 0\<rparr> (replicate 16 3)) (replicate 16 0x61))
   = replicate 16 0x61"
  by (rule sm4_decrypt_encrypt) (simp_all only: length_replicate SM4_KEY.select_convs)

text \<open>C14. The table-driven block loop computes the same bytes as the small-footprint one
  (substitution through the S-box and the linear map L32), for every key structure, every input
  and every number of blocks.\<close>

theorem sm4_table_driven_eq_small:
  "sm4_encrypt_blocks key inp nblocks = sm4_encrypt_blocks_small key inp nblocks
   \<and> sm4_encrypt key inp = sm4_encrypt_small key inp"
  by (simp only: sm4_encrypt_blocks_eq_small sm4_encrypt_eq_small)

end
