(* ===== verification/Sm4_Ctr.thy ===== *)
theory Sm4_Ctr
  imports Sm4
begin

text \<open>
  Counter mode over SM4: the block loops of \<^verbatim>\<open>sm4.c\<close> (small and table-driven), the
  one-shot \<^verbatim>\<open>sm4_ctr_encrypt\<close> that the frame encryptor calls, and the incremental
  init/update/finish interface of \<^verbatim>\<open>sm4_ctr.c\<close>.  The specification is a keystream: block
  \<open>i\<close> of it is the encryption of the 128-bit counter plus \<open>i\<close>, modulo \<open>2 ^ 128\<close>.
  Output buffers are results; where the source passes the same buffer as input and output the
  input is read before it is overwritten.
\<close>

section \<open>Definitions\<close>

text \<open>The byte-wise counter increments of the small version: from the last byte down, stop
  at the first byte that does not wrap to zero.\<close>

fun incr_loop :: "nat \<Rightarrow> nat \<Rightarrow> bytes \<Rightarrow> bytes" where
  "incr_loop lo i a =
     (let a' = a[i := a ! i + 1]
      in if a' ! i \<noteq> 0 then a' else if i \<le> lo then a' else incr_loop lo (i - 1) a')"

declare incr_loop.simps [simp del]

definition ctr_incr :: "bytes \<Rightarrow> bytes" where
  "ctr_incr a = incr_loop 0 15 a"

definition ctr32_incr :: "bytes \<Rightarrow> bytes" where
  "ctr32_incr a = incr_loop 12 15 a"

fun sm4_ctr_encrypt_blocks_small :: "SM4_KEY \<Rightarrow> bytes \<Rightarrow> bytes \<Rightarrow> nat \<Rightarrow> bytes \<times> bytes" where
  "sm4_ctr_encrypt_blocks_small key ctr inp 0 = (ctr, [])"
| "sm4_ctr_encrypt_blocks_small key ctr inp (Suc nblocks) =
     (let block = sm4_encrypt_small key ctr;
          (ctr', out) = sm4_ctr_encrypt_blocks_small key (ctr_incr ctr) (drop 16 inp) nblocks
      in (ctr', xor_bytes (take 16 inp) block @ out))"

fun sm4_ctr32_encrypt_blocks_small :: "SM4_KEY \<Rightarrow> bytes \<Rightarrow> bytes \<Rightarrow> nat \<Rightarrow> bytes \<times> bytes" where
  "sm4_ctr32_encrypt_blocks_small key ctr inp 0 = (ctr, [])"
| "sm4_ctr32_encrypt_blocks_small key ctr inp (Suc nblocks) =
     (let block = sm4_encrypt_small key ctr;
          (ctr', out) = sm4_ctr32_encrypt_blocks_small key (ctr32_incr ctr) (drop 16 inp) nblocks
      in (ctr', xor_bytes (take 16 inp) block @ out))"

text \<open>The table-driven loop keeps the counter in two 64-bit halves with a carry.\<close>

fun ctr_loop :: "u32 list \<Rightarrow> u64 \<Rightarrow> u64 \<Rightarrow> bytes \<Rightarrow> nat \<Rightarrow> u64 \<times> u64 \<times> bytes" where
  "ctr_loop k C0 C1 inp 0 = (C0, C1, [])"
| "ctr_loop k C0 C1 inp (Suc nblocks) =
     (let (Y0, Y1, Y2, Y3) = sm4_rounds k (ucast (drop_bit 32 C0), ucast C0, ucast (drop_bit 32 C1), ucast C1);
          (D0, D1, D2, D3) = load_block inp;
          block = PUTU32 (D0 XOR Y0) @ PUTU32 (D1 XOR Y1) @ PUTU32 (D2 XOR Y2) @ PUTU32 (D3 XOR Y3);
          C1' = C1 + 1;
          C0' = (if C1' = 0 then C0 + 1 else C0);
          (R0, R1, out) = ctr_loop k C0' C1' (drop 16 inp) nblocks
      in (R0, R1, block @ out))"

definition sm4_ctr_encrypt_blocks :: "SM4_KEY \<Rightarrow> bytes \<Rightarrow> bytes \<Rightarrow> nat \<Rightarrow> bytes \<times> bytes" where
  "sm4_ctr_encrypt_blocks key ctr inp nblocks =
     (let (C0, C1, out) = ctr_loop (rk key) (GETU64 ctr) (GETU64 (drop 8 ctr)) inp nblocks
      in (PUTU64 C0 @ PUTU64 C1, out))"

definition sm4_ctr_encrypt :: "SM4_KEY \<Rightarrow> bytes \<Rightarrow> bytes \<Rightarrow> bytes \<times> bytes" where
  "sm4_ctr_encrypt key ctr inp =
     (let (ctr1, out1, in1) =
            (if 16 \<le> length inp
             then let nblocks = length inp div 16; len = nblocks * 16;
                      (c, o1) = sm4_ctr_encrypt_blocks key ctr inp nblocks
                  in (c, o1, drop len inp)
             else (ctr, [], inp))
      in if length in1 \<noteq> 0
         then let block = in1 @ replicate (16 - length in1) 0;
                  (ctr2, block') = sm4_ctr_encrypt_blocks key ctr1 block 1
              in (ctr2, out1 @ take (length in1) block')
         else (ctr1, out1))"

text \<open>
  The incremental interface.  The context keeps the unprocessed tail of the input.  The null
  checks on the pointers are the caller's; an error return is \<open>None\<close>.
\<close>

record SM4_CTR_CTX =
  ctx_key :: SM4_KEY
  ctx_ctr :: bytes
  ctx_block :: bytes
  ctx_nbytes :: nat

definition sm4_ctr_encrypt_init :: "SM4_CTR_CTX \<Rightarrow> bytes \<Rightarrow> bytes \<Rightarrow> SM4_CTR_CTX" where
  "sm4_ctr_encrypt_init ctx key iv =
     ctx\<lparr>ctx_key := sm4_set_encrypt_key (ctx_key ctx) key, ctx_ctr := iv,
         ctx_block := replicate 16 0, ctx_nbytes := 0\<rparr>"

text \<open>\<open>memcpy (dst + off, src, length src)\<close> on a fixed-size buffer.\<close>

definition memcpy_at :: "bytes \<Rightarrow> nat \<Rightarrow> bytes \<Rightarrow> bytes" where
  "memcpy_at dst off src = take off dst @ src @ drop (off + length src) dst"

definition ctr_update_rest :: "SM4_CTR_CTX \<Rightarrow> bytes \<Rightarrow> SM4_CTR_CTX \<times> bytes" where
  "ctr_update_rest ctx in1 =
     (let (ctx2, in2, out2) =
            (if 16 \<le> length in1
             then let nblocks = length in1 div 16; len = nblocks * 16;
                      (c, o2) = sm4_ctr_encrypt_blocks (ctx_key ctx) (ctx_ctr ctx) in1 nblocks
                  in (ctx\<lparr>ctx_ctr := c\<rparr>, drop len in1, o2)
             else (ctx, in1, []));
          ctx3 = (if length in2 \<noteq> 0 then ctx2\<lparr>ctx_block := memcpy_at (ctx_block ctx2) 0 in2\<rparr> else ctx2)
      in (ctx3\<lparr>ctx_nbytes := length in2\<rparr>, out2))"

definition sm4_ctr_encrypt_update :: "SM4_CTR_CTX \<Rightarrow> bytes \<Rightarrow> (SM4_CTR_CTX \<times> bytes) option" where
  "sm4_ctr_encrypt_update ctx inp =
     (if 16 \<le> ctx_nbytes ctx then None
      else if ctx_nbytes ctx \<noteq> 0
      then let left = 16 - ctx_nbytes ctx
           in if length inp < left
              then Some (ctx\<lparr>ctx_block := memcpy_at (ctx_block ctx) (ctx_nbytes ctx) inp,
                             ctx_nbytes := ctx_nbytes ctx + length inp\<rparr>, [])
              else let b = memcpy_at (ctx_block ctx) (ctx_nbytes ctx) (take left inp);
                       (c, out1) = sm4_ctr_encrypt_blocks (ctx_key ctx) (ctx_ctr ctx) b 1;
                       (ctx', out2) = ctr_update_rest (ctx\<lparr>ctx_block := b, ctx_ctr := c\<rparr>) (drop left inp)
                   in Some (ctx', out1 @ out2)
      else Some (ctr_update_rest ctx inp))"

definition sm4_ctr_encrypt_finish :: "SM4_CTR_CTX \<Rightarrow> (SM4_CTR_CTX \<times> bytes) option" where
  "sm4_ctr_encrypt_finish ctx =
     (if 16 \<le> ctx_nbytes ctx then None
      else let (c, b) = sm4_ctr_encrypt_blocks (ctx_key ctx) (ctx_ctr ctx) (ctx_block ctx) 1
           in Some (ctx\<lparr>ctx_ctr := c, ctx_block := b\<rparr>, take (ctx_nbytes ctx) b))"

section \<open>Keystream specification\<close>

definition ctr_add :: "bytes \<Rightarrow> nat \<Rightarrow> bytes" where
  "ctr_add c i = nat_be 16 (be_nat c + i)"

definition keystream :: "(bytes \<Rightarrow> bytes) \<Rightarrow> bytes \<Rightarrow> nat \<Rightarrow> bytes" where
  "keystream E c n = concat (map (\<lambda>i. E (ctr_add c i)) [0..<n])"

lemma length_ctr_add [simp]: "length (ctr_add c i) = 16"
  by (simp add: ctr_add_def)

lemma ctr_add_0 [simp]: "length c = 16 \<Longrightarrow> ctr_add c 0 = c"
  by (simp add: ctr_add_def nat_be_be_nat)

lemma ctr_add_add: "ctr_add (ctr_add c i) j = ctr_add c (i + j)"
  unfolding ctr_add_def
  by (rule be_nat_inject) (simp_all only: be_nat_nat_be length_nat_be mod_add_left_eq add.assoc)

text \<open>What the mode needs of a block cipher: it maps a block to a block.\<close>

locale block_cipher =
  fixes E :: "'k \<Rightarrow> bytes \<Rightarrow> bytes"
  assumes length_E: "length (E k b) = 16"
begin

lemma length_keystream: "length (keystream (E k) c n) = 16 * n"
  by (induction n) (simp_all add: keystream_def length_E)

lemma keystream_add:
  "keystream (E k) c (m + n) = keystream (E k) c m @ keystream (E k) (ctr_add c m) n"
  by (induction n) (simp_all add: keystream_def ctr_add_add)

lemma keystream_Suc:
  assumes "length c = 16"
  shows "keystream (E k) c (Suc n) = E k c @ keystream (E k) (ctr_add c 1) n"
  using keystream_add [of k c 1 n] assms by (simp add: keystream_def)

lemma xor_keystream_add:
  assumes "length xs = 16 * m"
  shows "xor_bytes (xs @ ys) (keystream (E k) c (m + n))
    = xor_bytes xs (keystream (E k) c m) @ xor_bytes ys (keystream (E k) (ctr_add c m) n)"
  using assms by (simp add: keystream_add xor_bytes_append length_keystream)

lemma xor_keystream_cancel:
  "length xs \<le> 16 * n \<Longrightarrow> xor_bytes (xor_bytes xs (keystream (E k) c n)) (keystream (E k) c n) = xs"
  by (simp add: xor_bytes_cancel length_keystream)

end

interpretation sm4: block_cipher sm4_encrypt
  by unfold_locales simp

section \<open>The block loops meet the specification\<close>

lemma GETU32_PUTU64_high: "GETU32 (PUTU64 C @ xs) = ucast (drop_bit 32 C)"
proof (rule bit_word_eqI, goal_cases)
  case (1 n)
  then consider "n < 8" | "8 \<le> n \<and> n < 16" | "16 \<le> n \<and> n < 24" | "24 \<le> n \<and> n < 32"
    by fastforce
  then show ?case by cases (auto simp: GETU32_def PUTU64_def bit_simps)
qed

lemma GETU32_PUTU64_low: "GETU32 (drop 4 (PUTU64 C @ xs)) = ucast C"
proof (rule bit_word_eqI, goal_cases)
  case (1 n)
  then consider "n < 8" | "8 \<le> n \<and> n < 16" | "16 \<le> n \<and> n < 24" | "24 \<le> n \<and> n < 32"
    by fastforce
  then show ?case by cases (auto simp: GETU32_def PUTU64_def bit_simps)
qed

lemma load_counter:
  "load_block (PUTU64 C0 @ PUTU64 C1)
   = (ucast (drop_bit 32 C0), ucast C0, ucast (drop_bit 32 C1), ucast C1)"
  using GETU32_PUTU64_high [of C0 "PUTU64 C1"] GETU32_PUTU64_low [of C0 "PUTU64 C1"]
    GETU32_PUTU64_high [of C1 "[]"] GETU32_PUTU64_low [of C1 "[]"]
  by (simp add: load_block_def drop_append)

lemma counter_step:
  "PUTU64 (if C1 + 1 = 0 then C0 + 1 else C0) @ PUTU64 (C1 + 1) = ctr_add (PUTU64 C0 @ PUTU64 C1) 1"
  using be_nat_incr64 [of C1 C0]
  by (intro be_nat_inject) (simp_all add: ctr_add_def be_nat_nat_be)

lemma load_block_take: "16 \<le> length p \<Longrightarrow> load_block p = load_block (take 16 p)"
  by (simp add: load_block_def GETU32_def drop_take)

lemma xor_store_block:
  "PUTU32 (D0 XOR Y0) @ PUTU32 (D1 XOR Y1) @ PUTU32 (D2 XOR Y2) @ PUTU32 (D3 XOR Y3)
   = xor_bytes (store_block (D0, D1, D2, D3)) (store_block (Y0, Y1, Y2, Y3))"
  by (simp add: store_block_def xor_PUTU32 xor_bytes_append)

lemma xor_block:
  assumes "load_block p = (D0, D1, D2, D3)" and "Y = (Y0, Y1, Y2, Y3)" and "16 \<le> length p"
  shows "PUTU32 (D0 XOR Y0) @ PUTU32 (D1 XOR Y1) @ PUTU32 (D2 XOR Y2) @ PUTU32 (D3 XOR Y3)
   = xor_bytes (take 16 p) (store_block Y)"
proof -
  have "store_block (D0, D1, D2, D3) = take 16 p"
    using assms(1,3) load_block_take [of p] store_load [of "take 16 p"] by simp
  then show ?thesis using assms(2) by (simp add: xor_store_block)
qed

lemma ctr_loop_spec:
  assumes "16 * n \<le> length inp" and "ctr_loop (rk key) C0 C1 inp n = (R0, R1, out)"
  shows "PUTU64 R0 @ PUTU64 R1 = ctr_add (PUTU64 C0 @ PUTU64 C1) n
    \<and> out = xor_bytes (take (16 * n) inp) (keystream (sm4_encrypt key) (PUTU64 C0 @ PUTU64 C1) n)"
  using assms
proof (induction n arbitrary: C0 C1 inp R0 R1 out)
  case (Suc n)
  let ?c = "PUTU64 C0 @ PUTU64 C1"
  let ?c' = "PUTU64 (if C1 + 1 = 0 then C0 + 1 else C0) @ PUTU64 (C1 + 1)"
  obtain Y0 Y1 Y2 Y3 where Y: "sm4_rounds (rk key) (load_block ?c) = (Y0, Y1, Y2, Y3)"
    by (metis prod_cases4)
  obtain D0 D1 D2 D3 where D: "load_block inp = (D0, D1, D2, D3)" by (metis prod_cases4)
  obtain out' where R: "ctr_loop (rk key) (if C1 + 1 = 0 then C0 + 1 else C0) (C1 + 1) (drop 16 inp) n
      = (R0, R1, out')" and out: "out = xor_bytes (take 16 inp) (sm4_encrypt key ?c) @ out'"
    using Suc.prems Y D xor_block [OF D Y]
    by (auto simp: load_counter Let_def sm4_encrypt_def split: prod.splits)
  have "16 * n \<le> length (drop 16 inp)" using Suc.prems by simp
  from Suc.IH [OF this R] have IH: "PUTU64 R0 @ PUTU64 R1 = ctr_add ?c' n"
    "out' = xor_bytes (take (16 * n) (drop 16 inp)) (keystream (sm4_encrypt key) ?c' n)" by auto
  have "length (take 16 inp) = length (sm4_encrypt key ?c)" using Suc.prems by simp
  then show ?case using IH out
    by (simp add: counter_step ctr_add_add sm4.keystream_Suc take_add xor_bytes_append)
qed simp

lemma ctr_halves: "length c = 16 \<Longrightarrow> PUTU64 (GETU64 c) @ PUTU64 (GETU64 (drop 8 c)) = c"
  by (erule length_16_cases) (simp add: byte_simps)

lemma sm4_ctr_encrypt_blocks_spec:
  assumes "length c = 16" and "16 * n \<le> length inp"
  shows "sm4_ctr_encrypt_blocks key c inp n
    = (ctr_add c n, xor_bytes (take (16 * n) inp) (keystream (sm4_encrypt key) c n))"
  using ctr_loop_spec [OF assms(2), of key "GETU64 c" "GETU64 (drop 8 c)"] assms(1)
  by (auto simp: sm4_ctr_encrypt_blocks_def ctr_halves split: prod.splits)

lemma of_nat_Suc_unat: "(of_nat (Suc (unat b) mod 256) :: u8) = b + 1"
  by (simp add: word_unat_eq_iff unat_of_nat take_bit_eq_mod unat_Suc_mod)

lemma incr_loop_spec:
  "incr_loop (length p) (length p + length xs) (p @ xs @ b # r)
   = p @ nat_be (Suc (length xs)) (Suc (be_nat (xs @ [b]))) @ r"
proof (induction xs arbitrary: b r rule: rev_induct)
  case Nil
  show ?case by (subst incr_loop.simps) (simp add: Let_def nth_append list_update_append of_nat_Suc_unat)
next
  case (snoc x xs)
  let ?a = "p @ (xs @ [x]) @ b # r"
  have upd: "?a[length p + length (xs @ [x]) := v] = p @ (xs @ [x]) @ v # r" for v
    by (simp add: list_update_append)
  have at: "(p @ (xs @ [x]) @ v # r) ! (length p + length (xs @ [x])) = v" for v
    by (simp add: nth_append)
  have ub: "unat b < 256" using unsigned_less [of b, where 'a = nat] by simp
  show ?case
  proof (cases "b + 1 = 0")
    case True
    then have b: "unat b = 255" using unat_Suc_mod [of b] ub
      by (cases "unat b = 255") simp_all
    have "incr_loop (length p) (length p + length (xs @ [x])) ?a
        = incr_loop (length p) (length p + length xs) (p @ xs @ x # (b + 1) # r)"
      by (subst incr_loop.simps) (simp add: Let_def True nth_append list_update_append)
    also have "\<dots> = p @ nat_be (Suc (length xs)) (Suc (be_nat (xs @ [x]))) @ (b + 1) # r"
      by (rule snoc.IH)
    finally show ?thesis
      using b True by (simp add: be_nat_append del: nat_be.simps) (simp add: be_nat_append mult.commute)
  next
    case False
    then have "unat b \<noteq> 255" using unat_Suc_mod [of b] by (auto simp: word_unat_eq_iff)
    then have ub': "unat b < 255" using ub by linarith
    have "incr_loop (length p) (length p + length (xs @ [x])) ?a = p @ (xs @ [x]) @ (b + 1) # r"
      by (subst incr_loop.simps) (simp add: Let_def False nth_append list_update_append)
    moreover have "be_nat ((xs @ [x]) @ [b + 1]) = Suc (be_nat ((xs @ [x]) @ [b]))"
      using ub' unat_Suc_mod [of b] by (simp add: be_nat_append)
    then have "nat_be (Suc (length (xs @ [x]))) (Suc (be_nat ((xs @ [x]) @ [b]))) = (xs @ [x]) @ [b + 1]"
      using nat_be_be_nat [of "(xs @ [x]) @ [b + 1]"] by simp
    ultimately show ?thesis by simp
  qed
qed

lemma incr_loop_split:
  assumes "length c = Suc i" and "lo \<le> i"
  shows "incr_loop lo i c = take lo c @ nat_be (Suc i - lo) (be_nat (drop lo c) + 1)"
proof -
  have c: "c = take lo c @ butlast (drop lo c) @ [last c]"
    using assms by (metis append_butlast_last_id append_take_drop_id drop_eq_Nil last_drop not_less_eq_eq le_imp_less_Suc leD length_drop)
  then have d: "drop lo c = butlast (drop lo c) @ [last c]"
    using assms by (metis append_butlast_last_id drop_eq_Nil last_drop le_imp_less_Suc leD)
  have "incr_loop (length (take lo c)) (length (take lo c) + length (butlast (drop lo c)))
      (take lo c @ butlast (drop lo c) @ [last c])
    = take lo c @ nat_be (Suc (length (butlast (drop lo c)))) (Suc (be_nat (drop lo c))) @ []"
    using d incr_loop_spec by metis
  then show ?thesis using assms c by (simp add: Suc_diff_le del: nat_be.simps flip: c)
qed

lemma ctr_incr_eq: "length c = 16 \<Longrightarrow> ctr_incr c = ctr_add c 1"
  using incr_loop_split [of c 15 0] by (simp add: ctr_incr_def ctr_add_def)

lemma ctr32_incr_eq: "length c = 16 \<Longrightarrow> ctr32_incr c = take 12 c @ nat_be 4 (be_nat (drop 12 c) + 1)"
  using incr_loop_split [of c 15 12] by (simp add: ctr32_incr_def)

lemma sm4_ctr_encrypt_blocks_small_spec:
  assumes "length c = 16" and "16 * n \<le> length inp"
  shows "sm4_ctr_encrypt_blocks_small key c inp n
    = (ctr_add c n, xor_bytes (take (16 * n) inp) (keystream (sm4_encrypt key) c n))"
  using assms
proof (induction n arbitrary: c inp)
  case (Suc n)
  then have "length (take 16 inp) = length (sm4_encrypt key c)" by simp
  then show ?case using Suc
    by (simp add: ctr_incr_eq sm4_encrypt_eq_small [symmetric] ctr_add_add sm4.keystream_Suc
        take_add xor_bytes_append)
qed simp

lemma sm4_ctr_encrypt_spec:
  assumes "length c = 16"
  shows "sm4_ctr_encrypt key c inp =
    (ctr_add c ((length inp + 15) div 16),
     xor_bytes inp (keystream (sm4_encrypt key) c ((length inp + 15) div 16)))"
proof -
  define m where "m = length inp div 16"
  define tl where "tl = drop (16 * m) inp"
  have tl: "length tl = length inp mod 16" "length tl < 16"
    by (simp_all add: tl_def m_def minus_div_mult_eq_mod [symmetric] mult.commute)
  have inp: "inp = take (16 * m) inp @ tl" by (simp add: tl_def)
  have lm: "length (take (16 * m) inp) = 16 * m" by (simp add: m_def)
  have first: "(if 16 \<le> length inp then case sm4_ctr_encrypt_blocks key c inp m of (c, o1) \<Rightarrow> (c, o1, drop (m * 16) inp)
     else (c, [], inp)) = (ctr_add c m, xor_bytes (take (16 * m) inp) (keystream (sm4_encrypt key) c m), tl)"
    using sm4_ctr_encrypt_blocks_spec [OF assms, of m inp key] assms
    by (auto simp: m_def tl_def mult.commute div_eq_0_iff not_le)
  show ?thesis
  proof (cases "tl = []")
    case True
    then have "length inp = 16 * m" using tl(1) by (simp add: m_def minus_mod_eq_mult_div [symmetric])
    then have "(length inp + 15) div 16 = m" by simp
    then show ?thesis using True inp
      by (simp only: sm4_ctr_encrypt_def Let_def m_def [symmetric] first) simp
  next
    case False
    have "length inp = 16 * m + length tl" using tl(1) by (simp add: m_def)
    then have "(length inp + 15) div 16 = m + 1" using False tl(2) by (cases tl) auto
    moreover have "sm4_ctr_encrypt_blocks key (ctr_add c m) (tl @ replicate (16 - length tl) 0) 1
       = (ctr_add c (m + 1), xor_bytes (tl @ replicate (16 - length tl) 0) (keystream (sm4_encrypt key) (ctr_add c m) 1))"
      using tl(2) by (subst sm4_ctr_encrypt_blocks_spec) (simp_all add: ctr_add_add)
    moreover have "xor_bytes inp (keystream (sm4_encrypt key) c (m + 1))
       = xor_bytes (take (16 * m) inp) (keystream (sm4_encrypt key) c m) @ xor_bytes tl (keystream (sm4_encrypt key) (ctr_add c m) 1)"
      using sm4.xor_keystream_add [OF lm, of tl key c 1] inp by simp
    ultimately show ?thesis using False tl(2)
      by (simp only: sm4_ctr_encrypt_def Let_def m_def [symmetric] first)
        (simp add: xor_bytes_pad sm4.length_keystream)
  qed
qed

section \<open>The stream-cipher contract\<close>

text \<open>
  What the frame layer relies on: under a good counter the cipher is the XOR of the data with a
  keystream that is at least as long, and that does not depend on the data.
\<close>

locale stream_cipher =
  fixes ok :: "'c \<Rightarrow> bool"
    and ks :: "'k \<Rightarrow> 'c \<Rightarrow> nat \<Rightarrow> bytes"
    and crypt :: "'k \<Rightarrow> 'c \<Rightarrow> bytes \<Rightarrow> bytes"
  assumes crypt_xor: "ok c \<Longrightarrow> crypt k c xs = xor_bytes xs (ks k c (length xs))"
    and ks_length: "length (ks k c n) = n"
    and ks_prefix: "m \<le> n \<Longrightarrow> take m (ks k c n) = ks k c m"
begin

lemma crypt_length: "ok c \<Longrightarrow> length (crypt k c xs) = length xs"
  by (simp add: crypt_xor ks_length)

lemma crypt_involution: "ok c \<Longrightarrow> crypt k c (crypt k c xs) = xs"
  by (simp add: crypt_xor xor_bytes_cancel ks_length)

lemma crypt_inject: "ok c \<Longrightarrow> crypt k c xs = crypt k c ys \<Longrightarrow> xs = ys"
  by (metis crypt_involution)

lemma crypt_prefix:
  assumes "ok c"
  shows "take m (crypt k c xs) = crypt k c (take m xs)"
proof (cases "m \<le> length xs")
  case True
  then have "take m (ks k c (length xs)) = ks k c (length (take m xs))" by (simp add: ks_prefix)
  then show ?thesis using assms by (simp add: crypt_xor xor_bytes_take)
next
  case False
  then show ?thesis using assms by (simp add: crypt_length)
qed

text \<open>Two texts under the same key and counter: the keystream cancels.\<close>

lemma crypt_reuse:
  assumes "ok c" and "length xs = length ys"
  shows "xor_bytes (crypt k c xs) (crypt k c ys) = xor_bytes xs ys"
proof -
  have "xor_bytes (xor_bytes xs zs) (xor_bytes ys zs) = xor_bytes xs ys"
    if "length xs = length ys" "length ys = length zs" for xs ys zs :: bytes
    using that
    by (induction xs ys zs rule: list_induct3) (simp_all add: ac_simps)
  then show ?thesis using assms by (simp add: crypt_xor ks_length)
qed

end

definition ctr_keystream :: "SM4_KEY \<Rightarrow> bytes \<Rightarrow> nat \<Rightarrow> bytes" where
  "ctr_keystream key c n = take n (keystream (sm4_encrypt key) c ((n + 15) div 16))"

definition ctr_crypt :: "SM4_KEY \<Rightarrow> bytes \<Rightarrow> bytes \<Rightarrow> bytes" where
  "ctr_crypt key c inp = snd (sm4_ctr_encrypt key c inp)"

lemma xor_bytes_take_right: "xor_bytes xs (take (length xs) ys) = xor_bytes xs ys"
  by (induction xs ys rule: list_induct2') simp_all

lemma keystream_take:
  "m \<le> n \<Longrightarrow> take (16 * m) (keystream (sm4_encrypt key) c n) = keystream (sm4_encrypt key) c m"
  using sm4.keystream_add [of key c m "n - m"] by (simp add: sm4.length_keystream)

interpretation ctr: stream_cipher "\<lambda>c. length c = 16" ctr_keystream ctr_crypt
proof unfold_locales
  fix c xs k assume "length (c :: bytes) = 16"
  then show "ctr_crypt k c xs = xor_bytes xs (ctr_keystream k c (length xs))"
    by (simp add: ctr_crypt_def ctr_keystream_def sm4_ctr_encrypt_spec xor_bytes_take_right)
next
  fix k c n show "length (ctr_keystream k c n) = n"
    by (simp add: ctr_keystream_def sm4.length_keystream)
next
  fix m n :: nat and k c assume "m \<le> n"
  then have b: "(m + 15) div 16 \<le> (n + 15) div 16" by (simp add: div_le_mono)
  have "m \<le> 16 * ((m + 15) div 16)" by linarith
  then have "take m (ctr_keystream k c n) = take m (take (16 * ((m + 15) div 16)) (keystream (sm4_encrypt k) c ((n + 15) div 16)))"
    using \<open>m \<le> n\<close> by (simp add: ctr_keystream_def min_def)
  then show "take m (ctr_keystream k c n) = ctr_keystream k c m"
    by (simp add: keystream_take [OF b] ctr_keystream_def)
qed

section \<open>The incremental interface refines the one-shot one\<close>

text \<open>The state of a context that has consumed \<open>data\<close> from the initial counter \<open>c\<close>.\<close>

definition ctx_inv :: "SM4_KEY \<Rightarrow> bytes \<Rightarrow> bytes \<Rightarrow> SM4_CTR_CTX \<Rightarrow> bool" where
  "ctx_inv key c data ctx \<longleftrightarrow>
     ctx_key ctx = key \<and> length (ctx_block ctx) = 16 \<and> ctx_nbytes ctx = length data mod 16 \<and>
     ctx_ctr ctx = ctr_add c (length data div 16) \<and>
     take (ctx_nbytes ctx) (ctx_block ctx) = drop (16 * (length data div 16)) data"

text \<open>The part of the ciphertext that has been emitted: that of the complete blocks.\<close>

definition emitted :: "SM4_KEY \<Rightarrow> bytes \<Rightarrow> bytes \<Rightarrow> bytes" where
  "emitted key c data = xor_bytes (take (16 * (length data div 16)) data)
     (keystream (sm4_encrypt key) c (length data div 16))"

lemma length_memcpy_at [simp]:
  "off + length src \<le> length dst \<Longrightarrow> length (memcpy_at dst off src) = length dst"
  by (simp add: memcpy_at_def)

lemma take_memcpy_at:
  "off \<le> length dst \<Longrightarrow> take (off + length src) (memcpy_at dst off src) = take off dst @ src"
  by (simp add: memcpy_at_def min_def)

lemma ctr_update_rest_spec:
  assumes "length (ctx_block ctx) = 16" and "length (ctx_ctr ctx) = 16"
  shows "\<exists>b. length b = 16 \<and> take (length x mod 16) b = drop (16 * (length x div 16)) x \<and>
     ctr_update_rest ctx x =
      (ctx\<lparr>ctx_ctr := ctr_add (ctx_ctr ctx) (length x div 16), ctx_block := b, ctx_nbytes := length x mod 16\<rparr>,
       emitted (ctx_key ctx) (ctx_ctr ctx) x)"
proof -
  define tl where "tl = drop (16 * (length x div 16)) x"
  let ?m = "length x div 16"
  have tl: "length tl = length x mod 16" "length tl < 16"
    by (simp_all add: tl_def minus_div_mult_eq_mod [symmetric] mult.commute)
  have first: "(if 16 \<le> length x
      then case sm4_ctr_encrypt_blocks (ctx_key ctx) (ctx_ctr ctx) x ?m of
             (c, o2) \<Rightarrow> (ctx\<lparr>ctx_ctr := c\<rparr>, drop (?m * 16) x, o2)
      else (ctx, x, []))
    = (ctx\<lparr>ctx_ctr := ctr_add (ctx_ctr ctx) ?m\<rparr>, tl, emitted (ctx_key ctx) (ctx_ctr ctx) x)"
    using assms by (auto simp: sm4_ctr_encrypt_blocks_spec emitted_def tl_def mult.commute not_le)
  let ?b = "if length tl \<noteq> 0 then memcpy_at (ctx_block ctx) 0 tl else ctx_block ctx"
  have "length ?b = 16" "take (length x mod 16) ?b = tl"
    using assms(1) tl take_memcpy_at [of 0 "ctx_block ctx" tl] by auto
  moreover have "ctr_update_rest ctx x =
      (ctx\<lparr>ctx_ctr := ctr_add (ctx_ctr ctx) ?m, ctx_block := ?b, ctx_nbytes := length x mod 16\<rparr>,
       emitted (ctx_key ctx) (ctx_ctr ctx) x)"
    by (simp only: ctr_update_rest_def Let_def first) (simp flip: tl(1))
  ultimately show ?thesis by (auto simp: tl_def)
qed

lemma emitted_append:
  assumes "length h = 16 * m" and "length c = 16"
  shows "emitted key c (h @ x) = emitted key c h @ emitted key (ctr_add c m) x"
  using assms by (simp add: emitted_def sm4.xor_keystream_add)

lemma update_spec:
  fixes inp
  assumes n: "ctx_nbytes ctx < 16" and len: "length (ctx_block ctx) = 16" "length (ctx_ctr ctx) = 16"
  defines "t \<equiv> take (ctx_nbytes ctx) (ctx_block ctx) @ inp"
  shows "\<exists>b. length b = 16 \<and> take (length t mod 16) b = drop (16 * (length t div 16)) t \<and>
     sm4_ctr_encrypt_update ctx inp = Some
      (ctx\<lparr>ctx_ctr := ctr_add (ctx_ctr ctx) (length t div 16), ctx_block := b, ctx_nbytes := length t mod 16\<rparr>,
       emitted (ctx_key ctx) (ctx_ctr ctx) t)"
proof -
  let ?n = "ctx_nbytes ctx"
  have lt: "length t = ?n + length inp" using n len by (simp add: t_def)
  consider "?n = 0" | "?n \<noteq> 0" "length inp < 16 - ?n" | "?n \<noteq> 0" "16 - ?n \<le> length inp" by linarith
  then show ?thesis
  proof cases
    case 1
    then show ?thesis using ctr_update_rest_spec [OF len, of inp]
      by (simp add: t_def sm4_ctr_encrypt_update_def)
  next
    case 2
    let ?b = "memcpy_at (ctx_block ctx) ?n inp"
    have "length ?b = 16" "take (length t) ?b = t"
      using 2 n len take_memcpy_at [of ?n "ctx_block ctx" inp] lt by (simp_all add: t_def)
    moreover have "length t < 16" using 2 n lt by simp
    moreover have "sm4_ctr_encrypt_update ctx inp = Some (ctx\<lparr>ctx_block := ?b, ctx_nbytes := length t\<rparr>, [])"
      using 2 n by (simp add: sm4_ctr_encrypt_update_def lt)
    ultimately show ?thesis using len by (intro exI [of _ ?b]) (simp add: emitted_def)
  next
    case 3
    define h where "h = memcpy_at (ctx_block ctx) ?n (take (16 - ?n) inp)"
    define x where "x = drop (16 - ?n) inp"
    let ?c = "ctr_add (ctx_ctr ctx) 1"
    have h: "h = take ?n (ctx_block ctx) @ take (16 - ?n) inp" "length h = 16"
      using 3 n len by (simp_all add: h_def memcpy_at_def min_def)
    have t: "t = h @ x" by (simp add: t_def h(1) x_def)
    obtain b where "length b = 16" "take (length x mod 16) b = drop (16 * (length x div 16)) x"
      "ctr_update_rest (ctx\<lparr>ctx_block := h, ctx_ctr := ?c\<rparr>) x
        = (ctx\<lparr>ctx_ctr := ctr_add ?c (length x div 16), ctx_block := b, ctx_nbytes := length x mod 16\<rparr>,
           emitted (ctx_key ctx) ?c x)"
      using ctr_update_rest_spec [of "ctx\<lparr>ctx_block := h, ctx_ctr := ?c\<rparr>" x] h(2) by auto
    moreover have "sm4_ctr_encrypt_blocks (ctx_key ctx) (ctx_ctr ctx) h 1
        = (?c, emitted (ctx_key ctx) (ctx_ctr ctx) h)"
      using h(2) len by (simp add: sm4_ctr_encrypt_blocks_spec emitted_def)
    ultimately show ?thesis
      using 3 n h(2) len emitted_append [of h 1 "ctx_ctr ctx" "ctx_key ctx" x]
      by (intro exI [of _ b])
        (simp add: sm4_ctr_encrypt_update_def Let_def t ctr_add_add div_add_self1 flip: h_def x_def)
  qed
qed

text \<open>A caller's use of the interface: one update per chunk, then finish.\<close>

fun ctr_stream :: "SM4_CTR_CTX \<Rightarrow> bytes list \<Rightarrow> bytes option" where
  "ctr_stream ctx [] = map_option snd (sm4_ctr_encrypt_finish ctx)"
| "ctr_stream ctx (inp # chunks) =
     (case sm4_ctr_encrypt_update ctx inp of
        None \<Rightarrow> None
      | Some (ctx', out) \<Rightarrow> map_option (\<lambda>rest. out @ rest) (ctr_stream ctx' chunks))"

lemma ctx_inv_init: "length iv = 16 \<Longrightarrow> ctx_inv (sm4_set_encrypt_key (ctx_key ctx) key) iv [] (sm4_ctr_encrypt_init ctx key iv)"
  by (simp add: ctx_inv_def sm4_ctr_encrypt_init_def)

lemma split_blocks:
  obtains h r where "data = h @ r" "length h = 16 * (length data div 16)" "length r = length data mod 16"
proof (rule that [of "take (16 * (length data div 16)) data" "drop (16 * (length data div 16)) data"])
  show "length (take (16 * (length data div 16)) data) = 16 * (length data div 16)" by simp
  show "length (drop (16 * (length data div 16)) data) = length data mod 16"
    by (simp only: length_drop minus_mult_div_eq_mod)
qed (rule append_take_drop_id [symmetric])

lemma ctx_inv_update:
  assumes "ctx_inv key c data ctx" and "length c = 16"
  shows "\<exists>ctx' out. sm4_ctr_encrypt_update ctx inp = Some (ctx', out) \<and> ctx_inv key c (data @ inp) ctx'
    \<and> emitted key c (data @ inp) = emitted key c data @ out"
proof -
  define m where "m = length data div 16"
  obtain h r where d: "data = h @ r" "length h = 16 * m" "length r = length data mod 16"
    unfolding m_def by (rule split_blocks)
  have r16: "length r < 16" using d(3) by simp
  have dr: "drop (16 * m) data = r" using d(1,2) by simp
  let ?t = "r @ inp"
  have tail: "take (ctx_nbytes ctx) (ctx_block ctx) = r" "ctx_nbytes ctx = length r"
    "length (ctx_block ctx) = 16" "ctx_key ctx = key" "ctx_ctr ctx = ctr_add c m"
    using assms(1) dr by (auto simp: ctx_inv_def d(3) simp flip: m_def)
  then obtain b where b: "length b = 16" "take (length ?t mod 16) b = drop (16 * (length ?t div 16)) ?t"
    "sm4_ctr_encrypt_update ctx inp = Some
      (ctx\<lparr>ctx_ctr := ctr_add c (m + length ?t div 16), ctx_block := b, ctx_nbytes := length ?t mod 16\<rparr>,
       emitted key (ctr_add c m) ?t)"
    using update_spec [of ctx inp] r16 by (auto simp: ctr_add_add)
  have len: "length (data @ inp) = 16 * m + length ?t" using d(1,2) by simp
  have dm: "length (data @ inp) div 16 = m + length ?t div 16" "length (data @ inp) mod 16 = length ?t mod 16"
    unfolding len by simp_all
  have "drop (16 * (m + length ?t div 16)) (data @ inp) = drop (16 * (length ?t div 16)) ?t"
    using d(1,2) by (simp add: algebra_simps)
  then have "ctx_inv key c (data @ inp) (ctx\<lparr>ctx_ctr := ctr_add c (m + length ?t div 16), ctx_block := b,
       ctx_nbytes := length ?t mod 16\<rparr>)"
    using b(1,2) tail(4) by (simp only: ctx_inv_def dm) simp
  moreover have "emitted key c (h @ r @ inp) = emitted key c (h @ r) @ emitted key (ctr_add c m) ?t"
    using emitted_append [OF d(2) assms(2), of key "r @ inp"] emitted_append [OF d(2) assms(2), of key r] r16
    by (simp add: emitted_def)
  ultimately show ?thesis using b(3) d(1) by auto
qed

lemma ctx_inv_finish:
  assumes "ctx_inv key c data ctx" and "length c = 16"
  shows "\<exists>ctx' out. sm4_ctr_encrypt_finish ctx = Some (ctx', out) \<and> emitted key c data @ out = ctr_crypt key c data"
proof -
  define m where "m = length data div 16"
  obtain h r where d: "data = h @ r" "length h = 16 * m" "length r = length data mod 16"
    unfolding m_def by (rule split_blocks)
  have r16: "length r < 16" using d(3) by simp
  have dr: "drop (16 * m) data = r" using d(1,2) by simp
  have tail: "take (length r) (ctx_block ctx) = r" "ctx_nbytes ctx = length r"
    "length (ctx_block ctx) = 16" "ctx_key ctx = key" "ctx_ctr ctx = ctr_add c m"
    using assms(1) dr by (auto simp: ctx_inv_def d(3) simp flip: m_def)
  let ?ks = "keystream (sm4_encrypt key)"
  have fin: "map_option snd (sm4_ctr_encrypt_finish ctx) = Some (xor_bytes r (take (length r) (?ks (ctr_add c m) 1)))"
    using tail r16 by (simp add: sm4_ctr_encrypt_finish_def sm4_ctr_encrypt_blocks_spec xor_bytes_take)
  have "ctr_crypt key c data = xor_bytes (h @ r) (take (length (h @ r)) (?ks c (m + 1)))"
  proof -
    have "(length data + 15) div 16 \<le> m + 1" using d(1,2) r16 by simp
    then have "ctr_keystream key c (length data)
        = take (length data) (take (16 * ((length data + 15) div 16)) (?ks c (m + 1)))"
      by (simp only: ctr_keystream_def keystream_take)
    moreover have "length data \<le> 16 * ((length data + 15) div 16)" by linarith
    ultimately have "ctr_keystream key c (length data) = take (length data) (?ks c (m + 1))"
      by (simp only: take_take min.absorb1)
    then show ?thesis using assms(2) d(1) by (simp add: ctr.crypt_xor)
  qed
  also have "\<dots> = xor_bytes h (?ks c m) @ xor_bytes r (?ks (ctr_add c m) 1)"
    by (simp only: xor_bytes_take_right sm4.xor_keystream_add [OF d(2)])
  also have "xor_bytes h (?ks c m) = emitted key c data"
    using d(1,2) r16 by (simp add: emitted_def)
  finally show ?thesis using fin by (auto simp: xor_bytes_take_right)
qed

lemma ctr_stream_inv:
  assumes "ctx_inv key c data ctx" and "length c = 16"
  shows "map_option (\<lambda>out. emitted key c data @ out) (ctr_stream ctx chunks)
    = Some (ctr_crypt key c (data @ concat chunks))"
  using assms
proof (induction chunks arbitrary: data ctx)
  case Nil
  then show ?case using ctx_inv_finish by fastforce
next
  case (Cons inp chunks)
  obtain ctx' out where "sm4_ctr_encrypt_update ctx inp = Some (ctx', out)" "ctx_inv key c (data @ inp) ctx'"
    "emitted key c (data @ inp) = emitted key c data @ out"
    using ctx_inv_update [OF Cons.prems] by blast
  then show ?case using Cons.IH [of "data @ inp" ctx'] Cons.prems(2)
    by (simp add: option.map_comp o_def)
qed

section \<open>Properties\<close>

lemma nat_be_numeral:
  "nat_be (numeral v) n = nat_be (pred_numeral v) (n div 256) @ [of_nat (n mod 256)]"
  by (simp only: numeral_eq_Suc [of v] nat_be.simps)

lemma replicate_numeral: "replicate (numeral v) x = x # replicate (pred_numeral v) x"
  by (simp only: numeral_eq_Suc [of v] replicate.simps)

text \<open>C13. The table-driven counter loop, which keeps the counter in two 64-bit halves with a
  carry, and the small-footprint loop, which increments the counter byte by byte, produce the same
  output and leave the same counter, for every 16-byte counter (wrap-around included) and every
  number of blocks that the input holds.\<close>

theorem sm4_ctr_blocks_eq_small:
  assumes "length c = 16" and "16 * n \<le> length inp"
  shows "sm4_ctr_encrypt_blocks key c inp n = sm4_ctr_encrypt_blocks_small key c inp n"
  using assms by (simp only: sm4_ctr_encrypt_blocks_spec sm4_ctr_encrypt_blocks_small_spec)

theorem sm4_ctr_blocks_eq_small_witness:
  "sm4_ctr_encrypt_blocks \<lparr>rk = replicate 32 5\<rparr> (replicate 16 0xff) (replicate 40 1) 2
   = sm4_ctr_encrypt_blocks_small \<lparr>rk = replicate 32 5\<rparr> (replicate 16 0xff) (replicate 40 1) 2"
  by (rule sm4_ctr_blocks_eq_small) (simp_all only: length_replicate numeral_times_numeral, simp_all)

text \<open>C12. sm4_ctr_encrypt is the XOR of its input with the keystream whose block i encrypts the
  128-bit big-endian counter plus i modulo 2^128; it advances the caller's counter by the number of
  blocks, a partial last block included.\<close>

theorem sm4_ctr_encrypt_keystream:
  assumes "length c = 16"
  shows "sm4_ctr_encrypt key c inp =
    (nat_be 16 (be_nat c + (length inp + 15) div 16),
     xor_bytes inp (concat (map (\<lambda>i. sm4_encrypt key (nat_be 16 (be_nat c + i)))
       [0..<(length inp + 15) div 16])))"
  using sm4_ctr_encrypt_spec [OF assms, of key inp] by (simp add: ctr_add_def keystream_def)

theorem sm4_ctr_encrypt_keystream_witness:
  "fst (sm4_ctr_encrypt \<lparr>rk = replicate 32 5\<rparr> (replicate 15 0 @ [0xff]) (replicate 17 9))
   = replicate 14 0 @ [1, 1]"
proof -
  have "be_nat (replicate n 0) = 0" for n by (induction n) simp_all
  then have "nat_be 16 (be_nat (replicate 15 0 @ [0xff]) + (17 + 15) div 16) = replicate 14 0 @ [1, 1]"
    by (simp add: be_nat_append nat_be_numeral replicate_numeral)
  then show ?thesis
    by (subst sm4_ctr_encrypt_keystream) (simp_all only: length_replicate fst_conv, simp)
qed

text \<open>C4. Feeding data to sm4_ctr_encrypt_init / update / finish in any chunking never fails and
  the concatenated outputs equal one call of sm4_ctr_encrypt on the concatenated input.\<close>

theorem sm4_ctr_streaming:
  assumes "length iv = 16"
  shows "ctr_stream (sm4_ctr_encrypt_init ctx user_key iv) chunks
    = Some (snd (sm4_ctr_encrypt (sm4_set_encrypt_key (ctx_key ctx) user_key) iv (concat chunks)))"
  using ctr_stream_inv [OF ctx_inv_init [OF assms] assms, of ctx user_key chunks]
  by (auto simp: emitted_def ctr_crypt_def)

theorem sm4_ctr_streaming_witness:
  "ctr_stream (sm4_ctr_encrypt_init
     \<lparr>ctx_key = \<lparr>rk = replicate 32 0\<rparr>, ctx_ctr = [], ctx_block = [], ctx_nbytes = 0\<rparr>
     (replicate 16 1) (replicate 16 0xff)) [[1, 2], [], replicate 20 3]
   = Some (snd (sm4_ctr_encrypt (sm4_set_encrypt_key \<lparr>rk = replicate 32 0\<rparr> (replicate 16 1))
       (replicate 16 0xff) ([1, 2] @ replicate 20 3)))"
  by (subst sm4_ctr_streaming)
    (simp_all only: length_replicate concat.simps SM4_CTR_CTX.select_convs append_Nil append_Nil2)

end
