(* ===== verification/Frame_Crypto.thy ===== *)
theory Frame_Crypto
  imports Sm4_Ctr
begin

text \<open>
  The frame encryptor \<^verbatim>\<open>HCCrypto\<close> and the frame decryptor \<^verbatim>\<open>HCCryptoDecryptor\<close> that the
  client installs on every RTP sender and receiver.  A frame travels as its (possibly encrypted)
  bytes followed by one postfix byte: bit 7 says that the frame is encrypted, the low seven bits
  carry the key version.  Readings of \<^verbatim>\<open>rtc::TimeMicros\<close> are arguments of the operations, in the
  order in which the code takes them; log output is not modelled.  A failed RTC_CHECK is
  \<open>Inl (Undefined _)\<close>.
\<close>

section \<open>Definitions\<close>

datatype MediaType = MEDIA_TYPE_AUDIO | MEDIA_TYPE_VIDEO | MEDIA_TYPE_DATA | MEDIA_TYPE_UNSUPPORTED

definition DEFAULT_SM4_KEY :: bytes where
  "DEFAULT_SM4_KEY = [0x01, 0x23, 0x45, 0x67, 0x89, 0xAB, 0xCD, 0xEF,
                      0xFE, 0xDC, 0xBA, 0x98, 0x76, 0x54, 0x32, 0x10]"

definition DEFAULT_SM4_CTR :: bytes where
  "DEFAULT_SM4_CTR = [0x00, 0x00, 0x00, 0x00, 0x00, 0x00, 0x00, 0x00,
                      0x00, 0x00, 0x00, 0x00, 0x00, 0x00, 0x00, 0x01]"

subsection \<open>The encryptor\<close>

record HCCrypto =
  e_fake_key :: u8
  e_postfix_byte :: u8
  e_fail_encryption :: bool
  e_sm4_key :: SM4_KEY
  e_sm4_key_bytes :: bytes
  e_sm4_ctr :: bytes
  e_use_sm4 :: bool
  e_key_version :: i32
  e_frame_count :: u64
  e_total_us :: i64
  e_key_frame_count :: u64
  e_key_frame_total_us :: i64
  e_max_us :: i64

text \<open>The constructor; \<open>junk\<close> is the uninitialised content of the round key array.\<close>

definition mk_HCCrypto :: "SM4_KEY \<Rightarrow> u8 \<Rightarrow> u8 \<Rightarrow> HCCrypto" where
  "mk_HCCrypto junk fake_key postfix_byte =
     \<lparr>e_fake_key = fake_key, e_postfix_byte = postfix_byte, e_fail_encryption = False,
      e_sm4_key = sm4_set_encrypt_key junk DEFAULT_SM4_KEY, e_sm4_key_bytes = DEFAULT_SM4_KEY,
      e_sm4_ctr = DEFAULT_SM4_CTR, e_use_sm4 = True, e_key_version = 0,
      e_frame_count = 0, e_total_us = 0, e_key_frame_count = 0, e_key_frame_total_us = 0, e_max_us = 0\<rparr>"

definition GetMaxCiphertextByteSize :: "MediaType \<Rightarrow> u64 \<Rightarrow> u64" where
  "GetMaxCiphertextByteSize media_type frame_size = frame_size + 1"

text \<open>The VP8 key frame test: the lowest bit of the first byte is clear.\<close>

definition is_key_frame :: "MediaType \<Rightarrow> bytes \<Rightarrow> bool" where
  "is_key_frame media_type frame =
     (media_type = MEDIA_TYPE_VIDEO \<and> frame \<noteq> [] \<and> hd frame AND 1 = 0)"

text \<open>The statistics at the end of \<open>Encrypt\<close>, with the reset after 300 video frames.\<close>

definition enc_stats :: "MediaType \<Rightarrow> bool \<Rightarrow> i64 \<Rightarrow> HCCrypto \<Rightarrow> HCCrypto" where
  "enc_stats media_type key_frame elapsed_us e =
     (if media_type = MEDIA_TYPE_VIDEO
      then let e1 = e\<lparr>e_total_us := e_total_us e + elapsed_us, e_frame_count := e_frame_count e + 1\<rparr>;
               e2 = (if key_frame
                     then e1\<lparr>e_key_frame_count := e_key_frame_count e1 + 1,
                             e_key_frame_total_us := e_key_frame_total_us e1 + elapsed_us,
                             e_max_us := (if e_max_us e1 <s elapsed_us then elapsed_us else e_max_us e1)\<rparr>
                     else e1)
           in if 300 \<le> e_frame_count e2
              then e2\<lparr>e_total_us := 0, e_frame_count := 0, e_key_frame_count := 0,
                      e_key_frame_total_us := 0, e_max_us := 0\<rparr>
              else e2
      else e)"

text \<open>
  \<open>Encrypt\<close>: the new state, the status (0 is OK, 1 a forced failure), the content of the output
  view and the value stored through \<open>bytes_written\<close> (\<open>None\<close> when it is left alone).
\<close>

definition Encrypt :: "HCCrypto \<Rightarrow> MediaType \<Rightarrow> bytes \<Rightarrow> bytes \<Rightarrow> i64 \<Rightarrow> i64
    \<Rightarrow> (HCCrypto \<times> i32 \<times> bytes \<times> nat option) result" where
  "Encrypt e media_type frame encrypted_frame start_time end_time =
     (if e_fail_encryption e then Inr (e, 1, encrypted_frame, None)
      else
        let key_frame = is_key_frame media_type frame;
            perform_crypto = (if e_use_sm4 e then True else key_frame)
        in if length frame + 1 \<noteq> length encrypted_frame
           then Inl (Undefined ''RTC_CHECK_EQ'')
           else
             let out = (if perform_crypto
                        then snd (sm4_ctr_encrypt (e_sm4_key e) (e_sm4_ctr e) frame)
                               @ [0x80 OR (ucast (e_key_version e AND 0x7F) :: u8)]
                        else frame @ [0]);
                 elapsed_us = end_time - start_time
             in Inr (enc_stats media_type key_frame elapsed_us e, 0, out, Some (length frame + 1)))"

definition e_SetFakeKey :: "HCCrypto \<Rightarrow> u8 \<Rightarrow> HCCrypto" where
  "e_SetFakeKey e fake_key =
     (let k = replicate 16 fake_key
      in e\<lparr>e_fake_key := fake_key, e_sm4_key_bytes := k, e_sm4_key := sm4_set_encrypt_key (e_sm4_key e) k\<rparr>)"

definition e_SetPostfixByte :: "HCCrypto \<Rightarrow> u8 \<Rightarrow> HCCrypto" where
  "e_SetPostfixByte e postfix_byte = e\<lparr>e_postfix_byte := postfix_byte\<rparr>"

definition SetFailEncryption :: "HCCrypto \<Rightarrow> bool \<Rightarrow> HCCrypto" where
  "SetFailEncryption e fail_encryption = e\<lparr>e_fail_encryption := fail_encryption\<rparr>"

definition e_SetSM4Key :: "HCCrypto \<Rightarrow> bytes \<Rightarrow> HCCrypto" where
  "e_SetSM4Key e key =
     e\<lparr>e_sm4_key_bytes := take 16 key, e_sm4_key := sm4_set_encrypt_key (e_sm4_key e) (take 16 key)\<rparr>"

definition e_SetSM4CTR :: "HCCrypto \<Rightarrow> bytes \<Rightarrow> HCCrypto" where
  "e_SetSM4CTR e ctr = e\<lparr>e_sm4_ctr := take 16 ctr\<rparr>"

definition EnableSM4Encryption :: "HCCrypto \<Rightarrow> bool \<Rightarrow> HCCrypto" where
  "EnableSM4Encryption e enable = e\<lparr>e_use_sm4 := enable\<rparr>"

definition e_SetSM4KeyWithVersion :: "HCCrypto \<Rightarrow> bytes \<Rightarrow> i32 \<Rightarrow> HCCrypto" where
  "e_SetSM4KeyWithVersion e key version =
     e\<lparr>e_sm4_key_bytes := take 16 key, e_sm4_key := sm4_set_encrypt_key (e_sm4_key e) (take 16 key),
       e_key_version := version\<rparr>"

subsection \<open>The decryptor\<close>

datatype Status = kOk | kRecoverable | kFailedToDecrypt | kUnknown

record HCCryptoDecryptor =
  d_fake_key :: u8
  d_expected_postfix_byte :: u8
  d_fail_decryption :: bool
  d_sm4_key :: SM4_KEY
  d_sm4_key_bytes :: bytes
  d_sm4_ctr :: bytes
  d_use_sm4 :: bool
  d_key_version :: i32
  d_frame_count :: u64
  d_total_us :: i64
  d_mismatch_count :: u64
  d_mismatch_start_time :: i64

definition mk_HCCryptoDecryptor :: "SM4_KEY \<Rightarrow> u8 \<Rightarrow> u8 \<Rightarrow> HCCryptoDecryptor" where
  "mk_HCCryptoDecryptor junk fake_key expected_postfix_byte =
     \<lparr>d_fake_key = fake_key, d_expected_postfix_byte = expected_postfix_byte, d_fail_decryption = False,
      d_sm4_key = sm4_set_encrypt_key junk DEFAULT_SM4_KEY, d_sm4_key_bytes = DEFAULT_SM4_KEY,
      d_sm4_ctr = DEFAULT_SM4_CTR, d_use_sm4 = True, d_key_version = 0,
      d_frame_count = 0, d_total_us = 0, d_mismatch_count = 0, d_mismatch_start_time = 0\<rparr>"

text \<open>The version check: the statistics of mismatches, and whether decryption is still wanted.\<close>

definition check_version :: "HCCryptoDecryptor \<Rightarrow> u8 \<Rightarrow> bool \<Rightarrow> i64 \<Rightarrow> HCCryptoDecryptor \<times> bool" where
  "check_version d postfix_byte perform_crypto now =
     (let frame_encrypted = (postfix_byte AND 0x80 \<noteq> 0);
          frame_version = (ucast (postfix_byte AND 0x7F) :: i32);
          (d1, p1) =
            (if frame_encrypted \<and> frame_version \<noteq> d_key_version d
             then (d\<lparr>d_mismatch_count := d_mismatch_count d + 1,
                     d_mismatch_start_time :=
                       (if d_mismatch_start_time d = 0 then now else d_mismatch_start_time d)\<rparr>, False)
             else (if 0 < d_mismatch_count d
                   then d\<lparr>d_mismatch_count := 0, d_mismatch_start_time := 0\<rparr> else d, perform_crypto))
      in (d1, if frame_encrypted then p1 else False))"

definition dec_stats :: "MediaType \<Rightarrow> i64 \<Rightarrow> HCCryptoDecryptor \<Rightarrow> HCCryptoDecryptor" where
  "dec_stats media_type elapsed_us d =
     (if media_type = MEDIA_TYPE_VIDEO
      then let d1 = d\<lparr>d_total_us := d_total_us d + elapsed_us, d_frame_count := d_frame_count d + 1\<rparr>
           in if 300 \<le> d_frame_count d1 then d1\<lparr>d_total_us := 0, d_frame_count := 0\<rparr> else d1
      else d)"

definition Decrypt :: "HCCryptoDecryptor \<Rightarrow> MediaType \<Rightarrow> bytes \<Rightarrow> bytes \<Rightarrow> i64 \<Rightarrow> i64 \<Rightarrow> i64
    \<Rightarrow> (HCCryptoDecryptor \<times> Status \<times> nat \<times> bytes) result" where
  "Decrypt d media_type encrypted_frame frame start_time mismatch_time end_time =
     (if d_fail_decryption d then Inr (d, kFailedToDecrypt, 0, frame)
      else
        let key_frame = is_key_frame media_type encrypted_frame;
            perform_crypto = (if d_use_sm4 d then True else key_frame)
        in if length frame + 1 \<noteq> length encrypted_frame
           then Inl (Undefined ''RTC_CHECK_EQ'')
           else
             let (d1, perform) = check_version d (encrypted_frame ! length frame) perform_crypto mismatch_time;
                 payload = take (length frame) encrypted_frame;
                 out = (if perform then snd (sm4_ctr_encrypt (d_sm4_key d1) (d_sm4_ctr d1) payload) else payload)
             in Inr (dec_stats media_type (end_time - start_time) d1, kOk, length frame, out))"

definition GetMaxPlaintextByteSize :: "MediaType \<Rightarrow> u64 \<Rightarrow> u64" where
  "GetMaxPlaintextByteSize media_type encrypted_frame_size = encrypted_frame_size - 1"

definition d_SetFakeKey :: "HCCryptoDecryptor \<Rightarrow> u8 \<Rightarrow> HCCryptoDecryptor" where
  "d_SetFakeKey d fake_key =
     (let k = replicate 16 fake_key
      in d\<lparr>d_fake_key := fake_key, d_sm4_key_bytes := k, d_sm4_key := sm4_set_encrypt_key (d_sm4_key d) k\<rparr>)"

definition SetExpectedPostfixByte :: "HCCryptoDecryptor \<Rightarrow> u8 \<Rightarrow> HCCryptoDecryptor" where
  "SetExpectedPostfixByte d expected_postfix_byte = d\<lparr>d_expected_postfix_byte := expected_postfix_byte\<rparr>"

definition SetFailDecryption :: "HCCryptoDecryptor \<Rightarrow> bool \<Rightarrow> HCCryptoDecryptor" where
  "SetFailDecryption d fail_decryption = d\<lparr>d_fail_decryption := fail_decryption\<rparr>"

definition d_SetSM4Key :: "HCCryptoDecryptor \<Rightarrow> bytes \<Rightarrow> HCCryptoDecryptor" where
  "d_SetSM4Key d key =
     d\<lparr>d_sm4_key_bytes := take 16 key, d_sm4_key := sm4_set_encrypt_key (d_sm4_key d) (take 16 key)\<rparr>"

definition d_SetSM4CTR :: "HCCryptoDecryptor \<Rightarrow> bytes \<Rightarrow> HCCryptoDecryptor" where
  "d_SetSM4CTR d ctr = d\<lparr>d_sm4_ctr := take 16 ctr\<rparr>"

definition EnableSM4Decryption :: "HCCryptoDecryptor \<Rightarrow> bool \<Rightarrow> HCCryptoDecryptor" where
  "EnableSM4Decryption d enable = d\<lparr>d_use_sm4 := enable\<rparr>"

definition d_SetSM4KeyWithVersion :: "HCCryptoDecryptor \<Rightarrow> bytes \<Rightarrow> i32 \<Rightarrow> HCCryptoDecryptor" where
  "d_SetSM4KeyWithVersion d key version =
     d\<lparr>d_sm4_key_bytes := take 16 key, d_sm4_key := sm4_set_encrypt_key (d_sm4_key d) (take 16 key),
       d_key_version := version\<rparr>"

section \<open>The postfix byte\<close>

lemma and_0x7f: "v AND 0x7F = take_bit 7 v" for v :: "'a::len word"
  by (simp add: take_bit_eq_mask mask_eq_exp_minus_1)

lemma postfix_flag: "(0x80 OR w) AND 0x80 \<noteq> (0 :: u8)"
proof
  assume "(0x80 OR w) AND 0x80 = (0 :: u8)"
  then have "bit ((0x80 OR w) AND 0x80 :: u8) 7 = bit (0 :: u8) 7" by (rule arg_cong)
  then show False by (simp add: bit_simps)
qed

lemma postfix_version:
  "(ucast ((0x80 OR (ucast (v AND 0x7F) :: u8)) AND 0x7F) :: i32) = v AND 0x7F" for v :: i32
  unfolding and_0x7f
proof (rule bit_word_eqI)
  fix n assume "n < LENGTH(32)"
  have "\<not> bit (0x80 :: u8) n" if "n < 7" for n :: nat
  proof -
    from that consider "n = 0" | "n = 1" | "n = 2" | "n = 3" | "n = 4" | "n = 5" | "n = 6" by linarith
    then show ?thesis by cases simp_all
  qed
  then show "bit (ucast (take_bit 7 (0x80 OR (ucast (take_bit 7 v) :: u8))) :: i32) n = bit (take_bit 7 v) n"
    by (auto simp: bit_simps)
qed

lemma version_fits: "v AND 0x7F = v \<longleftrightarrow> unat v < 128" for v :: i32
proof -
  have "take_bit 7 v = v \<longleftrightarrow> unat (take_bit 7 v) = unat v" by (simp only: word_unat_eq_iff)
  also have "\<dots> \<longleftrightarrow> unat v < 128" by (simp only: unsigned_take_bit_eq take_bit_nat_eq_self_iff) simp
  finally show ?thesis by (simp add: and_0x7f)
qed

section \<open>One frame\<close>

text \<open>When the encryptor encrypts, and what it puts on the wire.\<close>

definition encrypts :: "HCCrypto \<Rightarrow> MediaType \<Rightarrow> bytes \<Rightarrow> bool" where
  "encrypts e mt f \<longleftrightarrow> e_use_sm4 e \<or> is_key_frame mt f"

definition wire :: "HCCrypto \<Rightarrow> MediaType \<Rightarrow> bytes \<Rightarrow> bytes" where
  "wire e mt f = (if encrypts e mt f
     then ctr_crypt (e_sm4_key e) (e_sm4_ctr e) f @ [0x80 OR (ucast (e_key_version e AND 0x7F) :: u8)]
     else f @ [0])"

lemma Encrypt_wire:
  assumes "\<not> e_fail_encryption e" and "length buf = length f + 1"
  shows "Encrypt e mt f buf t0 t1
    = Inr (enc_stats mt (is_key_frame mt f) (t1 - t0) e, 0, wire e mt f, Some (length f + 1))"
  using assms by (simp add: Encrypt_def wire_def encrypts_def ctr_crypt_def Let_def)

lemma length_wire: "length (e_sm4_ctr e) = 16 \<Longrightarrow> length (wire e mt f) = length f + 1"
  by (simp add: wire_def ctr.crypt_length)

lemma enc_stats_fields [simp]:
  "e_sm4_key (enc_stats mt k us e) = e_sm4_key e"
  "e_sm4_ctr (enc_stats mt k us e) = e_sm4_ctr e"
  "e_key_version (enc_stats mt k us e) = e_key_version e"
  "e_fail_encryption (enc_stats mt k us e) = e_fail_encryption e"
  "e_use_sm4 (enc_stats mt k us e) = e_use_sm4 e"
  by (simp_all add: enc_stats_def Let_def)

lemma dec_stats_fields [simp]:
  "d_sm4_key (dec_stats mt us d) = d_sm4_key d"
  "d_sm4_ctr (dec_stats mt us d) = d_sm4_ctr d"
  "d_key_version (dec_stats mt us d) = d_key_version d"
  "d_fail_decryption (dec_stats mt us d) = d_fail_decryption d"
  "d_use_sm4 (dec_stats mt us d) = d_use_sm4 d"
  "d_mismatch_count (dec_stats mt us d) = d_mismatch_count d"
  "d_mismatch_start_time (dec_stats mt us d) = d_mismatch_start_time d"
  by (simp_all add: dec_stats_def Let_def)

lemma check_version_fields [simp]:
  "d_sm4_key (fst (check_version d p b now)) = d_sm4_key d"
  "d_sm4_ctr (fst (check_version d p b now)) = d_sm4_ctr d"
  "d_key_version (fst (check_version d p b now)) = d_key_version d"
  "d_fail_decryption (fst (check_version d p b now)) = d_fail_decryption d"
  "d_use_sm4 (fst (check_version d p b now)) = d_use_sm4 d"
  "d_frame_count (fst (check_version d p b now)) = d_frame_count d"
  by (simp_all add: check_version_def Let_def)

lemma Decrypt_split:
  assumes "\<not> d_fail_decryption d" and "length frame = length payload"
  shows "Decrypt d mt (payload @ [p]) frame t0 t1 t2 =
    (let (d1, perform) = check_version d p (d_use_sm4 d \<or> is_key_frame mt (payload @ [p])) t1
     in Inr (dec_stats mt (t2 - t0) d1, kOk, length payload,
          if perform then ctr_crypt (d_sm4_key d) (d_sm4_ctr d) payload else payload))"
proof -
  have "(if u then True else k) = (u \<or> k)" for u k by simp
  then show ?thesis using assms by (simp only: Decrypt_def) (simp add: ctr_crypt_def Let_def case_prod_beta)
qed

text \<open>The two ends hold the same key and counter, and neither is forced to fail.\<close>

definition same_key :: "HCCrypto \<Rightarrow> HCCryptoDecryptor \<Rightarrow> bool" where
  "same_key e d \<longleftrightarrow> e_sm4_key e = d_sm4_key d \<and> e_sm4_ctr e = d_sm4_ctr d \<and> length (d_sm4_ctr d) = 16
     \<and> \<not> e_fail_encryption e \<and> \<not> d_fail_decryption d"

text \<open>What the decryptor hands to the decoder for a frame of this encryptor.\<close>

definition delivered :: "HCCrypto \<Rightarrow> HCCryptoDecryptor \<Rightarrow> MediaType \<Rightarrow> bytes \<Rightarrow> bytes" where
  "delivered e d mt f =
     (if \<not> encrypts e mt f then f
      else if e_key_version e AND 0x7F = d_key_version d \<and> (d_use_sm4 d \<or> is_key_frame mt (wire e mt f))
      then f else ctr_crypt (e_sm4_key e) (e_sm4_ctr e) f)"

lemma Decrypt_wire:
  assumes "same_key e d" and "length frame = length f"
  shows "\<exists>d'. Decrypt d mt (wire e mt f) frame t0 t1 t2 = Inr (d', kOk, length f, delivered e d mt f)
     \<and> d_sm4_key d' = d_sm4_key d \<and> d_sm4_ctr d' = d_sm4_ctr d \<and> d_key_version d' = d_key_version d
     \<and> d_fail_decryption d' = d_fail_decryption d \<and> d_use_sm4 d' = d_use_sm4 d
     \<and> d_mismatch_count d' = (if encrypts e mt f \<and> e_key_version e AND 0x7F \<noteq> d_key_version d
         then d_mismatch_count d + 1 else 0)"
proof -
  have len: "length frame = length (ctr_crypt (e_sm4_key e) (e_sm4_ctr e) f)"
    using assms by (simp add: same_key_def ctr.crypt_length)
  show ?thesis
  proof (cases "encrypts e mt f")
    case True
    then show ?thesis
      using assms Decrypt_split [OF _ len, of d mt "0x80 OR (ucast (e_key_version e AND 0x7F) :: u8)" t0 t1 t2]
      by (auto simp: wire_def delivered_def check_version_def same_key_def postfix_flag postfix_version
          ctr.crypt_length ctr.crypt_involution word_gt_0 Let_def)
  next
    case False
    then show ?thesis
      using assms Decrypt_split [of d frame f mt 0 t0 t1 t2]
      by (auto simp: wire_def delivered_def check_version_def same_key_def word_gt_0 Let_def)
  qed
qed

section \<open>Key-frame-only mode\<close>

lemma is_key_frame_append:
  "f \<noteq> [] \<Longrightarrow> is_key_frame mt (f @ p) = is_key_frame mt f"
  by (simp add: is_key_frame_def)

lemma hd_ctr_crypt:
  assumes "length c = 16" and "f \<noteq> []"
  shows "hd (ctr_crypt key c f) = hd f XOR hd (sm4_encrypt key c)"
proof -
  have n: "(length f + 15) div 16 = Suc ((length f - 1) div 16)" using assms(2) by (cases f) auto
  have "ctr_crypt key c f = xor_bytes f (sm4_encrypt key c @ keystream (sm4_encrypt key) (ctr_add c 1) ((length f - 1) div 16))"
    using assms(1) by (simp add: ctr_crypt_def sm4_ctr_encrypt_spec n sm4.keystream_Suc del: One_nat_def)
  moreover have "sm4_encrypt key c \<noteq> []" using length_sm4_encrypt [of key c] by (metis list.size(3) zero_neq_numeral)
  ultimately show ?thesis using assms(2)
    by (cases f; cases "sm4_encrypt key c") simp_all
qed

lemma xor_even: "x AND 1 = 0 \<Longrightarrow> ((x XOR y) AND 1 = 0) = (y AND 1 = 0)" for x y :: u8
  by (simp add: and_one_eq even_xor_iff mod_2_eq_odd)

lemma is_key_frame_crypt:
  assumes "length c = 16" and "is_key_frame mt f"
  shows "is_key_frame mt (ctr_crypt key c f @ p) \<longleftrightarrow> hd (sm4_encrypt key c) AND 1 = 0"
proof -
  have f: "mt = MEDIA_TYPE_VIDEO" "f \<noteq> []" "hd f AND 1 = 0" using assms(2) by (simp_all add: is_key_frame_def)
  then have "ctr_crypt key c f \<noteq> []" using ctr.crypt_length [OF assms(1), of key f] by auto
  then show ?thesis using f assms(1) by (simp add: is_key_frame_def hd_ctr_crypt xor_even)
qed

section \<open>Sequences of operations\<close>

text \<open>Everything a client can do to an encryptor.\<close>

inductive enc_reachable :: "HCCrypto \<Rightarrow> bool" where
  new: "length (rk junk) = 32 \<Longrightarrow> enc_reachable (mk_HCCrypto junk fk pb)"
| encrypt: "enc_reachable e \<Longrightarrow> Encrypt e mt f buf t0 t1 = Inr (e', st, out, n) \<Longrightarrow> enc_reachable e'"
| fake_key: "enc_reachable e \<Longrightarrow> enc_reachable (e_SetFakeKey e b)"
| postfix: "enc_reachable e \<Longrightarrow> enc_reachable (e_SetPostfixByte e b)"
| fail: "enc_reachable e \<Longrightarrow> enc_reachable (SetFailEncryption e q)"
| set_key: "enc_reachable e \<Longrightarrow> length k = 16 \<Longrightarrow> enc_reachable (e_SetSM4Key e k)"
| set_ctr: "enc_reachable e \<Longrightarrow> length c = 16 \<Longrightarrow> enc_reachable (e_SetSM4CTR e c)"
| enable: "enc_reachable e \<Longrightarrow> enc_reachable (EnableSM4Encryption e q)"
| set_key_version: "enc_reachable e \<Longrightarrow> length k = 16 \<Longrightarrow> enc_reachable (e_SetSM4KeyWithVersion e k v)"

inductive dec_reachable :: "HCCryptoDecryptor \<Rightarrow> bool" where
  new: "length (rk junk) = 32 \<Longrightarrow> dec_reachable (mk_HCCryptoDecryptor junk fk pb)"
| decrypt: "dec_reachable d \<Longrightarrow> Decrypt d mt ef buf t0 t1 t2 = Inr (d', st, n, out) \<Longrightarrow> dec_reachable d'"
| fake_key: "dec_reachable d \<Longrightarrow> dec_reachable (d_SetFakeKey d b)"
| postfix: "dec_reachable d \<Longrightarrow> dec_reachable (SetExpectedPostfixByte d b)"
| fail: "dec_reachable d \<Longrightarrow> dec_reachable (SetFailDecryption d q)"
| set_key: "dec_reachable d \<Longrightarrow> length k = 16 \<Longrightarrow> dec_reachable (d_SetSM4Key d k)"
| set_ctr: "dec_reachable d \<Longrightarrow> length c = 16 \<Longrightarrow> dec_reachable (d_SetSM4CTR d c)"
| enable: "dec_reachable d \<Longrightarrow> dec_reachable (EnableSM4Decryption d q)"
| set_key_version: "dec_reachable d \<Longrightarrow> length k = 16 \<Longrightarrow> dec_reachable (d_SetSM4KeyWithVersion d k v)"

lemmas setter_defs = e_SetFakeKey_def e_SetPostfixByte_def SetFailEncryption_def e_SetSM4Key_def
  e_SetSM4CTR_def EnableSM4Encryption_def e_SetSM4KeyWithVersion_def d_SetFakeKey_def
  SetExpectedPostfixByte_def SetFailDecryption_def d_SetSM4Key_def d_SetSM4CTR_def
  EnableSM4Decryption_def d_SetSM4KeyWithVersion_def

text \<open>The stored key bytes, their schedule and the counter stay in step, and the report window
  of the statistics never holds 300 frames.\<close>

definition enc_inv :: "HCCrypto \<Rightarrow> bool" where
  "enc_inv e \<longleftrightarrow> length (e_sm4_key_bytes e) = 16 \<and> length (e_sm4_ctr e) = 16
     \<and> rk (e_sm4_key e) = round_keys (e_sm4_key_bytes e)
     \<and> e_frame_count e < 300 \<and> e_key_frame_count e \<le> e_frame_count e"

definition dec_inv :: "HCCryptoDecryptor \<Rightarrow> bool" where
  "dec_inv d \<longleftrightarrow> length (d_sm4_key_bytes d) = 16 \<and> length (d_sm4_ctr d) = 16
     \<and> rk (d_sm4_key d) = round_keys (d_sm4_key_bytes d)
     \<and> d_frame_count d < 300"

lemma count_step: "k \<le> n \<Longrightarrow> n < 300 \<Longrightarrow> k + 1 \<le> n + 1 \<and> k \<le> n + 1" for k n :: u64
  by (simp add: word_le_nat_alt word_less_nat_alt unat_Suc_mod)

lemma rk_of_inv: "rk (e_sm4_key e) = round_keys b \<Longrightarrow> rk (sm4_set_encrypt_key (e_sm4_key e) k) = round_keys k"
  by (simp only: rk_set_encrypt_key length_round_keys)

lemma rk_of_dinv: "rk (d_sm4_key d) = round_keys b \<Longrightarrow> rk (sm4_set_encrypt_key (d_sm4_key d) k) = round_keys k"
  by (simp only: rk_set_encrypt_key length_round_keys)

lemma enc_inv_stats: "enc_inv e \<Longrightarrow> enc_inv (enc_stats mt k us e)"
  using count_step [of "e_key_frame_count e" "e_frame_count e"]
  by (auto simp: enc_inv_def enc_stats_def Let_def not_le)

lemma enc_inv_Encrypt: "enc_inv e \<Longrightarrow> Encrypt e mt f buf t0 t1 = Inr (e', st, out, n) \<Longrightarrow> enc_inv e'"
  by (auto simp: Encrypt_def Let_def enc_inv_stats split: if_splits)

lemma dec_inv_stats: "dec_inv d \<Longrightarrow> dec_inv (dec_stats mt us d)"
  by (auto simp: dec_inv_def dec_stats_def Let_def not_le)

lemma dec_inv_check: "dec_inv d \<Longrightarrow> dec_inv (fst (check_version d p b now))"
  by (auto simp: dec_inv_def check_version_def Let_def)

lemma dec_inv_Decrypt: "dec_inv d \<Longrightarrow> Decrypt d mt ef buf t0 t1 t2 = Inr (d', st, n, out) \<Longrightarrow> dec_inv d'"
  by (auto simp: Decrypt_def Let_def case_prod_beta dec_inv_stats dec_inv_check split: if_splits)

lemma enc_reachable_inv: "enc_reachable e \<Longrightarrow> enc_inv e"
proof (induction rule: enc_reachable.induct)
  case (new junk fk pb)
  then show ?case
    by (simp add: enc_inv_def mk_HCCrypto_def DEFAULT_SM4_CTR_def rk_set_encrypt_key)
       (simp add: DEFAULT_SM4_KEY_def)
next
  case (encrypt e mt f buf t0 t1 e' st out n)
  then show ?case by (blast intro: enc_inv_Encrypt)
qed (auto simp: enc_inv_def setter_defs rk_of_inv Let_def)

lemma dec_reachable_inv: "dec_reachable d \<Longrightarrow> dec_inv d"
proof (induction rule: dec_reachable.induct)
  case (new junk fk pb)
  then show ?case
    by (simp add: dec_inv_def mk_HCCryptoDecryptor_def DEFAULT_SM4_CTR_def rk_set_encrypt_key)
       (simp add: DEFAULT_SM4_KEY_def)
next
  case (decrypt d mt ef buf t0 t1 t2 d' st n out)
  then show ?case by (blast intro: dec_inv_Decrypt)
qed (auto simp: dec_inv_def setter_defs rk_of_dinv Let_def)

lemma schedules_agree:
  assumes "enc_inv e" and "dec_inv d" and "length k = 16"
  shows "e_sm4_key (e_SetSM4KeyWithVersion e k v) = d_sm4_key (d_SetSM4KeyWithVersion d k v')"
  using assms
  by (intro SM4_KEY.equality)
    (simp_all add: enc_inv_def dec_inv_def e_SetSM4KeyWithVersion_def d_SetSM4KeyWithVersion_def
      rk_of_inv rk_of_dinv)

lemma frame_roundtrip_wire:
  assumes "same_key e d" and "d_use_sm4 d" and "d_key_version d = e_key_version e"
    and "unat (e_key_version e) < 128" and "length buf = length f + 1" and "length frame = length f"
  shows "\<exists>e' c d'. Encrypt e mt f buf t0 t1 = Inr (e', 0, c, Some (length f + 1))
    \<and> Decrypt d mt c frame s0 s1 s2 = Inr (d', kOk, length f, f) \<and> same_key e' d'
    \<and> d_use_sm4 d' \<and> d_key_version d' = e_key_version e' \<and> e_key_version e' = e_key_version e"
proof -
  have "delivered e d mt f = f" using assms(2-4) version_fits [of "e_key_version e"] by (simp add: delivered_def)
  then show ?thesis
    using Decrypt_wire [OF assms(1,6), of mt s0 s1 s2] Encrypt_wire [OF _ assms(5), of e mt t0 t1] assms(1-3)
    by (auto simp: same_key_def)
qed

lemma mk_fields [simp]:
  "e_sm4_key (mk_HCCrypto junk fk pb) = sm4_set_encrypt_key junk DEFAULT_SM4_KEY"
  "e_sm4_ctr (mk_HCCrypto junk fk pb) = DEFAULT_SM4_CTR"
  "\<not> e_fail_encryption (mk_HCCrypto junk fk pb)"
  "e_use_sm4 (mk_HCCrypto junk fk pb)"
  "e_key_version (mk_HCCrypto junk fk pb) = 0"
  "d_sm4_key (mk_HCCryptoDecryptor junk fk pb) = sm4_set_encrypt_key junk DEFAULT_SM4_KEY"
  "d_sm4_ctr (mk_HCCryptoDecryptor junk fk pb) = DEFAULT_SM4_CTR"
  "\<not> d_fail_decryption (mk_HCCryptoDecryptor junk fk pb)"
  "d_use_sm4 (mk_HCCryptoDecryptor junk fk pb)"
  "d_key_version (mk_HCCryptoDecryptor junk fk pb) = 0"
  "d_mismatch_count (mk_HCCryptoDecryptor junk fk pb) = 0"
  by (simp_all add: mk_HCCrypto_def mk_HCCryptoDecryptor_def)

lemma Encrypt_OK_wire:
  assumes "Encrypt e mt f buf t0 t1 = Inr (e', st, c, n)" and "\<not> e_fail_encryption e"
  shows "length buf = length f + 1" and "c = wire e mt f" and "st = 0" and "n = Some (length f + 1)"
    and "e' = enc_stats mt (is_key_frame mt f) (t1 - t0) e"
proof -
  show *: "length buf = length f + 1" using assms by (simp add: Encrypt_def Let_def split: if_splits)
  show "c = wire e mt f" "st = 0" "n = Some (length f + 1)" "e' = enc_stats mt (is_key_frame mt f) (t1 - t0) e"
    using assms(1) Encrypt_wire [OF assms(2) *, of mt t0 t1] by auto
qed

lemma postfix_of_wire:
  "encrypts e mt f \<Longrightarrow> wire e mt f = ctr_crypt (e_sm4_key e) (e_sm4_ctr e) f
     @ [0x80 OR (ucast (e_key_version e AND 0x7F) :: u8)]"
  by (simp add: wire_def)

section \<open>Properties\<close>

text \<open>C2. Round trip through the two frame objects: when both ends hold the same key schedule and
  counter and the same version in 0..127, neither is forced to fail and the decryptor is in full
  mode, every frame of every media type is encrypted with status OK into exactly one byte more
  than the frame, and decrypted with status kOk to the original frame; the ends stay paired.\<close>

theorem frame_roundtrip:
  assumes "same_key e d" and "d_use_sm4 d" and "d_key_version d = e_key_version e"
    and "unat (e_key_version e) < 128" and "length buf = length f + 1" and "length frame = length f"
  shows "\<exists>e' c d'. Encrypt e mt f buf t0 t1 = Inr (e', 0, c, Some (length f + 1))
    \<and> length c = length f + 1
    \<and> Decrypt d mt c frame s0 s1 s2 = Inr (d', kOk, length f, f) \<and> same_key e' d'"
  using frame_roundtrip_wire [OF assms, of mt t0 t1 s0 s1 s2] Encrypt_wire [OF _ assms(5), of e mt t0 t1]
    length_wire [of e mt f] assms(1)
  by (auto simp: same_key_def)

theorem frame_roundtrip_witness:
  "\<exists>e' c d'. Encrypt (mk_HCCrypto \<lparr>rk = replicate 32 0\<rparr> 0xAA 255) MEDIA_TYPE_AUDIO [1, 2, 3] [0, 0, 0, 0] 5 6
      = Inr (e', 0, c, Some (length [1 :: u8, 2, 3] + 1))
    \<and> length c = length [1 :: u8, 2, 3] + 1
    \<and> Decrypt (mk_HCCryptoDecryptor \<lparr>rk = replicate 32 0\<rparr> 0xAA 255) MEDIA_TYPE_AUDIO c [0, 0, 0] 7 8 9
      = Inr (d', kOk, length [1 :: u8, 2, 3], [1, 2, 3]) \<and> same_key e' d'"
  by (rule frame_roundtrip)
    (simp_all add: same_key_def mk_HCCrypto_def mk_HCCryptoDecryptor_def DEFAULT_SM4_CTR_def)



text \<open>C23. Key-frame-only mode on both ends: the decryptor looks for the key frame bit in the
  encrypted byte, so what happens to key frames depends on one bit of the keystream.  If the lowest
  bit of the first keystream byte is clear every key frame is restored; if it is set, every key
  frame reaches the decoder as ciphertext, with status kOk.\<close>

theorem key_only_mode:
  assumes "same_key e d" and "\<not> e_use_sm4 e" and "\<not> d_use_sm4 d"
    and "d_key_version d = e_key_version e" and "unat (e_key_version e) < 128"
    and "is_key_frame mt f" and "length frame = length f"
    and "Encrypt e mt f buf t0 t1 = Inr (e', st, c, n)"
  shows "\<exists>d'. Decrypt d mt c frame s0 s1 s2 = Inr (d', kOk, length f,
      if hd (sm4_encrypt (e_sm4_key e) (e_sm4_ctr e)) AND 1 = 0 then f
      else snd (sm4_ctr_encrypt (e_sm4_key e) (e_sm4_ctr e) f))"
proof -
  have len: "length (e_sm4_ctr e) = 16" using assms(1) by (simp add: same_key_def)
  have enc: "encrypts e mt f" using assms(6) by (simp add: encrypts_def)
  have c: "c = wire e mt f" using assms(1) by (intro Encrypt_OK_wire [OF assms(8)]) (simp add: same_key_def)
  have "delivered e d mt f = (if hd (sm4_encrypt (e_sm4_key e) (e_sm4_ctr e)) AND 1 = 0 then f
      else ctr_crypt (e_sm4_key e) (e_sm4_ctr e) f)"
    using assms enc version_fits [of "e_key_version e"]
    by (simp add: delivered_def postfix_of_wire is_key_frame_crypt [OF len])
  then show ?thesis using Decrypt_wire [OF assms(1,7), of mt s0 s1 s2] c by (auto simp: ctr_crypt_def)
qed

theorem key_only_mode_witness:
  "\<exists>c n e'. Encrypt (EnableSM4Encryption (mk_HCCrypto \<lparr>rk = replicate 32 0\<rparr> 0xAA 255) False)
      MEDIA_TYPE_VIDEO [2, 3] [0, 0, 0] 5 6 = Inr (e', 0, c, n) \<and>
   (\<exists>d'. Decrypt (EnableSM4Decryption (mk_HCCryptoDecryptor \<lparr>rk = replicate 32 0\<rparr> 0xAA 255) False)
      MEDIA_TYPE_VIDEO c [0, 0] 7 8 9 = Inr (d', kOk, length [2 :: u8, 3],
      if hd (sm4_encrypt (sm4_set_encrypt_key \<lparr>rk = replicate 32 0\<rparr> DEFAULT_SM4_KEY) DEFAULT_SM4_CTR) AND 1 = 0
      then [2, 3]
      else snd (sm4_ctr_encrypt (sm4_set_encrypt_key \<lparr>rk = replicate 32 0\<rparr> DEFAULT_SM4_KEY) DEFAULT_SM4_CTR [2, 3])))"
proof -
  let ?e = "EnableSM4Encryption (mk_HCCrypto \<lparr>rk = replicate 32 0\<rparr> 0xAA 255) False"
  let ?d = "EnableSM4Decryption (mk_HCCryptoDecryptor \<lparr>rk = replicate 32 0\<rparr> 0xAA 255) False"
  have f: "e_sm4_key ?e = sm4_set_encrypt_key \<lparr>rk = replicate 32 0\<rparr> DEFAULT_SM4_KEY"
    "e_sm4_ctr ?e = DEFAULT_SM4_CTR" "\<not> e_fail_encryption ?e" "\<not> e_use_sm4 ?e" "e_key_version ?e = 0"
    "same_key ?e ?d" "\<not> d_use_sm4 ?d" "d_key_version ?d = 0"
    by (simp_all add: same_key_def setter_defs mk_HCCrypto_def mk_HCCryptoDecryptor_def DEFAULT_SM4_CTR_def)
  obtain e' c n where E: "Encrypt ?e MEDIA_TYPE_VIDEO [2, 3] [0, 0, 0] 5 6 = Inr (e', 0, c, n)"
    using Encrypt_wire [of ?e "[0, 0, 0]" "[2, 3]" MEDIA_TYPE_VIDEO 5 6] f(3) by auto
  show ?thesis
    using key_only_mode [OF f(6) f(4) f(7) _ _ _ _ E, of "[0, 0]" 7 8 9] E f by (auto simp: is_key_frame_def)
qed

text \<open>C24. A key version outside 0..127 (the postfix byte has room for seven bits, the members are
  int32_t) makes every encrypted frame undecryptable although both ends agree on key and version:
  the decryptor reports kOk, hands out the ciphertext and counts a version mismatch.\<close>

theorem version_out_of_range:
  assumes "same_key e d" and "d_key_version d = e_key_version e" and "\<not> unat (e_key_version e) < 128"
    and "e_use_sm4 e" and "length frame = length f"
    and "Encrypt e mt f buf t0 t1 = Inr (e', st, c, n)"
  shows "\<exists>d'. Decrypt d mt c frame s0 s1 s2
      = Inr (d', kOk, length f, snd (sm4_ctr_encrypt (e_sm4_key e) (e_sm4_ctr e) f))
    \<and> d_mismatch_count d' = d_mismatch_count d + 1"
proof -
  have "c = wire e mt f" using assms(1) by (intro Encrypt_OK_wire [OF assms(6)]) (simp add: same_key_def)
  moreover have "encrypts e mt f" using assms(4) by (simp add: encrypts_def)
  moreover have "e_key_version e AND 0x7F \<noteq> d_key_version d" using assms(2,3) version_fits by simp
  ultimately show ?thesis
    using Decrypt_wire [OF assms(1,5), of mt s0 s1 s2] by (auto simp: delivered_def ctr_crypt_def)
qed

theorem version_out_of_range_witness:
  "\<exists>e' c. Encrypt (e_SetSM4KeyWithVersion (mk_HCCrypto \<lparr>rk = replicate 32 0\<rparr> 0xAA 255) DEFAULT_SM4_KEY 128)
      MEDIA_TYPE_AUDIO [7] [0, 0] 5 6 = Inr (e', 0, c, Some 2) \<and>
   (\<exists>d'. Decrypt (d_SetSM4KeyWithVersion (mk_HCCryptoDecryptor \<lparr>rk = replicate 32 0\<rparr> 0xAA 255) DEFAULT_SM4_KEY 128)
      MEDIA_TYPE_AUDIO c [0] 7 8 9
      = Inr (d', kOk, 1, snd (sm4_ctr_encrypt (e_sm4_key (e_SetSM4KeyWithVersion
          (mk_HCCrypto \<lparr>rk = replicate 32 0\<rparr> 0xAA 255) DEFAULT_SM4_KEY 128)) DEFAULT_SM4_CTR [7]))
      \<and> d_mismatch_count d' = 1)"
proof -
  let ?e = "e_SetSM4KeyWithVersion (mk_HCCrypto \<lparr>rk = replicate 32 0\<rparr> 0xAA 255) DEFAULT_SM4_KEY 128"
  let ?d = "d_SetSM4KeyWithVersion (mk_HCCryptoDecryptor \<lparr>rk = replicate 32 0\<rparr> 0xAA 255) DEFAULT_SM4_KEY 128"
  have k: "same_key ?e ?d"
    by (simp add: same_key_def setter_defs DEFAULT_SM4_CTR_def)
  have f: "e_sm4_ctr ?e = DEFAULT_SM4_CTR" "d_key_version ?d = e_key_version ?e"
    "\<not> unat (e_key_version ?e) < 128" "e_use_sm4 ?e" "d_mismatch_count ?d = 0" "\<not> e_fail_encryption ?e"
    by (simp_all add: setter_defs)
  have E: "Encrypt ?e MEDIA_TYPE_AUDIO [7] [0, 0] 5 6
      = Inr (enc_stats MEDIA_TYPE_AUDIO (is_key_frame MEDIA_TYPE_AUDIO [7]) 1 ?e, 0, wire ?e MEDIA_TYPE_AUDIO [7], Some 2)"
    using Encrypt_wire [of ?e "[0, 0]" "[7]" MEDIA_TYPE_AUDIO 5 6] f(6) by simp
  show ?thesis
    using version_out_of_range [OF k f(2,3,4) _ E, of "[0]" 7 8 9] E f(1,5) by auto
qed

text \<open>C25. The counter member is never advanced: two frames of the same length encrypted one after
  the other under full encryption use the same keystream, so the XOR of the two ciphertexts is the
  XOR of the two plaintexts.\<close>

theorem keystream_reuse:
  assumes "\<not> e_fail_encryption e" and "e_use_sm4 e" and "length (e_sm4_ctr e) = 16" and "length f = length g"
    and "Encrypt e mt f buf t0 t1 = Inr (e1, st1, c1, n1)"
    and "Encrypt e1 mt' g buf' t2 t3 = Inr (e2, st2, c2, n2)"
  shows "xor_bytes (butlast c1) (butlast c2) = xor_bytes f g"
proof -
  have e1: "e1 = enc_stats mt (is_key_frame mt f) (t1 - t0) e" and c1: "c1 = wire e mt f"
    by (rule Encrypt_OK_wire [OF assms(5,1)])+
  have "c2 = wire e1 mt' g" using assms(1) e1 by (intro Encrypt_OK_wire [OF assms(6)]) simp
  then show ?thesis using c1 e1 assms(2-4) by (simp add: wire_def encrypts_def ctr.crypt_reuse)
qed

theorem keystream_reuse_witness:
  "\<exists>e1 c1 e2 c2. Encrypt (mk_HCCrypto \<lparr>rk = replicate 32 0\<rparr> 0xAA 255) MEDIA_TYPE_VIDEO [1, 2] [0, 0, 0] 1 2
      = Inr (e1, 0, c1, Some 3)
   \<and> Encrypt e1 MEDIA_TYPE_AUDIO [3, 4] [0, 0, 0] 3 4 = Inr (e2, 0, c2, Some 3)
   \<and> xor_bytes (butlast c1) (butlast c2) = [2, 6]"
proof -
  let ?e = "mk_HCCrypto \<lparr>rk = replicate 32 0\<rparr> 0xAA 255"
  have E: "\<exists>e' c. Encrypt e mt [a, b] [0, 0, 0] t t' = Inr (e', 0, c, Some 3)
      \<and> e_fail_encryption e' = e_fail_encryption e" if "\<not> e_fail_encryption e" for e mt a b t t'
    using Encrypt_wire [OF that, of "[0, 0, 0]" "[a, b]" mt t t'] by simp
  obtain e1 c1 where 1: "Encrypt ?e MEDIA_TYPE_VIDEO [1, 2] [0, 0, 0] 1 2 = Inr (e1, 0, c1, Some 3)"
    "\<not> e_fail_encryption e1" using E [of ?e MEDIA_TYPE_VIDEO 1 2 1 2] by auto
  obtain e2 c2 where 2: "Encrypt e1 MEDIA_TYPE_AUDIO [3, 4] [0, 0, 0] 3 4 = Inr (e2, 0, c2, Some 3)"
    using E [OF 1(2), of MEDIA_TYPE_AUDIO 3 4 3 4] by auto
  have "xor_bytes (butlast c1) (butlast c2) = xor_bytes [1, 2] [3, 4]"
    by (rule keystream_reuse [OF _ _ _ _ 1(1) 2]) (simp_all add: DEFAULT_SM4_CTR_def)
  with 1 2 show ?thesis by auto
qed

text \<open>C17. Every state that the operations can reach keeps the key schedule equal to the expansion
  of the stored key bytes, a 16-byte counter, fewer than 300 frames in the statistics window and at
  most as many key frames as frames.\<close>

theorem crypto_invariants:
  assumes "enc_reachable e" and "dec_reachable d"
  shows "rk (e_sm4_key e) = round_keys (e_sm4_key_bytes e) \<and> length (e_sm4_ctr e) = 16
    \<and> e_frame_count e < 300 \<and> e_key_frame_count e \<le> e_frame_count e
    \<and> rk (d_sm4_key d) = round_keys (d_sm4_key_bytes d) \<and> length (d_sm4_ctr d) = 16
    \<and> d_frame_count d < 300"
  using enc_reachable_inv [OF assms(1)] dec_reachable_inv [OF assms(2)]
  by (simp add: enc_inv_def dec_inv_def)

theorem crypto_invariants_witness:
  "let e = e_SetFakeKey (mk_HCCrypto \<lparr>rk = replicate 32 0\<rparr> 0xAA 255) 3;
       d = d_SetFakeKey (mk_HCCryptoDecryptor \<lparr>rk = replicate 32 0\<rparr> 0xAA 255) 3
   in rk (e_sm4_key e) = round_keys (e_sm4_key_bytes e) \<and> length (e_sm4_ctr e) = 16
    \<and> e_frame_count e < 300 \<and> e_key_frame_count e \<le> e_frame_count e
    \<and> rk (d_sm4_key d) = round_keys (d_sm4_key_bytes d) \<and> length (d_sm4_ctr d) = 16
    \<and> d_frame_count d < 300"
  unfolding Let_def
  by (rule crypto_invariants)
    (simp_all add: enc_reachable.fake_key enc_reachable.new dec_reachable.fake_key dec_reachable.new)

end
