(* ===== verification/Frame_Pipeline.thy ===== *)
theory Frame_Pipeline
  imports Frame_Crypto
begin

text \<open>
  The places where WebRTC calls the frame encryptor and the frame decryptor: the video sender
  (\<^verbatim>\<open>RTPSenderVideo::SendVideo\<close>), the audio sender (\<^verbatim>\<open>ChannelSend::SendRtpAudio\<close>), the audio
  receiver (\<^verbatim>\<open>ChannelReceive::ReceivePacket\<close>) and the video receiver
  (\<^verbatim>\<open>BufferedFrameDecryptor\<close>).  The encryptor and decryptor objects are reached through their
  abstract interfaces, so their operations are arguments: \<open>gmax\<close> is the size query and \<open>encr\<close> or
  \<open>decr\<close> the operation.  The locale below is the contract the callers rely on; it is
  interpreted on \<^verbatim>\<open>HCCryptoDecryptor\<close>.
\<close>

section \<open>Definitions\<close>

text \<open>\<open>rtc::Buffer::SetSize\<close> on a fresh buffer.  A request of at least half the address space
  cannot be satisfied.\<close>

definition alloc :: "u64 \<Rightarrow> bytes result" where
  "alloc n = (if unat n < 2 ^ 63 then Inr (replicate (unat n) 0) else Inl (Undefined ''allocation''))"

definition set_size :: "nat \<Rightarrow> bytes \<Rightarrow> bytes" where
  "set_size n b = take n b @ replicate (n - length b) 0"

text \<open>Senders: \<open>None\<close> as payload is the early return that drops the frame.\<close>

definition SendVideo_encrypt ::
  "(MediaType \<Rightarrow> u64 \<Rightarrow> u64) \<Rightarrow> ('e \<Rightarrow> MediaType \<Rightarrow> bytes \<Rightarrow> bytes \<Rightarrow> ('e \<times> i32 \<times> bytes \<times> nat option) result)
   \<Rightarrow> 'e option \<Rightarrow> bytes \<Rightarrow> ('e option \<times> bytes option) result" where
  "SendVideo_encrypt gmax encr frame_encryptor payload =
     (case frame_encryptor of
        Some e \<Rightarrow>
          rbind (alloc (gmax MEDIA_TYPE_VIDEO (of_nat (length payload)))) (\<lambda>buf.
          rbind (encr e MEDIA_TYPE_VIDEO payload buf) (\<lambda>(e', status, out, written).
            let bytes_written = (case written of Some n \<Rightarrow> n | None \<Rightarrow> 0)
            in if status \<noteq> 0 then Inr (Some e', None)
               else Inr (Some e', Some (set_size bytes_written out))))
      | None \<Rightarrow> Inr (None, Some payload))"

definition SendRtpAudio_encrypt ::
  "(MediaType \<Rightarrow> u64 \<Rightarrow> u64) \<Rightarrow> ('e \<Rightarrow> MediaType \<Rightarrow> bytes \<Rightarrow> bytes \<Rightarrow> ('e \<times> i32 \<times> bytes \<times> nat option) result)
   \<Rightarrow> 'e option \<Rightarrow> bool \<Rightarrow> bytes \<Rightarrow> ('e option \<times> bytes option) result" where
  "SendRtpAudio_encrypt gmax encr frame_encryptor require_frame_encryption payload =
     (if payload \<noteq> [] then
        (case frame_encryptor of
           Some e \<Rightarrow>
             rbind (alloc (gmax MEDIA_TYPE_AUDIO (of_nat (length payload)))) (\<lambda>buf.
             rbind (encr e MEDIA_TYPE_AUDIO payload buf) (\<lambda>(e', encrypt_status, out, written).
               let bytes_written = (case written of Some n \<Rightarrow> n | None \<Rightarrow> 0)
               in if encrypt_status \<noteq> 0 then Inr (Some e', None)
                  else Inr (Some e', Some (set_size bytes_written out))))
         | None \<Rightarrow> if require_frame_encryption then Inr (None, None) else Inr (None, Some payload))
      else Inr (frame_encryptor, Some payload))"

text \<open>The audio receiver: the payload handed on for a packet with the given header and padding
  lengths.  A packet shorter than its header and padding is outside the caller's contract.\<close>

definition ReceivePacket ::
  "(MediaType \<Rightarrow> u64 \<Rightarrow> u64) \<Rightarrow> ('d \<Rightarrow> MediaType \<Rightarrow> bytes \<Rightarrow> bytes \<Rightarrow> ('d \<times> Status \<times> nat \<times> bytes) result)
   \<Rightarrow> 'd option \<Rightarrow> bool \<Rightarrow> bytes \<Rightarrow> nat \<Rightarrow> nat \<Rightarrow> ('d option \<times> bytes) result" where
  "ReceivePacket gmax decr frame_decryptor require_frame_encryption packet headerLength paddingLength =
     (if length packet < headerLength + paddingLength then Inl (Undefined ''RTC_DCHECK_GE'')
      else
        let payload = drop headerLength packet;
            payload_length = length packet - headerLength;
            payload_data_length = payload_length - paddingLength
        in case frame_decryptor of
             Some d \<Rightarrow>
               rbind (alloc (gmax MEDIA_TYPE_AUDIO (of_nat payload_length))) (\<lambda>buf.
               rbind (decr d MEDIA_TYPE_AUDIO (take payload_data_length payload) buf) (\<lambda>(d', status, n, out).
                 Inr (Some d', if status = kOk then set_size n out else [])))
           | None \<Rightarrow> Inr (None, if require_frame_encryption then [] else take payload_data_length payload))"

subsection \<open>The buffered video decryptor\<close>

datatype FrameDecision = kStash | kDecrypted | kDrop

datatype bfd_event = OnDecryptedFrame bytes | OnDecryptionStatusChange Status

record 'd BufferedFrameDecryptor =
  first_frame_decrypted :: bool
  last_status :: Status
  frame_decryptor :: "'d option"
  stashed_frames :: "bytes list"

definition kMaxStashedFrames :: nat where
  "kMaxStashedFrames = 24"

definition mk_BufferedFrameDecryptor :: "'d BufferedFrameDecryptor" where
  "mk_BufferedFrameDecryptor =
     \<lparr>first_frame_decrypted = False, last_status = kUnknown, frame_decryptor = None, stashed_frames = []\<rparr>"

definition SetFrameDecryptor :: "'d BufferedFrameDecryptor \<Rightarrow> 'd option \<Rightarrow> 'd BufferedFrameDecryptor" where
  "SetFrameDecryptor b d = b\<lparr>frame_decryptor := d\<rparr>"

text \<open>The decrypted bytes are written over the frame itself; the events are the calls of the two
  callbacks, in order.\<close>

definition DecryptFrame ::
  "(MediaType \<Rightarrow> u64 \<Rightarrow> u64) \<Rightarrow> ('d \<Rightarrow> MediaType \<Rightarrow> bytes \<Rightarrow> bytes \<Rightarrow> ('d \<times> Status \<times> nat \<times> bytes) result)
   \<Rightarrow> 'd BufferedFrameDecryptor \<Rightarrow> bytes
   \<Rightarrow> ('d BufferedFrameDecryptor \<times> FrameDecision \<times> bytes \<times> bfd_event list) result" where
  "DecryptFrame gmax decr b frame =
     (case frame_decryptor b of
        None \<Rightarrow> Inr (b, kStash, frame, [])
      | Some d \<Rightarrow>
          let m = unat (gmax MEDIA_TYPE_VIDEO (of_nat (length frame)))
          in if \<not> m \<le> length frame then Inl (Undefined ''RTC_CHECK_LE'')
             else rbind (decr d MEDIA_TYPE_VIDEO frame (take m frame)) (\<lambda>(d', status, n, out).
               let frame' = out @ drop m frame;
                   b1 = b\<lparr>frame_decryptor := Some d'\<rparr>;
                   (b2, ev) = (if status \<noteq> last_status b1
                               then (b1\<lparr>last_status := status\<rparr>, [OnDecryptionStatusChange status])
                               else (b1, []))
               in if status \<noteq> kOk
                  then Inr (b2, if first_frame_decrypted b2 then kDrop else kStash, frame', ev)
                  else if \<not> n \<le> m then Inl (Undefined ''RTC_CHECK_LE'')
                  else Inr (b2\<lparr>first_frame_decrypted := True\<rparr>, kDecrypted, set_size n frame', ev)))"

fun retry_loop ::
  "(MediaType \<Rightarrow> u64 \<Rightarrow> u64) \<Rightarrow> ('d \<Rightarrow> MediaType \<Rightarrow> bytes \<Rightarrow> bytes \<Rightarrow> ('d \<times> Status \<times> nat \<times> bytes) result)
   \<Rightarrow> 'd BufferedFrameDecryptor \<Rightarrow> bytes list \<Rightarrow> ('d BufferedFrameDecryptor \<times> bfd_event list) result" where
  "retry_loop gmax decr b [] = Inr (b, [])"
| "retry_loop gmax decr b (frame # fs) =
     rbind (DecryptFrame gmax decr b frame) (\<lambda>(b1, decision, frame', ev).
     rbind (retry_loop gmax decr b1 fs) (\<lambda>(b2, evs).
       Inr (b2, ev @ (if decision = kDecrypted then [OnDecryptedFrame frame'] else []) @ evs)))"

definition RetryStashedFrames ::
  "(MediaType \<Rightarrow> u64 \<Rightarrow> u64) \<Rightarrow> ('d \<Rightarrow> MediaType \<Rightarrow> bytes \<Rightarrow> bytes \<Rightarrow> ('d \<times> Status \<times> nat \<times> bytes) result)
   \<Rightarrow> 'd BufferedFrameDecryptor \<Rightarrow> ('d BufferedFrameDecryptor \<times> bfd_event list) result" where
  "RetryStashedFrames gmax decr b =
     rbind (retry_loop gmax decr b (stashed_frames b)) (\<lambda>(b1, evs). Inr (b1\<lparr>stashed_frames := []\<rparr>, evs))"

definition ManageEncryptedFrame ::
  "(MediaType \<Rightarrow> u64 \<Rightarrow> u64) \<Rightarrow> ('d \<Rightarrow> MediaType \<Rightarrow> bytes \<Rightarrow> bytes \<Rightarrow> ('d \<times> Status \<times> nat \<times> bytes) result)
   \<Rightarrow> 'd BufferedFrameDecryptor \<Rightarrow> bytes \<Rightarrow> ('d BufferedFrameDecryptor \<times> bfd_event list) result" where
  "ManageEncryptedFrame gmax decr b encrypted_frame =
     rbind (DecryptFrame gmax decr b encrypted_frame) (\<lambda>(b1, decision, frame, ev).
       case decision of
         kStash \<Rightarrow>
           let stash = (if kMaxStashedFrames \<le> length (stashed_frames b1) then tl (stashed_frames b1)
                        else stashed_frames b1)
           in Inr (b1\<lparr>stashed_frames := stash @ [frame]\<rparr>, ev)
       | kDecrypted \<Rightarrow>
           rbind (RetryStashedFrames gmax decr b1) (\<lambda>(b2, evs). Inr (b2, ev @ evs @ [OnDecryptedFrame frame]))
       | kDrop \<Rightarrow> Inr (b1, ev))"

text \<open>A sequence of received frames.\<close>

fun manage_all ::
  "(MediaType \<Rightarrow> u64 \<Rightarrow> u64) \<Rightarrow> ('d \<Rightarrow> MediaType \<Rightarrow> bytes \<Rightarrow> bytes \<Rightarrow> ('d \<times> Status \<times> nat \<times> bytes) result)
   \<Rightarrow> 'd BufferedFrameDecryptor \<Rightarrow> bytes list \<Rightarrow> ('d BufferedFrameDecryptor \<times> bfd_event list) result" where
  "manage_all gmax decr b [] = Inr (b, [])"
| "manage_all gmax decr b (f # fs) =
     rbind (ManageEncryptedFrame gmax decr b f) (\<lambda>(b1, ev).
     rbind (manage_all gmax decr b1 fs) (\<lambda>(b2, evs). Inr (b2, ev @ evs)))"

text \<open>The decryptor object behind the interface: the state with the number of clock readings taken,
  over a clock \<open>clk\<close>.\<close>

definition hc_decr :: "(nat \<Rightarrow> i64) \<Rightarrow> HCCryptoDecryptor \<times> nat \<Rightarrow> MediaType \<Rightarrow> bytes \<Rightarrow> bytes
    \<Rightarrow> ((HCCryptoDecryptor \<times> nat) \<times> Status \<times> nat \<times> bytes) result" where
  "hc_decr clk dn mt ef buf =
     rbind (Decrypt (fst dn) mt ef buf (clk (snd dn)) (clk (snd dn + 1)) (clk (snd dn + 2)))
       (\<lambda>(d', st, n, out). Inr ((d', snd dn + 3), st, n, out))"

definition hc_encr :: "(nat \<Rightarrow> i64) \<Rightarrow> HCCrypto \<times> nat \<Rightarrow> MediaType \<Rightarrow> bytes \<Rightarrow> bytes
    \<Rightarrow> ((HCCrypto \<times> nat) \<times> i32 \<times> bytes \<times> nat option) result" where
  "hc_encr clk en mt f buf =
     rbind (Encrypt (fst en) mt f buf (clk (snd en)) (clk (snd en + 1)))
       (\<lambda>(e', st, out, n). Inr ((e', snd en + 2), st, out, n))"

section \<open>The decryptor contract\<close>

text \<open>
  What a caller of the decryptor interface gets: the size query asks for less than the encrypted
  frame; a good decryptor turns every non-empty frame into \<open>plain\<close> with status kOk, fills the
  buffer exactly, stays good and does not change what it does to later frames.
\<close>

locale frame_decryptor_interface =
  fixes gmax :: "MediaType \<Rightarrow> u64 \<Rightarrow> u64"
    and decr :: "'d \<Rightarrow> MediaType \<Rightarrow> bytes \<Rightarrow> bytes \<Rightarrow> ('d \<times> Status \<times> nat \<times> bytes) result"
    and good :: "'d \<Rightarrow> bool"
    and plain :: "'d \<Rightarrow> MediaType \<Rightarrow> bytes \<Rightarrow> bytes"
  assumes gmax_less: "n \<noteq> 0 \<Longrightarrow> gmax mt n < n"
    and decr_ok: "good d \<Longrightarrow> ef \<noteq> [] \<Longrightarrow> length ef < 2 ^ 64 \<Longrightarrow>
      length buf = unat (gmax mt (of_nat (length ef))) \<Longrightarrow>
      \<exists>d'. decr d mt ef buf = Inr (d', kOk, length buf, plain d mt ef) \<and> good d' \<and> plain d' = plain d"
    and plain_length: "good d \<Longrightarrow> ef \<noteq> [] \<Longrightarrow> length ef < 2 ^ 64 \<Longrightarrow>
      length (plain d mt ef) = unat (gmax mt (of_nat (length ef)))"
begin

lemma gmax_frame:
  assumes "ef \<noteq> []" and "length ef < 2 ^ 64"
  shows "unat (gmax mt (of_nat (length ef))) < length ef"
proof -
  have "unat (of_nat (length ef) :: u64) = length ef" using assms(2) by (simp add: unat_of_nat take_bit_eq_mod)
  then show ?thesis using gmax_less [of "of_nat (length ef)" mt] assms(1)
    by (simp add: word_less_nat_alt word_unat_eq_iff)
qed

text \<open>A good decryptor never makes the buffer stash or drop.\<close>

lemma DecryptFrame_good:
  assumes "frame_decryptor b = Some d" and "good d" and "ef \<noteq> []" and "length ef < 2 ^ 64"
  shows "\<exists>b' ev. DecryptFrame gmax decr b ef = Inr (b', kDecrypted, plain d MEDIA_TYPE_VIDEO ef, ev)
    \<and> first_frame_decrypted b' \<and> last_status b' = kOk \<and> stashed_frames b' = stashed_frames b
    \<and> ev = (if last_status b = kOk then [] else [OnDecryptionStatusChange kOk])
    \<and> (\<exists>d'. frame_decryptor b' = Some d' \<and> good d' \<and> plain d' = plain d)"
proof -
  let ?m = "unat (gmax MEDIA_TYPE_VIDEO (of_nat (length ef)))"
  have m: "?m < length ef" by (rule gmax_frame [OF assms(3,4)])
  then have "length (take ?m ef) = ?m" by simp
  from decr_ok [OF assms(2,3,4) this] obtain d' where
    "decr d MEDIA_TYPE_VIDEO ef (take ?m ef) = Inr (d', kOk, ?m, plain d MEDIA_TYPE_VIDEO ef)"
    "good d'" "plain d' = plain d" using m by auto
  then show ?thesis
    using assms(1) m plain_length [OF assms(2,3,4), of MEDIA_TYPE_VIDEO]
    by (auto simp: DecryptFrame_def set_size_def Let_def)
qed

lemma retry_good:
  assumes "frame_decryptor b = Some d" and "good d" and "last_status b = kOk" and "first_frame_decrypted b"
    and "list_all (\<lambda>f. f \<noteq> [] \<and> length f < 2 ^ 64) fs"
  shows "\<exists>b' d'. retry_loop gmax decr b fs = Inr (b', map (OnDecryptedFrame \<circ> plain d MEDIA_TYPE_VIDEO) fs)
    \<and> frame_decryptor b' = Some d' \<and> good d' \<and> plain d' = plain d \<and> last_status b' = kOk
    \<and> first_frame_decrypted b'"
  using assms
proof (induction fs arbitrary: b d)
  case (Cons f fs)
  obtain b1 d1 where 1: "DecryptFrame gmax decr b f = Inr (b1, kDecrypted, plain d MEDIA_TYPE_VIDEO f, [])"
    "first_frame_decrypted b1" "last_status b1 = kOk" "frame_decryptor b1 = Some d1" "good d1" "plain d1 = plain d"
    using DecryptFrame_good [of b d f] Cons.prems by auto
  then obtain b2 d2 where "retry_loop gmax decr b1 fs = Inr (b2, map (OnDecryptedFrame \<circ> plain d MEDIA_TYPE_VIDEO) fs)"
    "frame_decryptor b2 = Some d2" "good d2" "plain d2 = plain d" "last_status b2 = kOk" "first_frame_decrypted b2"
    using Cons.IH [of b1 d1] Cons.prems(5) by auto
  then show ?case using 1 by auto
qed auto

text \<open>One call delivers the stash in order, then the frame, and empties the stash.\<close>

lemma Manage_good:
  assumes "frame_decryptor b = Some d" and "good d" and "ef \<noteq> []" and "length ef < 2 ^ 64"
    and "list_all (\<lambda>f. f \<noteq> [] \<and> length f < 2 ^ 64) (stashed_frames b)"
  shows "\<exists>b' d'. ManageEncryptedFrame gmax decr b ef
      = Inr (b', (if last_status b = kOk then [] else [OnDecryptionStatusChange kOk])
          @ map (OnDecryptedFrame \<circ> plain d MEDIA_TYPE_VIDEO) (stashed_frames b @ [ef]))
    \<and> stashed_frames b' = [] \<and> frame_decryptor b' = Some d' \<and> good d' \<and> plain d' = plain d
    \<and> last_status b' = kOk"
proof -
  obtain b1 d1 where 1: "DecryptFrame gmax decr b ef = Inr (b1, kDecrypted, plain d MEDIA_TYPE_VIDEO ef,
      if last_status b = kOk then [] else [OnDecryptionStatusChange kOk])"
    "first_frame_decrypted b1" "last_status b1 = kOk" "stashed_frames b1 = stashed_frames b"
    "frame_decryptor b1 = Some d1" "good d1" "plain d1 = plain d"
    using DecryptFrame_good [OF assms(1-4)] by blast
  obtain b2 d2 where "retry_loop gmax decr b1 (stashed_frames b)
      = Inr (b2, map (OnDecryptedFrame \<circ> plain d MEDIA_TYPE_VIDEO) (stashed_frames b))"
    "frame_decryptor b2 = Some d2" "good d2" "plain d2 = plain d" "last_status b2 = kOk"
    using retry_good [OF 1(5,6,3,2) assms(5)] 1(7) by auto
  then show ?thesis using 1 by (auto simp: ManageEncryptedFrame_def RetryStashedFrames_def)
qed

end

section \<open>The contract holds for HCCryptoDecryptor\<close>

definition hc_good :: "HCCryptoDecryptor \<times> nat \<Rightarrow> bool" where
  "hc_good dn \<longleftrightarrow> \<not> d_fail_decryption (fst dn) \<and> length (d_sm4_ctr (fst dn)) = 16"

text \<open>What the decryptor makes of a frame: it decrypts when the flag is set, the version is the
  local one and the mode allows it; otherwise it strips the postfix byte.\<close>

definition hc_plain :: "HCCryptoDecryptor \<times> nat \<Rightarrow> MediaType \<Rightarrow> bytes \<Rightarrow> bytes" where
  "hc_plain dn mt ef =
     (let d = fst dn; p = last ef
      in if p AND 0x80 \<noteq> 0 \<and> (ucast (p AND 0x7F) :: i32) = d_key_version d \<and> (d_use_sm4 d \<or> is_key_frame mt ef)
         then ctr_crypt (d_sm4_key d) (d_sm4_ctr d) (butlast ef) else butlast ef)"

lemma snd_check_version:
  "snd (check_version d p b now) \<longleftrightarrow> p AND 0x80 \<noteq> 0 \<and> (ucast (p AND 0x7F) :: i32) = d_key_version d \<and> b"
  by (simp add: check_version_def Let_def)

lemma hc_decr_ok:
  assumes "hc_good dn" and "length ef = length buf + 1"
  shows "\<exists>dn'. hc_decr clk dn mt ef buf = Inr (dn', kOk, length buf, hc_plain dn mt ef)
    \<and> hc_good dn' \<and> hc_plain dn' = hc_plain dn"
proof -
  obtain payload p where ef: "ef = payload @ [p]" and len: "length buf = length payload"
    using assms(2) by (cases ef rule: rev_cases) auto
  show ?thesis
    using Decrypt_split [OF _ len, of "fst dn" mt p "clk (snd dn)" "clk (snd dn + 1)" "clk (snd dn + 2)"]
      assms(1) len
    by (auto simp: hc_decr_def hc_good_def hc_plain_def ef snd_check_version case_prod_beta Let_def fun_eq_iff)
qed

lemma unat_of_nat_minus_one: "unat (of_nat n - 1 :: u64) = n - 1" if "0 < n" "n < 2 ^ 64"
proof -
  have "unat (of_nat n :: u64) = n" using that by (simp add: unat_of_nat take_bit_eq_mod)
  then show ?thesis using that unat_minus_one [of "of_nat n :: u64"] by (metis unat_0 less_numeral_extra(3))
qed

interpretation hc: frame_decryptor_interface GetMaxPlaintextByteSize "hc_decr clk" hc_good hc_plain
  for clk
proof unfold_locales
  fix n :: u64 and mt assume "n \<noteq> 0"
  then show "GetMaxPlaintextByteSize mt n < n"
    using unat_gt_0 [of n] by (simp add: GetMaxPlaintextByteSize_def word_less_nat_alt unat_minus_one)
next
  fix d and ef buf :: bytes and mt
  assume "hc_good d" "ef \<noteq> []" "length ef < 2 ^ 64"
    "length buf = unat (GetMaxPlaintextByteSize mt (of_nat (length ef)))"
  then show "\<exists>d'. hc_decr clk d mt ef buf = Inr (d', kOk, length buf, hc_plain d mt ef)
      \<and> hc_good d' \<and> hc_plain d' = hc_plain d"
    by (intro hc_decr_ok) (simp_all add: GetMaxPlaintextByteSize_def unat_of_nat_minus_one)
next
  fix d and ef :: bytes and mt
  assume "hc_good d" "ef \<noteq> []" "length ef < 2 ^ 64"
  then show "length (hc_plain d mt ef) = unat (GetMaxPlaintextByteSize mt (of_nat (length ef)))"
    by (simp add: hc_plain_def hc_good_def GetMaxPlaintextByteSize_def unat_of_nat_minus_one ctr.crypt_length Let_def)
qed

section \<open>Stashing while no decryptor is attached\<close>

definition push_stash :: "bytes list \<Rightarrow> bytes \<Rightarrow> bytes list" where
  "push_stash st f = (if 24 \<le> length st then tl st else st) @ [f]"

lemma Manage_detached:
  "frame_decryptor b = None \<Longrightarrow>
     ManageEncryptedFrame gmax decr b f = Inr (b\<lparr>stashed_frames := push_stash (stashed_frames b) f\<rparr>, [])"
  by (simp add: ManageEncryptedFrame_def DecryptFrame_def push_stash_def kMaxStashedFrames_def Let_def)

lemma push_stash_last: "length st \<le> 24 \<Longrightarrow> push_stash st f = drop (length st + 1 - 24) (st @ [f])"
  by (cases "length st = 24") (simp_all add: push_stash_def drop_Suc)

lemma drop_last_snoc:
  "drop (length (drop (length xs - n) xs) + 1 - n) (drop (length xs - n) xs @ [y]) = drop (length (xs @ [y]) - n) (xs @ [y])"
proof (cases "n \<le> length xs")
  case True
  then show ?thesis by (cases "n = 0") (simp_all add: Suc_diff_le)
qed simp

lemma manage_detached:
  assumes "frame_decryptor b = None" and "stashed_frames b = drop (length done - 24) done"
  shows "manage_all gmax decr b fs
    = Inr (b\<lparr>stashed_frames := drop (length (done @ fs) - 24) (done @ fs)\<rparr>, [])"
  using assms
proof (induction fs arbitrary: b "done")
  case (Cons f fs)
  let ?b = "b\<lparr>stashed_frames := push_stash (stashed_frames b) f\<rparr>"
  have "push_stash (stashed_frames b) f = drop (length (done @ [f]) - 24) (done @ [f])"
    using Cons.prems(2) push_stash_last [of "stashed_frames b" f] drop_last_snoc [of "done" 24 f] by simp
  then have "manage_all gmax decr ?b fs
      = Inr (?b\<lparr>stashed_frames := drop (length ((done @ [f]) @ fs) - 24) ((done @ [f]) @ fs)\<rparr>, [])"
    using Cons.prems(1) by (intro Cons.IH) simp_all
  then show ?case using Cons.prems(1) by (simp add: Manage_detached)
qed simp

lemma DecryptFrame_stash: "DecryptFrame gmax decr b f = Inr (b', x) \<Longrightarrow> stashed_frames b' = stashed_frames b"
  by (auto simp: DecryptFrame_def res_simps Let_def split: option.splits if_splits)

lemma retry_stash: "retry_loop gmax decr b fs = Inr (b', x) \<Longrightarrow> stashed_frames b' = stashed_frames b"
proof (induction fs arbitrary: b x)
  case (Cons f fs)
  then show ?case using DecryptFrame_stash by (fastforce simp: res_simps)
qed simp

lemma Manage_stash_bound:
  assumes "ManageEncryptedFrame gmax decr b f = Inr (b', ev)" and "length (stashed_frames b) \<le> 24"
  shows "length (stashed_frames b') \<le> 24"
proof -
  obtain b1 dc fr ev1 where 1: "DecryptFrame gmax decr b f = Inr (b1, dc, fr, ev1)"
    using assms(1) by (auto simp: ManageEncryptedFrame_def res_simps)
  then have "stashed_frames b1 = stashed_frames b" by (rule DecryptFrame_stash)
  then show ?thesis using assms 1
    by (cases dc)
      (auto simp: ManageEncryptedFrame_def RetryStashedFrames_def kMaxStashedFrames_def res_simps Let_def)
qed

lemma stash_run_bound:
  assumes "manage_all gmax decr b fs = Inr (b', ev)" and "length (stashed_frames b) \<le> 24"
  shows "length (stashed_frames b') \<le> 24"
  using assms
proof (induction fs arbitrary: b ev)
  case (Cons f fs)
  then show ?case using Manage_stash_bound by (fastforce simp: res_simps)
qed simp

section \<open>Senders\<close>

lemma alloc_small: "n < 2 ^ 63 \<Longrightarrow> alloc (of_nat n) = Inr (replicate n 0)"
  by (simp add: alloc_def unat_of_nat take_bit_eq_mod)

lemma hc_encr_wire:
  assumes "\<not> e_fail_encryption (fst en)" and "length f + 1 < 2 ^ 63"
  shows "rbind (alloc (GetMaxCiphertextByteSize mt (of_nat (length f)))) (\<lambda>buf. hc_encr clk en mt f buf)
    = Inr ((enc_stats mt (is_key_frame mt f) (clk (snd en + 1) - clk (snd en)) (fst en), snd en + 2),
        0, wire (fst en) mt f, Some (length f + 1))"
proof -
  have "GetMaxCiphertextByteSize mt (of_nat (length f)) = of_nat (length f + 1)"
    by (simp add: GetMaxCiphertextByteSize_def)
  then show ?thesis
    using assms(2) Encrypt_wire [OF assms(1), of "replicate (length f + 1) 0" f mt "clk (snd en)" "clk (snd en + 1)"]
    by (simp add: alloc_small hc_encr_def del: of_nat_add of_nat_Suc)
qed

lemma SendVideo_hc:
  assumes "\<not> e_fail_encryption (fst en)" and "length f + 1 < 2 ^ 63" and "length (e_sm4_ctr (fst en)) = 16"
  shows "\<exists>en'. SendVideo_encrypt GetMaxCiphertextByteSize (hc_encr clk) (Some en) f
    = Inr (Some en', Some (wire (fst en) MEDIA_TYPE_VIDEO f))"
  using hc_encr_wire [OF assms(1,2), of MEDIA_TYPE_VIDEO clk] length_wire [OF assms(3), of MEDIA_TYPE_VIDEO f]
  by (auto simp: SendVideo_encrypt_def rbind_def set_size_def Let_def split: sum.splits)

lemma SendAudio_hc:
  assumes "\<not> e_fail_encryption (fst en)" and "length f + 1 < 2 ^ 63" and "length (e_sm4_ctr (fst en)) = 16"
    and "f \<noteq> []"
  shows "\<exists>en'. SendRtpAudio_encrypt GetMaxCiphertextByteSize (hc_encr clk) (Some en) q f
    = Inr (Some en', Some (wire (fst en) MEDIA_TYPE_AUDIO f))"
  using hc_encr_wire [OF assms(1,2), of MEDIA_TYPE_AUDIO clk] length_wire [OF assms(3), of MEDIA_TYPE_AUDIO f] assms(4)
  by (auto simp: SendRtpAudio_encrypt_def rbind_def set_size_def Let_def split: sum.splits)

lemma hc_plain_wire:
  assumes "same_key e (fst dn)" and "d_use_sm4 (fst dn)" and "d_key_version (fst dn) = e_key_version e"
    and "unat (e_key_version e) < 128"
  shows "hc_plain dn mt (wire e mt f) = f"
  using assms version_fits [of "e_key_version e"] postfix_version [of "e_key_version e"]
  by (auto simp: hc_plain_def wire_def same_key_def postfix_flag ctr.crypt_involution Let_def)

lemma wire_size:
  "length (e_sm4_ctr e) = 16 \<Longrightarrow> length f + 1 < 2 ^ 63 \<Longrightarrow> wire e mt f \<noteq> [] \<and> length (wire e mt f) < 2 ^ 64"
  using length_wire [of e mt f] by auto

section \<open>Properties\<close>

text \<open>C1. Video end to end: with the encryptor on the sender and the decryptor on the receiver
  holding the same key, counter and version in 0..127, neither forced to fail, the decryptor in full
  mode and nothing stashed, a payload goes through the sender's encryption and the receiver's buffered
  decryptor and reaches the decoder callback unchanged.\<close>

theorem video_end_to_end:
  assumes "same_key (fst en) (fst dn)" and "d_use_sm4 (fst dn)"
    and "d_key_version (fst dn) = e_key_version (fst en)" and "unat (e_key_version (fst en)) < 128"
    and "length f + 1 < 2 ^ 63" and "frame_decryptor b = Some dn" and "stashed_frames b = []"
  shows "\<exists>en' w b'. SendVideo_encrypt GetMaxCiphertextByteSize (hc_encr clk) (Some en) f = Inr (Some en', Some w)
    \<and> ManageEncryptedFrame GetMaxPlaintextByteSize (hc_decr clk') b w
      = Inr (b', (if last_status b = kOk then [] else [OnDecryptionStatusChange kOk]) @ [OnDecryptedFrame f])
    \<and> stashed_frames b' = []"
proof -
  have len: "length (e_sm4_ctr (fst en)) = 16" and g: "hc_good dn" and ef: "\<not> e_fail_encryption (fst en)"
    using assms(1) by (simp_all add: same_key_def hc_good_def)
  obtain en' where "SendVideo_encrypt GetMaxCiphertextByteSize (hc_encr clk) (Some en) f
      = Inr (Some en', Some (wire (fst en) MEDIA_TYPE_VIDEO f))"
    using SendVideo_hc [OF ef assms(5) len] by blast
  moreover have "hc_plain dn MEDIA_TYPE_VIDEO (wire (fst en) MEDIA_TYPE_VIDEO f) = f"
    by (rule hc_plain_wire [OF assms(1-4)])
  ultimately show ?thesis
    using hc.Manage_good [OF assms(6) g, of "wire (fst en) MEDIA_TYPE_VIDEO f" clk'] wire_size [OF len assms(5)]
      assms(7) by auto
qed

abbreviation enc0 :: HCCrypto where
  "enc0 \<equiv> mk_HCCrypto \<lparr>rk = replicate 32 0\<rparr> 0xAA 255"

abbreviation dec0 :: HCCryptoDecryptor where
  "dec0 \<equiv> mk_HCCryptoDecryptor \<lparr>rk = replicate 32 0\<rparr> 0xAA 255"

lemma same_key0: "same_key enc0 dec0"
  by (simp add: same_key_def DEFAULT_SM4_CTR_def)

theorem video_end_to_end_witness:
  "\<exists>en' w b'. SendVideo_encrypt GetMaxCiphertextByteSize (hc_encr (\<lambda>n. of_nat n)) (Some (enc0, 0)) [4, 5, 6]
      = Inr (Some en', Some w)
    \<and> ManageEncryptedFrame GetMaxPlaintextByteSize (hc_decr (\<lambda>n. of_nat n))
        (SetFrameDecryptor mk_BufferedFrameDecryptor (Some (dec0, 0))) w
      = Inr (b', [OnDecryptionStatusChange kOk, OnDecryptedFrame [4, 5, 6]])
    \<and> stashed_frames b' = []"
  using video_end_to_end [of "(enc0, 0)" "(dec0, 0)" "[4, 5, 6]"
      "SetFrameDecryptor mk_BufferedFrameDecryptor (Some (dec0, 0))" "\<lambda>n. of_nat n" "\<lambda>n. of_nat n"] same_key0
  by (simp add: SetFrameDecryptor_def mk_BufferedFrameDecryptor_def)



text \<open>C22. A padded audio packet aborts the receiver: the plaintext buffer is sized from the
  payload with its padding while the decryptor is given the payload without it, so the decryptor's
  RTC_CHECK on the two sizes fails for every positive padding length.\<close>

theorem audio_padding_aborts:
  assumes "\<not> d_fail_decryption (fst dn)" and "0 < paddingLength"
    and "headerLength + paddingLength \<le> length packet" and "length packet < 2 ^ 63"
  shows "ReceivePacket GetMaxPlaintextByteSize (hc_decr clk) (Some dn) q packet headerLength paddingLength
    = Inl (Undefined ''RTC_CHECK_EQ'')"
proof -
  let ?n = "length packet - headerLength"
  have "alloc (GetMaxPlaintextByteSize MEDIA_TYPE_AUDIO (of_nat ?n)) = Inr (replicate (?n - 1) 0)"
    using assms(2-4) unat_of_nat_minus_one [of ?n] by (simp add: alloc_def GetMaxPlaintextByteSize_def)
  moreover have "?n - 1 + 1 \<noteq> ?n - paddingLength" using assms(2,3) by simp
  ultimately show ?thesis using assms
    by (simp add: ReceivePacket_def hc_decr_def Decrypt_def Let_def)
qed

theorem audio_padding_aborts_witness:
  "ReceivePacket GetMaxPlaintextByteSize (hc_decr (\<lambda>n. of_nat n)) (Some (dec0, 0)) False
     (replicate 30 0) 12 4 = Inl (Undefined ''RTC_CHECK_EQ'')"
  by (rule audio_padding_aborts) simp_all

text \<open>C15. Frames received before a decryptor is attached: the first frame handled after the
  attachment makes the receiver deliver the last 24 of them, in order, before that frame, and
  leaves the stash empty.\<close>

theorem stash_then_attach:
  assumes "hc_good dn" and "\<forall>f \<in> set fs \<union> {g}. f \<noteq> [] \<and> length f < 2 ^ 64"
    and "manage_all GetMaxPlaintextByteSize (hc_decr clk) mk_BufferedFrameDecryptor fs = Inr (b, ev)"
  shows "\<exists>b'. ManageEncryptedFrame GetMaxPlaintextByteSize (hc_decr clk) (SetFrameDecryptor b (Some dn)) g
      = Inr (b', OnDecryptionStatusChange kOk
          # map (\<lambda>f. OnDecryptedFrame (hc_plain dn MEDIA_TYPE_VIDEO f)) (drop (length fs - 24) fs @ [g]))
    \<and> stashed_frames b' = []"
proof -
  have b: "b = mk_BufferedFrameDecryptor\<lparr>stashed_frames := drop (length fs - 24) fs\<rparr>"
    using assms(3) manage_detached [of mk_BufferedFrameDecryptor "[]" GetMaxPlaintextByteSize "hc_decr clk" fs]
    by (simp add: mk_BufferedFrameDecryptor_def)
  have "list_all (\<lambda>f. f \<noteq> [] \<and> length f < 2 ^ 64) (drop (length fs - 24) fs)"
    using assms(2) by (auto simp: list_all_iff dest: in_set_dropD)
  then show ?thesis
    using hc.Manage_good [OF _ assms(1), of "SetFrameDecryptor b (Some dn)" g clk] assms(2) b
    by (auto simp: SetFrameDecryptor_def mk_BufferedFrameDecryptor_def)
qed

theorem stash_then_attach_witness:
  "\<exists>b'. ManageEncryptedFrame GetMaxPlaintextByteSize (hc_decr (\<lambda>n. of_nat n))
        (SetFrameDecryptor (mk_BufferedFrameDecryptor\<lparr>stashed_frames := [[1, 0], [2, 0]]\<rparr>) (Some (dec0, 0))) [3, 0]
      = Inr (b', [OnDecryptionStatusChange kOk, OnDecryptedFrame [1], OnDecryptedFrame [2], OnDecryptedFrame [3]])"
proof -
  let ?b = "mk_BufferedFrameDecryptor\<lparr>stashed_frames := [[1, 0], [2, 0]]\<rparr>"
  have m: "manage_all GetMaxPlaintextByteSize (hc_decr (\<lambda>n. of_nat n)) mk_BufferedFrameDecryptor [[1, 0], [2, 0]]
      = Inr (?b, [])"
    by (simp add: ManageEncryptedFrame_def DecryptFrame_def mk_BufferedFrameDecryptor_def kMaxStashedFrames_def Let_def)
  have "hc_good (dec0, 0)" by (simp add: hc_good_def DEFAULT_SM4_CTR_def)
  from stash_then_attach [OF this _ m, of "[3, 0]"] show ?thesis
    by (auto simp: hc_plain_def Let_def)
qed

text \<open>A frame whose key version the receiver does not have is not kept for later: although no
  frame was ever decrypted, the buffered decryptor passes the ciphertext to the decoder and marks
  the stream as decrypted, because HCCryptoDecryptor answers kOk.\<close>

theorem mismatched_frame_not_stashed:
  assumes "hc_good dn" and "frame_decryptor b = Some dn" and "stashed_frames b = []" and "ef \<noteq> []"
    and "length ef < 2 ^ 64" and "last ef AND 0x80 \<noteq> 0"
    and "(ucast (last ef AND 0x7F) :: i32) \<noteq> d_key_version (fst dn)"
  shows "\<exists>b'. ManageEncryptedFrame GetMaxPlaintextByteSize (hc_decr clk) b ef
      = Inr (b', (if last_status b = kOk then [] else [OnDecryptionStatusChange kOk]) @ [OnDecryptedFrame (butlast ef)])
    \<and> stashed_frames b' = []"
  using hc.Manage_good [OF assms(2,1,4,5), of clk] assms(3,6,7) by (auto simp: hc_plain_def Let_def)

theorem mismatched_frame_not_stashed_witness:
  "\<exists>b'. ManageEncryptedFrame GetMaxPlaintextByteSize (hc_decr (\<lambda>n. of_nat n))
      (SetFrameDecryptor mk_BufferedFrameDecryptor (Some (dec0, 0))) [9, 8, 0x85]
      = Inr (b', [OnDecryptionStatusChange kOk, OnDecryptedFrame [9, 8]]) \<and> stashed_frames b' = []"
  using mismatched_frame_not_stashed [of "(dec0, 0)" "SetFrameDecryptor mk_BufferedFrameDecryptor (Some (dec0, 0))"
      "[9, 8, 0x85]" "\<lambda>n. of_nat n"]
  by (simp add: SetFrameDecryptor_def mk_BufferedFrameDecryptor_def hc_good_def DEFAULT_SM4_CTR_def)

end
