(* ===== verification/Json.thy ===== *)
theory Json
  imports Prelude Complex_Main "HOL-Library.Char_ord" "HOL-Library.List_Lexorder"
begin

text \<open>
  The JSON values of nlohmann::json (\<^verbatim>\<open>json.hpp\<close>, version 3.7.3) and the operations of it that the
  media signalling code uses.  An object is an association list in ascending key order, as the
  \<^verbatim>\<open>std::map\<close> behind it.  Floating point numbers are rationals; infinities and NaN, which JSON
  text cannot express, are left out.  Operations that may throw return a result; reading an absent
  key through the const subscript operator is \<open>Undefined\<close>.
\<close>

section \<open>Values\<close>

datatype json =
    JNull
  | JBool bool
  | JInt i64
  | JUInt u64
  | JFloat rat
  | JStr string
  | JArr "json list"
  | JObj "(string \<times> json) list"

fun is_null :: "json \<Rightarrow> bool" where "is_null JNull = True" | "is_null _ = False"
fun is_boolean :: "json \<Rightarrow> bool" where "is_boolean (JBool _) = True" | "is_boolean _ = False"
fun is_number_integer :: "json \<Rightarrow> bool" where
  "is_number_integer (JInt _) = True"
| "is_number_integer (JUInt _) = True"
| "is_number_integer _ = False"
fun is_number_unsigned :: "json \<Rightarrow> bool" where
  "is_number_unsigned (JUInt _) = True"
| "is_number_unsigned _ = False"
fun is_number_float :: "json \<Rightarrow> bool" where
  "is_number_float (JFloat _) = True"
| "is_number_float _ = False"
definition is_number :: "json \<Rightarrow> bool" where
  "is_number j = (is_number_integer j \<or> is_number_float j)"
fun is_string :: "json \<Rightarrow> bool" where "is_string (JStr _) = True" | "is_string _ = False"
fun is_array :: "json \<Rightarrow> bool" where "is_array (JArr _) = True" | "is_array _ = False"
fun is_object :: "json \<Rightarrow> bool" where "is_object (JObj _) = True" | "is_object _ = False"

section \<open>Objects\<close>

type_synonym obj = "(string \<times> json) list"

definition obj_get :: "string \<Rightarrow> obj \<Rightarrow> json option" where
  "obj_get k ps = map_of ps k"

fun obj_set :: "string \<Rightarrow> json \<Rightarrow> obj \<Rightarrow> obj" where
  "obj_set k v [] = [(k, v)]"
| "obj_set k v ((k', v') # ps) =
     (if k < k' then (k, v) # (k', v') # ps else if k = k' then (k, v) # ps else (k', v') # obj_set k v ps)"

definition obj_del :: "string \<Rightarrow> obj \<Rightarrow> obj" where
  "obj_del k ps = filter (\<lambda>p. fst p \<noteq> k) ps"

definition obj_wf :: "obj \<Rightarrow> bool" where
  "obj_wf ps \<longleftrightarrow> sorted (map fst ps) \<and> distinct (map fst ps)"

text \<open>The initialiser list constructor: the first of two equal keys wins.\<close>

definition mk_obj :: "(string \<times> json) list \<Rightarrow> json" where
  "mk_obj kvs = JObj (fold (\<lambda>(k, v) ps. if obj_get k ps = None then obj_set k v ps else ps) kvs [])"

section \<open>Access\<close>

fun jfind :: "json \<Rightarrow> string \<Rightarrow> json option" where
  "jfind (JObj ps) k = obj_get k ps"
| "jfind _ k = None"

definition contains :: "json \<Rightarrow> string \<Rightarrow> bool" where
  "contains j k = (jfind j k \<noteq> None)"

text \<open>\<open>j[key]\<close> on a const value.\<close>

fun at_const :: "json \<Rightarrow> string \<Rightarrow> json result" where
  "at_const (JObj ps) k = (case obj_get k ps of Some v \<Rightarrow> Inr v | None \<Rightarrow> Inl (Undefined ''const operator[]''))"
| "at_const _ k = Inl (JsonTypeError 305)"

text \<open>\<open>j[key]\<close> on a mutable value: null becomes an object and an absent key is inserted as null.
  The result is the updated container and the value.\<close>

fun at_mut :: "json \<Rightarrow> string \<Rightarrow> (json \<times> json) result" where
  "at_mut (JObj ps) k = (case obj_get k ps of Some v \<Rightarrow> Inr (JObj ps, v) | None \<Rightarrow> Inr (JObj (obj_set k JNull ps), JNull))"
| "at_mut JNull k = Inr (JObj [(k, JNull)], JNull)"
| "at_mut _ k = Inl (JsonTypeError 305)"

text \<open>\<open>j[key] = v\<close>.\<close>

fun set_key :: "json \<Rightarrow> string \<Rightarrow> json \<Rightarrow> json result" where
  "set_key (JObj ps) k v = Inr (JObj (obj_set k v ps))"
| "set_key JNull k v = Inr (JObj [(k, v)])"
| "set_key _ k v = Inl (JsonTypeError 305)"

fun erase_key :: "json \<Rightarrow> string \<Rightarrow> json result" where
  "erase_key (JObj ps) k = Inr (JObj (obj_del k ps))"
| "erase_key _ k = Inl (JsonTypeError 307)"

text \<open>\<open>j[idx]\<close> on a mutable value: an array is filled up with nulls.\<close>

fun at_idx :: "json \<Rightarrow> nat \<Rightarrow> (json \<times> json) result" where
  "at_idx (JArr xs) i =
     (let ys = (if length xs \<le> i then xs @ replicate (i - length xs + 1) JNull else xs) in Inr (JArr ys, ys ! i))"
| "at_idx JNull i = Inr (JArr (replicate (i + 1) JNull), JNull)"
| "at_idx _ i = Inl (JsonTypeError 305)"

fun push_back :: "json \<Rightarrow> json \<Rightarrow> json result" where
  "push_back (JArr xs) v = Inr (JArr (xs @ [v]))"
| "push_back JNull v = Inr (JArr [v])"
| "push_back _ v = Inl (JsonTypeError 308)"

fun jsize :: "json \<Rightarrow> nat" where
  "jsize JNull = 0"
| "jsize (JArr xs) = length xs"
| "jsize (JObj ps) = length ps"
| "jsize _ = 1"

definition jempty :: "json \<Rightarrow> bool" where
  "jempty j = (jsize j = 0)"

text \<open>The elements a range-based loop visits.\<close>

fun elems :: "json \<Rightarrow> json list" where
  "elems JNull = []"
| "elems (JArr xs) = xs"
| "elems (JObj ps) = map snd ps"
| "elems j = [j]"

section \<open>Conversions\<close>

fun get_string :: "json \<Rightarrow> string result" where
  "get_string (JStr s) = Inr s"
| "get_string _ = Inl (JsonTypeError 302)"

fun get_bool :: "json \<Rightarrow> bool result" where
  "get_bool (JBool b) = Inr b"
| "get_bool _ = Inl (JsonTypeError 302)"

definition trunc :: "rat \<Rightarrow> int" where
  "trunc q = (if 0 \<le> q then \<lfloor>q\<rfloor> else \<lceil>q\<rceil>)"

text \<open>\<open>get<uint8_t>()\<close> and \<open>get<int32_t>()\<close>: integers wrap, a boolean is 0 or 1; a floating point value is
  truncated, and one whose truncation does not fit is undefined.  \<open>get<size_t>()\<close> is the overload for the
  unsigned type of the library itself, which refuses booleans.\<close>

fun get_u8 :: "json \<Rightarrow> u8 result" where
  "get_u8 (JUInt n) = Inr (ucast n)"
| "get_u8 (JInt n) = Inr (ucast n)"
| "get_u8 (JFloat q) = (if 0 \<le> trunc q \<and> trunc q < 256 then Inr (word_of_int (trunc q)) else Inl (Undefined ''float conversion''))"
| "get_u8 (JBool b) = Inr (of_bool b)"
| "get_u8 _ = Inl (JsonTypeError 302)"

fun get_i32 :: "json \<Rightarrow> i32 result" where
  "get_i32 (JUInt n) = Inr (ucast n)"
| "get_i32 (JInt n) = Inr (ucast n)"
| "get_i32 (JFloat q) = (if - (2 ^ 31) \<le> trunc q \<and> trunc q < 2 ^ 31 then Inr (word_of_int (trunc q)) else Inl (Undefined ''float conversion''))"
| "get_i32 (JBool b) = Inr (of_bool b)"
| "get_i32 _ = Inl (JsonTypeError 302)"

fun get_u64 :: "json \<Rightarrow> u64 result" where
  "get_u64 (JUInt n) = Inr n"
| "get_u64 (JInt n) = Inr n"
| "get_u64 (JFloat q) = (if 0 \<le> trunc q \<and> trunc q < 2 ^ 64 then Inr (word_of_int (trunc q)) else Inl (Undefined ''float conversion''))"
| "get_u64 _ = Inl (JsonTypeError 302)"

section \<open>Equality\<close>

text \<open>\<open>static_cast<double>\<close> of an integer: round to 53 bits, ties to even.\<close>

fun shift_for :: "nat \<Rightarrow> nat \<Rightarrow> nat" where
  "shift_for 0 n = 0"
| "shift_for (Suc fuel) n = (if n < 2 ^ 53 then 0 else Suc (shift_for fuel (n div 2)))"

definition double_of_nat :: "nat \<Rightarrow> nat" where
  "double_of_nat n =
     (let s = shift_for 64 n; q = n div 2 ^ s; r = n mod 2 ^ s; half = 2 ^ s div 2
      in if s = 0 then n else (if half < r \<or> (r = half \<and> odd q) then q + 1 else q) * 2 ^ s)"

definition double_of_int :: "int \<Rightarrow> rat" where
  "double_of_int i = of_int (sgn i * int (double_of_nat (nat \<bar>i\<bar>)))"

fun json_eq :: "json \<Rightarrow> json \<Rightarrow> bool"
and json_eqs :: "json list \<Rightarrow> json list \<Rightarrow> bool"
and json_eqo :: "obj \<Rightarrow> obj \<Rightarrow> bool" where
  "json_eq (JArr xs) (JArr ys) = json_eqs xs ys"
| "json_eq (JObj ps) (JObj qs) = json_eqo ps qs"
| "json_eq JNull JNull = True"
| "json_eq (JStr s) (JStr t) = (s = t)"
| "json_eq (JBool a) (JBool b) = (a = b)"
| "json_eq (JInt a) (JInt b) = (a = b)"
| "json_eq (JUInt a) (JUInt b) = (a = b)"
| "json_eq (JFloat a) (JFloat b) = (a = b)"
| "json_eq (JInt a) (JFloat b) = (double_of_int (sint a) = b)"
| "json_eq (JFloat a) (JInt b) = (a = double_of_int (sint b))"
| "json_eq (JUInt a) (JFloat b) = (double_of_int (uint a) = b)"
| "json_eq (JFloat a) (JUInt b) = (a = double_of_int (uint b))"
| "json_eq (JUInt a) (JInt b) = (a = b)"
| "json_eq (JInt a) (JUInt b) = (a = b)"
| "json_eq _ _ = False"
| "json_eqs [] [] = True"
| "json_eqs (x # xs) (y # ys) = (json_eq x y \<and> json_eqs xs ys)"
| "json_eqs _ _ = False"
| "json_eqo [] [] = True"
| "json_eqo ((k, v) # ps) ((k', v') # qs) = (k = k' \<and> json_eq v v' \<and> json_eqo ps qs)"
| "json_eqo _ _ = False"

section \<open>The laws of objects\<close>

text \<open>
  The contract of a keyed store, which every reader of validated JSON relies on, and what follows
  from it.
\<close>

locale keyed_store =
  fixes get :: "'k \<Rightarrow> 'm \<Rightarrow> 'v option"
    and set :: "'k \<Rightarrow> 'v \<Rightarrow> 'm \<Rightarrow> 'm"
    and del :: "'k \<Rightarrow> 'm \<Rightarrow> 'm"
    and wf :: "'m \<Rightarrow> bool"
  assumes get_set: "get k (set k' v m) = (if k = k' then Some v else get k m)"
    and get_del: "get k (del k' m) = (if k = k' then None else get k m)"
    and wf_set: "wf m \<Longrightarrow> wf (set k v m)"
    and wf_del: "wf m \<Longrightarrow> wf (del k m)"
    and ext: "wf m \<Longrightarrow> wf m' \<Longrightarrow> (\<And>k. get k m = get k m') \<Longrightarrow> m = m'"
begin

lemma set_same: "wf m \<Longrightarrow> get k m = Some v \<Longrightarrow> set k v m = m"
  by (rule ext) (auto simp: wf_set get_set)

lemma set_set: "wf m \<Longrightarrow> set k v (set k w m) = set k v m"
  by (rule ext) (auto simp: wf_set get_set)

lemma set_commute: "wf m \<Longrightarrow> k \<noteq> k' \<Longrightarrow> set k v (set k' w m) = set k' w (set k v m)"
  by (rule ext) (auto simp: wf_set get_set)

lemma del_absent: "wf m \<Longrightarrow> get k m = None \<Longrightarrow> del k m = m"
  by (rule ext) (auto simp: wf_del get_del)

end

lemma obj_get_set: "obj_get k (obj_set k' v ps) = (if k = k' then Some v else obj_get k ps)"
  by (induction k' v ps rule: obj_set.induct) (auto simp: obj_get_def)

lemma obj_get_del: "obj_get k (obj_del k' ps) = (if k = k' then None else obj_get k ps)"
  by (induction ps) (auto simp: obj_get_def obj_del_def)

lemma obj_set_keys: "fst ` set (obj_set k v ps) = insert k (fst ` set ps)"
  by (induction k v ps rule: obj_set.induct) auto

lemma obj_wf_Cons: "obj_wf ((k, v) # ps) \<longleftrightarrow> (\<forall>k' \<in> fst ` set ps. k < k') \<and> obj_wf ps"
  by (auto simp: obj_wf_def less_le)

lemma obj_wf_set: "obj_wf ps \<Longrightarrow> obj_wf (obj_set k v ps)"
proof (induction k v ps rule: obj_set.induct)
  case (2 k v k' v' ps)
  then show ?case by (auto simp: obj_wf_Cons obj_set_keys not_less_iff_gr_or_eq dest: less_trans)
qed (simp add: obj_wf_def)

lemma obj_wf_del: "obj_wf ps \<Longrightarrow> obj_wf (obj_del k ps)"
  by (induction ps) (auto simp: obj_wf_Cons obj_del_def)

lemma obj_get_dom: "obj_get k ps \<noteq> None \<longleftrightarrow> k \<in> fst ` set ps"
  by (simp add: obj_get_def map_of_eq_None_iff)

lemma obj_ext: "obj_wf ps \<Longrightarrow> obj_wf qs \<Longrightarrow> (\<And>k. obj_get k ps = obj_get k qs) \<Longrightarrow> ps = qs"
proof (induction ps arbitrary: qs)
  case Nil
  then show ?case using obj_get_dom [of _ qs] by (cases qs) (fastforce simp: obj_get_def)+
next
  case (Cons p ps)
  obtain k v where p: "p = (k, v)" by force
  then obtain k' v' qs' where qs: "qs = (k', v') # qs'"
    using Cons.prems(3) [of k] by (cases qs) (auto simp: obj_get_def)
  have keys: "fst ` set (p # ps) = fst ` set qs" using Cons.prems(3) obj_get_dom by (metis subsetI subset_antisym)
  have "k = k'"
  proof (rule ccontr)
    assume "k \<noteq> k'"
    then have "k \<in> fst ` set qs'" "k' \<in> fst ` set ps" using keys p qs by auto
    then show False using Cons.prems(1,2) p qs by (auto simp: obj_wf_Cons dest: less_trans)
  qed
  moreover have "v = v'" using Cons.prems(3) [of k] p qs \<open>k = k'\<close> by (simp add: obj_get_def)
  moreover have "ps = qs'"
  proof (rule Cons.IH)
    show "obj_wf ps" "obj_wf qs'" using Cons.prems(1,2) p qs by (simp_all add: obj_wf_Cons)
    fix x
    show "obj_get x ps = obj_get x qs'"
    proof (cases "x = k")
      case True
      then have "x \<notin> fst ` set ps" "x \<notin> fst ` set qs'"
        using Cons.prems(1,2) p qs \<open>k = k'\<close> by (auto simp: obj_wf_Cons)
      then show ?thesis using obj_get_dom by metis
    next
      case False
      then show ?thesis using Cons.prems(3) [of x] p qs \<open>k = k'\<close> by (simp add: obj_get_def)
    qed
  qed
  ultimately show ?case using p qs by simp
qed

interpretation jobj: keyed_store obj_get obj_set obj_del obj_wf
  by unfold_locales (auto simp: obj_get_set obj_get_del obj_wf_set obj_wf_del intro: obj_ext)

lemmas obj_simps = obj_get_set obj_get_del obj_wf_set obj_wf_del

lemma obj_get_Cons: "obj_get k ((k', v) # ps) = (if k = k' then Some v else obj_get k ps)"
  by (simp add: obj_get_def)

lemma obj_get_Nil: "obj_get k [] = None"
  by (simp add: obj_get_def)

lemma json_eqs_refl: "(\<And>x. x \<in> set xs \<Longrightarrow> json_eq x x) \<Longrightarrow> json_eqs xs xs"
  by (induction xs) simp_all

lemma json_eqo_refl: "(\<And>p. p \<in> set ps \<Longrightarrow> json_eq (snd p) (snd p)) \<Longrightarrow> json_eqo ps ps"
  by (induction ps) fastforce+

lemma json_eq_refl [simp]: "json_eq j j"
proof (induction j)
  case (JArr xs)
  then show ?case by (simp add: json_eqs_refl)
next
  case (JObj ps)
  then show ?case by (simp add: json_eqo_refl snds.intros)
qed simp_all

end
