(* ===== verification/Ortc_Validate.thy ===== *)
theory Ortc_Validate
  imports Json
begin

text \<open>
  The validators of \<^verbatim>\<open>ortc.cpp\<close>: they check a JSON value that came from the application or from the
  server and fill in defaults.  Each takes the value and returns the completed value, or what ended the
  call.  The iterators that the code takes with \<^verbatim>\<open>find\<close> are values here, and every access through one
  can fail as it can in the code: reading through \<^verbatim>\<open>end()\<close> or an erased element is undefined, a
  conversion of a value of another type throws the JSON library's exception.  That none of this happens
  is what the equations of \<open>Ortc_Checked\<close> show.
\<close>

section \<open>Iterators\<close>

abbreviation type_error :: "string \<Rightarrow> 'a result" where
  "type_error msg \<equiv> Inl (MscTypeError msg)"

text \<open>What \<^verbatim>\<open>find\<close> returns: the key that the iterator stands at, or \<^verbatim>\<open>end()\<close>.  The \<^verbatim>\<open>std::map\<close> behind an object
  keeps iterators valid while other elements are written.\<close>

type_synonym iter = "string option"

definition find_it :: "json \<Rightarrow> string \<Rightarrow> iter" where
  "find_it j k = (if contains j k then Some k else None)"

definition deref_it :: "iter \<Rightarrow> json \<Rightarrow> json result" where
  "deref_it it j =
     (case it of
        None \<Rightarrow> Inl (Undefined ''end iterator'')
      | Some k \<Rightarrow> (case jfind j k of Some v \<Rightarrow> Inr v | None \<Rightarrow> Inl (Undefined ''erased element'')))"

text \<open>\<^verbatim>\<open>it->is_...()\<close>, \<^verbatim>\<open>it->get<std::string>()\<close> and \<^verbatim>\<open>it->get<std::string>().empty()\<close>.\<close>

definition test_it :: "(json \<Rightarrow> bool) \<Rightarrow> iter \<Rightarrow> json \<Rightarrow> bool result" where
  "test_it p it j = rbind (deref_it it j) (\<lambda>v. Inr (p v))"

definition text_it :: "iter \<Rightarrow> json \<Rightarrow> string result" where
  "text_it it j = rbind (deref_it it j) get_string"

definition empty_text_it :: "iter \<Rightarrow> json \<Rightarrow> bool result" where
  "empty_text_it it j = rbind (text_it it j) (\<lambda>s. Inr (s = []))"

text \<open>The operators \<^verbatim>\<open>||\<close> and \<^verbatim>\<open>&&\<close>, which do not evaluate their right side when the left one decides.\<close>

definition or_else :: "bool result \<Rightarrow> bool result \<Rightarrow> bool result" where
  "or_else a b = rbind a (\<lambda>x. if x then Inr True else b)"

definition and_then :: "bool result \<Rightarrow> bool result \<Rightarrow> bool result" where
  "and_then a b = rbind a (\<lambda>x. if x then b else Inr False)"

text \<open>The conditions that recur: \<^verbatim>\<open>it == end() || !it->is_...()\<close>, \<^verbatim>\<open>it != end() && !it->is_...()\<close>, the same for a
  non-empty string, and \<^verbatim>\<open>it != end() && it->is_...()\<close>.\<close>

definition missing :: "(json \<Rightarrow> bool) \<Rightarrow> iter \<Rightarrow> json \<Rightarrow> bool result" where
  "missing p it j = or_else (Inr (it = None)) (test_it (\<lambda>v. \<not> p v) it j)"

definition invalid :: "(json \<Rightarrow> bool) \<Rightarrow> iter \<Rightarrow> json \<Rightarrow> bool result" where
  "invalid p it j = and_then (Inr (it \<noteq> None)) (test_it (\<lambda>v. \<not> p v) it j)"

definition missing_text :: "iter \<Rightarrow> json \<Rightarrow> bool result" where
  "missing_text it j = or_else (Inr (it = None)) (or_else (test_it (\<lambda>v. \<not> is_string v) it j) (empty_text_it it j))"

definition invalid_text :: "iter \<Rightarrow> json \<Rightarrow> bool result" where
  "invalid_text it j = and_then (Inr (it \<noteq> None)) (or_else (test_it (\<lambda>v. \<not> is_string v) it j) (empty_text_it it j))"

definition given :: "(json \<Rightarrow> bool) \<Rightarrow> iter \<Rightarrow> json \<Rightarrow> bool result" where
  "given p it j = and_then (Inr (it \<noteq> None)) (test_it p it j)"

text \<open>\<^verbatim>\<open>if (c) MSC_THROW_TYPE_ERROR(msg);\<close>, \<^verbatim>\<open>if (c) j[key] = v;\<close> and \<^verbatim>\<open>if (c) { j[key] = v; it = j.find(key); }\<close>.\<close>

definition throw_if :: "bool result \<Rightarrow> string \<Rightarrow> 'a result \<Rightarrow> 'a result" where
  "throw_if c msg rest = rbind c (\<lambda>b. if b then type_error msg else rest)"

definition assign_if :: "bool result \<Rightarrow> string \<Rightarrow> json \<Rightarrow> json \<Rightarrow> json result" where
  "assign_if c k v j = rbind c (\<lambda>b. if b then set_key j k v else Inr j)"

definition assign_found :: "bool result \<Rightarrow> string \<Rightarrow> json \<Rightarrow> iter \<Rightarrow> json \<Rightarrow> (iter \<times> json) result" where
  "assign_found c k v it j =
     rbind c (\<lambda>b. if b then rbind (set_key j k v) (\<lambda>j'. Inr (find_it j' k, j')) else Inr (it, j))"

text \<open>A function that takes \<^verbatim>\<open>*it\<close> by reference, and a range-based loop over a value that does so with each of
  its elements.\<close>

definition at_ref :: "iter \<Rightarrow> (json \<Rightarrow> json result) \<Rightarrow> json \<Rightarrow> json result" where
  "at_ref it f j =
     rbind (deref_it it j) (\<lambda>v. rbind (f v) (\<lambda>w. case it of Some k \<Rightarrow> set_key j k w | None \<Rightarrow> Inr j))"

fun each_ref :: "(json \<Rightarrow> json result) \<Rightarrow> json \<Rightarrow> json result" where
  "each_ref f (JArr xs) = rbind (mapM f xs) (\<lambda>ys. Inr (JArr ys))"
| "each_ref f (JObj ps) = rbind (mapM (\<lambda>(k, v). rbind (f v) (\<lambda>w. Inr (k, w))) ps) (\<lambda>qs. Inr (JObj qs))"
| "each_ref f JNull = Inr JNull"
| "each_ref f j = f j"

text \<open>A loop with an iterator whose \<^verbatim>\<open>key()\<close> is read, which throws for the elements of anything but an object.\<close>

fun each_item :: "(string \<times> json \<Rightarrow> unit result) \<Rightarrow> json \<Rightarrow> unit result" where
  "each_item check (JObj ps) = rbind (mapM check ps) (\<lambda>_. Inr ())"
| "each_item check j = (if elems j = [] then Inr () else Inl (StdException ''invalid_iterator.207''))"

section \<open>Strings\<close>

definition to_lower_char :: "char \<Rightarrow> char" where
  "to_lower_char c = (let n = (of_char c :: nat) in if 65 \<le> n \<and> n \<le> 90 then char_of (n + 32) else c)"

definition to_lower :: "string \<Rightarrow> string" where
  "to_lower s = map to_lower_char s"

text \<open>The case-insensitive regular expression \<^verbatim>\<open>^(audio|video)/(.+)\<close>: its first group, as written.
  The dot matches everything but the two line terminators.\<close>

definition mime_kind :: "string \<Rightarrow> string option" where
  "mime_kind s =
     (if to_lower (take 5 s) \<in> {''audio'', ''video''} \<and> take 1 (drop 5 s) = ''/'' \<and> drop 6 s \<noteq> []
         \<and> list_all (\<lambda>c. of_char c \<noteq> (10 :: nat) \<and> of_char c \<noteq> (13 :: nat)) (drop 6 s)
      then Some (take 5 s) else None)"

text \<open>A case-insensitive match of a whole string against a choice of words.\<close>

definition one_of :: "string list \<Rightarrow> string \<Rightarrow> bool" where
  "one_of ws s = (to_lower s \<in> set ws)"

section \<open>RTP capabilities\<close>

definition validateRtcpFeedback :: "json \<Rightarrow> json result" where
  "validateRtcpFeedback fb =
     (if \<not> is_object fb then type_error ''fb is not an object''
      else
        let typeIt = find_it fb ''type'';
            parameterIt = find_it fb ''parameter''
        in throw_if (missing is_string typeIt fb) ''missing fb.type'' (
           assign_if (missing is_string parameterIt fb) ''parameter'' (JStr '''') fb))"

text \<open>The checks on one entry of a codec's parameters.\<close>

definition check_codec_parameter :: "string \<times> json \<Rightarrow> unit result" where
  "check_codec_parameter kv =
     (case kv of (key, v) \<Rightarrow>
        if \<not> is_string v \<and> \<not> is_number v \<and> \<not> is_null v then type_error ''invalid codec parameter''
        else if key = ''apt'' \<and> \<not> is_number_integer v then type_error ''invalid codec apt parameter''
        else Inr ())"

text \<open>The member \<open>channels\<close> is kept for audio only.\<close>

definition set_channels :: "bool \<Rightarrow> iter \<Rightarrow> json \<Rightarrow> json result" where
  "set_channels audio channelsIt codec =
     (if audio then assign_if (missing is_number_integer channelsIt codec) ''channels'' (JInt 1) codec
      else if channelsIt \<noteq> None then erase_key codec ''channels''
      else Inr codec)"

text \<open>The end of both codec validators: parameters and feedback.\<close>

definition validate_codec_members :: "iter \<Rightarrow> iter \<Rightarrow> json \<Rightarrow> json result" where
  "validate_codec_members parametersIt rtcpFeedbackIt codec =
     rbind (assign_found (missing is_object parametersIt codec) ''parameters'' (JObj []) parametersIt codec) (\<lambda>(parametersIt, codec).
     rbind (rbind (deref_it parametersIt codec) (each_item check_codec_parameter)) (\<lambda>_.
     rbind (assign_found (missing is_array rtcpFeedbackIt codec) ''rtcpFeedback'' (JArr []) rtcpFeedbackIt codec) (\<lambda>(rtcpFeedbackIt, codec).
       at_ref rtcpFeedbackIt (each_ref validateRtcpFeedback) codec)))"

definition validateRtpCodecCapability :: "json \<Rightarrow> json result" where
  "validateRtpCodecCapability codec =
     (if \<not> is_object codec then type_error ''codec is not an object''
      else
        let mimeTypeIt = find_it codec ''mimeType'';
            preferredPayloadTypeIt = find_it codec ''preferredPayloadType'';
            clockRateIt = find_it codec ''clockRate'';
            channelsIt = find_it codec ''channels'';
            parametersIt = find_it codec ''parameters'';
            rtcpFeedbackIt = find_it codec ''rtcpFeedback''
        in throw_if (missing is_string mimeTypeIt codec) ''missing codec.mimeType'' (
           rbind (text_it mimeTypeIt codec) (\<lambda>regexTarget.
           case mime_kind regexTarget of
             None \<Rightarrow> type_error ''invalid codec.mimeType''
           | Some m \<Rightarrow>
               rbind (set_key codec ''kind'' (JStr m)) (\<lambda>codec.
               throw_if (invalid is_number_integer preferredPayloadTypeIt codec) ''invalid codec.preferredPayloadType'' (
               throw_if (missing is_number_integer clockRateIt codec) ''missing codec.clockRate'' (
               rbind (at_mut codec ''kind'') (\<lambda>(codec, kind).
               rbind (set_channels (json_eq kind (JStr ''audio'')) channelsIt codec) (\<lambda>codec.
                 validate_codec_members parametersIt rtcpFeedbackIt codec))))))))"

definition validateRtpHeaderExtension :: "json \<Rightarrow> json result" where
  "validateRtpHeaderExtension ext =
     (if \<not> is_object ext then type_error ''ext is not an object''
      else
        let kindIt = find_it ext ''kind'';
            uriIt = find_it ext ''uri'';
            preferredIdIt = find_it ext ''preferredId'';
            preferredEncryptIt = find_it ext ''preferredEncrypt'';
            directionIt = find_it ext ''direction''
        in throw_if (missing is_string kindIt ext) ''missing ext.kind'' (
           let kindIt = find_it ext ''kind'' in
           rbind (text_it kindIt ext) (\<lambda>kind.
           if kind \<noteq> ''audio'' \<and> kind \<noteq> ''video'' then type_error ''invalid ext.kind''
           else
             throw_if (missing_text uriIt ext) ''missing ext.uri'' (
             throw_if (missing is_number_integer preferredIdIt ext) ''missing ext.preferredId'' (
             throw_if (invalid is_boolean preferredEncryptIt ext) ''invalid ext.preferredEncrypt'' (
             rbind (assign_if (Inr (preferredEncryptIt = None)) ''preferredEncrypt'' (JBool False) ext) (\<lambda>ext.
             throw_if (invalid is_string directionIt ext) ''invalid ext.direction'' (
             assign_if (Inr (directionIt = None)) ''direction'' (JStr ''sendrecv'') ext))))))))"

definition validateRtpCapabilities :: "json \<Rightarrow> json result" where
  "validateRtpCapabilities caps =
     (if \<not> is_object caps then type_error ''caps is not an object''
      else
        let codecsIt = find_it caps ''codecs'';
            headerExtensionsIt = find_it caps ''headerExtensions''
        in throw_if (invalid is_array codecsIt caps) ''caps.codecs is not an array'' (
           rbind (assign_found (Inr (codecsIt = None)) ''codecs'' (JArr []) codecsIt caps) (\<lambda>(codecsIt, caps).
           rbind (at_ref codecsIt (each_ref validateRtpCodecCapability) caps) (\<lambda>caps.
           throw_if (invalid is_array headerExtensionsIt caps) ''caps.headerExtensions is not an array'' (
           rbind (assign_found (Inr (headerExtensionsIt = None)) ''headerExtensions'' (JArr []) headerExtensionsIt caps)
             (\<lambda>(headerExtensionsIt, caps).
           rbind (at_ref headerExtensionsIt (each_ref validateRtpHeaderExtension) caps) (\<lambda>caps.
             Inr caps)))))))"

section \<open>RTP parameters\<close>

definition validateRtpCodecParameters :: "json \<Rightarrow> json result" where
  "validateRtpCodecParameters codec =
     (if \<not> is_object codec then type_error ''codec is not an object''
      else
        let mimeTypeIt = find_it codec ''mimeType'';
            payloadTypeIt = find_it codec ''payloadType'';
            clockRateIt = find_it codec ''clockRate'';
            channelsIt = find_it codec ''channels'';
            parametersIt = find_it codec ''parameters'';
            rtcpFeedbackIt = find_it codec ''rtcpFeedback''
        in throw_if (missing is_string mimeTypeIt codec) ''missing codec.mimeType'' (
           rbind (text_it mimeTypeIt codec) (\<lambda>regexTarget.
           case mime_kind regexTarget of
             None \<Rightarrow> type_error ''invalid codec.mimeType''
           | Some kind \<Rightarrow>
               throw_if (missing is_number_integer payloadTypeIt codec) ''missing codec.payloadType'' (
               throw_if (missing is_number_integer clockRateIt codec) ''missing codec.clockRate'' (
               rbind (set_channels (kind = ''audio'') channelsIt codec) (\<lambda>codec.
                 validate_codec_members parametersIt rtcpFeedbackIt codec))))))"

definition check_ext_parameter :: "json \<Rightarrow> unit result" where
  "check_ext_parameter v =
     (if \<not> is_string v \<and> \<not> is_number v then type_error ''invalid header extension parameter'' else Inr ())"

definition validateRtpHeaderExtensionParameters :: "json \<Rightarrow> json result" where
  "validateRtpHeaderExtensionParameters ext =
     (if \<not> is_object ext then type_error ''ext is not an object''
      else
        let uriIt = find_it ext ''uri'';
            idIt = find_it ext ''id'';
            encryptIt = find_it ext ''encrypt'';
            parametersIt = find_it ext ''parameters''
        in throw_if (missing_text uriIt ext) ''missing ext.uri'' (
           throw_if (missing is_number_integer idIt ext) ''missing ext.id'' (
           throw_if (invalid is_boolean encryptIt ext) ''invalid ext.encrypt'' (
           rbind (assign_if (Inr (encryptIt = None)) ''encrypt'' (JBool False) ext) (\<lambda>ext.
           rbind (assign_found (missing is_object parametersIt ext) ''parameters'' (JObj []) parametersIt ext) (\<lambda>(parametersIt, ext).
           rbind (deref_it parametersIt ext) (\<lambda>ps.
           rbind (mapM check_ext_parameter (elems ps)) (\<lambda>_. Inr ext))))))))"

text \<open>The RTX block of an encoding.\<close>

definition check_rtx :: "iter \<Rightarrow> json \<Rightarrow> unit result" where
  "check_rtx rtxIt encoding =
     (if rtxIt \<noteq> None
      then rbind (deref_it rtxIt encoding) (\<lambda>rtx.
           let rtxSsrcIt = find_it rtx ''ssrc''
           in throw_if (missing is_number_integer rtxSsrcIt rtx) ''missing encoding.rtx.ssrc'' (Inr ()))
      else Inr ())"

definition validateRtpEncodingParameters :: "json \<Rightarrow> json result" where
  "validateRtpEncodingParameters encoding =
     (if \<not> is_object encoding then type_error ''encoding is not an object''
      else
        let ssrcIt = find_it encoding ''ssrc'';
            ridIt = find_it encoding ''rid'';
            rtxIt = find_it encoding ''rtx'';
            dtxIt = find_it encoding ''dtx'';
            scalabilityModeIt = find_it encoding ''scalabilityMode''
        in throw_if (invalid is_number_integer ssrcIt encoding) ''invalid encoding.ssrc'' (
           throw_if (invalid_text ridIt encoding) ''invalid encoding.rid'' (
           throw_if (invalid is_object rtxIt encoding) ''invalid encoding.rtx'' (
           rbind (check_rtx rtxIt encoding) (\<lambda>_.
           rbind (assign_if (missing is_boolean dtxIt encoding) ''dtx'' (JBool False) encoding) (\<lambda>encoding.
           throw_if (invalid_text scalabilityModeIt encoding) ''invalid encoding.scalabilityMode'' (
             Inr encoding)))))))"

definition validateRtcpParameters :: "json \<Rightarrow> json result" where
  "validateRtcpParameters rtcp =
     (if \<not> is_object rtcp then type_error ''rtcp is not an object''
      else
        let cnameIt = find_it rtcp ''cname'';
            reducedSizeIt = find_it rtcp ''reducedSize''
        in throw_if (invalid is_string cnameIt rtcp) ''invalid rtcp.cname'' (
           assign_if (missing is_boolean reducedSizeIt rtcp) ''reducedSize'' (JBool True) rtcp))"

definition validateRtpParameters :: "json \<Rightarrow> json result" where
  "validateRtpParameters params =
     (if \<not> is_object params then type_error ''params is not an object''
      else
        let midIt = find_it params ''mid'';
            codecsIt = find_it params ''codecs'';
            headerExtensionsIt = find_it params ''headerExtensions'';
            encodingsIt = find_it params ''encodings'';
            rtcpIt = find_it params ''rtcp''
        in throw_if (invalid_text midIt params) ''params.mid is not a string'' (
           throw_if (missing is_array codecsIt params) ''missing params.codecs'' (
           rbind (at_ref codecsIt (each_ref validateRtpCodecParameters) params) (\<lambda>params.
           throw_if (invalid is_array headerExtensionsIt params) ''params.headerExtensions is not an array'' (
           rbind (assign_found (Inr (headerExtensionsIt = None)) ''headerExtensions'' (JArr []) headerExtensionsIt params)
             (\<lambda>(headerExtensionsIt, params).
           rbind (at_ref headerExtensionsIt (each_ref validateRtpHeaderExtensionParameters) params) (\<lambda>params.
           throw_if (invalid is_array encodingsIt params) ''params.encodings is not an array'' (
           rbind (assign_found (Inr (encodingsIt = None)) ''encodings'' (JArr []) encodingsIt params) (\<lambda>(encodingsIt, params).
           rbind (at_ref encodingsIt (each_ref validateRtpEncodingParameters) params) (\<lambda>params.
           throw_if (invalid is_object rtcpIt params) ''params.rtcp is not an object'' (
           rbind (assign_found (Inr (rtcpIt = None)) ''rtcp'' (JObj []) rtcpIt params) (\<lambda>(rtcpIt, params).
             at_ref rtcpIt validateRtcpParameters params))))))))))))"

section \<open>SCTP, ICE and DTLS\<close>

definition validateNumSctpStreams :: "json \<Rightarrow> json result" where
  "validateNumSctpStreams numStreams =
     (if \<not> is_object numStreams then type_error ''numStreams is not an object''
      else
        let osIt = find_it numStreams ''OS'';
            misIt = find_it numStreams ''MIS''
        in throw_if (missing is_number_integer osIt numStreams) ''missing numStreams.OS'' (
           throw_if (missing is_number_integer misIt numStreams) ''missing numStreams.MIS'' (
             Inr numStreams)))"

definition validateSctpCapabilities :: "json \<Rightarrow> json result" where
  "validateSctpCapabilities caps =
     (if \<not> is_object caps then type_error ''caps is not an object''
      else
        let numStreamsIt = find_it caps ''numStreams''
        in throw_if (missing is_object numStreamsIt caps) ''missing caps.numStreams'' (
             at_ref numStreamsIt validateNumSctpStreams caps))"

definition validateSctpParameters :: "json \<Rightarrow> json result" where
  "validateSctpParameters params =
     (if \<not> is_object params then type_error ''params is not an object''
      else
        let portIt = find_it params ''port'';
            osIt = find_it params ''OS'';
            misIt = find_it params ''MIS'';
            maxMessageSizeIt = find_it params ''maxMessageSize''
        in throw_if (missing is_number_integer portIt params) ''missing params.port'' (
           throw_if (missing is_number_integer osIt params) ''missing params.OS'' (
           throw_if (missing is_number_integer misIt params) ''missing params.MIS'' (
           throw_if (missing is_number_integer maxMessageSizeIt params) ''missing params.maxMessageSize'' (
             Inr params)))))"

text \<open>\<^verbatim>\<open>params["ordered"] == true\<close> is evaluated only when the member was given.\<close>

definition validateSctpStreamParameters :: "json \<Rightarrow> json result" where
  "validateSctpStreamParameters params =
     (if \<not> is_object params then type_error ''params is not an object''
      else
        let streamIdIt = find_it params ''streamId'';
            orderedIt = find_it params ''ordered'';
            maxPacketLifeTimeIt = find_it params ''maxPacketLifeTime'';
            maxRetransmitsIt = find_it params ''maxRetransmits'';
            labelIt = find_it params ''label'';
            protocolIt = find_it params ''protocol''
        in throw_if (missing is_number_integer streamIdIt params) ''missing params.streamId'' (
           rbind (given is_boolean orderedIt params) (\<lambda>orderedGiven.
           rbind (assign_if (Inr (\<not> orderedGiven)) ''ordered'' (JBool True) params) (\<lambda>params.
           rbind (assign_if (missing is_number_integer maxPacketLifeTimeIt params) ''maxPacketLifeTime'' (JUInt 0) params) (\<lambda>params.
           rbind (assign_if (missing is_number_integer maxRetransmitsIt params) ''maxRetransmits'' (JUInt 0) params) (\<lambda>params.
           if maxPacketLifeTimeIt \<noteq> None \<and> maxRetransmitsIt \<noteq> None
           then type_error ''cannot provide both maxPacketLifeTime and maxRetransmits''
           else
             rbind (if orderedGiven then rbind (at_mut params ''ordered'') (\<lambda>(params, v). Inr (params, json_eq v (JBool True)))
                    else Inr (params, False)) (\<lambda>(params, isOrdered).
             if orderedGiven \<and> isOrdered \<and> (maxPacketLifeTimeIt \<noteq> None \<or> maxRetransmitsIt \<noteq> None)
             then type_error ''cannot be ordered with maxPacketLifeTime or maxRetransmits''
             else
               rbind (assign_if (Inr (\<not> orderedGiven \<and> (maxPacketLifeTimeIt \<noteq> None \<or> maxRetransmitsIt \<noteq> None)))
                        ''ordered'' (JBool False) params) (\<lambda>params.
               rbind (assign_if (missing is_string labelIt params) ''label'' (JStr '''') params) (\<lambda>params.
                 assign_if (missing is_string protocolIt params) ''protocol'' (JStr '''') params)))))))))"

definition validateIceParameters :: "json \<Rightarrow> json result" where
  "validateIceParameters params =
     (if \<not> is_object params then type_error ''params is not an object''
      else
        let usernameFragmentIt = find_it params ''usernameFragment'';
            passwordIt = find_it params ''password'';
            iceLiteIt = find_it params ''iceLite''
        in throw_if (missing_text usernameFragmentIt params) ''missing params.usernameFragment'' (
           throw_if (missing_text passwordIt params) ''missing params.password'' (
             assign_if (missing is_boolean iceLiteIt params) ''iceLite'' (JBool False) params)))"

definition validateIceCandidate :: "json \<Rightarrow> json result" where
  "validateIceCandidate params =
     (if \<not> is_object params then type_error ''params is not an object''
      else
        let foundationIt = find_it params ''foundation'';
            priorityIt = find_it params ''priority'';
            ipIt = find_it params ''ip'';
            protocolIt = find_it params ''protocol'';
            portIt = find_it params ''port'';
            typeIt = find_it params ''type''
        in throw_if (missing_text foundationIt params) ''missing params.foundation'' (
           throw_if (missing is_number_unsigned priorityIt params) ''missing params.priority'' (
           throw_if (missing_text ipIt params) ''missing params.ip'' (
           throw_if (missing_text protocolIt params) ''missing params.protocol'' (
           rbind (text_it protocolIt params) (\<lambda>regexTarget.
           if \<not> one_of [''udp'', ''tcp''] regexTarget then type_error ''invalid params.protocol''
           else
             throw_if (missing is_number_unsigned portIt params) ''missing params.port'' (
             throw_if (missing_text typeIt params) ''missing params.type'' (
             rbind (text_it typeIt params) (\<lambda>regexTarget.
             if \<not> one_of [''host'', ''srflx'', ''prflx'', ''relay''] regexTarget then type_error ''invalid params.type''
             else Inr params)))))))))"

definition validateIceCandidates :: "json \<Rightarrow> json result" where
  "validateIceCandidates params =
     (if \<not> is_array params then type_error ''params is not an array''
      else each_ref validateIceCandidate params)"

definition validateDtlsFingerprint :: "json \<Rightarrow> json result" where
  "validateDtlsFingerprint params =
     (if \<not> is_object params then type_error ''params is not an object''
      else
        let algorithmIt = find_it params ''algorithm'';
            valueIt = find_it params ''value''
        in throw_if (missing_text algorithmIt params) ''missing params.algorithm'' (
           throw_if (missing_text valueIt params) ''missing params.value'' (
             Inr params)))"

definition validateDtlsParameters :: "json \<Rightarrow> json result" where
  "validateDtlsParameters params =
     (if \<not> is_object params then type_error ''params is not an object''
      else
        let roleIt = find_it params ''role'';
            fingerprintsIt = find_it params ''fingerprints''
        in throw_if (missing_text roleIt params) ''missing params.role'' (
           rbind (text_it roleIt params) (\<lambda>regexTarget.
           if \<not> one_of [''auto'', ''client'', ''server''] regexTarget then type_error ''invalid params.role''
           else
             throw_if (or_else (missing is_array fingerprintsIt params) (test_it jempty fingerprintsIt params))
               ''missing params.fingerprints'' (
             at_ref fingerprintsIt (each_ref validateDtlsFingerprint) params))))"

definition validateProducerCodecOptions :: "json \<Rightarrow> json result" where
  "validateProducerCodecOptions params =
     (if \<not> is_object params then type_error ''params is not an object''
      else
        throw_if (invalid is_boolean (find_it params ''opusStereo'') params) ''invalid params.opusStereo'' (
        throw_if (invalid is_boolean (find_it params ''opusFec'') params) ''invalid params.opusFec'' (
        throw_if (invalid is_boolean (find_it params ''opusDtx'') params) ''invalid params.opusDtx'' (
        throw_if (invalid is_boolean (find_it params ''opusCbr'') params) ''invalid params.opusCbr'' (
        throw_if (invalid is_number_unsigned (find_it params ''opusMaxPlaybackRate'') params) ''invalid params.opusMaxPlaybackRate'' (
        throw_if (invalid is_number_unsigned (find_it params ''opusMaxAverageBitrate'') params) ''invalid params.opusMaxAverageBitrate'' (
        throw_if (invalid is_number_integer (find_it params ''opusPtime'') params) ''invalid params.opusPtime'' (
        throw_if (invalid is_number_integer (find_it params ''videoGoogleStartBitrate'') params) ''invalid params.videoGoogleStartBitrate'' (
        throw_if (invalid is_number_integer (find_it params ''videoGoogleMaxBitrate'') params) ''invalid params.videoGoogleMaxBitrate'' (
        throw_if (invalid is_number_integer (find_it params ''videoGoogleMinBitrate'') params) ''invalid params.videoGoogleMinBitrate'' (
          Inr params)))))))))))"

end
