(* ===== verification/Ortc_Checked.thy ===== *)
theory Ortc_Checked
  imports Ortc_Validate
begin

text \<open>
  The validators without iterators.  Every access of a validator comes after the check that makes it
  safe, so that each validator equals a plain sequence of tests on the object it was given, stated with
  \<open>has\<close>, \<open>optional\<close> and \<open>fill\<close>.  These equations are what the theories above use.
\<close>

section \<open>Tests on an object\<close>

text \<open>The key is present and its value satisfies \<open>p\<close>; the key is absent or its value does.\<close>

definition has :: "(json \<Rightarrow> bool) \<Rightarrow> string \<Rightarrow> obj \<Rightarrow> bool" where
  "has p k ps = (case obj_get k ps of Some v \<Rightarrow> p v | None \<Rightarrow> False)"

definition optional :: "(json \<Rightarrow> bool) \<Rightarrow> string \<Rightarrow> obj \<Rightarrow> bool" where
  "optional p k ps = (case obj_get k ps of Some v \<Rightarrow> p v | None \<Rightarrow> True)"

definition fill :: "(json \<Rightarrow> bool) \<Rightarrow> string \<Rightarrow> json \<Rightarrow> obj \<Rightarrow> obj" where
  "fill p k dflt ps = (if has p k ps then ps else obj_set k dflt ps)"

fun nonempty_string :: "json \<Rightarrow> bool" where
  "nonempty_string (JStr s) = (s \<noteq> [])"
| "nonempty_string _ = False"

fun word_of :: "string list \<Rightarrow> json \<Rightarrow> bool" where
  "word_of ws (JStr s) = (to_lower s \<in> set ws)"
| "word_of ws _ = False"

definition rtx_ok :: "json \<Rightarrow> bool" where
  "rtx_ok rtx = (case rtx of JObj qs \<Rightarrow> has is_number_integer ''ssrc'' qs | _ \<Rightarrow> False)"

text \<open>A loop over the array under a key that validates every element in place, and one over parameters.\<close>

definition validate_elems :: "(json \<Rightarrow> json result) \<Rightarrow> string \<Rightarrow> obj \<Rightarrow> obj result" where
  "validate_elems f k ps =
     (case obj_get k ps of
        Some (JArr xs) \<Rightarrow> rbind (mapM f xs) (\<lambda>ys. Inr (obj_set k (JArr ys) ps))
      | _ \<Rightarrow> Inr ps)"

definition check_parameters :: "(string \<times> json \<Rightarrow> unit result) \<Rightarrow> obj \<Rightarrow> unit result" where
  "check_parameters check ps =
     (case obj_get ''parameters'' ps of
        Some (JObj qs) \<Rightarrow> rbind (mapM check qs) (\<lambda>_. Inr ())
      | _ \<Rightarrow> Inr ())"

section \<open>Lemmas on the helpers\<close>

lemma has_set: "has p k (obj_set k' v ps) = (if k = k' then p v else has p k ps)"
  by (simp add: has_def obj_get_set)

lemma has_del: "has p k (obj_del k' ps) = (k \<noteq> k' \<and> has p k ps)"
  by (simp add: has_def obj_get_del)

lemma optional_set: "optional p k (obj_set k' v ps) = (if k = k' then p v else optional p k ps)"
  by (simp add: optional_def obj_get_set)

lemma optional_del: "optional p k (obj_del k' ps) = (k = k' \<or> optional p k ps)"
  by (simp add: optional_def obj_get_del)

lemma has_optional: "has p k ps \<Longrightarrow> optional p k ps"
  by (simp add: has_def optional_def split: option.splits)

lemma obj_get_fill:
  "obj_get k (fill p k' d ps) = (if k = k' \<and> \<not> has p k ps then Some d else obj_get k ps)"
  by (auto simp: fill_def obj_get_set)

lemma has_fill: "has q k (fill p k' d ps) = (if k = k' then (if has p k ps then has q k ps else q d) else has q k ps)"
  by (auto simp: fill_def has_set)

lemma optional_fill:
  "optional q k (fill p k' d ps) = (if k = k' then (if has p k ps then optional q k ps else q d) else optional q k ps)"
  by (auto simp: fill_def optional_set)

lemma wf_fill: "obj_wf ps \<Longrightarrow> obj_wf (fill p k d ps)"
  by (simp add: fill_def obj_wf_set)

lemma fill_idle [simp]: "has p k ps \<Longrightarrow> fill p k d ps = ps"
  by (simp add: fill_def)

lemmas key_simps = has_set has_del optional_set optional_del has_fill optional_fill obj_get_fill
  obj_get_set obj_get_del

abbreviation check_ext_entry :: "string \<times> json \<Rightarrow> unit result" where
  "check_ext_entry \<equiv> \<lambda>kv. check_ext_parameter (snd kv)"

section \<open>Accesses that are safe\<close>

lemma find_it_obj: "find_it (JObj ps) k = (if obj_get k ps = None then None else Some k)"
  by (simp add: find_it_def contains_def)

lemma find_it_None [simp]: "find_it (JObj ps) k = None \<longleftrightarrow> obj_get k ps = None"
  by (simp add: find_it_obj)

lemma rbind_assoc: "rbind (rbind m f) g = rbind m (\<lambda>x. rbind (f x) g)"
  by (cases m) simp_all

lemma find_it_Some [simp]: "(\<exists>y. find_it (JObj ps) k = Some y) \<longleftrightarrow> obj_get k ps \<noteq> None"
  by (simp add: find_it_obj)

lemma throw_if_Inr [simp]: "throw_if (Inr b) msg rest = (if b then type_error msg else rest)"
  by (simp add: throw_if_def)

lemma assign_if_Inr: "assign_if (Inr b) k v (JObj ps) = Inr (JObj (if b then obj_set k v ps else ps))"
  by (simp add: assign_if_def)

lemma assign_if_missing [simp]:
  "obj_get k qs = obj_get k ps \<Longrightarrow> assign_if (Inr (\<not> has p k ps)) k v (JObj qs) = Inr (JObj (fill p k v qs))"
  by (simp add: assign_if_Inr fill_def has_def)

lemma assign_if_absent [simp]:
  "obj_get k qs = obj_get k ps \<Longrightarrow> optional p k ps \<Longrightarrow>
     assign_if (Inr (obj_get k ps = None)) k v (JObj qs) = Inr (JObj (fill p k v qs))"
  by (auto simp: assign_if_Inr fill_def has_def optional_def split: option.splits)

text \<open>An iterator that was taken from \<open>ps\<close> is used after other members were written, which gave \<open>qs\<close>.\<close>

lemma tests_safe [simp]:
  assumes "obj_get k qs = obj_get k ps"
  shows "missing p (find_it (JObj ps) k) (JObj qs) = Inr (\<not> has p k ps)"
    and "invalid p (find_it (JObj ps) k) (JObj qs) = Inr (\<not> optional p k ps)"
    and "given p (find_it (JObj ps) k) (JObj qs) = Inr (has p k ps)"
    and "missing_text (find_it (JObj ps) k) (JObj qs) = Inr (\<not> has nonempty_string k ps)"
    and "invalid_text (find_it (JObj ps) k) (JObj qs) = Inr (\<not> optional nonempty_string k ps)"
proof -
  note access = find_it_obj missing_def invalid_def given_def missing_text_def invalid_text_def or_else_def and_then_def test_it_def
    empty_text_it_def text_it_def deref_it_def has_def optional_def assms
  show "missing p (find_it (JObj ps) k) (JObj qs) = Inr (\<not> has p k ps)"
    "invalid p (find_it (JObj ps) k) (JObj qs) = Inr (\<not> optional p k ps)"
    "given p (find_it (JObj ps) k) (JObj qs) = Inr (has p k ps)"
    by (auto simp: access split: option.splits)
  show "missing_text (find_it (JObj ps) k) (JObj qs) = Inr (\<not> has nonempty_string k ps)"
    "invalid_text (find_it (JObj ps) k) (JObj qs) = Inr (\<not> optional nonempty_string k ps)"
    by (cases "obj_get k ps"; (cases "the (obj_get k ps)")?; simp add: access)+
qed

lemma text_it_safe [simp]:
  "obj_get k ps = Some (JStr s) \<Longrightarrow> obj_get k qs = Some (JStr s) \<Longrightarrow> text_it (find_it (JObj ps) k) (JObj qs) = Inr s"
  by (simp add: text_it_def find_it_obj deref_it_def)

lemma assign_found_missing [simp]:
  "obj_get k qs = obj_get k ps \<Longrightarrow>
     assign_found (Inr (\<not> has p k ps)) k v (find_it (JObj ps) k) (JObj qs) = Inr (Some k, JObj (fill p k v qs))"
  by (auto simp: assign_found_def find_it_obj fill_def has_def obj_get_set)

lemma assign_found_absent:
  "obj_get k qs = obj_get k ps \<Longrightarrow> optional p k ps \<Longrightarrow>
     assign_found (Inr (obj_get k ps = None)) k v (find_it (JObj ps) k) (JObj qs) = Inr (Some k, JObj (fill p k v qs))"
  by (auto simp: assign_found_def find_it_obj fill_def has_def optional_def obj_get_set split: option.splits)

lemma at_ref_some: "obj_get k qs = Some v \<Longrightarrow> at_ref (Some k) f (JObj qs) = rbind (f v) (\<lambda>w. Inr (JObj (obj_set k w qs)))"
  by (simp add: at_ref_def deref_it_def)

lemma at_ref_elems [simp]:
  "has is_array k qs \<Longrightarrow> at_ref (Some k) (each_ref f) (JObj qs) = rbind (validate_elems f k qs) (\<lambda>ps. Inr (JObj ps))"
  by (auto simp: has_def validate_elems_def at_ref_some rbind_def split: option.splits sum.splits elim!: is_array.elims)

lemma each_item_parameters [simp]:
  "has is_object ''parameters'' qs \<Longrightarrow>
     rbind (deref_it (Some ''parameters'') (JObj qs)) (each_item check) = check_parameters check qs"
  by (auto simp: has_def check_parameters_def deref_it_def split: option.splits elim!: is_object.elims)

lemma validate_elems_other: "validate_elems f k ps = Inr qs \<Longrightarrow> k' \<noteq> k \<Longrightarrow> obj_get k' qs = obj_get k' ps"
  by (auto simp: validate_elems_def rbind_Inr_iff obj_get_set split: option.splits json.splits)

lemma found: "has p k ps \<Longrightarrow> find_it (JObj ps) k = Some k"
  by (auto simp: has_def find_it_obj split: option.splits)

lemmas absent = assign_found_absent [where p = is_array] assign_found_absent [where p = is_object]

lemma at_ref_found: "obj_get k ps = Some v \<Longrightarrow> at_ref (find_it (JObj ps) k) f (JObj ps) = rbind (f v) (\<lambda>w. Inr (JObj (obj_set k w ps)))"
  by (simp add: find_it_obj at_ref_some)

lemma at_ref_found_elems [simp]:
  "has is_array k ps \<Longrightarrow> at_ref (find_it (JObj ps) k) (each_ref f) (JObj ps) = rbind (validate_elems f k ps) (\<lambda>qs. Inr (JObj qs))"
  by (simp add: found)

section \<open>The validators as plain tests\<close>

lemma validateRtcpFeedback_eq:
  "validateRtcpFeedback fb =
     (case fb of
        JObj ps \<Rightarrow>
          if \<not> has is_string ''type'' ps then type_error ''missing fb.type''
          else Inr (JObj (fill is_string ''parameter'' (JStr '''') ps))
      | _ \<Rightarrow> type_error ''fb is not an object'')"
  by (cases fb) (simp_all add: validateRtcpFeedback_def Let_def)

lemma validateIceParameters_eq:
  "validateIceParameters params =
     (case params of
        JObj ps \<Rightarrow>
          if \<not> has nonempty_string ''usernameFragment'' ps then type_error ''missing params.usernameFragment''
          else if \<not> has nonempty_string ''password'' ps then type_error ''missing params.password''
          else Inr (JObj (fill is_boolean ''iceLite'' (JBool False) ps))
      | _ \<Rightarrow> type_error ''params is not an object'')"
  by (cases params) (simp_all add: validateIceParameters_def Let_def)

lemma validateNumSctpStreams_eq:
  "validateNumSctpStreams numStreams =
     (case numStreams of
        JObj ps \<Rightarrow>
          if \<not> has is_number_integer ''OS'' ps then type_error ''missing numStreams.OS''
          else if \<not> has is_number_integer ''MIS'' ps then type_error ''missing numStreams.MIS''
          else Inr numStreams
      | _ \<Rightarrow> type_error ''numStreams is not an object'')"
  by (cases numStreams) (simp_all add: validateNumSctpStreams_def Let_def)

lemma validateSctpParameters_eq:
  "validateSctpParameters params =
     (case params of
        JObj ps \<Rightarrow>
          if \<not> has is_number_integer ''port'' ps then type_error ''missing params.port''
          else if \<not> has is_number_integer ''OS'' ps then type_error ''missing params.OS''
          else if \<not> has is_number_integer ''MIS'' ps then type_error ''missing params.MIS''
          else if \<not> has is_number_integer ''maxMessageSize'' ps then type_error ''missing params.maxMessageSize''
          else Inr params
      | _ \<Rightarrow> type_error ''params is not an object'')"
  by (cases params) (simp_all add: validateSctpParameters_def Let_def)

lemma validateDtlsFingerprint_eq:
  "validateDtlsFingerprint params =
     (case params of
        JObj ps \<Rightarrow>
          if \<not> has nonempty_string ''algorithm'' ps then type_error ''missing params.algorithm''
          else if \<not> has nonempty_string ''value'' ps then type_error ''missing params.value''
          else Inr params
      | _ \<Rightarrow> type_error ''params is not an object'')"
  by (cases params) (simp_all add: validateDtlsFingerprint_def Let_def)

lemma validateProducerCodecOptions_eq:
  "validateProducerCodecOptions params =
     (case params of
        JObj ps \<Rightarrow>
          if \<not> optional is_boolean ''opusStereo'' ps then type_error ''invalid params.opusStereo''
          else if \<not> optional is_boolean ''opusFec'' ps then type_error ''invalid params.opusFec''
          else if \<not> optional is_boolean ''opusDtx'' ps then type_error ''invalid params.opusDtx''
          else if \<not> optional is_boolean ''opusCbr'' ps then type_error ''invalid params.opusCbr''
          else if \<not> optional is_number_unsigned ''opusMaxPlaybackRate'' ps
          then type_error ''invalid params.opusMaxPlaybackRate''
          else if \<not> optional is_number_unsigned ''opusMaxAverageBitrate'' ps
          then type_error ''invalid params.opusMaxAverageBitrate''
          else if \<not> optional is_number_integer ''opusPtime'' ps then type_error ''invalid params.opusPtime''
          else if \<not> optional is_number_integer ''videoGoogleStartBitrate'' ps
          then type_error ''invalid params.videoGoogleStartBitrate''
          else if \<not> optional is_number_integer ''videoGoogleMaxBitrate'' ps
          then type_error ''invalid params.videoGoogleMaxBitrate''
          else if \<not> optional is_number_integer ''videoGoogleMinBitrate'' ps
          then type_error ''invalid params.videoGoogleMinBitrate''
          else Inr params
      | _ \<Rightarrow> type_error ''params is not an object'')"
  by (cases params) (simp_all add: validateProducerCodecOptions_def Let_def)

lemma validateRtcpParameters_eq:
  "validateRtcpParameters rtcp =
     (case rtcp of
        JObj ps \<Rightarrow>
          if \<not> optional is_string ''cname'' ps then type_error ''invalid rtcp.cname''
          else Inr (JObj (fill is_boolean ''reducedSize'' (JBool True) ps))
      | _ \<Rightarrow> type_error ''rtcp is not an object'')"
  by (cases rtcp) (simp_all add: validateRtcpParameters_def Let_def)

lemma obj_del_absent: "obj_get k ps = None \<Longrightarrow> obj_del k ps = ps"
  by (force simp: obj_get_def obj_del_def map_of_eq_None_iff filter_id_conv)

lemma set_channels_safe [simp]:
  "obj_get ''channels'' qs = obj_get ''channels'' ps \<Longrightarrow> set_channels audio (find_it (JObj ps) ''channels'') (JObj qs)
     = Inr (JObj (if audio then fill is_number_integer ''channels'' (JInt 1) qs else obj_del ''channels'' qs))"
  by (auto simp: set_channels_def obj_del_absent)

lemma codec_members_safe [simp]:
  assumes "obj_get ''parameters'' qs = obj_get ''parameters'' ps" and "obj_get ''rtcpFeedback'' qs = obj_get ''rtcpFeedback'' ps"
  shows "validate_codec_members (find_it (JObj ps) ''parameters'') (find_it (JObj ps) ''rtcpFeedback'') (JObj qs) =
    (let ps3 = fill is_object ''parameters'' (JObj []) qs; ps4 = fill is_array ''rtcpFeedback'' (JArr []) ps3
     in rbind (check_parameters check_codec_parameter ps3) (\<lambda>_.
        rbind (validate_elems validateRtcpFeedback ''rtcpFeedback'' ps4) (\<lambda>ps5. Inr (JObj ps5))))"
  using assms by (simp add: validate_codec_members_def key_simps Let_def cong: rbind_cong)

lemma string_cases:
  obtains "obj_get k ps = None" | v where "obj_get k ps = Some v" "\<not> is_string v" | s where "obj_get k ps = Some (JStr s)"
  by (cases "obj_get k ps"; (cases "the (obj_get k ps)")?) auto

lemma validateRtpCodecCapability_eq:
  "validateRtpCodecCapability codec =
     (case codec of
        JObj ps \<Rightarrow>
          (case obj_get ''mimeType'' ps of
             Some (JStr mimeType) \<Rightarrow>
               (case mime_kind mimeType of
                  None \<Rightarrow> type_error ''invalid codec.mimeType''
                | Some kind \<Rightarrow>
                    let ps1 = obj_set ''kind'' (JStr kind) ps
                    in if \<not> optional is_number_integer ''preferredPayloadType'' ps
                       then type_error ''invalid codec.preferredPayloadType''
                       else if \<not> has is_number_integer ''clockRate'' ps
                       then type_error ''missing codec.clockRate''
                       else
                         let ps2 = (if kind = ''audio'' then fill is_number_integer ''channels'' (JInt 1) ps1
                                    else obj_del ''channels'' ps1);
                             ps3 = fill is_object ''parameters'' (JObj []) ps2
                         in rbind (check_parameters check_codec_parameter ps3) (\<lambda>_.
                            let ps4 = fill is_array ''rtcpFeedback'' (JArr []) ps3
                            in rbind (validate_elems validateRtcpFeedback ''rtcpFeedback'' ps4) (\<lambda>ps5.
                               Inr (JObj ps5))))
           | _ \<Rightarrow> type_error ''missing codec.mimeType'')
      | _ \<Rightarrow> type_error ''codec is not an object'')"
proof (cases codec)
  case (JObj ps)
  show ?thesis
  proof (cases rule: string_cases [of "''mimeType''" ps])
    case (2 v)
    then show ?thesis by (cases v) (simp_all add: JObj validateRtpCodecCapability_def has_def Let_def)
  next
    case (3 s)
    then have "has is_string ''mimeType'' ps" by (simp add: has_def)
    then show ?thesis
      using 3 by (auto simp: JObj validateRtpCodecCapability_def key_simps Let_def split: option.split cong: rbind_cong)
  qed (simp add: JObj validateRtpCodecCapability_def has_def Let_def)
qed (simp_all add: validateRtpCodecCapability_def)

lemma validateRtpCodecParameters_eq:
  "validateRtpCodecParameters codec =
     (case codec of
        JObj ps \<Rightarrow>
          (case obj_get ''mimeType'' ps of
             Some (JStr mimeType) \<Rightarrow>
               (case mime_kind mimeType of
                  None \<Rightarrow> type_error ''invalid codec.mimeType''
                | Some kind \<Rightarrow>
                    if \<not> has is_number_integer ''payloadType'' ps then type_error ''missing codec.payloadType''
                    else if \<not> has is_number_integer ''clockRate'' ps then type_error ''missing codec.clockRate''
                    else
                      let ps2 = (if kind = ''audio'' then fill is_number_integer ''channels'' (JInt 1) ps
                                 else obj_del ''channels'' ps);
                          ps3 = fill is_object ''parameters'' (JObj []) ps2
                      in rbind (check_parameters check_codec_parameter ps3) (\<lambda>_.
                         let ps4 = fill is_array ''rtcpFeedback'' (JArr []) ps3
                         in rbind (validate_elems validateRtcpFeedback ''rtcpFeedback'' ps4) (\<lambda>ps5.
                            Inr (JObj ps5))))
           | _ \<Rightarrow> type_error ''missing codec.mimeType'')
      | _ \<Rightarrow> type_error ''codec is not an object'')"
proof (cases codec)
  case (JObj ps)
  show ?thesis
  proof (cases rule: string_cases [of "''mimeType''" ps])
    case (2 v)
    then show ?thesis by (cases v) (simp_all add: JObj validateRtpCodecParameters_def has_def Let_def)
  next
    case (3 s)
    then have "has is_string ''mimeType'' ps" by (simp add: has_def)
    then show ?thesis
      using 3 by (auto simp: JObj validateRtpCodecParameters_def key_simps Let_def split: option.split cong: rbind_cong)
  qed (simp add: JObj validateRtpCodecParameters_def has_def Let_def)
qed (simp_all add: validateRtpCodecParameters_def)

lemma validateRtpHeaderExtension_eq:
  "validateRtpHeaderExtension ext =
     (case ext of
        JObj ps \<Rightarrow>
          (case obj_get ''kind'' ps of
             Some (JStr kind) \<Rightarrow>
               if kind \<noteq> ''audio'' \<and> kind \<noteq> ''video'' then type_error ''invalid ext.kind''
               else if \<not> has nonempty_string ''uri'' ps then type_error ''missing ext.uri''
               else if \<not> has is_number_integer ''preferredId'' ps then type_error ''missing ext.preferredId''
               else if \<not> optional is_boolean ''preferredEncrypt'' ps then type_error ''invalid ext.preferredEncrypt''
               else
                 let ps1 = fill is_boolean ''preferredEncrypt'' (JBool False) ps
                 in if \<not> optional is_string ''direction'' ps then type_error ''invalid ext.direction''
                    else Inr (JObj (fill is_string ''direction'' (JStr ''sendrecv'') ps1))
           | _ \<Rightarrow> type_error ''missing ext.kind'')
      | _ \<Rightarrow> type_error ''ext is not an object'')"
proof (cases ext)
  case (JObj ps)
  show ?thesis
  proof (cases rule: string_cases [of "''kind''" ps])
    case (2 v)
    then show ?thesis by (cases v) (simp_all add: JObj validateRtpHeaderExtension_def has_def Let_def)
  next
    case (3 s)
    then have "has is_string ''kind'' ps" by (simp add: has_def)
    then show ?thesis using 3 by (auto simp: JObj validateRtpHeaderExtension_def key_simps Let_def)
  qed (simp add: JObj validateRtpHeaderExtension_def has_def Let_def)
qed (simp_all add: validateRtpHeaderExtension_def)

text \<open>An optional array that is validated element by element.\<close>

lemma array_step:
  "obj_get k qs = obj_get k ps \<Longrightarrow>
     throw_if (invalid is_array (find_it (JObj ps) k) (JObj qs)) msg (
       rbind (assign_found (Inr (find_it (JObj ps) k = None)) k (JArr []) (find_it (JObj ps) k) (JObj qs)) (\<lambda>(it, j).
       rbind (at_ref it (each_ref f) j) rest))
     = (if \<not> optional is_array k ps then type_error msg
        else rbind (validate_elems f k (fill is_array k (JArr []) qs)) (\<lambda>rs. rest (JObj rs)))"
  by (auto simp: absent key_simps rbind_assoc)

lemma validateRtpCapabilities_eq:
  "validateRtpCapabilities caps =
     (case caps of
        JObj ps \<Rightarrow>
          if \<not> optional is_array ''codecs'' ps then type_error ''caps.codecs is not an array''
          else
            rbind (validate_elems validateRtpCodecCapability ''codecs'' (fill is_array ''codecs'' (JArr []) ps)) (\<lambda>ps1.
            if \<not> optional is_array ''headerExtensions'' ps
            then type_error ''caps.headerExtensions is not an array''
            else
              rbind (validate_elems validateRtpHeaderExtension ''headerExtensions''
                       (fill is_array ''headerExtensions'' (JArr []) ps1)) (\<lambda>ps2.
              Inr (JObj ps2)))
      | _ \<Rightarrow> type_error ''caps is not an object'')"
proof (cases caps)
  case (JObj ps)
  have "obj_get ''headerExtensions'' qs = obj_get ''headerExtensions'' ps"
    if "validate_elems validateRtpCodecCapability ''codecs'' (fill is_array ''codecs'' (JArr []) ps) = Inr qs" for qs
    using validate_elems_other [OF that] by (simp add: key_simps)
  then show ?thesis
    unfolding JObj validateRtpCapabilities_def Let_def array_step [OF refl] by (auto simp: array_step simp del: find_it_None tests_safe(2) intro!: rbind_cong)
qed (simp_all add: validateRtpCapabilities_def)

lemma mapM_snd: "mapM f (map snd kvs) = mapM (\<lambda>kv. f (snd kv)) kvs"
  by (induction kvs) simp_all

lemma each_value_parameters [simp]:
  "has is_object ''parameters'' qs \<Longrightarrow> rbind (deref_it (Some ''parameters'') (JObj qs)) (\<lambda>v. rbind (mapM check (elems v)) (\<lambda>_. r))
     = rbind (check_parameters (\<lambda>kv. check (snd kv)) qs) (\<lambda>_. r)"
  by (auto simp: has_def check_parameters_def deref_it_def mapM_snd rbind_assoc split: option.splits elim!: is_object.elims)

lemma validateRtpHeaderExtensionParameters_eq:
  "validateRtpHeaderExtensionParameters ext =
     (case ext of
        JObj ps \<Rightarrow>
          if \<not> has nonempty_string ''uri'' ps then type_error ''missing ext.uri''
          else if \<not> has is_number_integer ''id'' ps then type_error ''missing ext.id''
          else if \<not> optional is_boolean ''encrypt'' ps then type_error ''invalid ext.encrypt''
          else
            let ps1 = fill is_boolean ''encrypt'' (JBool False) ps;
                ps2 = fill is_object ''parameters'' (JObj []) ps1
            in rbind (check_parameters check_ext_entry ps2) (\<lambda>_. Inr (JObj ps2))
      | _ \<Rightarrow> type_error ''ext is not an object'')"
  by (cases ext) (auto simp: validateRtpHeaderExtensionParameters_def Let_def key_simps)

lemma check_rtx_safe [simp]:
  "optional is_object ''rtx'' ps \<Longrightarrow> check_rtx (find_it (JObj ps) ''rtx'') (JObj ps)
     = (if optional rtx_ok ''rtx'' ps then Inr () else type_error ''missing encoding.rtx.ssrc'')"
  by (auto simp: optional_def check_rtx_def find_it_obj [of ps] deref_it_def rtx_ok_def split: option.splits elim!: is_object.elims)

lemma validateRtpEncodingParameters_eq:
  "validateRtpEncodingParameters encoding =
     (case encoding of
        JObj ps \<Rightarrow>
          if \<not> optional is_number_integer ''ssrc'' ps then type_error ''invalid encoding.ssrc''
          else if \<not> optional nonempty_string ''rid'' ps then type_error ''invalid encoding.rid''
          else if \<not> optional is_object ''rtx'' ps then type_error ''invalid encoding.rtx''
          else if \<not> optional rtx_ok ''rtx'' ps then type_error ''missing encoding.rtx.ssrc''
          else
            let ps1 = fill is_boolean ''dtx'' (JBool False) ps
            in if \<not> optional nonempty_string ''scalabilityMode'' ps
               then type_error ''invalid encoding.scalabilityMode''
               else Inr (JObj ps1)
      | _ \<Rightarrow> type_error ''encoding is not an object'')"
  by (cases encoding) (auto simp: validateRtpEncodingParameters_def Let_def key_simps)

lemma validateRtpParameters_eq:
  "validateRtpParameters params =
     (case params of
        JObj ps \<Rightarrow>
          if \<not> optional nonempty_string ''mid'' ps then type_error ''params.mid is not a string''
          else if \<not> has is_array ''codecs'' ps then type_error ''missing params.codecs''
          else
            rbind (validate_elems validateRtpCodecParameters ''codecs'' ps) (\<lambda>ps1.
            if \<not> optional is_array ''headerExtensions'' ps
            then type_error ''params.headerExtensions is not an array''
            else
              rbind (validate_elems validateRtpHeaderExtensionParameters ''headerExtensions''
                       (fill is_array ''headerExtensions'' (JArr []) ps1)) (\<lambda>ps2.
              if \<not> optional is_array ''encodings'' ps then type_error ''params.encodings is not an array''
              else
                rbind (validate_elems validateRtpEncodingParameters ''encodings''
                         (fill is_array ''encodings'' (JArr []) ps2)) (\<lambda>ps3.
                if \<not> optional is_object ''rtcp'' ps then type_error ''params.rtcp is not an object''
                else
                  let ps4 = fill is_object ''rtcp'' (JObj []) ps3
                  in rbind (validateRtcpParameters (the (obj_get ''rtcp'' ps4))) (\<lambda>rtcp.
                     Inr (JObj (obj_set ''rtcp'' rtcp ps4))))))
      | _ \<Rightarrow> type_error ''params is not an object'')"
proof (cases params)
  case (JObj ps)
  have rtcp: "throw_if (invalid is_object (find_it (JObj ps) ''rtcp'') (JObj qs)) ''params.rtcp is not an object''
        (rbind (assign_found (Inr (find_it (JObj ps) ''rtcp'' = None)) ''rtcp'' (JObj []) (find_it (JObj ps) ''rtcp'') (JObj qs))
          (\<lambda>(it, j). at_ref it validateRtcpParameters j))
      = (if \<not> optional is_object ''rtcp'' ps then type_error ''params.rtcp is not an object''
         else let ps4 = fill is_object ''rtcp'' (JObj []) qs
              in rbind (validateRtcpParameters (the (obj_get ''rtcp'' ps4))) (\<lambda>rtcp. Inr (JObj (obj_set ''rtcp'' rtcp ps4))))"
    if "obj_get ''rtcp'' qs = obj_get ''rtcp'' ps" for qs
  proof -
    have "obj_get ''rtcp'' (fill is_object ''rtcp'' (JObj []) qs) = Some (the (obj_get ''rtcp'' (fill is_object ''rtcp'' (JObj []) qs)))"
      by (auto simp: obj_get_fill has_def split: option.splits)
    from at_ref_some [OF this] show ?thesis using that by (auto simp: absent Let_def)
  qed
  have kept: "obj_get k' rs = obj_get k' ps"
    if "validate_elems f k (fill p k d qs) = Inr rs" and "obj_get k' qs = obj_get k' ps" and "k' \<noteq> k" for f k k' p d qs rs
    using validate_elems_other [OF that(1,3)] that(2,3) by (simp add: obj_get_fill)
  have first: "obj_get k qs = obj_get k ps" if "validate_elems validateRtpCodecParameters ''codecs'' ps = Inr qs" and "k \<noteq> ''codecs''" for k qs
    using validate_elems_other [OF that] .
  show ?thesis
  proof (cases "optional nonempty_string ''mid'' ps \<and> has is_array ''codecs'' ps")
    case True
    then show ?thesis
      apply (simp add: JObj validateRtpParameters_def rbind_assoc Let_def del: find_it_None tests_safe(2))
      apply (rule rbind_cong [OF refl])
      apply (subst array_step, simp add: first)
      apply (rule if_cong [OF refl refl rbind_cong [OF refl]])
      apply (subst array_step, simp add: first kept)
      apply (rule if_cong [OF refl refl rbind_cong [OF refl]])
      apply (subst rtcp, simp add: first kept)
      apply (simp add: Let_def)
      done
  qed (auto simp: JObj validateRtpParameters_def Let_def)
qed (simp_all add: validateRtpParameters_def)

lemma validateSctpCapabilities_eq:
  "validateSctpCapabilities caps =
     (case caps of
        JObj ps \<Rightarrow>
          (case obj_get ''numStreams'' ps of
             Some (JObj qs) \<Rightarrow>
               rbind (validateNumSctpStreams (JObj qs)) (\<lambda>n. Inr (JObj (obj_set ''numStreams'' n ps)))
           | _ \<Rightarrow> type_error ''missing caps.numStreams'')
      | _ \<Rightarrow> type_error ''caps is not an object'')"
proof (cases caps)
  case (JObj ps)
  show ?thesis
  proof (cases "has is_object ''numStreams'' ps")
    case True
    then obtain qs where "obj_get ''numStreams'' ps = Some (JObj qs)"
      by (auto simp: has_def split: option.splits elim!: is_object.elims)
    then show ?thesis using True by (simp add: JObj validateSctpCapabilities_def at_ref_found)
  next
    case False
    then show ?thesis by (auto simp: JObj validateSctpCapabilities_def has_def split: option.splits json.splits)
  qed
qed (simp_all add: validateSctpCapabilities_def)

lemma assign_if_bool [simp]: "assign_if (Inr True) k v j = set_key j k v" "assign_if (Inr False) k v j = Inr j"
  by (simp_all add: assign_if_def)

lemma validateSctpStreamParameters_eq:
  "validateSctpStreamParameters params =
     (case params of
        JObj ps \<Rightarrow>
          if \<not> has is_number_integer ''streamId'' ps then type_error ''missing params.streamId''
          else
            let orderedGiven = has is_boolean ''ordered'' ps;
                lifeTimeGiven = (obj_get ''maxPacketLifeTime'' ps \<noteq> None);
                retransmitsGiven = (obj_get ''maxRetransmits'' ps \<noteq> None);
                ps1 = fill is_boolean ''ordered'' (JBool True) ps;
                ps2 = fill is_number_integer ''maxPacketLifeTime'' (JUInt 0) ps1;
                ps3 = fill is_number_integer ''maxRetransmits'' (JUInt 0) ps2
            in if lifeTimeGiven \<and> retransmitsGiven
               then type_error ''cannot provide both maxPacketLifeTime and maxRetransmits''
               else if orderedGiven \<and> has (\<lambda>v. json_eq v (JBool True)) ''ordered'' ps3
                       \<and> (lifeTimeGiven \<or> retransmitsGiven)
               then type_error ''cannot be ordered with maxPacketLifeTime or maxRetransmits''
               else
                 let ps4 = (if \<not> orderedGiven \<and> (lifeTimeGiven \<or> retransmitsGiven)
                            then obj_set ''ordered'' (JBool False) ps3 else ps3);
                     ps5 = fill is_string ''label'' (JStr '''') ps4;
                     ps6 = fill is_string ''protocol'' (JStr '''') ps5
                 in Inr (JObj ps6)
      | _ \<Rightarrow> type_error ''params is not an object'')"
proof (cases params)
  case (JObj ps)
  show ?thesis
  proof (cases "has is_boolean ''ordered'' ps")
    case True
    then obtain b where "obj_get ''ordered'' ps = Some (JBool b)"
      by (auto simp: has_def split: option.splits elim!: is_boolean.elims)
    with True show ?thesis
      by (cases "obj_get ''maxPacketLifeTime'' ps"; cases "obj_get ''maxRetransmits'' ps")
        (simp_all add: JObj validateSctpStreamParameters_def key_simps has_def [of "\<lambda>v. json_eq v (JBool True)"] Let_def)
  next
    case False
    then show ?thesis
      by (cases "obj_get ''maxPacketLifeTime'' ps"; cases "obj_get ''maxRetransmits'' ps")
        (simp_all add: JObj validateSctpStreamParameters_def key_simps fill_def [of is_boolean] Let_def)
  qed
qed (simp_all add: validateSctpStreamParameters_def)

lemma one_of_safe [simp]:
  "has nonempty_string k ps \<Longrightarrow> rbind (text_it (find_it (JObj ps) k) (JObj ps)) (\<lambda>s. if \<not> one_of ws s then a else b)
     = (if \<not> has (word_of ws) k ps then a else b)"
  by (cases rule: string_cases [of k ps]) (auto simp: has_def one_of_def elim!: nonempty_string.elims)

lemma nonempty_array_safe:
  "or_else (missing is_array (find_it (JObj ps) k) (JObj ps)) (test_it jempty (find_it (JObj ps) k) (JObj ps))
     = Inr (\<not> has (\<lambda>v. is_array v \<and> \<not> jempty v) k ps)"
  unfolding or_else_def tests_safe(1) [OF refl] by (auto simp: has_def test_it_def deref_it_def find_it_obj split: option.splits)

lemma validateIceCandidate_eq:
  "validateIceCandidate params =
     (case params of
        JObj ps \<Rightarrow>
          if \<not> has nonempty_string ''foundation'' ps then type_error ''missing params.foundation''
          else if \<not> has is_number_unsigned ''priority'' ps then type_error ''missing params.priority''
          else if \<not> has nonempty_string ''ip'' ps then type_error ''missing params.ip''
          else if \<not> has nonempty_string ''protocol'' ps then type_error ''missing params.protocol''
          else if \<not> has (word_of [''udp'', ''tcp'']) ''protocol'' ps then type_error ''invalid params.protocol''
          else if \<not> has is_number_unsigned ''port'' ps then type_error ''missing params.port''
          else if \<not> has nonempty_string ''type'' ps then type_error ''missing params.type''
          else if \<not> has (word_of [''host'', ''srflx'', ''prflx'', ''relay'']) ''type'' ps
          then type_error ''invalid params.type''
          else Inr params
      | _ \<Rightarrow> type_error ''params is not an object'')"
  by (cases params) (auto simp: validateIceCandidate_def Let_def)

lemma validateIceCandidates_eq:
  "validateIceCandidates params =
     (case params of
        JArr xs \<Rightarrow> rbind (mapM validateIceCandidate xs) (\<lambda>ys. Inr (JArr ys))
      | _ \<Rightarrow> type_error ''params is not an array'')"
  by (cases params) (auto simp: validateIceCandidates_def)

lemma nonempty_array: "has (\<lambda>v. is_array v \<and> \<not> jempty v) k ps \<Longrightarrow> has is_array k ps"
  by (auto simp: has_def split: option.splits)

lemma validateDtlsParameters_eq:
  "validateDtlsParameters params =
     (case params of
        JObj ps \<Rightarrow>
          if \<not> has nonempty_string ''role'' ps then type_error ''missing params.role''
          else if \<not> has (word_of [''auto'', ''client'', ''server'']) ''role'' ps
          then type_error ''invalid params.role''
          else if \<not> has (\<lambda>v. is_array v \<and> \<not> jempty v) ''fingerprints'' ps
          then type_error ''missing params.fingerprints''
          else rbind (validate_elems validateDtlsFingerprint ''fingerprints'' ps) (\<lambda>ps1. Inr (JObj ps1))
      | _ \<Rightarrow> type_error ''params is not an object'')"
proof (cases params)
  case (JObj ps)
  show ?thesis
    unfolding JObj validateDtlsParameters_def Let_def nonempty_array_safe by (auto simp: nonempty_array)
qed (simp_all add: validateDtlsParameters_def)

end
