(* ===== verification/Ortc_Contract.thy ===== *)
theory Ortc_Contract
  imports Ortc_Checked
begin

text \<open>
  What the validators promise.  Every validator comes with a predicate that says what a completed
  value looks like; the locale \<open>validator\<close> states the contract once: an accepted value satisfies
  the predicate, a value that satisfies it is accepted unchanged, and the only exception is the
  library's TypeError.  The validators are interpreted one by one, and the properties about
  idempotence and about arbitrary input follow from the locale.
\<close>

section \<open>Well-formed JSON\<close>

text \<open>All objects are in key order, as \<^verbatim>\<open>std::map\<close> keeps them.\<close>

fun jwf :: "json \<Rightarrow> bool" where
  "jwf (JArr xs) = list_all jwf xs"
| "jwf (JObj ps) = (obj_wf ps \<and> list_all (\<lambda>p. jwf (snd p)) ps)"
| "jwf _ = True"

lemma obj_get_set_mem: "obj_get k ps = Some v \<Longrightarrow> (k, v) \<in> set ps"
  by (simp add: obj_get_def map_of_SomeD)

lemma jwf_get: "jwf (JObj ps) \<Longrightarrow> obj_get k ps = Some v \<Longrightarrow> jwf v"
  by (force simp: list_all_iff dest: obj_get_set_mem)

lemma obj_set_mem: "p \<in> set (obj_set k v ps) \<Longrightarrow> p = (k, v) \<or> p \<in> set ps"
  by (induction k v ps rule: obj_set.induct) (auto split: if_splits)

lemma jwf_set: "jwf (JObj ps) \<Longrightarrow> jwf v \<Longrightarrow> jwf (JObj (obj_set k v ps))"
  by (auto simp: obj_wf_set list_all_iff dest!: obj_set_mem)

lemma jwf_fill: "jwf (JObj ps) \<Longrightarrow> jwf d \<Longrightarrow> jwf (JObj (fill p k d ps))"
  by (simp add: fill_def jwf_set del: jwf.simps)

lemma jwf_del: "jwf (JObj ps) \<Longrightarrow> jwf (JObj (obj_del k ps))"
  using obj_wf_del [of ps k] by (auto simp: list_all_iff) (auto simp: obj_del_def)

lemma jwf_obj_wf: "jwf (JObj ps) \<Longrightarrow> obj_wf ps"
  by simp

lemma mapM_Inl: "mapM f xs = Inl e \<Longrightarrow> \<exists>x \<in> set xs. f x = Inl e"
  by (induction xs) (auto simp: rbind_Inl_iff)

lemma mapM_same: "(\<And>x. x \<in> set xs \<Longrightarrow> f x = Inr x) \<Longrightarrow> mapM f xs = Inr xs"
  by (induction xs) simp_all

text \<open>An array whose elements satisfy \<open>p\<close>; an object whose entries do.\<close>

fun arr_of :: "(json \<Rightarrow> bool) \<Rightarrow> json \<Rightarrow> bool" where
  "arr_of p (JArr xs) = list_all p xs"
| "arr_of p _ = False"

fun obj_of :: "(string \<times> json \<Rightarrow> bool) \<Rightarrow> json \<Rightarrow> bool" where
  "obj_of p (JObj ps) = list_all p ps"
| "obj_of p _ = False"

lemma arr_of_is_array: "arr_of p v \<Longrightarrow> is_array v"
  by (cases v) simp_all

lemma obj_of_is_object: "obj_of p v \<Longrightarrow> is_object v"
  by (cases v) simp_all

lemma has_mono: "has p k ps \<Longrightarrow> (\<And>v. p v \<Longrightarrow> q v) \<Longrightarrow> has q k ps"
  by (simp add: has_def split: option.splits)

lemma has_arr_array: "has (arr_of p) k ps \<Longrightarrow> has is_array k ps"
  using has_mono arr_of_is_array by blast

lemma has_obj_object: "has (obj_of p) k ps \<Longrightarrow> has is_object k ps"
  using has_mono obj_of_is_object by blast

section \<open>The contract\<close>

locale validator =
  fixes v :: "json \<Rightarrow> json result"
    and ok :: "json \<Rightarrow> bool"
  assumes sound: "jwf j \<Longrightarrow> v j = Inr j' \<Longrightarrow> ok j' \<and> jwf j'"
    and idle: "jwf j \<Longrightarrow> ok j \<Longrightarrow> v j = Inr j"
    and errors: "v j = Inl e \<Longrightarrow> \<exists>msg. e = MscTypeError msg"
begin

lemma idempotent: "jwf j \<Longrightarrow> v j = Inr j' \<Longrightarrow> v j' = Inr j'"
  using sound idle by blast

lemma accepts_iff: "jwf j \<Longrightarrow> v j = Inr j \<longleftrightarrow> ok j"
  using sound idle by blast

lemma mapM_sound: "list_all jwf xs \<Longrightarrow> mapM v xs = Inr ys \<Longrightarrow> list_all ok ys \<and> list_all jwf ys"
  using mapM_all [of v xs ys "\<lambda>y. ok y \<and> jwf y"] sound by (fastforce simp: list_all_iff)

lemma mapM_idle: "list_all jwf xs \<Longrightarrow> list_all ok xs \<Longrightarrow> mapM v xs = Inr xs"
  using mapM_same [of xs v] idle by (simp add: list_all_iff)

lemma elems_sound:
  assumes "jwf (JObj ps)" and "has is_array k ps" and "validate_elems v k ps = Inr ps'"
  shows "has (arr_of ok) k ps' \<and> jwf (JObj ps') \<and> (\<forall>k'. k' \<noteq> k \<longrightarrow> obj_get k' ps' = obj_get k' ps)"
proof -
  obtain xs where xs: "obj_get k ps = Some (JArr xs)"
    using assms(2) by (auto simp: has_def split: option.splits elim: is_array.elims)
  then have "list_all jwf xs" using jwf_get [OF assms(1)] by fastforce
  moreover obtain ys where "mapM v xs = Inr ys" "ps' = obj_set k (JArr ys) ps"
    using assms(3) xs by (auto simp: validate_elems_def rbind_Inr_iff)
  ultimately show ?thesis
    using mapM_sound [of xs ys] jwf_set [OF assms(1), of "JArr ys" k] by (auto simp: key_simps)
qed

lemma elems_idle:
  assumes "jwf (JObj ps)" and "has (arr_of ok) k ps"
  shows "validate_elems v k ps = Inr ps"
proof -
  obtain xs where xs: "obj_get k ps = Some (JArr xs)" "list_all ok xs"
    using assms(2) by (auto simp: has_def split: option.splits elim: arr_of.elims)
  then have "list_all jwf xs" using jwf_get [OF assms(1)] by fastforce
  then show ?thesis
    using xs mapM_idle [of xs] jobj.set_same [OF jwf_obj_wf [OF assms(1)] xs(1)]
    by (simp add: validate_elems_def)
qed

lemma elems_errors: "validate_elems v k ps = Inl e \<Longrightarrow> \<exists>msg. e = MscTypeError msg"
  using errors by (auto simp: validate_elems_def rbind_Inl_iff dest!: mapM_Inl split: option.splits json.splits)

end

text \<open>The loops that only check an object's entries.\<close>

lemma check_parameters_ok:
  assumes "\<And>p. check p = Inr () \<longleftrightarrow> q p" and "has is_object ''parameters'' ps"
  shows "check_parameters check ps = Inr () \<longleftrightarrow> has (obj_of q) ''parameters'' ps"
proof -
  obtain qs where qs: "obj_get ''parameters'' ps = Some (JObj qs)"
    using assms(2) by (auto simp: has_def split: option.splits elim: is_object.elims)
  have "(\<exists>us. mapM check qs = Inr us) \<longleftrightarrow> list_all q qs"
    using assms(1) by (induction qs) (auto simp: rbind_Inr_iff)
  then show ?thesis using qs by (auto simp: check_parameters_def has_def rbind_Inr_iff)
qed

lemma check_parameters_errors:
  assumes "\<And>p e. check p = Inl e \<Longrightarrow> \<exists>msg. e = MscTypeError msg" and "check_parameters check ps = Inl e"
  shows "\<exists>msg. e = MscTypeError msg"
  using assms by (auto simp: check_parameters_def rbind_Inl_iff dest!: mapM_Inl split: option.splits json.splits)

section \<open>What completed values look like\<close>

definition feedback_ok :: "json \<Rightarrow> bool" where
  "feedback_ok j = (case j of JObj ps \<Rightarrow> has is_string ''type'' ps \<and> has is_string ''parameter'' ps | _ \<Rightarrow> False)"

definition codec_parameter_ok :: "string \<times> json \<Rightarrow> bool" where
  "codec_parameter_ok kv \<longleftrightarrow> (is_string (snd kv) \<or> is_number (snd kv) \<or> is_null (snd kv))
     \<and> (fst kv = ''apt'' \<longrightarrow> is_number_integer (snd kv))"

text \<open>The part of a codec that capabilities and parameters share; \<open>kind\<close> is that of its MIME type.\<close>

definition codec_base_ok :: "obj \<Rightarrow> string \<Rightarrow> bool" where
  "codec_base_ok ps kind \<longleftrightarrow>
     (\<exists>m. obj_get ''mimeType'' ps = Some (JStr m) \<and> mime_kind m = Some kind) \<and>
     has is_number_integer ''clockRate'' ps \<and>
     (if kind = ''audio'' then has is_number_integer ''channels'' ps else obj_get ''channels'' ps = None) \<and>
     has (obj_of codec_parameter_ok) ''parameters'' ps \<and> has (arr_of feedback_ok) ''rtcpFeedback'' ps"

definition codec_capability_ok :: "json \<Rightarrow> bool" where
  "codec_capability_ok j = (case j of JObj ps \<Rightarrow>
     (\<exists>kind. codec_base_ok ps kind \<and> obj_get ''kind'' ps = Some (JStr kind)
        \<and> optional is_number_integer ''preferredPayloadType'' ps) | _ \<Rightarrow> False)"

definition codec_parameters_ok :: "json \<Rightarrow> bool" where
  "codec_parameters_ok j = (case j of JObj ps \<Rightarrow>
     (\<exists>kind. codec_base_ok ps kind) \<and> has is_number_integer ''payloadType'' ps | _ \<Rightarrow> False)"

definition header_extension_ok :: "json \<Rightarrow> bool" where
  "header_extension_ok j = (case j of JObj ps \<Rightarrow>
     obj_get ''kind'' ps \<in> {Some (JStr ''audio''), Some (JStr ''video'')} \<and> has nonempty_string ''uri'' ps
     \<and> has is_number_integer ''preferredId'' ps \<and> has is_boolean ''preferredEncrypt'' ps
     \<and> has is_string ''direction'' ps | _ \<Rightarrow> False)"

definition rtp_capabilities_ok :: "json \<Rightarrow> bool" where
  "rtp_capabilities_ok j = (case j of JObj ps \<Rightarrow>
     has (arr_of codec_capability_ok) ''codecs'' ps \<and> has (arr_of header_extension_ok) ''headerExtensions'' ps
     | _ \<Rightarrow> False)"

definition ext_parameter_ok :: "string \<times> json \<Rightarrow> bool" where
  "ext_parameter_ok kv \<longleftrightarrow> is_string (snd kv) \<or> is_number (snd kv)"

definition header_extension_parameters_ok :: "json \<Rightarrow> bool" where
  "header_extension_parameters_ok j = (case j of JObj ps \<Rightarrow>
     has nonempty_string ''uri'' ps \<and> has is_number_integer ''id'' ps \<and> has is_boolean ''encrypt'' ps
     \<and> has (obj_of ext_parameter_ok) ''parameters'' ps | _ \<Rightarrow> False)"

definition encoding_ok :: "json \<Rightarrow> bool" where
  "encoding_ok j = (case j of JObj ps \<Rightarrow>
     optional is_number_integer ''ssrc'' ps \<and> optional nonempty_string ''rid'' ps \<and> optional rtx_ok ''rtx'' ps
     \<and> has is_boolean ''dtx'' ps \<and> optional nonempty_string ''scalabilityMode'' ps | _ \<Rightarrow> False)"

definition rtcp_parameters_ok :: "json \<Rightarrow> bool" where
  "rtcp_parameters_ok j = (case j of JObj ps \<Rightarrow>
     optional is_string ''cname'' ps \<and> has is_boolean ''reducedSize'' ps | _ \<Rightarrow> False)"

definition rtp_parameters_ok :: "json \<Rightarrow> bool" where
  "rtp_parameters_ok j = (case j of JObj ps \<Rightarrow>
     optional nonempty_string ''mid'' ps \<and> has (arr_of codec_parameters_ok) ''codecs'' ps
     \<and> has (arr_of header_extension_parameters_ok) ''headerExtensions'' ps
     \<and> has (arr_of encoding_ok) ''encodings'' ps \<and> has rtcp_parameters_ok ''rtcp'' ps | _ \<Rightarrow> False)"

section \<open>The validators meet the contract\<close>

lemmas leaf_simps = key_simps jwf_fill jwf_set jwf_del has_optional

interpretation feedback: validator validateRtcpFeedback feedback_ok
proof
  fix j j' assume "jwf j" "validateRtcpFeedback j = Inr j'"
  then show "feedback_ok j' \<and> jwf j'"
    by (auto simp: validateRtcpFeedback_eq feedback_ok_def leaf_simps simp del: jwf.simps(2) split: json.splits if_splits)
qed (auto simp: validateRtcpFeedback_eq feedback_ok_def split: json.splits if_splits)

lemma check_codec_parameter_iff: "check_codec_parameter p = Inr () \<longleftrightarrow> codec_parameter_ok p"
  by (cases p) (auto simp: check_codec_parameter_def codec_parameter_ok_def)

lemma check_codec_parameter_errors: "check_codec_parameter p = Inl e \<Longrightarrow> \<exists>msg. e = MscTypeError msg"
  by (cases p) (auto simp: check_codec_parameter_def split: if_splits)

text \<open>The common tail of the two codec validators.\<close>

definition codec_tail :: "string \<Rightarrow> obj \<Rightarrow> json result" where
  "codec_tail kind ps =
     (let ps2 = (if kind = ''audio'' then fill is_number_integer ''channels'' (JInt 1) ps else obj_del ''channels'' ps);
          ps3 = fill is_object ''parameters'' (JObj []) ps2
      in rbind (check_parameters check_codec_parameter ps3) (\<lambda>_.
         let ps4 = fill is_array ''rtcpFeedback'' (JArr []) ps3
         in rbind (validate_elems validateRtcpFeedback ''rtcpFeedback'' ps4) (\<lambda>ps5. Inr (JObj ps5))))"

definition tail_keys :: "string set" where
  "tail_keys = {''channels'', ''parameters'', ''rtcpFeedback''}"

lemma codec_tail_sound:
  assumes "jwf (JObj ps)" and "codec_tail kind ps = Inr j'"
  shows "\<exists>ps'. j' = JObj ps' \<and> jwf (JObj ps') \<and> (\<forall>k. k \<notin> tail_keys \<longrightarrow> obj_get k ps' = obj_get k ps)
    \<and> (if kind = ''audio'' then has is_number_integer ''channels'' ps' else obj_get ''channels'' ps' = None)
    \<and> has (obj_of codec_parameter_ok) ''parameters'' ps' \<and> has (arr_of feedback_ok) ''rtcpFeedback'' ps'"
proof -
  define ps2 where "ps2 = (if kind = ''audio'' then fill is_number_integer ''channels'' (JInt 1) ps else obj_del ''channels'' ps)"
  define ps3 where "ps3 = fill is_object ''parameters'' (JObj []) ps2"
  define ps4 where "ps4 = fill is_array ''rtcpFeedback'' (JArr []) ps3"
  have w2: "jwf (JObj ps2)" using assms(1) jwf_fill jwf_del by (simp add: ps2_def del: jwf.simps(2))
  then have w3: "jwf (JObj ps3)" unfolding ps3_def by (rule jwf_fill) (simp add: obj_wf_def)
  then have w4: "jwf (JObj ps4)" unfolding ps4_def by (rule jwf_fill) simp
  obtain ps5 where c: "check_parameters check_codec_parameter ps3 = Inr ()"
    and v: "validate_elems validateRtcpFeedback ''rtcpFeedback'' ps4 = Inr ps5" and j': "j' = JObj ps5"
    using assms(2) unfolding codec_tail_def Let_def ps2_def [symmetric] ps3_def [symmetric] ps4_def [symmetric]
    by (auto simp: rbind_Inr_iff)
  have "has is_object ''parameters'' ps3" by (simp add: ps3_def key_simps)
  then have p: "has (obj_of codec_parameter_ok) ''parameters'' ps3"
    using c check_parameters_ok [of check_codec_parameter codec_parameter_ok ps3] check_codec_parameter_iff by blast
  have "has is_array ''rtcpFeedback'' ps4" by (simp add: ps4_def key_simps)
  from feedback.elems_sound [OF w4 this v]
  have r: "has (arr_of feedback_ok) ''rtcpFeedback'' ps5" "jwf (JObj ps5)"
    and same: "\<And>k'. k' \<noteq> ''rtcpFeedback'' \<Longrightarrow> obj_get k' ps5 = obj_get k' ps4" by auto
  have "obj_get k ps5 = obj_get k ps" if "k \<notin> tail_keys" for k
    using that same by (auto simp: tail_keys_def ps4_def ps3_def ps2_def key_simps)
  moreover have "if kind = ''audio'' then has is_number_integer ''channels'' ps5 else obj_get ''channels'' ps5 = None"
    using same by (auto simp: has_def [of is_number_integer "''channels''" ps5] ps4_def ps3_def ps2_def key_simps) (auto simp: has_def split: option.splits)
  moreover have "has (obj_of codec_parameter_ok) ''parameters'' ps5"
    using p same by (simp add: has_def ps4_def key_simps)
  ultimately show ?thesis using r j' by blast
qed

lemma codec_tail_idle:
  assumes "jwf (JObj ps)" and "codec_base_ok ps kind"
  shows "codec_tail kind ps = Inr (JObj ps)"
proof -
  have b: "if kind = ''audio'' then has is_number_integer ''channels'' ps else obj_get ''channels'' ps = None"
    "has (obj_of codec_parameter_ok) ''parameters'' ps" "has (arr_of feedback_ok) ''rtcpFeedback'' ps"
    using assms(2) by (simp_all add: codec_base_ok_def)
  have "(if kind = ''audio'' then fill is_number_integer ''channels'' (JInt 1) ps else obj_del ''channels'' ps) = ps"
    using b(1) jobj.del_absent [OF jwf_obj_wf [OF assms(1)]] by simp
  moreover have "check_parameters check_codec_parameter ps = Inr ()"
    using b(2) has_obj_object [OF b(2)] check_codec_parameter_iff
      check_parameters_ok [of check_codec_parameter codec_parameter_ok ps] by blast
  ultimately show ?thesis
    using feedback.elems_idle [OF assms(1) b(3)] has_obj_object [OF b(2)] has_arr_array [OF b(3)]
    by (simp add: codec_tail_def)
qed

lemma codec_tail_errors: "codec_tail kind ps = Inl e \<Longrightarrow> \<exists>msg. e = MscTypeError msg"
  using check_parameters_errors [of check_codec_parameter] check_codec_parameter_errors feedback.elems_errors
  by (auto simp: codec_tail_def Let_def rbind_Inl_iff)

lemma tail_keys_simps [simp]:
  "''mimeType'' \<notin> tail_keys" "''clockRate'' \<notin> tail_keys" "''kind'' \<notin> tail_keys"
  "''preferredPayloadType'' \<notin> tail_keys" "''payloadType'' \<notin> tail_keys"
  by (simp_all add: tail_keys_def)

lemma capability_by_tail:
  "validateRtpCodecCapability codec =
     (case codec of
        JObj ps \<Rightarrow>
          (case obj_get ''mimeType'' ps of
             Some (JStr mimeType) \<Rightarrow>
               (case mime_kind mimeType of
                  None \<Rightarrow> type_error ''invalid codec.mimeType''
                | Some kind \<Rightarrow>
                    if \<not> optional is_number_integer ''preferredPayloadType'' ps
                    then type_error ''invalid codec.preferredPayloadType''
                    else if \<not> has is_number_integer ''clockRate'' ps then type_error ''missing codec.clockRate''
                    else codec_tail kind (obj_set ''kind'' (JStr kind) ps))
           | _ \<Rightarrow> type_error ''missing codec.mimeType'')
      | _ \<Rightarrow> type_error ''codec is not an object'')"
  unfolding validateRtpCodecCapability_eq codec_tail_def Let_def
  by (auto split: json.splits option.splits)

lemma parameters_by_tail:
  "validateRtpCodecParameters codec =
     (case codec of
        JObj ps \<Rightarrow>
          (case obj_get ''mimeType'' ps of
             Some (JStr mimeType) \<Rightarrow>
               (case mime_kind mimeType of
                  None \<Rightarrow> type_error ''invalid codec.mimeType''
                | Some kind \<Rightarrow>
                    if \<not> has is_number_integer ''payloadType'' ps then type_error ''missing codec.payloadType''
                    else if \<not> has is_number_integer ''clockRate'' ps then type_error ''missing codec.clockRate''
                    else codec_tail kind ps)
           | _ \<Rightarrow> type_error ''missing codec.mimeType'')
      | _ \<Rightarrow> type_error ''codec is not an object'')"
  unfolding validateRtpCodecParameters_eq codec_tail_def Let_def
  by (auto split: json.splits option.splits)

interpretation capability: validator validateRtpCodecCapability codec_capability_ok
proof
  fix j j' assume "jwf j" "validateRtpCodecCapability j = Inr j'"
  then obtain ps m kind where j: "j = JObj ps" and m: "obj_get ''mimeType'' ps = Some (JStr m)" "mime_kind m = Some kind"
    and o: "optional is_number_integer ''preferredPayloadType'' ps" "has is_number_integer ''clockRate'' ps"
    and t: "codec_tail kind (obj_set ''kind'' (JStr kind) ps) = Inr j'"
    by (auto simp: capability_by_tail split: json.splits option.splits if_splits)
  have "jwf (JObj (obj_set ''kind'' (JStr kind) ps))" using \<open>jwf j\<close> j by (simp add: jwf_set del: jwf.simps(2))
  from codec_tail_sound [OF this t] show "codec_capability_ok j' \<and> jwf j'"
    using m o by (auto simp: codec_capability_ok_def codec_base_ok_def has_def optional_def key_simps)
next
  fix j assume w: "jwf j" and "codec_capability_ok j"
  then obtain ps kind m where j: "j = JObj ps" and b: "codec_base_ok ps kind" "obj_get ''kind'' ps = Some (JStr kind)"
    "optional is_number_integer ''preferredPayloadType'' ps" "has is_number_integer ''clockRate'' ps"
    "obj_get ''mimeType'' ps = Some (JStr m)" "mime_kind m = Some kind"
    by (auto simp: codec_capability_ok_def codec_base_ok_def split: json.splits)
  have "obj_set ''kind'' (JStr kind) ps = ps" using w j b(2) jobj.set_same by simp
  then show "validateRtpCodecCapability j = Inr j"
    using b j w codec_tail_idle [of ps kind] by (simp add: capability_by_tail del: jwf.simps(2))
next
  fix j e assume "validateRtpCodecCapability j = Inl e"
  then show "\<exists>msg. e = MscTypeError msg"
    by (auto simp: capability_by_tail split: json.splits option.splits if_splits intro: codec_tail_errors)
qed

interpretation parameters: validator validateRtpCodecParameters codec_parameters_ok
proof
  fix j j' assume "jwf j" "validateRtpCodecParameters j = Inr j'"
  then obtain ps m kind where j: "j = JObj ps" and m: "obj_get ''mimeType'' ps = Some (JStr m)" "mime_kind m = Some kind"
    and o: "has is_number_integer ''payloadType'' ps" "has is_number_integer ''clockRate'' ps"
    and t: "codec_tail kind ps = Inr j'"
    by (auto simp: parameters_by_tail split: json.splits option.splits if_splits)
  obtain ps' where t': "j' = JObj ps'" "jwf (JObj ps')" "\<forall>k. k \<notin> tail_keys \<longrightarrow> obj_get k ps' = obj_get k ps"
    "if kind = ''audio'' then has is_number_integer ''channels'' ps' else obj_get ''channels'' ps' = None"
    "has (obj_of codec_parameter_ok) ''parameters'' ps'" "has (arr_of feedback_ok) ''rtcpFeedback'' ps'"
    using codec_tail_sound [OF _ t] \<open>jwf j\<close> j by blast
  then have "codec_base_ok ps' kind" using m o(2) by (simp add: codec_base_ok_def has_def)
  then show "codec_parameters_ok j' \<and> jwf j'"
    using t' o(1) by (auto simp: codec_parameters_ok_def has_def simp del: jwf.simps(2))
next
  fix j assume w: "jwf j" and "codec_parameters_ok j"
  then obtain ps kind m where j: "j = JObj ps" and b: "codec_base_ok ps kind"
    "has is_number_integer ''payloadType'' ps" "has is_number_integer ''clockRate'' ps"
    "obj_get ''mimeType'' ps = Some (JStr m)" "mime_kind m = Some kind"
    by (auto simp: codec_parameters_ok_def codec_base_ok_def split: json.splits)
  then show "validateRtpCodecParameters j = Inr j"
    using w codec_tail_idle [of ps kind] by (simp add: parameters_by_tail del: jwf.simps(2))
next
  fix j e assume "validateRtpCodecParameters j = Inl e"
  then show "\<exists>msg. e = MscTypeError msg"
    by (auto simp: parameters_by_tail split: json.splits option.splits if_splits intro: codec_tail_errors)
qed

lemma nonempty_is_string: "has nonempty_string k ps \<Longrightarrow> has is_string k ps"
  by (rule has_mono, assumption) (erule nonempty_string.elims, simp_all)

lemma optional_has: "optional p k ps \<Longrightarrow> obj_get k ps \<noteq> None \<Longrightarrow> has p k ps"
  by (auto simp: optional_def has_def)

interpretation header_extension: validator validateRtpHeaderExtension header_extension_ok
proof
  fix j j' assume w: "jwf j" and v: "validateRtpHeaderExtension j = Inr j'"
  obtain ps where j: "j = JObj ps" using v by (cases j) (auto simp: validateRtpHeaderExtension_eq)
  then show "header_extension_ok j' \<and> jwf j'" using w v
    by (auto simp: validateRtpHeaderExtension_eq header_extension_ok_def leaf_simps Let_def simp del: jwf.simps(2)
        split: option.splits json.splits if_splits)
next
  fix j assume "jwf j" "header_extension_ok j"
  then show "validateRtpHeaderExtension j = Inr j"
    by (auto simp: validateRtpHeaderExtension_eq header_extension_ok_def has_optional split: json.splits)
next
  fix j e assume "validateRtpHeaderExtension j = Inl e"
  then show "\<exists>msg. e = MscTypeError msg"
    by (auto simp: validateRtpHeaderExtension_eq Let_def split: option.splits json.splits if_splits)
qed

lemma check_ext_entry_iff: "check_ext_entry p = Inr () \<longleftrightarrow> ext_parameter_ok p"
  by (auto simp: check_ext_parameter_def ext_parameter_ok_def)

lemma check_ext_entry_errors: "check_ext_entry p = Inl e \<Longrightarrow> \<exists>msg. e = MscTypeError msg"
  by (auto simp: check_ext_parameter_def split: if_splits)

interpretation ext_parameters: validator validateRtpHeaderExtensionParameters header_extension_parameters_ok
proof
  fix j j' assume w: "jwf j" and v: "validateRtpHeaderExtensionParameters j = Inr j'"
  obtain ps where j: "j = JObj ps" using v by (cases j) (auto simp: validateRtpHeaderExtensionParameters_eq)
  define ps2 where "ps2 = fill is_object ''parameters'' (JObj []) (fill is_boolean ''encrypt'' (JBool False) ps)"
  have c: "has nonempty_string ''uri'' ps" "has is_number_integer ''id'' ps" "optional is_boolean ''encrypt'' ps"
    "check_parameters check_ext_entry ps2 = Inr ()" "j' = JObj ps2"
    using v j by (auto simp: validateRtpHeaderExtensionParameters_eq Let_def rbind_Inr_iff ps2_def split: if_splits)
  have "jwf (JObj [])" by (simp add: obj_wf_def)
  then have "jwf (JObj ps2)" using w j by (simp only: ps2_def jwf_fill jwf.simps(4))
  moreover have "has is_object ''parameters'' ps2" by (simp add: ps2_def key_simps)
  then have "has (obj_of ext_parameter_ok) ''parameters'' ps2"
    using c(4) check_parameters_ok [of check_ext_entry ext_parameter_ok ps2] check_ext_entry_iff by blast
  ultimately show "header_extension_parameters_ok j' \<and> jwf j'"
    using c by (simp add: header_extension_parameters_ok_def del: jwf.simps(2)) (simp add: ps2_def key_simps)
next
  fix j assume "jwf j" "header_extension_parameters_ok j"
  then obtain ps where j: "j = JObj ps" and a: "has nonempty_string ''uri'' ps" "has is_number_integer ''id'' ps"
    "has is_boolean ''encrypt'' ps" "has (obj_of ext_parameter_ok) ''parameters'' ps"
    by (auto simp: header_extension_parameters_ok_def split: json.splits)
  have "check_parameters check_ext_entry ps = Inr ()"
    using a(4) has_obj_object [OF a(4)] check_ext_entry_iff
      check_parameters_ok [of check_ext_entry ext_parameter_ok ps] by blast
  then show "validateRtpHeaderExtensionParameters j = Inr j"
    using j a has_obj_object [OF a(4)] by (simp add: validateRtpHeaderExtensionParameters_eq has_optional)
next
  fix j e assume "validateRtpHeaderExtensionParameters j = Inl e"
  then show "\<exists>msg. e = MscTypeError msg"
    using check_parameters_errors [of check_ext_entry] check_ext_entry_errors
    by (auto simp: validateRtpHeaderExtensionParameters_eq Let_def rbind_Inl_iff split: json.splits if_splits)
qed

lemma rtx_ok_object: "optional rtx_ok k ps \<Longrightarrow> optional is_object k ps"
  by (auto simp: optional_def rtx_ok_def split: option.splits json.splits)

interpretation encoding: validator validateRtpEncodingParameters encoding_ok
proof
  fix j j' assume w: "jwf j" and v: "validateRtpEncodingParameters j = Inr j'"
  obtain ps where j: "j = JObj ps" using v by (cases j) (auto simp: validateRtpEncodingParameters_eq)
  then show "encoding_ok j' \<and> jwf j'" using w v
    by (auto simp: validateRtpEncodingParameters_eq encoding_ok_def leaf_simps Let_def simp del: jwf.simps(2)
        split: if_splits)
next
  fix j assume "jwf j" "encoding_ok j"
  then show "validateRtpEncodingParameters j = Inr j"
    by (auto simp: validateRtpEncodingParameters_eq encoding_ok_def rtx_ok_object Let_def split: json.splits)
next
  fix j e assume "validateRtpEncodingParameters j = Inl e"
  then show "\<exists>msg. e = MscTypeError msg"
    by (auto simp: validateRtpEncodingParameters_eq Let_def split: json.splits if_splits)
qed

interpretation rtcp: validator validateRtcpParameters rtcp_parameters_ok
proof
  fix j j' assume w: "jwf j" and v: "validateRtcpParameters j = Inr j'"
  obtain ps where j: "j = JObj ps" using v by (cases j) (auto simp: validateRtcpParameters_eq)
  then show "rtcp_parameters_ok j' \<and> jwf j'" using w v
    by (auto simp: validateRtcpParameters_eq rtcp_parameters_ok_def leaf_simps simp del: jwf.simps(2) split: if_splits)
qed (auto simp: validateRtcpParameters_eq rtcp_parameters_ok_def split: json.splits if_splits)

lemma has_cong: "obj_get k ps = obj_get k qs \<Longrightarrow> has p k ps = has p k qs"
  by (simp add: has_def)

lemma optional_cong: "obj_get k ps = obj_get k qs \<Longrightarrow> optional p k ps = optional p k qs"
  by (simp add: optional_def)

text \<open>The step "fill an absent array, then validate its elements", which the two top-level
  validators repeat for each of their arrays.\<close>

context validator
begin

lemma fill_elems_sound:
  assumes "jwf (JObj ps)" and "validate_elems v k (fill is_array k (JArr []) ps) = Inr ps'"
  shows "has (arr_of ok) k ps' \<and> jwf (JObj ps') \<and> (\<forall>k'. k' \<noteq> k \<longrightarrow> obj_get k' ps' = obj_get k' ps)"
proof -
  have "jwf (JObj (fill is_array k (JArr []) ps))" by (rule jwf_fill [OF assms(1)]) simp
  from elems_sound [OF this _ assms(2)] show ?thesis by (auto simp: key_simps)
qed

end

interpretation rtp_capabilities: validator validateRtpCapabilities rtp_capabilities_ok
proof
  fix j j' assume w: "jwf j" and v: "validateRtpCapabilities j = Inr j'"
  obtain ps where j: "j = JObj ps" using v by (cases j) (auto simp: validateRtpCapabilities_eq)
  obtain ps1 ps2 where 1: "validate_elems validateRtpCodecCapability ''codecs'' (fill is_array ''codecs'' (JArr []) ps) = Inr ps1"
    and 2: "validate_elems validateRtpHeaderExtension ''headerExtensions''
      (fill is_array ''headerExtensions'' (JArr []) ps1) = Inr ps2" and j': "j' = JObj ps2"
    using v j by (auto simp: validateRtpCapabilities_eq rbind_Inr_iff split: if_splits)
  have w0: "jwf (JObj ps)" using w j by simp
  from capability.fill_elems_sound [OF w0 1] have r1: "has (arr_of codec_capability_ok) ''codecs'' ps1" "jwf (JObj ps1)" by auto
  from header_extension.fill_elems_sound [OF r1(2) 2]
  have r2: "has (arr_of header_extension_ok) ''headerExtensions'' ps2" "jwf (JObj ps2)"
    "obj_get ''codecs'' ps2 = obj_get ''codecs'' ps1" by auto
  then show "rtp_capabilities_ok j' \<and> jwf j'"
    using r1(1) j' has_cong [OF r2(3)] by (simp add: rtp_capabilities_ok_def del: jwf.simps)
next
  fix j assume w: "jwf j" and "rtp_capabilities_ok j"
  then obtain ps where j: "j = JObj ps" and a: "has (arr_of codec_capability_ok) ''codecs'' ps"
    "has (arr_of header_extension_ok) ''headerExtensions'' ps"
    by (auto simp: rtp_capabilities_ok_def split: json.splits)
  then show "validateRtpCapabilities j = Inr j"
    using capability.elems_idle [OF _ a(1)] header_extension.elems_idle [OF _ a(2)] w
      has_arr_array [OF a(1)] has_arr_array [OF a(2)]
    by (simp add: validateRtpCapabilities_eq has_optional)
next
  fix j e assume "validateRtpCapabilities j = Inl e"
  then show "\<exists>msg. e = MscTypeError msg"
    using capability.elems_errors header_extension.elems_errors
    by (auto simp: validateRtpCapabilities_eq rbind_Inl_iff split: json.splits if_splits)
qed

interpretation rtp_parameters: validator validateRtpParameters rtp_parameters_ok
proof
  fix j j' assume w: "jwf j" and v: "validateRtpParameters j = Inr j'"
  obtain ps where j: "j = JObj ps" using v by (cases j) (auto simp: validateRtpParameters_eq)
  obtain ps1 ps2 ps3 rtcp where m: "optional nonempty_string ''mid'' ps" "has is_array ''codecs'' ps"
    and 1: "validate_elems validateRtpCodecParameters ''codecs'' ps = Inr ps1"
    and 2: "validate_elems validateRtpHeaderExtensionParameters ''headerExtensions''
      (fill is_array ''headerExtensions'' (JArr []) ps1) = Inr ps2"
    and 3: "validate_elems validateRtpEncodingParameters ''encodings''
      (fill is_array ''encodings'' (JArr []) ps2) = Inr ps3"
    and 4: "validateRtcpParameters (the (obj_get ''rtcp'' (fill is_object ''rtcp'' (JObj []) ps3))) = Inr rtcp"
    and j': "j' = JObj (obj_set ''rtcp'' rtcp (fill is_object ''rtcp'' (JObj []) ps3))"
    using v j by (auto simp: validateRtpParameters_eq rbind_Inr_iff Let_def split: if_splits)
  let ?ps4 = "fill is_object ''rtcp'' (JObj []) ps3"
  have w0: "jwf (JObj ps)" and e: "jwf (JObj [])" using w j by (simp_all add: obj_wf_def)
  from parameters.elems_sound [OF w0 m(2) 1] have r1: "has (arr_of codec_parameters_ok) ''codecs'' ps1" "jwf (JObj ps1)"
    "\<And>k. k \<noteq> ''codecs'' \<Longrightarrow> obj_get k ps1 = obj_get k ps" by auto
  from ext_parameters.fill_elems_sound [OF r1(2) 2]
  have r2: "has (arr_of header_extension_parameters_ok) ''headerExtensions'' ps2" "jwf (JObj ps2)"
    "\<And>k. k \<noteq> ''headerExtensions'' \<Longrightarrow> obj_get k ps2 = obj_get k ps1" by auto
  from encoding.fill_elems_sound [OF r2(2) 3]
  have r3: "has (arr_of encoding_ok) ''encodings'' ps3" "jwf (JObj ps3)"
    "\<And>k. k \<noteq> ''encodings'' \<Longrightarrow> obj_get k ps3 = obj_get k ps2" by auto
  have w4: "jwf (JObj ?ps4)" by (rule jwf_fill [OF r3(2) e])
  have "has is_object ''rtcp'' ?ps4" by (simp add: key_simps)
  then have "jwf (the (obj_get ''rtcp'' ?ps4))" using jwf_get [OF w4] by (auto simp: has_def split: option.splits)
  from rtcp.sound [OF this 4] have r4: "rtcp_parameters_ok rtcp" "jwf rtcp" by auto
  then have "jwf j'" using j' jwf_set [OF w4] by simp
  moreover have "has (arr_of codec_parameters_ok) ''codecs'' ps3"
    "has (arr_of header_extension_parameters_ok) ''headerExtensions'' ps3" "optional nonempty_string ''mid'' ps3"
    using r1(1) r2(1) m(1) r1(3) r2(3) r3(3) by (simp_all add: has_def optional_def)
  ultimately show "rtp_parameters_ok j' \<and> jwf j'"
    using j' r3(1) r4(1) by (simp add: rtp_parameters_ok_def key_simps del: jwf.simps)
next
  fix j assume w: "jwf j" and "rtp_parameters_ok j"
  then obtain ps where j: "j = JObj ps" and a: "optional nonempty_string ''mid'' ps"
    "has (arr_of codec_parameters_ok) ''codecs'' ps"
    "has (arr_of header_extension_parameters_ok) ''headerExtensions'' ps" "has (arr_of encoding_ok) ''encodings'' ps"
    "has rtcp_parameters_ok ''rtcp'' ps"
    by (auto simp: rtp_parameters_ok_def split: json.splits)
  obtain r where r: "obj_get ''rtcp'' ps = Some r" "rtcp_parameters_ok r" using a(5) by (auto simp: has_def split: option.splits)
  then have ro: "has is_object ''rtcp'' ps" by (auto simp: has_def rtcp_parameters_ok_def split: json.splits)
  have wr: "jwf r" using w j jwf_get [OF _ r(1)] by blast
  show "validateRtpParameters j = Inr j"
    using parameters.elems_idle [OF _ a(2)] ext_parameters.elems_idle [OF _ a(3)] encoding.elems_idle [OF _ a(4)] w j a(1)
      rtcp.idle [OF wr r(2)] r(1) has_arr_array [OF a(2)] has_arr_array [OF a(3)] has_arr_array [OF a(4)] ro
      jobj.set_same [OF _ r(1)]
    by (simp add: validateRtpParameters_eq has_optional)
next
  fix j e assume "validateRtpParameters j = Inl e"
  then show "\<exists>msg. e = MscTypeError msg"
    using parameters.elems_errors ext_parameters.elems_errors encoding.elems_errors rtcp.errors
    by (auto simp: validateRtpParameters_eq rbind_Inl_iff Let_def split: json.splits if_splits)
qed

subsection \<open>ICE and DTLS\<close>

definition ice_parameters_ok :: "json \<Rightarrow> bool" where
  "ice_parameters_ok j = (case j of JObj ps \<Rightarrow> has nonempty_string ''usernameFragment'' ps
     \<and> has nonempty_string ''password'' ps \<and> has is_boolean ''iceLite'' ps | _ \<Rightarrow> False)"

definition ice_candidate_ok :: "json \<Rightarrow> bool" where
  "ice_candidate_ok j = (case j of JObj ps \<Rightarrow> has nonempty_string ''foundation'' ps
     \<and> has is_number_unsigned ''priority'' ps \<and> has nonempty_string ''ip'' ps
     \<and> has (word_of [''udp'', ''tcp'']) ''protocol'' ps \<and> has is_number_unsigned ''port'' ps
     \<and> has (word_of [''host'', ''srflx'', ''prflx'', ''relay'']) ''type'' ps | _ \<Rightarrow> False)"

definition dtls_fingerprint_ok :: "json \<Rightarrow> bool" where
  "dtls_fingerprint_ok j = (case j of JObj ps \<Rightarrow> has nonempty_string ''algorithm'' ps
     \<and> has nonempty_string ''value'' ps | _ \<Rightarrow> False)"

definition dtls_parameters_ok :: "json \<Rightarrow> bool" where
  "dtls_parameters_ok j = (case j of JObj ps \<Rightarrow> has (word_of [''auto'', ''client'', ''server'']) ''role'' ps
     \<and> has (arr_of dtls_fingerprint_ok) ''fingerprints'' ps \<and> has (\<lambda>v. \<not> jempty v) ''fingerprints'' ps | _ \<Rightarrow> False)"

lemma word_nonempty: "[] \<notin> set ws \<Longrightarrow> has (word_of ws) k ps \<Longrightarrow> has nonempty_string k ps"
  by (auto simp: has_def to_lower_def split: option.splits elim!: word_of.elims)

interpretation ice: validator validateIceParameters ice_parameters_ok
proof
  fix j j' assume w: "jwf j" and v: "validateIceParameters j = Inr j'"
  obtain ps where j: "j = JObj ps" using v by (cases j) (auto simp: validateIceParameters_eq)
  then show "ice_parameters_ok j' \<and> jwf j'" using w v
    by (auto simp: validateIceParameters_eq ice_parameters_ok_def leaf_simps simp del: jwf.simps(2) split: if_splits)
qed (auto simp: validateIceParameters_eq ice_parameters_ok_def split: json.splits if_splits)

interpretation candidate: validator validateIceCandidate ice_candidate_ok
proof
  fix j assume "jwf j" and ok: "ice_candidate_ok j"
  then obtain ps where j: "j = JObj ps" by (cases j) (simp_all add: ice_candidate_ok_def)
  then have "has nonempty_string ''protocol'' ps" "has nonempty_string ''type'' ps"
    using ok word_nonempty [of "[''udp'', ''tcp'']" "''protocol''" ps]
      word_nonempty [of "[''host'', ''srflx'', ''prflx'', ''relay'']" "''type''" ps]
    by (simp_all add: ice_candidate_ok_def)
  then show "validateIceCandidate j = Inr j" using ok j by (simp add: validateIceCandidate_eq ice_candidate_ok_def)
next
  fix j j' assume "jwf j" "validateIceCandidate j = Inr j'"
  then show "ice_candidate_ok j' \<and> jwf j'"
    by (cases j) (auto simp: validateIceCandidate_eq ice_candidate_ok_def split: if_splits)
next
  fix j e assume "validateIceCandidate j = Inl e"
  then show "\<exists>msg. e = MscTypeError msg" by (cases j) (auto simp: validateIceCandidate_eq split: if_splits)
qed

interpretation fingerprint: validator validateDtlsFingerprint dtls_fingerprint_ok
proof
  fix j assume "dtls_fingerprint_ok j"
  then show "validateDtlsFingerprint j = Inr j"
    by (cases j) (simp_all add: validateDtlsFingerprint_eq dtls_fingerprint_ok_def)
next
  fix j j' assume "jwf j" "validateDtlsFingerprint j = Inr j'"
  then show "dtls_fingerprint_ok j' \<and> jwf j'"
    by (cases j) (auto simp: validateDtlsFingerprint_eq dtls_fingerprint_ok_def simp del: jwf.simps split: if_splits)
next
  fix j e assume "validateDtlsFingerprint j = Inl e"
  then show "\<exists>msg. e = MscTypeError msg" by (cases j) (auto simp: validateDtlsFingerprint_eq split: if_splits)
qed

lemma has_array_nonempty:
  "has (\<lambda>v. is_array v \<and> \<not> jempty v) k ps \<Longrightarrow> \<exists>xs. obj_get k ps = Some (JArr xs) \<and> xs \<noteq> []"
  unfolding has_def jempty_def by (cases "obj_get k ps"; cases "the (obj_get k ps)") simp_all

lemma validate_elems_length:
  assumes "validate_elems f k ps = Inr ps'" and "has (\<lambda>v. is_array v \<and> \<not> jempty v) k ps"
  shows "has (\<lambda>v. \<not> jempty v) k ps'"
proof -
  obtain xs where xs: "obj_get k ps = Some (JArr xs)" "xs \<noteq> []"
    using has_array_nonempty [OF assms(2)] by blast
  then obtain ys where "mapM f xs = Inr ys" "ps' = obj_set k (JArr ys) ps"
    using assms(1) by (auto simp: validate_elems_def rbind_Inr_iff)
  then show ?thesis using xs(2) mapM_length [of f xs ys] by (cases ys) (simp_all add: key_simps jempty_def)
qed

interpretation dtls: validator validateDtlsParameters dtls_parameters_ok
proof
  fix j j' assume w: "jwf j" and v: "validateDtlsParameters j = Inr j'"
  obtain ps where j: "j = JObj ps" using v by (cases j) (auto simp: validateDtlsParameters_eq)
  obtain ps1 where a: "has (word_of [''auto'', ''client'', ''server'']) ''role'' ps"
    "has (\<lambda>v. is_array v \<and> \<not> jempty v) ''fingerprints'' ps"
    "validate_elems validateDtlsFingerprint ''fingerprints'' ps = Inr ps1" "j' = JObj ps1"
    using v j by (auto simp: validateDtlsParameters_eq rbind_Inr_iff split: if_splits)
  have "has is_array ''fingerprints'' ps" by (rule has_mono [OF a(2)]) simp
  with fingerprint.elems_sound [OF _ this a(3)] w j have "has (arr_of dtls_fingerprint_ok) ''fingerprints'' ps1"
    "jwf (JObj ps1)" "obj_get ''role'' ps1 = obj_get ''role'' ps" by auto
  then show "dtls_parameters_ok j' \<and> jwf j'"
    using a(1,4) validate_elems_length [OF a(3,2)] has_cong [of "''role''" ps1 ps]
    by (simp add: dtls_parameters_ok_def del: jwf.simps)
next
  fix j assume w: "jwf j" and "dtls_parameters_ok j"
  then obtain ps where j: "j = JObj ps" and a: "has (word_of [''auto'', ''client'', ''server'']) ''role'' ps"
    "has (arr_of dtls_fingerprint_ok) ''fingerprints'' ps" "has (\<lambda>v. \<not> jempty v) ''fingerprints'' ps"
    by (auto simp: dtls_parameters_ok_def split: json.splits)
  have "has (\<lambda>v. is_array v \<and> \<not> jempty v) ''fingerprints'' ps"
    using a(2,3) has_arr_array [OF a(2)] by (auto simp: has_def split: option.splits)
  then show "validateDtlsParameters j = Inr j"
    using j w a(1) word_nonempty [OF _ a(1)] fingerprint.elems_idle [OF _ a(2)] by (simp add: validateDtlsParameters_eq)
next
  fix j e assume "validateDtlsParameters j = Inl e"
  then show "\<exists>msg. e = MscTypeError msg"
    using fingerprint.elems_errors
    by (auto simp: validateDtlsParameters_eq rbind_Inl_iff split: json.splits if_splits)
qed

section \<open>SCTP stream parameters\<close>

lemma has_Some: "has p k ps \<Longrightarrow> obj_get k ps \<noteq> None"
  by (auto simp: has_def split: option.splits)

lemma stream_parameters_completed:
  assumes "validateSctpStreamParameters j = Inr j'"
  shows "\<exists>ps. j' = JObj ps \<and> has is_number_integer ''streamId'' ps \<and> has is_boolean ''ordered'' ps
    \<and> has is_number_integer ''maxPacketLifeTime'' ps \<and> has is_number_integer ''maxRetransmits'' ps
    \<and> has is_string ''label'' ps \<and> has is_string ''protocol'' ps"
proof -
  obtain ps where j: "j = JObj ps" using assms by (cases j) (simp_all add: validateSctpStreamParameters_eq)
  define ps3 where "ps3 = fill is_number_integer ''maxRetransmits'' (JUInt 0)
    (fill is_number_integer ''maxPacketLifeTime'' (JUInt 0) (fill is_boolean ''ordered'' (JBool True) ps))"
  have s: "has is_number_integer ''streamId'' ps" using assms j
    by (simp add: validateSctpStreamParameters_eq split: if_splits)
  then have 3: "has is_number_integer ''streamId'' ps3" "has is_boolean ''ordered'' ps3"
    "has is_number_integer ''maxPacketLifeTime'' ps3" "has is_number_integer ''maxRetransmits'' ps3"
    by (simp_all add: ps3_def has_fill)
  obtain ps4 where 4: "ps4 = ps3 \<or> ps4 = obj_set ''ordered'' (JBool False) ps3"
    and j': "j' = JObj (fill is_string ''protocol'' (JStr []) (fill is_string ''label'' (JStr []) ps4))"
    using assms s unfolding j validateSctpStreamParameters_eq Let_def ps3_def [symmetric] json.case
    by (simp split: if_splits) blast+
  from 3 4 have "has is_number_integer ''streamId'' ps4" "has is_boolean ''ordered'' ps4"
    "has is_number_integer ''maxPacketLifeTime'' ps4" "has is_number_integer ''maxRetransmits'' ps4"
    by (auto simp: has_set)
  then show ?thesis unfolding j' by (simp add: has_fill)
qed

lemma sctp_parameters_errors: "validateSctpParameters j = Inl e \<Longrightarrow> \<exists>msg. e = MscTypeError msg"
  by (cases j) (auto simp: validateSctpParameters_eq split: if_splits)

lemma sctp_capabilities_errors: "validateSctpCapabilities j = Inl e \<Longrightarrow> \<exists>msg. e = MscTypeError msg"
  by (auto simp: validateSctpCapabilities_eq validateNumSctpStreams_eq split: json.splits option.splits if_splits)

lemma stream_parameters_errors: "validateSctpStreamParameters j = Inl e \<Longrightarrow> \<exists>msg. e = MscTypeError msg"
  by (cases j) (auto simp: validateSctpStreamParameters_eq Let_def split: if_splits)

lemma candidates_errors: "validateIceCandidates j = Inl e \<Longrightarrow> \<exists>msg. e = MscTypeError msg"
  by (cases j) (auto simp: validateIceCandidates_eq rbind_Inl_iff dest!: mapM_Inl intro: candidate.errors)

lemma codec_options_errors: "validateProducerCodecOptions j = Inl e \<Longrightarrow> \<exists>msg. e = MscTypeError msg"
  by (cases j) (auto simp: validateProducerCodecOptions_eq split: if_splits)

section \<open>Properties\<close>

text \<open>C8. Validated RTP capabilities are complete: every codec has a media MIME type, a kind equal
  to its media part, an integer clock rate, integer channels exactly when it is audio, a parameters
  object with admissible values and a feedback array whose entries have a type and a parameter;
  every header extension has its five members; and validating the result again changes nothing.\<close>

theorem validated_capabilities:
  assumes "jwf caps" and "validateRtpCapabilities caps = Inr caps'"
  shows "rtp_capabilities_ok caps' \<and> jwf caps' \<and> validateRtpCapabilities caps' = Inr caps'"
  using rtp_capabilities.sound [OF assms] rtp_capabilities.idempotent [OF assms] by blast

definition caps0 :: json where
  "caps0 = JObj [(''codecs'', JArr [JObj [(''clockRate'', JUInt 48000), (''mimeType'', JStr ''audio/opus'')]])]"

definition caps0' :: json where
  "caps0' = JObj [(''codecs'', JArr [JObj [(''channels'', JInt 1), (''clockRate'', JUInt 48000),
      (''kind'', JStr ''audio''), (''mimeType'', JStr ''audio/opus''), (''parameters'', JObj []),
      (''rtcpFeedback'', JArr [])]]), (''headerExtensions'', JArr [])]"

lemmas val_eval = validateRtpCapabilities_eq validateRtpCodecCapability_eq optional_def has_def
  fill_def obj_get_def obj_del_def validate_elems_def check_parameters_def mime_kind_def to_lower_def to_lower_char_def

theorem validated_capabilities_witness:
  "validateRtpCapabilities caps0 = Inr caps0' \<and> rtp_capabilities_ok caps0' \<and> jwf caps0'
   \<and> validateRtpCapabilities caps0' = Inr caps0'"
proof -
  have w: "jwf caps0" by (simp add: caps0_def obj_wf_def)
  have v: "validateRtpCapabilities caps0 = Inr caps0'"
    by (simp add: caps0_def caps0'_def val_eval Let_def)
  show ?thesis using v validated_capabilities [OF w v] by blast
qed

text \<open>Validated RTP parameters are complete in the same way: a non-empty mid if there is one,
  codecs with a payload type, header extensions with an id and an encrypt flag, encodings with a dtx
  flag and an RTX block that carries an SSRC, RTCP parameters with a reducedSize flag; and
  validating the result again changes nothing.\<close>

theorem validated_parameters:
  assumes "jwf params" and "validateRtpParameters params = Inr params'"
  shows "rtp_parameters_ok params' \<and> jwf params' \<and> validateRtpParameters params' = Inr params'"
  using rtp_parameters.sound [OF assms] rtp_parameters.idempotent [OF assms] by blast

definition params0 :: json where
  "params0 = JObj [(''codecs'', JArr []), (''encodings'', JArr [JObj [(''ssrc'', JUInt 1234)]]), (''mid'', JStr ''0'')]"

definition params0' :: json where
  "params0' = JObj [(''codecs'', JArr []), (''encodings'', JArr [JObj [(''dtx'', JBool False), (''ssrc'', JUInt 1234)]]),
     (''headerExtensions'', JArr []), (''mid'', JStr ''0''), (''rtcp'', JObj [(''reducedSize'', JBool True)])]"

theorem validated_parameters_witness:
  "validateRtpParameters params0 = Inr params0' \<and> rtp_parameters_ok params0' \<and> jwf params0'
   \<and> validateRtpParameters params0' = Inr params0'"
proof -
  have w: "jwf params0" by (simp add: params0_def obj_wf_def)
  have v: "validateRtpParameters params0 = Inr params0'"
    by (simp add: params0_def params0'_def val_eval validateRtpParameters_eq validateRtpEncodingParameters_eq
        validateRtcpParameters_eq Let_def)
  show ?thesis using v validated_parameters [OF w v] by blast
qed

text \<open>C18. Whatever JSON arrives, a validator that does not accept it throws the library's TypeError.  Every
  access through an iterator, every conversion to a string and every subscript comes after the check
  that makes it safe: no end() or erased element is dereferenced, no value of another type converted,
  and no exception of the JSON library leaves a validator.\<close>

theorem validators_throw_type_errors:
  assumes "Inl e \<in> {validateRtpCapabilities j, validateRtpParameters j, validateSctpCapabilities j,
    validateSctpParameters j, validateSctpStreamParameters j, validateIceParameters j,
    validateIceCandidates j, validateDtlsParameters j, validateProducerCodecOptions j}"
  shows "\<exists>msg. e = MscTypeError msg"
  using assms rtp_capabilities.errors [of j e] rtp_parameters.errors [of j e] sctp_capabilities_errors [of j e]
    sctp_parameters_errors [of j e] stream_parameters_errors [of j e] ice.errors [of j e]
    candidates_errors [of j e] dtls.errors [of j e] codec_options_errors [of j e]
  unfolding insert_iff by (elim disjE emptyE) simp_all

theorem validators_throw_type_errors_witness:
  "let j = JObj [(''codecs'', JArr [JObj [(''mimeType'', JUInt 1)]])]
   in validateRtpCapabilities j = type_error ''missing codec.mimeType''
     \<and> (\<exists>msg. MscTypeError ''missing codec.mimeType'' = MscTypeError msg)"
proof -
  have v: "validateRtpCapabilities (JObj [(''codecs'', JArr [JObj [(''mimeType'', JUInt 1)]])]) = type_error ''missing codec.mimeType''"
    by (simp add: val_eval)
  then show ?thesis
    using validators_throw_type_errors [of "MscTypeError ''missing codec.mimeType''" "JObj [(''codecs'', JArr [JObj [(''mimeType'', JUInt 1)]])]"]
    by (simp add: Let_def)
qed

text \<open>Validating SCTP stream parameters is not idempotent: the completed value carries both
  maxPacketLifeTime and maxRetransmits, which the same function refuses.\<close>

theorem stream_parameters_twice:
  assumes "validateSctpStreamParameters j = Inr j'"
  shows "\<exists>msg. validateSctpStreamParameters j' = type_error msg"
proof -
  obtain ps where "j' = JObj ps" "has is_number_integer ''streamId'' ps"
    "has is_number_integer ''maxPacketLifeTime'' ps" "has is_number_integer ''maxRetransmits'' ps"
    using stream_parameters_completed [OF assms] by blast
  then show ?thesis by (auto simp: validateSctpStreamParameters_eq Let_def dest!: has_Some)
qed

theorem stream_parameters_twice_witness:
  "\<exists>j' msg. validateSctpStreamParameters (JObj [(''streamId'', JUInt 1)]) = Inr j'
     \<and> validateSctpStreamParameters j' = type_error msg"
proof -
  obtain j' where v: "validateSctpStreamParameters (JObj [(''streamId'', JUInt 1)]) = Inr j'"
    by (simp add: validateSctpStreamParameters_eq val_eval Let_def)
  show ?thesis using v stream_parameters_twice [OF v] by blast
qed

end
