(* ===== verification/H264_Profile.thy ===== *)
theory H264_Profile
  imports Prelude
begin

text \<open>
  H.264 profile-level-id strings (\<^verbatim>\<open>h264_profile_level_id.cc\<close>) and the level negotiation of
  \<^verbatim>\<open>sdp_video_format_utils.cc\<close>, which the codec matching of the client uses.  A parameter map is
  a map from strings to strings.  \<open>H264SupportedLevel\<close>, which nothing in the client calls, is
  not modelled.
\<close>

section \<open>Definitions\<close>

datatype H264Profile =
    kProfileConstrainedBaseline | kProfileBaseline | kProfileMain | kProfileConstrainedHigh | kProfileHigh

datatype H264Level =
    kLevel1_b | kLevel1 | kLevel1_1 | kLevel1_2 | kLevel1_3 | kLevel2 | kLevel2_1 | kLevel2_2
  | kLevel3 | kLevel3_1 | kLevel3_2 | kLevel4 | kLevel4_1 | kLevel4_2 | kLevel5 | kLevel5_1 | kLevel5_2

text \<open>The values of the enumeration.\<close>

fun level_value :: "H264Level \<Rightarrow> nat" where
  "level_value kLevel1_b = 0"
| "level_value kLevel1 = 10"
| "level_value kLevel1_1 = 11"
| "level_value kLevel1_2 = 12"
| "level_value kLevel1_3 = 13"
| "level_value kLevel2 = 20"
| "level_value kLevel2_1 = 21"
| "level_value kLevel2_2 = 22"
| "level_value kLevel3 = 30"
| "level_value kLevel3_1 = 31"
| "level_value kLevel3_2 = 32"
| "level_value kLevel4 = 40"
| "level_value kLevel4_1 = 41"
| "level_value kLevel4_2 = 42"
| "level_value kLevel5 = 50"
| "level_value kLevel5_1 = 51"
| "level_value kLevel5_2 = 52"

type_synonym H264ProfileLevelId = "H264Profile \<times> H264Level"
type_synonym CodecParameterMap = "string \<rightharpoonup> string"

subsection \<open>Parsing\<close>

definition ByteMaskString :: "char \<Rightarrow> string \<Rightarrow> u8" where
  "ByteMaskString c str =
     push_bit 7 (of_bool (str ! 0 = c)) OR push_bit 6 (of_bool (str ! 1 = c)) OR
     push_bit 5 (of_bool (str ! 2 = c)) OR push_bit 4 (of_bool (str ! 3 = c)) OR
     push_bit 3 (of_bool (str ! 4 = c)) OR push_bit 2 (of_bool (str ! 5 = c)) OR
     push_bit 1 (of_bool (str ! 6 = c)) OR of_bool (str ! 7 = c)"

definition IsMatch :: "string \<Rightarrow> u8 \<Rightarrow> bool" where
  "IsMatch pattern v \<longleftrightarrow> ByteMaskString CHR ''1'' pattern = v AND NOT (ByteMaskString CHR ''x'' pattern)"

definition kProfilePatterns :: "(u8 \<times> string \<times> H264Profile) list" where
  "kProfilePatterns =
     [(0x42, ''x1xx0000'', kProfileConstrainedBaseline),
      (0x4D, ''1xxx0000'', kProfileConstrainedBaseline),
      (0x58, ''11xx0000'', kProfileConstrainedBaseline),
      (0x42, ''x0xx0000'', kProfileBaseline),
      (0x58, ''10xx0000'', kProfileBaseline),
      (0x4D, ''0x0x0000'', kProfileMain),
      (0x64, ''00000000'', kProfileHigh),
      (0x64, ''00001100'', kProfileConstrainedHigh)]"

text \<open>\<open>strtol(str, nullptr, 16)\<close>: white space, a sign, an optional 0x that is followed by a
  digit, then the longest run of hexadecimal digits.\<close>

definition is_space :: "char \<Rightarrow> bool" where
  "is_space c = (let n = (of_char c :: nat) in n = 32 \<or> (9 \<le> n \<and> n \<le> 13))"

fun hex_run :: "nat \<Rightarrow> string \<Rightarrow> nat" where
  "hex_run acc [] = acc"
| "hex_run acc (c # cs) = (case hex_digit c of Some d \<Rightarrow> hex_run (16 * acc + d) cs | None \<Rightarrow> acc)"

fun strip_0x :: "string \<Rightarrow> string" where
  "strip_0x (a # b # c # cs) =
     (if a = CHR ''0'' \<and> (b = CHR ''x'' \<or> b = CHR ''X'') \<and> hex_digit c \<noteq> None then c # cs else a # b # c # cs)"
| "strip_0x cs = cs"

definition strtol16 :: "string \<Rightarrow> int" where
  "strtol16 str =
     (case dropWhile is_space str of
        [] \<Rightarrow> 0
      | c # cs \<Rightarrow> if c = CHR ''-'' then - int (hex_run 0 (strip_0x cs))
                  else if c = CHR ''+'' then int (hex_run 0 (strip_0x cs))
                  else int (hex_run 0 (strip_0x (c # cs))))"

text \<open>The C string behind \<open>c_str()\<close> ends at the first NUL.\<close>

definition c_str :: "string \<Rightarrow> string" where
  "c_str s = takeWhile (\<lambda>c. of_char c \<noteq> (0 :: nat)) s"

definition parse_level :: "u8 \<Rightarrow> u8 \<Rightarrow> H264Level option" where
  "parse_level level_idc profile_iop =
     (case find_if (\<lambda>l. l \<noteq> kLevel1_b \<and> of_nat (level_value l) = level_idc)
        [kLevel1, kLevel1_1, kLevel1_2, kLevel1_3, kLevel2, kLevel2_1, kLevel2_2, kLevel3, kLevel3_1,
         kLevel3_2, kLevel4, kLevel4_1, kLevel4_2, kLevel5, kLevel5_1, kLevel5_2] of
        None \<Rightarrow> None
      | Some l \<Rightarrow> Some (if l = kLevel1_1 \<and> profile_iop AND 0x10 \<noteq> 0 then kLevel1_b else l))"

definition ParseH264ProfileLevelId :: "string \<Rightarrow> H264ProfileLevelId option" where
  "ParseH264ProfileLevelId str =
     (if length str \<noteq> 6 then None
      else let numeric = (word_of_int (strtol16 str) :: u32)
           in if numeric = 0 then None
              else let level_idc = (ucast (numeric AND 0xFF) :: u8);
                       profile_iop = (ucast (drop_bit 8 numeric AND 0xFF) :: u8);
                       profile_idc = (ucast (drop_bit 16 numeric AND 0xFF) :: u8)
                   in case parse_level level_idc profile_iop of
                        None \<Rightarrow> None
                      | Some level \<Rightarrow>
                          map_option (\<lambda>(_, _, profile). (profile, level))
                            (find_if (\<lambda>(idc, pattern, _). profile_idc = idc \<and> IsMatch pattern profile_iop)
                               kProfilePatterns))"

definition ParseSdpForH264ProfileLevelId :: "CodecParameterMap \<Rightarrow> H264ProfileLevelId option" where
  "ParseSdpForH264ProfileLevelId params =
     (case params ''profile-level-id'' of
        None \<Rightarrow> Some (kProfileConstrainedBaseline, kLevel3_1)
      | Some s \<Rightarrow> ParseH264ProfileLevelId (c_str s))"

subsection \<open>Printing\<close>

fun profile_1b_string :: "H264Profile \<Rightarrow> string option" where
  "profile_1b_string kProfileConstrainedBaseline = Some ''42f00b''"
| "profile_1b_string kProfileBaseline = Some ''42100b''"
| "profile_1b_string kProfileMain = Some ''4d100b''"
| "profile_1b_string _ = None"

fun profile_idc_iop_string :: "H264Profile \<Rightarrow> string" where
  "profile_idc_iop_string kProfileConstrainedBaseline = ''42e0''"
| "profile_idc_iop_string kProfileBaseline = ''4200''"
| "profile_idc_iop_string kProfileMain = ''4d00''"
| "profile_idc_iop_string kProfileConstrainedHigh = ''640c''"
| "profile_idc_iop_string kProfileHigh = ''6400''"

definition H264ProfileLevelIdToString :: "H264ProfileLevelId \<Rightarrow> string option" where
  "H264ProfileLevelIdToString pl =
     (case pl of (profile, level) \<Rightarrow>
        if level = kLevel1_b then profile_1b_string profile
        else Some (profile_idc_iop_string profile @ hex2 (level_value level)))"

definition H264IsSameProfile :: "CodecParameterMap \<Rightarrow> CodecParameterMap \<Rightarrow> bool" where
  "H264IsSameProfile params1 params2 =
     (case (ParseSdpForH264ProfileLevelId params1, ParseSdpForH264ProfileLevelId params2) of
        (Some (p1, _), Some (p2, _)) \<Rightarrow> p1 = p2
      | _ \<Rightarrow> False)"

subsection \<open>Level negotiation\<close>

definition IsH264LevelAsymmetryAllowed :: "CodecParameterMap \<Rightarrow> bool" where
  "IsH264LevelAsymmetryAllowed params =
     (case params ''level-asymmetry-allowed'' of None \<Rightarrow> False | Some s \<Rightarrow> c_str s = ''1'')"

definition H264LevelIsLess :: "H264Level \<Rightarrow> H264Level \<Rightarrow> bool" where
  "H264LevelIsLess a b =
     (if a = kLevel1_b then b \<noteq> kLevel1 \<and> b \<noteq> kLevel1_b
      else if b = kLevel1_b then a = kLevel1
      else level_value a < level_value b)"

definition H264LevelMin :: "H264Level \<Rightarrow> H264Level \<Rightarrow> H264Level" where
  "H264LevelMin a b = (if H264LevelIsLess a b then a else b)"

text \<open>The new answer parameters; dereferencing an empty optional is undefined.\<close>

definition H264GenerateProfileLevelIdForAnswer ::
  "CodecParameterMap \<Rightarrow> CodecParameterMap \<Rightarrow> CodecParameterMap \<Rightarrow> CodecParameterMap result" where
  "H264GenerateProfileLevelIdForAnswer local_params remote_params answer_params =
     (if local_params ''profile-level-id'' = None \<and> remote_params ''profile-level-id'' = None
      then Inr answer_params
      else case (ParseSdpForH264ProfileLevelId local_params, ParseSdpForH264ProfileLevelId remote_params) of
             (Some (local_profile, local_level), Some (_, remote_level)) \<Rightarrow>
               let level_asymmetry_allowed =
                     (IsH264LevelAsymmetryAllowed local_params \<and> IsH264LevelAsymmetryAllowed remote_params);
                   min_level = H264LevelMin local_level remote_level;
                   answer_level = (if level_asymmetry_allowed then local_level else min_level)
               in (case H264ProfileLevelIdToString (local_profile, answer_level) of
                     Some s \<Rightarrow> Inr (answer_params(''profile-level-id'' \<mapsto> s))
                   | None \<Rightarrow> Inl (Undefined ''empty optional''))
           | _ \<Rightarrow> Inl (Undefined ''empty optional''))"

section \<open>Round trip\<close>

lemmas h264_eval = ParseH264ProfileLevelId_def strtol16_def is_space_def hex_digit_def parse_level_def
  IsMatch_def ByteMaskString_def kProfilePatterns_def H264ProfileLevelIdToString_def hex2_def hex_char_def

lemma parse_print: "H264ProfileLevelIdToString (p, l) = Some s \<Longrightarrow> ParseH264ProfileLevelId s = Some (p, l)"
  by (cases p; cases l) (auto simp: h264_eval)

lemma print_c_str: "H264ProfileLevelIdToString (p, l) = Some s \<Longrightarrow> c_str s = s"
  by (cases p; cases l) (auto simp: H264ProfileLevelIdToString_def hex2_def hex_char_def c_str_def)

text \<open>Level 1b is only ever parsed together with a profile that can be printed at that level.\<close>

lemma parse_1b_profile:
  assumes "ParseH264ProfileLevelId s = Some (p, kLevel1_b)"
  shows "profile_1b_string p \<noteq> None"
proof -
  define n where "n = (word_of_int (strtol16 s) :: u32)"
  define iop where "iop = (ucast (drop_bit 8 n AND 0xFF) :: u8)"
  define idc where "idc = (ucast (drop_bit 16 n AND 0xFF) :: u8)"
  have lv: "parse_level (ucast (n AND 0xFF)) iop = Some kLevel1_b"
    and pat: "\<exists>a b. find_if (\<lambda>(i, pattern, _). idc = i \<and> IsMatch pattern iop) kProfilePatterns = Some (a, b, p)"
    using assms unfolding ParseH264ProfileLevelId_def Let_def n_def [symmetric] iop_def [symmetric] idc_def [symmetric]
    by (auto split: if_splits option.splits)
  from lv have "iop AND 0x10 \<noteq> 0"
    by (auto simp: parse_level_def dest!: find_if_SomeD split: option.splits if_splits)
  then have "\<not> IsMatch ''00000000'' iop" "\<not> IsMatch ''00001100'' iop"
    by (auto simp: IsMatch_def ByteMaskString_def)
  then have "p \<noteq> kProfileHigh" "p \<noteq> kProfileConstrainedHigh"
    using pat by (auto simp: kProfilePatterns_def split: if_splits)
  then show ?thesis by (cases p) simp_all
qed

lemma print_defined:
  "l \<noteq> kLevel1_b \<or> profile_1b_string p \<noteq> None \<Longrightarrow> \<exists>s. H264ProfileLevelIdToString (p, l) = Some s"
  by (auto simp: H264ProfileLevelIdToString_def)

section \<open>The order of levels\<close>

text \<open>Level 1b lies between 1 and 1.1.\<close>

definition level_rank :: "H264Level \<Rightarrow> nat" where
  "level_rank l = (if l = kLevel1_b then 21 else 2 * level_value l)"

lemma level_rank_inj: "level_rank a = level_rank b \<Longrightarrow> a = b"
  by (cases a; cases b) (simp_all add: level_rank_def)

lemma H264LevelIsLess_rank: "H264LevelIsLess a b \<longleftrightarrow> level_rank a < level_rank b"
  by (cases a; cases b) (simp_all add: level_rank_def H264LevelIsLess_def)

instantiation H264Level :: linorder
begin

definition less_H264Level :: "H264Level \<Rightarrow> H264Level \<Rightarrow> bool" where
  "less_H264Level a b = H264LevelIsLess a b"

definition less_eq_H264Level :: "H264Level \<Rightarrow> H264Level \<Rightarrow> bool" where
  "less_eq_H264Level a b = (\<not> H264LevelIsLess b a)"

instance
proof
  fix x y z :: H264Level
  show "x < y \<longleftrightarrow> x \<le> y \<and> \<not> y \<le> x" "x \<le> x" "x \<le> y \<or> y \<le> x" "x \<le> y \<Longrightarrow> y \<le> z \<Longrightarrow> x \<le> z"
    by (auto simp: less_H264Level_def less_eq_H264Level_def H264LevelIsLess_rank)
  show "x \<le> y \<Longrightarrow> y \<le> x \<Longrightarrow> x = y"
    by (rule level_rank_inj) (simp add: less_eq_H264Level_def H264LevelIsLess_rank)
qed

end

lemma H264LevelMin_eq: "H264LevelMin a b = min a b"
  by (rule level_rank_inj) (simp add: H264LevelMin_def min_def less_eq_H264Level_def H264LevelIsLess_rank)

lemma min_cases_level: "min a b = a \<or> min a b = (b :: H264Level)"
  by (simp add: min_def)

lemma min_rank: "min a b = (if level_rank a \<le> level_rank b then a else b)"
  by (simp add: min_def less_eq_H264Level_def H264LevelIsLess_rank not_less)

section \<open>Properties\<close>

text \<open>C20. Printing and parsing: the canonical string of every profile and level that has one
  parses back to the same profile and level; only level 1b of the two high profiles has none.\<close>

theorem h264_print_parse:
  "(case H264ProfileLevelIdToString (p, l) of
      Some s \<Rightarrow> ParseH264ProfileLevelId s = Some (p, l)
    | None \<Rightarrow> l = kLevel1_b \<and> p \<in> {kProfileHigh, kProfileConstrainedHigh})"
proof (cases "H264ProfileLevelIdToString (p, l)")
  case None
  then show ?thesis by (cases p) (auto simp: H264ProfileLevelIdToString_def split: if_splits)
qed (simp add: parse_print)

text \<open>C19. Level negotiation: for two parameter maps of the same profile, at least one of which
  names a profile-level-id, the answer is always generated (no empty optional is dereferenced) and
  parses to the common profile with the local level when both sides allow asymmetry, and otherwise
  with the lower of the two levels in the order 1, 1b, 1.1, ..., 5.2.\<close>

theorem h264_answer:
  assumes "ParseSdpForH264ProfileLevelId l = Some (p, lv)" and "ParseSdpForH264ProfileLevelId r = Some (p, rv)"
    and "l ''profile-level-id'' \<noteq> None \<or> r ''profile-level-id'' \<noteq> None"
  shows "H264IsSameProfile l r \<and> (\<exists>ans. H264GenerateProfileLevelIdForAnswer l r params = Inr ans
    \<and> ParseSdpForH264ProfileLevelId ans
      = Some (p, if IsH264LevelAsymmetryAllowed l \<and> IsH264LevelAsymmetryAllowed r then lv
                 else if level_rank lv \<le> level_rank rv then lv else rv))"
proof -
  let ?lv = "if IsH264LevelAsymmetryAllowed l \<and> IsH264LevelAsymmetryAllowed r then lv else min lv rv"
  have p1: "profile_1b_string p \<noteq> None" if "ParseSdpForH264ProfileLevelId q = Some (p, kLevel1_b)" for q
    using that parse_1b_profile by (auto simp: ParseSdpForH264ProfileLevelId_def split: option.splits)
  have "?lv \<noteq> kLevel1_b \<or> profile_1b_string p \<noteq> None"
    using p1 [of l] p1 [of r] assms(1,2) min_cases_level [of lv rv] by auto
  then obtain s where s: "H264ProfileLevelIdToString (p, ?lv) = Some s" using print_defined by blast
  then have "ParseSdpForH264ProfileLevelId (params(''profile-level-id'' \<mapsto> s)) = Some (p, ?lv)"
    using parse_print print_c_str by (simp add: ParseSdpForH264ProfileLevelId_def)
  moreover have "H264GenerateProfileLevelIdForAnswer l r params = Inr (params(''profile-level-id'' \<mapsto> s))"
    using assms s by (auto simp: H264GenerateProfileLevelIdForAnswer_def H264LevelMin_eq Let_def)
  ultimately show ?thesis using assms(1,2) by (simp add: H264IsSameProfile_def min_rank)
qed

theorem h264_answer_witness:
  "H264IsSameProfile [''profile-level-id'' \<mapsto> ''42e01f''] [''profile-level-id'' \<mapsto> ''42f00b'']
   \<and> (\<exists>ans. H264GenerateProfileLevelIdForAnswer [''profile-level-id'' \<mapsto> ''42e01f'']
        [''profile-level-id'' \<mapsto> ''42f00b''] Map.empty = Inr ans
      \<and> ParseSdpForH264ProfileLevelId ans = Some (kProfileConstrainedBaseline, kLevel1_b))"
proof -
  let ?l = "[''profile-level-id'' \<mapsto> ''42e01f'']" and ?r = "[''profile-level-id'' \<mapsto> ''42f00b'']"
  have "ParseSdpForH264ProfileLevelId ?l = Some (kProfileConstrainedBaseline, kLevel3_1)"
    "ParseSdpForH264ProfileLevelId ?r = Some (kProfileConstrainedBaseline, kLevel1_b)"
    by (simp_all add: ParseSdpForH264ProfileLevelId_def c_str_def h264_eval)
  moreover have "\<not> level_rank kLevel3_1 \<le> level_rank kLevel1_b" "\<not> IsH264LevelAsymmetryAllowed ?l"
    by (simp_all add: level_rank_def IsH264LevelAsymmetryAllowed_def)
  ultimately show ?thesis using h264_answer [of ?l kProfileConstrainedBaseline kLevel3_1 ?r kLevel1_b Map.empty] by simp
qed

end
