(* ===== verification/Ortc_Match.thy ===== *)
theory Ortc_Match
  imports Ortc_Contract H264_Profile
begin

text \<open>
  The matching helpers at the end of \<^verbatim>\<open>ortc.cpp\<close>: when two codecs or header extensions are the same,
  and the RTCP feedback that two codecs have in common.  The mutable subscript operator may insert
  a null and \<open>matchCodecs\<close> may rewrite the H.264 profile, so matching returns both codecs.
\<close>

section \<open>Loops\<close>

text \<open>\<open>std::find_if\<close> with a predicate that may throw: the position of the first match.\<close>

fun find_at :: "('a \<Rightarrow> bool result) \<Rightarrow> 'a list \<Rightarrow> nat option result" where
  "find_at p [] = Inr None"
| "find_at p (x # xs) = rbind (p x) (\<lambda>b. if b then Inr (Some 0) else rbind (find_at p xs) (\<lambda>r. Inr (map_option Suc r)))"

text \<open>A loop that erases the elements for which a predicate holds.\<close>

fun removeM :: "('a \<Rightarrow> bool result) \<Rightarrow> 'a list \<Rightarrow> 'a list result" where
  "removeM p [] = Inr []"
| "removeM p (x # xs) = rbind (p x) (\<lambda>b. rbind (removeM p xs) (\<lambda>ys. Inr (if b then ys else x # ys)))"

text \<open>\<open>*j.find(key)\<close>: dereferencing the end iterator is undefined for objects and arrays.\<close>

fun deref_find :: "json \<Rightarrow> string \<Rightarrow> json result" where
  "deref_find (JObj ps) k = (case obj_get k ps of Some v \<Rightarrow> Inr v | None \<Rightarrow> Inl (Undefined ''end iterator''))"
| "deref_find (JArr xs) k = Inl (Undefined ''end iterator'')"
| "deref_find j k = Inl (StdException ''invalid_iterator'')"

section \<open>Decimal numbers\<close>

text \<open>\<open>std::to_string\<close> of an integer.\<close>

fun nat_string :: "nat \<Rightarrow> string" where
  "nat_string n = (if n < 10 then [char_of (48 + n)] else nat_string (n div 10) @ [char_of (48 + n mod 10)])"

declare nat_string.simps [simp del]

definition int_string :: "int \<Rightarrow> string" where
  "int_string i = (if i < 0 then ''-'' @ nat_string (nat (- i)) else nat_string (nat i))"

section \<open>Codecs\<close>

definition isRtxCodec :: "json \<Rightarrow> bool result" where
  "isRtxCodec codec =
     rbind (at_const codec ''mimeType'') (\<lambda>m. rbind (get_string m) (\<lambda>mimeType.
       Inr (to_lower mimeType \<in> {''audio/rtx'', ''video/rtx''})))"

definition getH264PacketizationMode :: "json \<Rightarrow> u8 result" where
  "getH264PacketizationMode codec =
     rbind (at_const codec ''parameters'') (\<lambda>parameters.
       case jfind parameters ''packetization-mode'' of
         None \<Rightarrow> Inr 0
       | Some v \<Rightarrow> if \<not> is_number_integer v then Inr 0 else get_u8 v)"

definition getH264LevelAssimetryAllowed :: "json \<Rightarrow> u8 result" where
  "getH264LevelAssimetryAllowed codec =
     rbind (at_const codec ''parameters'') (\<lambda>parameters.
       case jfind parameters ''level-asymmetry-allowed'' of
         None \<Rightarrow> Inr 0
       | Some v \<Rightarrow> if \<not> is_number_integer v then Inr 0 else get_u8 v)"

definition getH264ProfileLevelId :: "json \<Rightarrow> string result" where
  "getH264ProfileLevelId codec =
     rbind (at_const codec ''parameters'') (\<lambda>parameters.
       case jfind parameters ''profile-level-id'' of
         None \<Rightarrow> Inr ''''
       | Some v \<Rightarrow> if is_number v then rbind (get_i32 v) (\<lambda>n. Inr (int_string (sint n))) else get_string v)"

definition getVP9ProfileId :: "json \<Rightarrow> string result" where
  "getVP9ProfileId codec =
     rbind (at_const codec ''parameters'') (\<lambda>parameters.
       case jfind parameters ''profile-id'' of
         None \<Rightarrow> Inr ''0''
       | Some v \<Rightarrow> if is_number v then rbind (get_i32 v) (\<lambda>n. Inr (int_string (sint n))) else get_string v)"

text \<open>The parameters that are handed to WebRTC's H.264 helpers.\<close>

definition h264_parameters :: "u8 \<Rightarrow> json \<Rightarrow> CodecParameterMap result" where
  "h264_parameters mode codec =
     rbind (getH264LevelAssimetryAllowed codec) (\<lambda>l. rbind (getH264ProfileLevelId codec) (\<lambda>p.
       Inr [''level-asymmetry-allowed'' \<mapsto> int_string (uint l), ''packetization-mode'' \<mapsto> int_string (uint mode),
            ''profile-level-id'' \<mapsto> p]))"

text \<open>\<open>codec["parameters"]["profile-level-id"] = id\<close>, or the erasure of that key.\<close>

definition set_profile_level_id :: "string option \<Rightarrow> json \<Rightarrow> json result" where
  "set_profile_level_id i codec =
     rbind (at_mut codec ''parameters'') (\<lambda>(c, ps).
     rbind (case i of Some s \<Rightarrow> set_key ps ''profile-level-id'' (JStr s) | None \<Rightarrow> erase_key ps ''profile-level-id'') (\<lambda>ps'.
       set_key c ''parameters'' ps'))"

definition match_h264 :: "json \<Rightarrow> json \<Rightarrow> bool \<Rightarrow> (bool \<times> json \<times> json) result" where
  "match_h264 aCodec bCodec modify =
     rbind (getH264PacketizationMode aCodec) (\<lambda>aMode. rbind (getH264PacketizationMode bCodec) (\<lambda>bMode.
     if aMode \<noteq> bMode then Inr (False, aCodec, bCodec)
     else
       rbind (h264_parameters aMode aCodec) (\<lambda>aParameters. rbind (h264_parameters bMode bCodec) (\<lambda>bParameters.
       if \<not> H264IsSameProfile aParameters bParameters then Inr (False, aCodec, bCodec)
       else
         rbind (H264GenerateProfileLevelIdForAnswer aParameters bParameters Map.empty) (\<lambda>newParameters.
         if modify
         then rbind (set_profile_level_id (newParameters ''profile-level-id'') aCodec) (\<lambda>a.
              rbind (set_profile_level_id (newParameters ''profile-level-id'') bCodec) (\<lambda>b. Inr (True, a, b)))
         else Inr (True, aCodec, bCodec))))))"

definition matchCodecs :: "json \<Rightarrow> json \<Rightarrow> bool \<Rightarrow> bool \<Rightarrow> (bool \<times> json \<times> json) result" where
  "matchCodecs aCodec bCodec strict modify =
     rbind (deref_find aCodec ''mimeType'') (\<lambda>am. rbind (deref_find bCodec ''mimeType'') (\<lambda>bm.
     rbind (get_string am) (\<lambda>as. rbind (get_string bm) (\<lambda>bs.
     let aMimeType = to_lower as; bMimeType = to_lower bs
     in if aMimeType \<noteq> bMimeType then Inr (False, aCodec, bCodec)
        else
          rbind (at_mut aCodec ''clockRate'') (\<lambda>(a, ar). rbind (at_mut bCodec ''clockRate'') (\<lambda>(b, br).
          if \<not> json_eq ar br then Inr (False, a, b)
          else if contains a ''channels'' \<noteq> contains b ''channels'' then Inr (False, a, b)
          else
            rbind (if contains a ''channels''
                   then rbind (at_mut a ''channels'') (\<lambda>(_, x). rbind (at_mut b ''channels'') (\<lambda>(_, y). Inr (json_eq x y)))
                   else Inr True) (\<lambda>same.
            if \<not> same then Inr (False, a, b)
            else if aMimeType = ''video/h264'' then (if strict then match_h264 a b modify else Inr (True, a, b))
            else if aMimeType = ''video/vp9'' \<and> strict
            then rbind (getVP9ProfileId a) (\<lambda>x. rbind (getVP9ProfileId b) (\<lambda>y. Inr (x = y, a, b)))
            else Inr (True, a, b))))))))"

definition matchHeaderExtensions :: "json \<Rightarrow> json \<Rightarrow> bool result" where
  "matchHeaderExtensions aExt bExt =
     rbind (at_const aExt ''kind'') (\<lambda>x. rbind (at_const bExt ''kind'') (\<lambda>y.
     if \<not> json_eq x y then Inr False
     else rbind (at_const aExt ''uri'') (\<lambda>u. rbind (at_const bExt ''uri'') (\<lambda>v. Inr (json_eq u v)))))"

text \<open>The comparison of the parameters is only evaluated when the types are equal.\<close>

definition same_feedback :: "json \<Rightarrow> json \<Rightarrow> bool result" where
  "same_feedback aFb bFb =
     rbind (at_const aFb ''type'') (\<lambda>s. rbind (at_const bFb ''type'') (\<lambda>t.
     if \<not> json_eq s t then Inr False
     else rbind (at_const aFb ''parameter'') (\<lambda>x. rbind (at_const bFb ''parameter'') (\<lambda>y. Inr (json_eq x y)))))"

definition reduceRtcpFeedback :: "json \<Rightarrow> json \<Rightarrow> json result" where
  "reduceRtcpFeedback codecA codecB =
     rbind (deref_find codecA ''rtcpFeedback'') (\<lambda>fa.
     rbind (mapM (\<lambda>aFb.
       rbind (deref_find codecB ''rtcpFeedback'') (\<lambda>fb.
       rbind (find_at (same_feedback aFb) (elems fb)) (\<lambda>i.
         Inr (case i of Some n \<Rightarrow> [elems fb ! n] | None \<Rightarrow> [])))) (elems fa)) (\<lambda>fs. Inr (JArr (concat fs))))"

end
