(* ===== verification/Ortc_Caps.thy ===== *)
theory Ortc_Caps
  imports Ortc_Match
begin

text \<open>
  The negotiation of \<^verbatim>\<open>ortc.cpp\<close>: the extended RTP capabilities that local and remote side have in
  common, and the capabilities and parameters derived from them.  Functions that take a mutable
  reference return the updated value with their result.
\<close>

section \<open>Extended capabilities\<close>

text \<open>The search for a matching local codec; every codec it compares may be rewritten.\<close>

fun find_local_codec :: "json list \<Rightarrow> json \<Rightarrow> (nat option \<times> json list \<times> json) result" where
  "find_local_codec [] remoteCodec = Inr (None, [], remoteCodec)"
| "find_local_codec (l # ls) remoteCodec =
     rbind (matchCodecs l remoteCodec True True) (\<lambda>(ok, l', r).
       if ok then Inr (Some 0, l' # ls, r)
       else rbind (find_local_codec ls r) (\<lambda>(i, ls', r'). Inr (map_option Suc i, l' # ls', r')))"

definition extended_codec :: "json \<Rightarrow> json \<Rightarrow> (json \<times> json \<times> json) result" where
  "extended_codec localCodec remoteCodec =
     rbind (at_mut localCodec ''mimeType'') (\<lambda>(l1, mimeType).
     rbind (at_mut l1 ''kind'') (\<lambda>(l2, kind).
     rbind (at_mut l2 ''clockRate'') (\<lambda>(l3, clockRate).
     rbind (at_mut l3 ''preferredPayloadType'') (\<lambda>(l4, lpt).
     rbind (at_mut remoteCodec ''preferredPayloadType'') (\<lambda>(r1, rpt).
     rbind (at_mut l4 ''parameters'') (\<lambda>(l5, lparams).
     rbind (at_mut r1 ''parameters'') (\<lambda>(r2, rparams).
     rbind (reduceRtcpFeedback l5 r2) (\<lambda>fb.
       let e = mk_obj [(''mimeType'', mimeType), (''kind'', kind), (''clockRate'', clockRate),
                       (''localPayloadType'', lpt), (''localRtxPayloadType'', JNull),
                       (''remotePayloadType'', rpt), (''remoteRtxPayloadType'', JNull),
                       (''localParameters'', lparams), (''remoteParameters'', rparams), (''rtcpFeedback'', fb)]
       in if contains l5 ''channels''
          then rbind (at_mut l5 ''channels'') (\<lambda>(l6, ch). rbind (set_key e ''channels'' ch) (\<lambda>e'. Inr (e', l6, r2)))
          else Inr (e, l5, r2)))))))))"

text \<open>One round of the loop over the remote codecs; the state holds the local codecs, the remote
  codecs dealt with so far and the extended codecs.\<close>

definition match_codec_step :: "json \<Rightarrow> json list \<times> json list \<times> json list \<Rightarrow> (json list \<times> json list \<times> json list) result" where
  "match_codec_step remoteCodec s =
     (case s of (locals, remotes, exts) \<Rightarrow>
        rbind (isRtxCodec remoteCodec) (\<lambda>rtx.
        if rtx then Inr (locals, remotes @ [remoteCodec], exts)
        else
          rbind (find_local_codec locals remoteCodec) (\<lambda>(i, locals1, r).
          case i of
            None \<Rightarrow> Inr (locals1, remotes @ [r], exts)
          | Some n \<Rightarrow>
              rbind (extended_codec (locals1 ! n) r) (\<lambda>(e, l', r').
                Inr (locals1[n := l'], remotes @ [r'], exts @ [e])))))"

text \<open>The RTX codec whose \<open>apt\<close> parameter is the given payload type.\<close>

definition rtx_for :: "json \<Rightarrow> json \<Rightarrow> bool result" where
  "rtx_for payloadType codec =
     rbind (isRtxCodec codec) (\<lambda>rtx.
     if \<not> rtx then Inr False
     else rbind (at_const codec ''parameters'') (\<lambda>ps. rbind (at_const ps ''apt'') (\<lambda>apt. Inr (json_eq apt payloadType))))"

definition match_rtx_step :: "json \<Rightarrow> json list \<times> json list \<times> json list \<Rightarrow> (json list \<times> json list \<times> json list) result" where
  "match_rtx_step extendedCodec s =
     (case s of (locals, remotes, exts) \<Rightarrow>
        rbind (at_mut extendedCodec ''localPayloadType'') (\<lambda>(_, lpt).
        rbind (find_at (rtx_for lpt) locals) (\<lambda>i.
        case i of
          None \<Rightarrow> Inr (locals, remotes, exts @ [extendedCodec])
        | Some n \<Rightarrow>
            rbind (at_mut extendedCodec ''remotePayloadType'') (\<lambda>(_, rpt).
            rbind (find_at (rtx_for rpt) remotes) (\<lambda>j.
            case j of
              None \<Rightarrow> Inr (locals, remotes, exts @ [extendedCodec])
            | Some m \<Rightarrow>
                rbind (at_mut (locals ! n) ''preferredPayloadType'') (\<lambda>(l, lrtx).
                rbind (set_key extendedCodec ''localRtxPayloadType'' lrtx) (\<lambda>e1.
                rbind (at_mut (remotes ! m) ''preferredPayloadType'') (\<lambda>(r, rrtx).
                rbind (set_key e1 ''remoteRtxPayloadType'' rrtx) (\<lambda>e2.
                  Inr (locals[n := l], remotes[m := r], exts @ [e2]))))))))))"

text \<open>The direction seen from the other side; any other text leaves the member out.\<close>

definition opposite_direction :: "string \<Rightarrow> string option" where
  "opposite_direction d =
     (if d = ''sendrecv'' then Some ''sendrecv''
      else if d = ''recvonly'' then Some ''sendonly''
      else if d = ''sendonly'' then Some ''recvonly''
      else if d = ''inactive'' then Some ''inactive''
      else None)"

definition extended_ext :: "json \<Rightarrow> json \<Rightarrow> (json \<times> json \<times> json) result" where
  "extended_ext localExt remoteExt =
     rbind (at_mut remoteExt ''kind'') (\<lambda>(r1, kind).
     rbind (at_mut r1 ''uri'') (\<lambda>(r2, uri).
     rbind (at_mut localExt ''preferredId'') (\<lambda>(l1, sendId).
     rbind (at_mut r2 ''preferredId'') (\<lambda>(r3, recvId).
     rbind (at_mut l1 ''preferredEncrypt'') (\<lambda>(l2, encrypt).
     rbind (at_mut r3 ''direction'') (\<lambda>(r4, dir).
     rbind (get_string dir) (\<lambda>d.
       let e = mk_obj [(''kind'', kind), (''uri'', uri), (''sendId'', sendId), (''recvId'', recvId), (''encrypt'', encrypt)]
       in rbind (case opposite_direction d of Some s \<Rightarrow> set_key e ''direction'' (JStr s) | None \<Rightarrow> Inr e) (\<lambda>e'.
          Inr (e', l2, r4)))))))))"

definition match_ext_step :: "json \<Rightarrow> json list \<times> json list \<times> json list \<Rightarrow> (json list \<times> json list \<times> json list) result" where
  "match_ext_step remoteExt s =
     (case s of (locals, remotes, exts) \<Rightarrow>
        rbind (find_at (\<lambda>l. matchHeaderExtensions l remoteExt) locals) (\<lambda>i.
        case i of
          None \<Rightarrow> Inr (locals, remotes @ [remoteExt], exts)
        | Some n \<Rightarrow>
            rbind (extended_ext (locals ! n) remoteExt) (\<lambda>(e, l, r).
              Inr (locals[n := l], remotes @ [r], exts @ [e]))))"

text \<open>Both arguments are validated first, so the four members that are looped over are arrays.\<close>

definition getExtendedRtpCapabilities :: "json \<Rightarrow> json \<Rightarrow> (json \<times> json \<times> json) result" where
  "getExtendedRtpCapabilities localCaps remoteCaps =
     rbind (validateRtpCapabilities localCaps) (\<lambda>lc.
     rbind (validateRtpCapabilities remoteCaps) (\<lambda>rc.
     rbind (at_mut lc ''codecs'') (\<lambda>(_, lcs).
     rbind (deref_find rc ''codecs'') (\<lambda>rcs.
     rbind (foldM match_codec_step (elems rcs) (elems lcs, [], [])) (\<lambda>(lcs1, rcs1, exts1).
     rbind (foldM match_rtx_step exts1 (lcs1, rcs1, [])) (\<lambda>(lcs2, rcs2, exts2).
     rbind (at_mut rc ''headerExtensions'') (\<lambda>(_, rhs).
     rbind (at_mut lc ''headerExtensions'') (\<lambda>(_, lhs).
     rbind (foldM match_ext_step (elems rhs) (elems lhs, [], [])) (\<lambda>(lhs1, rhs1, hexts).
     rbind (set_key lc ''codecs'' (JArr lcs2)) (\<lambda>lc1. rbind (set_key lc1 ''headerExtensions'' (JArr lhs1)) (\<lambda>lc2.
     rbind (set_key rc ''codecs'' (JArr rcs2)) (\<lambda>rc1. rbind (set_key rc1 ''headerExtensions'' (JArr rhs1)) (\<lambda>rc2.
       Inr (lc2, rc2, mk_obj [(''codecs'', JArr exts2), (''headerExtensions'', JArr hexts)]))))))))))))))"

section \<open>Receiving capabilities\<close>

text \<open>The RTX codec that belongs to a codec; \<open>ptKey\<close> is the member that holds the payload type.\<close>

definition rtx_codec :: "string \<Rightarrow> string \<Rightarrow> string \<Rightarrow> json \<Rightarrow> obj \<Rightarrow> json result" where
  "rtx_codec ptKey aptKey rtxKey e extra =
     rbind (at_const e ''kind'') (\<lambda>k. rbind (get_string k) (\<lambda>kind.
     rbind (at_const e rtxKey) (\<lambda>pt. rbind (at_const e ''clockRate'') (\<lambda>clockRate.
     rbind (at_const e aptKey) (\<lambda>apt. rbind (get_u8 apt) (\<lambda>n.
       Inr (mk_obj ([(''mimeType'', JStr (kind @ ''/rtx''))] @ extra @ [(ptKey, pt), (''clockRate'', clockRate),
         (''parameters'', mk_obj [(''apt'', JUInt (ucast n))]), (''rtcpFeedback'', JArr [])]))))))))"

definition copy_channels :: "json \<Rightarrow> json \<Rightarrow> json result" where
  "copy_channels e codec =
     (if contains e ''channels'' then rbind (at_const e ''channels'') (set_key codec ''channels'') else Inr codec)"

definition recv_codec :: "json \<Rightarrow> json list result" where
  "recv_codec e =
     rbind (at_const e ''mimeType'') (\<lambda>mimeType. rbind (at_const e ''kind'') (\<lambda>kind.
     rbind (at_const e ''remotePayloadType'') (\<lambda>pt. rbind (at_const e ''clockRate'') (\<lambda>clockRate.
     rbind (at_const e ''localParameters'') (\<lambda>params. rbind (at_const e ''rtcpFeedback'') (\<lambda>fb.
     rbind (copy_channels e (mk_obj [(''mimeType'', mimeType), (''kind'', kind), (''preferredPayloadType'', pt),
         (''clockRate'', clockRate), (''parameters'', params), (''rtcpFeedback'', fb)])) (\<lambda>codec.
     rbind (at_const e ''remoteRtxPayloadType'') (\<lambda>rtx.
     if json_eq rtx JNull then Inr [codec]
     else rbind (rtx_codec ''preferredPayloadType'' ''remotePayloadType'' ''remoteRtxPayloadType'' e [(''kind'', kind)]) (\<lambda>r.
            Inr [codec, r])))))))))"

definition recv_ext :: "json \<Rightarrow> json list result" where
  "recv_ext x =
     rbind (at_const x ''direction'') (\<lambda>dir. rbind (get_string dir) (\<lambda>direction.
     if direction \<noteq> ''sendrecv'' \<and> direction \<noteq> ''recvonly'' then Inr []
     else
       rbind (at_const x ''kind'') (\<lambda>kind. rbind (at_const x ''uri'') (\<lambda>uri.
       rbind (at_const x ''recvId'') (\<lambda>recvId. rbind (at_const x ''encrypt'') (\<lambda>encrypt.
         Inr [mk_obj [(''kind'', kind), (''uri'', uri), (''preferredId'', recvId), (''preferredEncrypt'', encrypt),
                      (''direction'', dir)]]))))))"

definition getRecvRtpCapabilities :: "json \<Rightarrow> json result" where
  "getRecvRtpCapabilities ext =
     rbind (at_const ext ''codecs'') (\<lambda>cs. rbind (mapM recv_codec (elems cs)) (\<lambda>codecs.
     rbind (at_const ext ''headerExtensions'') (\<lambda>hs. rbind (mapM recv_ext (elems hs)) (\<lambda>exts.
       Inr (mk_obj [(''codecs'', JArr (concat codecs)), (''headerExtensions'', JArr (concat exts))])))))"

section \<open>Sending parameters\<close>

definition has_kind :: "string \<Rightarrow> json \<Rightarrow> bool result" where
  "has_kind kind e = rbind (at_const e ''kind'') (\<lambda>k. rbind (get_string k) (\<lambda>s. Inr (kind = s)))"

text \<open>The first codec of the kind, with its RTX codec; \<open>paramKey\<close> selects whose parameters are used.\<close>

definition send_codec :: "string \<Rightarrow> json \<Rightarrow> json list result" where
  "send_codec paramKey e =
     rbind (at_const e ''mimeType'') (\<lambda>mimeType. rbind (at_const e ''localPayloadType'') (\<lambda>pt.
     rbind (at_const e ''clockRate'') (\<lambda>clockRate. rbind (at_const e paramKey) (\<lambda>params.
     rbind (at_const e ''rtcpFeedback'') (\<lambda>fb.
     rbind (copy_channels e (mk_obj [(''mimeType'', mimeType), (''payloadType'', pt), (''clockRate'', clockRate),
         (''parameters'', params), (''rtcpFeedback'', fb)])) (\<lambda>codec.
     rbind (at_const e ''localRtxPayloadType'') (\<lambda>rtx.
     if json_eq rtx JNull then Inr [codec]
     else rbind (rtx_codec ''payloadType'' ''localPayloadType'' ''localRtxPayloadType'' e []) (\<lambda>r. Inr [codec, r]))))))))"

definition send_codecs :: "string \<Rightarrow> string \<Rightarrow> json \<Rightarrow> json list result" where
  "send_codecs paramKey kind ext =
     rbind (at_const ext ''codecs'') (\<lambda>cs. rbind (find_at (has_kind kind) (elems cs)) (\<lambda>i.
       case i of None \<Rightarrow> Inr [] | Some n \<Rightarrow> send_codec paramKey (elems cs ! n)))"

definition send_ext :: "string \<Rightarrow> json \<Rightarrow> json list result" where
  "send_ext kind x =
     rbind (has_kind kind x) (\<lambda>same.
     if \<not> same then Inr []
     else
       rbind (at_const x ''direction'') (\<lambda>dir. rbind (get_string dir) (\<lambda>direction.
       if direction \<noteq> ''sendrecv'' \<and> direction \<noteq> ''sendonly'' then Inr []
       else
         rbind (at_const x ''uri'') (\<lambda>uri. rbind (at_const x ''sendId'') (\<lambda>sendId. rbind (at_const x ''encrypt'') (\<lambda>encrypt.
           Inr [mk_obj [(''uri'', uri), (''id'', sendId), (''encrypt'', encrypt), (''parameters'', JObj [])]]))))))"

definition send_exts :: "string \<Rightarrow> json \<Rightarrow> json list result" where
  "send_exts kind ext = rbind (at_const ext ''headerExtensions'') (\<lambda>hs. rbind (mapM (send_ext kind) (elems hs)) (\<lambda>xs. Inr (concat xs)))"

definition send_parameters :: "json list \<Rightarrow> json list \<Rightarrow> json" where
  "send_parameters codecs exts =
     mk_obj [(''mid'', JNull), (''codecs'', JArr codecs), (''headerExtensions'', JArr exts), (''encodings'', JArr []), (''rtcp'', JObj [])]"

definition getSendingRtpParameters :: "string \<Rightarrow> json \<Rightarrow> json result" where
  "getSendingRtpParameters kind ext =
     rbind (send_codecs ''localParameters'' kind ext) (\<lambda>codecs. rbind (send_exts kind ext) (\<lambda>exts.
       Inr (send_parameters codecs exts)))"

definition transport_cc_uri :: string where
  "transport_cc_uri = ''http://www.ietf.org/id/draft-holmer-rmcat-transport-wide-cc-extensions-01''"

definition abs_send_time_uri :: string where
  "abs_send_time_uri = ''http://www.webrtc.org/experiments/rtp-hdrext/abs-send-time''"

definition uses_uri :: "string \<Rightarrow> json \<Rightarrow> bool result" where
  "uses_uri uri x = rbind (at_mut x ''uri'') (\<lambda>(_, u). rbind (get_string u) (\<lambda>s. Inr (s = uri)))"

text \<open>The loop that erases the feedback of the given types from a codec.\<close>

definition feedback_type_in :: "string list \<Rightarrow> json \<Rightarrow> bool result" where
  "feedback_type_in types fb = rbind (at_mut fb ''type'') (\<lambda>(_, t). rbind (get_string t) (\<lambda>s. Inr (s \<in> set types)))"

fun remove_elems :: "(json \<Rightarrow> bool result) \<Rightarrow> json \<Rightarrow> json result" where
  "remove_elems p (JArr xs) = rbind (removeM p xs) (\<lambda>ys. Inr (JArr ys))"
| "remove_elems p (JObj ps) = rbind (removeM (\<lambda>kv. p (snd kv)) ps) (\<lambda>qs. Inr (JObj qs))"
| "remove_elems p JNull = Inr JNull"
| "remove_elems p j = rbind (p j) (\<lambda>b. Inr (if b then JNull else j))"

definition drop_feedback :: "string list \<Rightarrow> json \<Rightarrow> json result" where
  "drop_feedback types codec =
     rbind (at_mut codec ''rtcpFeedback'') (\<lambda>(c, fbs). rbind (remove_elems (feedback_type_in types) fbs) (\<lambda>fbs'.
       set_key c ''rtcpFeedback'' fbs'))"

definition getSendingRemoteRtpParameters :: "string \<Rightarrow> json \<Rightarrow> json result" where
  "getSendingRemoteRtpParameters kind ext =
     rbind (send_codecs ''remoteParameters'' kind ext) (\<lambda>codecs. rbind (send_exts kind ext) (\<lambda>exts.
     rbind (find_at (uses_uri transport_cc_uri) exts) (\<lambda>i.
     if i \<noteq> None then rbind (mapM (drop_feedback [''goog-remb'']) codecs) (\<lambda>cs. Inr (send_parameters cs exts))
     else
       rbind (find_at (uses_uri abs_send_time_uri) exts) (\<lambda>j.
       if j \<noteq> None then rbind (mapM (drop_feedback [''transport-cc'']) codecs) (\<lambda>cs. Inr (send_parameters cs exts))
       else rbind (mapM (drop_feedback [''transport-cc'', ''goog-remb'']) codecs) (\<lambda>cs. Inr (send_parameters cs exts))))))"

section \<open>Probator, canSend, canReceive and reduceCodecs\<close>

definition generateProbatorRtpParameters :: "json \<Rightarrow> json result" where
  "generateProbatorRtpParameters videoRtpParameters =
     rbind (validateRtpParameters videoRtpParameters) (\<lambda>v.
     rbind (at_mut v ''codecs'') (\<lambda>(_, cs). rbind (at_idx cs 0) (\<lambda>(_, codec).
     rbind (at_mut v ''headerExtensions'') (\<lambda>(_, hs).
     rbind (mapM (\<lambda>x. rbind (at_mut x ''uri'') (\<lambda>(x', u).
       Inr (if json_eq u (JStr abs_send_time_uri) \<or> json_eq u (JStr transport_cc_uri) then [x'] else []))) (elems hs)) (\<lambda>exts.
       Inr (mk_obj [(''mid'', JStr ''probator''), (''codecs'', JArr [codec]), (''headerExtensions'', JArr (concat exts)),
                    (''encodings'', JArr [JObj [(''ssrc'', JUInt 1234)]]), (''rtcp'', mk_obj [(''cname'', JStr ''probator'')])]))))))"

definition canSend :: "string \<Rightarrow> json \<Rightarrow> bool result" where
  "canSend kind ext =
     rbind (at_const ext ''codecs'') (\<lambda>cs. rbind (find_at (has_kind kind) (elems cs)) (\<lambda>i. Inr (i \<noteq> None)))"

definition canReceive :: "json \<Rightarrow> json \<Rightarrow> (bool \<times> json) result" where
  "canReceive rtpParameters ext =
     rbind (validateRtpParameters rtpParameters) (\<lambda>p.
     rbind (at_mut p ''codecs'') (\<lambda>(_, cs).
     if jempty cs then Inr (False, p)
     else
       rbind (at_idx cs 0) (\<lambda>(_, first).
       rbind (at_const ext ''codecs'') (\<lambda>ecs.
       rbind (find_at (\<lambda>codec. rbind (at_const codec ''remotePayloadType'') (\<lambda>x.
                rbind (at_mut first ''payloadType'') (\<lambda>(_, y). Inr (json_eq x y)))) (elems ecs)) (\<lambda>i.
         Inr (i \<noteq> None, p))))))"

text \<open>The loop over the codecs; reading the element after the last one appends a null to the array.\<close>

function reduce_loop :: "json \<Rightarrow> json \<Rightarrow> nat \<Rightarrow> (json \<times> json \<times> json list) result" where
  "reduce_loop cap codecs idx =
     (if \<not> idx < jsize codecs then Inr (codecs, cap, [])
      else
        rbind (at_idx codecs idx) (\<lambda>(_, c).
        rbind (matchCodecs c cap False False) (\<lambda>(ok, c', cap').
        let codecs1 = (case codecs of JArr xs \<Rightarrow> JArr (xs[idx := c']) | j \<Rightarrow> j)
        in if \<not> ok then reduce_loop cap' codecs1 (idx + 1)
           else
             rbind (at_idx codecs1 (idx + 1)) (\<lambda>(codecs2, next).
             rbind (isRtxCodec next) (\<lambda>rtx. Inr (codecs2, cap', if rtx then [c', next] else [c']))))))"
  by pat_completeness auto
termination
  by (relation "measure (\<lambda>(cap, codecs, idx). jsize codecs - idx)") (auto split: json.splits)

declare reduce_loop.simps [simp del]

text \<open>The result holds the array, the capability codec and the codecs that remain.\<close>

definition reduceCodecs :: "json \<Rightarrow> json option \<Rightarrow> (json \<times> json option \<times> json list) result" where
  "reduceCodecs codecs capCodec =
     (case capCodec of
        Some (JObj cap) \<Rightarrow>
          rbind (reduce_loop (JObj cap) codecs 0) (\<lambda>(cs, cap', filtered).
          if filtered = [] then type_error ''no matching codec found'' else Inr (cs, Some cap', filtered))
      | _ \<Rightarrow>
          rbind (at_idx codecs 0) (\<lambda>(cs, first).
          if 1 < jsize cs
          then rbind (at_idx cs 1) (\<lambda>(_, second). rbind (isRtxCodec second) (\<lambda>rtx.
               Inr (cs, capCodec, if rtx then [first, second] else [first])))
          else Inr (cs, capCodec, [first])))"

end
