(* ===== verification/Endpoints.thy ===== *)
theory Endpoints
  imports Ortc_Caps "HOL-Library.AList"
begin

text \<open>
  What the two transports of \<^verbatim>\<open>libmediasoupclient\<close> share: tracks, the calls that leave the library
  (to the handler over the peer connection, to data channels and to the application's listeners) as
  events, the base class \<^verbatim>\<open>Transport\<close>, and the contract between a transport and the endpoints that it
  keeps: producers, consumers, data producers and data consumers.  The outcome of a call that leaves the
  library is an argument of the operation that makes it.
\<close>

section \<open>Tracks, encodings and data channels\<close>

record MediaStreamTrack =
  track_kind :: string
  track_ended :: bool
  track_enabled :: bool

definition set_enabled :: "nat \<Rightarrow> bool \<Rightarrow> MediaStreamTrack list \<Rightarrow> MediaStreamTrack list" where
  "set_enabled t b ts = ts[t := (ts ! t)\<lparr>track_enabled := b\<rparr>]"

datatype Priority = kVeryLow | kLow | kMedium | kHigh

record RtpEncodingParameters =
  ep_ssrc :: "u32 option"
  bitrate_priority :: rat
  network_priority :: Priority
  max_bitrate_bps :: "i32 option"
  min_bitrate_bps :: "i32 option"
  max_framerate :: "rat option"
  num_temporal_layers :: "i32 option"
  scale_resolution_down_by :: "rat option"
  scalability_mode :: "string option"
  ep_active :: bool
  ep_rid :: string
  adaptive_ptime :: bool

definition mk_RtpEncodingParameters :: RtpEncodingParameters where
  "mk_RtpEncodingParameters = \<lparr>ep_ssrc = None, bitrate_priority = 1, network_priority = kLow, max_bitrate_bps = None,
     min_bitrate_bps = None, max_framerate = None, num_temporal_layers = None, scale_resolution_down_by = None,
     scalability_mode = None, ep_active = True, ep_rid = '''', adaptive_ptime = False\<rparr>"

record DataChannelInit =
  dci_ordered :: bool
  maxRetransmitTime :: "i32 option"
  maxRetransmits :: "i32 option"
  dci_protocol :: string
  dci_id :: i32

definition mk_DataChannelInit :: DataChannelInit where
  "mk_DataChannelInit = \<lparr>dci_ordered = True, maxRetransmitTime = None, maxRetransmits = None, dci_protocol = '''', dci_id = -1\<rparr>"

datatype DataState = kConnecting | kOpen | kClosing | kClosed

datatype IceConnectionState =
    kIceConnectionNew
  | kIceConnectionChecking
  | kIceConnectionConnected
  | kIceConnectionCompleted
  | kIceConnectionFailed
  | kIceConnectionDisconnected
  | kIceConnectionClosed
  | kIceConnectionMax

text \<open>A look-up of a state that is not in the map inserts an empty text.\<close>

fun iceConnectionState2String :: "IceConnectionState \<Rightarrow> string" where
  "iceConnectionState2String kIceConnectionNew = ''new''"
| "iceConnectionState2String kIceConnectionChecking = ''checking''"
| "iceConnectionState2String kIceConnectionConnected = ''connected''"
| "iceConnectionState2String kIceConnectionCompleted = ''completed''"
| "iceConnectionState2String kIceConnectionFailed = ''failed''"
| "iceConnectionState2String kIceConnectionDisconnected = ''disconnected''"
| "iceConnectionState2String kIceConnectionClosed = ''closed''"
| "iceConnectionState2String kIceConnectionMax = ''''"

section \<open>Calls that leave the library\<close>

text \<open>Endpoints are named by their position in the transport's list of objects.\<close>

datatype event =
    HandlerClose
  | HandlerGetTransportStats
  | HandlerRestartIce json
  | HandlerUpdateIceServers json
  | HandlerSend nat "RtpEncodingParameters list" "json option" "json option"
  | HandlerStopSending string
  | HandlerReplaceTrack string nat
  | HandlerSetMaxSpatialLayer string u8
  | HandlerGetSenderStats string
  | HandlerSendDataChannel string DataChannelInit
  | HandlerReceive string string json
  | HandlerStopReceiving string
  | HandlerGetReceiverStats string
  | HandlerReceiveDataChannel string DataChannelInit
  | SenderSetFrameEncryptor nat "nat option"
  | ReceiverSetFrameDecryptor nat "nat option"
  | ListenerOnConnect json
  | ListenerOnConnectionStateChange string
  | ListenerOnProduce string json json
  | ListenerOnProduceData json string string json
  | PrivateOnClose nat
  | ListenerOnTransportClose nat
  | DataRegisterObserver nat
  | DataChannelClose nat
  | DataPrivateOnClose nat
  | DataListenerOnTransportClose nat
  | DataChannelSend nat bytes
  | DataListenerOnConnecting nat
  | DataListenerOnOpen nat
  | DataListenerOnClosing nat
  | DataListenerOnClose nat
  | DataListenerOnMessage nat bytes
  | DataListenerOnBufferedAmountChange nat u64

section \<open>The base class of the transports\<close>

record Transport =
  t_closed :: bool
  connectionState :: IceConnectionState
  hasSctpParameters :: bool
  events :: "event list"

definition emit :: "event list \<Rightarrow> 'a Transport_scheme \<Rightarrow> 'a Transport_scheme" where
  "emit ev t = t\<lparr>events := events t @ ev\<rparr>"

lemma emit_fields [simp]:
  "t_closed (emit ev t) = t_closed t"
  "hasSctpParameters (emit ev t) = hasSctpParameters t"
  "events (emit ev t) = events t @ ev"
  by (simp_all add: emit_def)

definition Transport_Close :: "'a Transport_scheme \<Rightarrow> 'a Transport_scheme" where
  "Transport_Close t = (if t_closed t then t else emit [HandlerClose] (t\<lparr>t_closed := True\<rparr>))"

definition Transport_GetStats :: "json result \<Rightarrow> 'a Transport_scheme \<Rightarrow> 'a Transport_scheme \<times> json result" where
  "Transport_GetStats stats t =
     (if t_closed t then (t, Inl (MscInvalidStateError ''Transport closed''))
      else (emit [HandlerGetTransportStats] t, stats))"

definition Transport_RestartIce :: "unit result \<Rightarrow> json \<Rightarrow> 'a Transport_scheme \<Rightarrow> 'a Transport_scheme \<times> unit result" where
  "Transport_RestartIce outcome iceParameters t =
     (if t_closed t then (t, Inl (MscInvalidStateError ''Transport closed''))
      else (emit [HandlerRestartIce iceParameters] t, outcome))"

definition Transport_UpdateIceServers :: "unit result \<Rightarrow> json \<Rightarrow> 'a Transport_scheme \<Rightarrow> 'a Transport_scheme \<times> unit result" where
  "Transport_UpdateIceServers outcome iceServers t =
     (if t_closed t then (t, Inl (MscInvalidStateError ''Transport closed''))
      else (emit [HandlerUpdateIceServers iceServers] t, outcome))"

definition Transport_OnConnect :: "unit result \<Rightarrow> json \<Rightarrow> 'a Transport_scheme \<Rightarrow> 'a Transport_scheme \<times> unit result" where
  "Transport_OnConnect outcome dtlsParameters t =
     (if t_closed t then (t, Inl (MscInvalidStateError ''Transport closed''))
      else (emit [ListenerOnConnect dtlsParameters] t, outcome))"

definition Transport_OnConnectionStateChange :: "IceConnectionState \<Rightarrow> 'a Transport_scheme \<Rightarrow> 'a Transport_scheme" where
  "Transport_OnConnectionStateChange st t =
     emit [ListenerOnConnectionStateChange (iceConnectionState2String st)] (t\<lparr>connectionState := st\<rparr>)"

section \<open>Endpoints of a transport\<close>

text \<open>The loop of \<open>Close\<close> over the values of a map; the order of an unordered_map is that of the
  association list.\<close>

fun close_all :: "(nat \<Rightarrow> 'e \<Rightarrow> 'e \<times> event list) \<Rightarrow> nat list \<Rightarrow> 'e list \<Rightarrow> 'e list \<times> event list" where
  "close_all tc [] es = (es, [])"
| "close_all tc (i # is) es =
     (let (e, ev) = tc i (es ! i); (es', evs) = close_all tc is (es[i := e]) in (es', ev @ evs))"

text \<open>Specification.  The closing of an endpoint is announced by one event, and it is announced exactly
  when the endpoint is closed.\<close>

definition announced :: "(nat \<Rightarrow> event \<Rightarrow> bool) \<Rightarrow> nat \<Rightarrow> event list \<Rightarrow> nat" where
  "announced closes i evs = length (filter (closes i) evs)"

definition announced_once :: "(nat \<Rightarrow> event \<Rightarrow> bool) \<Rightarrow> ('e \<Rightarrow> bool) \<Rightarrow> 'e list \<Rightarrow> event list \<Rightarrow> bool" where
  "announced_once closes is_closed es evs =
     (\<forall>i. announced closes i evs = (if i < length es \<and> is_closed (es ! i) then 1 else 0))"

text \<open>The map of a transport holds every open endpoint under its identifier.\<close>

definition registry :: "('e \<Rightarrow> string) \<Rightarrow> ('e \<Rightarrow> bool) \<Rightarrow> (string \<times> nat) list \<Rightarrow> 'e list \<Rightarrow> bool" where
  "registry ident is_closed m es =
     ((\<forall>(k, i) \<in> set m. i < length es \<and> ident (es ! i) = k)
      \<and> (\<forall>i < length es. \<not> is_closed (es ! i) \<longrightarrow> map_of m (ident (es ! i)) = Some i))"

lemma registry_open:
  "registry ident is_closed m es \<Longrightarrow> i < length es \<Longrightarrow> \<not> is_closed (es ! i) \<Longrightarrow> map_of m (ident (es ! i)) = Some i"
  by (simp add: registry_def)

lemma announced_simps [simp]:
  "announced closes i [] = 0"
  "announced closes i (e # evs) = (if closes i e then 1 else 0) + announced closes i evs"
  "announced closes i (evs @ evs') = announced closes i evs + announced closes i evs'"
  by (simp_all add: announced_def)

lemma announced_none: "list_all (\<lambda>e. \<not> closes i e) evs \<Longrightarrow> announced closes i evs = 0"
  by (induction evs) simp_all

lemma announced_once_open:
  "announced_once closes is_closed es evs \<Longrightarrow> \<not> is_closed e \<Longrightarrow> announced_once closes is_closed (es @ [e]) evs"
  by (auto simp: announced_once_def nth_append less_Suc_eq)

lemma announced_once_quiet:
  "announced_once closes is_closed es evs \<Longrightarrow> (\<And>i. announced closes i ev = 0) \<Longrightarrow>
   announced_once closes is_closed es (evs @ ev)"
  by (simp add: announced_once_def)

lemma announced_once_close:
  assumes "announced_once closes is_closed es evs" and "i < length es" and "\<not> is_closed (es ! i)" and "is_closed e"
    and "\<And>j. announced closes j ev = (if j = i then 1 else 0)"
  shows "announced_once closes is_closed (es[i := e]) (evs @ ev)"
  using assms by (auto simp: announced_once_def nth_list_update)

text \<open>An update that keeps the flag and the identifier is invisible to both.\<close>

lemma announced_once_update:
  "announced_once closes is_closed es evs \<Longrightarrow> is_closed e = is_closed (es ! i) \<Longrightarrow>
   announced_once closes is_closed (es[i := e]) evs"
  by (cases "i < length es") (auto simp: announced_once_def nth_list_update)

lemma registry_update:
  assumes "registry ident is_closed m es" and "ident e = ident (es ! i)" and "is_closed (es ! i) \<longrightarrow> is_closed e"
  shows "registry ident is_closed m (es[i := e])"
proof -
  have "ident (es[i := e] ! j) = ident (es ! j)" for j
    using assms(2) by (cases "i < length es") (simp_all add: nth_list_update list_update_beyond)
  moreover have "is_closed (es ! j) \<longrightarrow> is_closed (es[i := e] ! j)" for j
    using assms(3) by (cases "i < length es") (simp_all add: nth_list_update list_update_beyond)
  ultimately show ?thesis using assms(1) unfolding registry_def by auto
qed

lemma registry_new:
  assumes "registry ident is_closed m es" and "k \<notin> fst ` set m" and "ident e = k"
  shows "registry ident is_closed (AList.update k (length es) m) (es @ [e])"
proof -
  have "AList.update k (length es) m = m @ [(k, length es)]" using assms(2) by (induction m) auto
  moreover have "map_of (m @ [(k, length es)]) j = (if j = k then Some (length es) else map_of m j)" for j
    using assms(2) by (induction m) auto
  moreover have "ident (es ! i) \<noteq> k" if "i < length es" "\<not> is_closed (es ! i)" for i
    using registry_open [OF assms(1) that] assms(2) by (metis map_of_eq_None_iff option.distinct(1))
  moreover have "i < length es \<and> ident (es ! i) = k'" if "(k', i) \<in> set m" for k' i
    using assms(1) that by (auto simp: registry_def)
  moreover note registry_open [OF assms(1)]
  ultimately show ?thesis unfolding registry_def using assms(3) by (auto simp: nth_append less_Suc_eq)
qed

lemma registry_erase:
  assumes "registry ident is_closed m es" and "i < length es" and "\<not> is_closed (es ! i)"
    and "ident e = ident (es ! i)" and "is_closed e"
  shows "registry ident is_closed (AList.delete (ident (es ! i)) m) (es[i := e])"
proof -
  have "j = i" if "j < length es" "\<not> is_closed (es ! j)" "ident (es ! j) = ident (es ! i)" for j
  proof -
    have "Some j = Some i"
      unfolding registry_open [OF assms(1) that(1,2), symmetric] registry_open [OF assms(1-3), symmetric] that(3) ..
    then show ?thesis by simp
  qed
  note unique = this
  have "map_of (AList.delete (ident (es ! i)) m) (ident (es[i := e] ! j)) = Some j"
    if "j < length es" "\<not> is_closed (es[i := e] ! j)" for j
  proof -
    have "j \<noteq> i" using that assms(2,5) by auto
    then have "\<not> is_closed (es ! j)" "es[i := e] ! j = es ! j" using that by simp_all
    moreover have "ident (es ! j) \<noteq> ident (es ! i)" using unique [of j] calculation(1) that(1) \<open>j \<noteq> i\<close> by blast
    ultimately show ?thesis using registry_open [OF assms(1) that(1)] by (simp add: delete_conv)
  qed
  moreover have "ident (es[i := e] ! j) = ident (es ! j)" for j
    using assms(2,4) by (simp add: nth_list_update)
  moreover have "set (AList.delete (ident (es ! i)) m) \<subseteq> set m" by (auto simp: AList.delete_eq)
  ultimately show ?thesis using assms(1) unfolding registry_def by auto
qed

text \<open>The contract of an endpoint: its \<open>TransportClosed\<close> does nothing when it is closed already,
  otherwise it closes the endpoint and announces that once.\<close>

locale endpoint =
  fixes ident :: "'e \<Rightarrow> string"
    and is_closed :: "'e \<Rightarrow> bool"
    and tc :: "nat \<Rightarrow> 'e \<Rightarrow> 'e \<times> event list"
    and closes :: "nat \<Rightarrow> event \<Rightarrow> bool"
  assumes closed_already: "is_closed e \<Longrightarrow> tc i e = (e, [])"
    and closing: "\<not> is_closed e \<Longrightarrow> tc i e = (e', ev) \<Longrightarrow>
      is_closed e' \<and> ident e' = ident e \<and> announced closes j ev = (if j = i then 1 else 0)"
begin

lemma step:
  assumes "tc i e = (e', ev)"
  shows "is_closed e'" "ident e' = ident e" "announced closes j ev = (if \<not> is_closed e \<and> j = i then 1 else 0)"
  using assms closed_already [of e i] closing [of e i e' ev] by (cases "is_closed e"; force)+

lemma step_announced:
  assumes "announced_once closes is_closed es evs" and "i < length es" and "tc i (es ! i) = (e, ev)"
  shows "announced_once closes is_closed (es[i := e]) (evs @ ev)"
  using assms(1,2) step [OF assms(3)] by (auto simp: announced_once_def nth_list_update)

lemma step_registry:
  "registry ident is_closed m es \<Longrightarrow> tc i (es ! i) = (e, ev) \<Longrightarrow> registry ident is_closed m (es[i := e])"
  by (rule registry_update) (simp_all add: step)

lemma close_all_sound:
  assumes "close_all tc is es = (es', evs')" and "list_all (\<lambda>i. i < length es) is"
    and "announced_once closes is_closed es evs" and "registry ident is_closed m es"
  shows "length es' = length es \<and> announced_once closes is_closed es' (evs @ evs') \<and> registry ident is_closed m es'
    \<and> (\<forall>i \<in> set is. is_closed (es' ! i)) \<and> (\<forall>i. is_closed (es ! i) \<longrightarrow> is_closed (es' ! i))"
  using assms
proof (induction "is" arbitrary: es es' evs evs')
  case (Cons i "is")
  obtain e ev where e: "tc i (es ! i) = (e, ev)" by fastforce
  then obtain evs2 where r: "close_all tc is (es[i := e]) = (es', evs2)" "evs' = ev @ evs2"
    using Cons.prems(1) by (auto simp: Let_def split: prod.splits)
  have "list_all (\<lambda>j. j < length (es[i := e])) is" "i < length es" using Cons.prems(2) by simp_all
  then have IH: "length es' = length es" "announced_once closes is_closed es' ((evs @ ev) @ evs2)"
    "registry ident is_closed m es'" "\<forall>j \<in> set is. is_closed (es' ! j)"
    "\<forall>j. is_closed (es[i := e] ! j) \<longrightarrow> is_closed (es' ! j)"
    using Cons.IH [OF r(1) _ step_announced [OF Cons.prems(3) _ e] step_registry [OF Cons.prems(4) e]] by simp_all
  have "is_closed (es ! j) \<longrightarrow> is_closed (es[i := e] ! j)" for j
    using step(1) [OF e] by (cases "i < length es") (simp_all add: nth_list_update list_update_beyond)
  then show ?case using IH r(2) step(1) [OF e] \<open>i < length es\<close> by auto
qed simp

text \<open>Closing everything in the map closes every endpoint.\<close>

lemma close_all_complete:
  assumes "close_all tc (map snd m) es = (es', evs')"
    and "announced_once closes is_closed es evs" and "registry ident is_closed m es"
  shows "list_all is_closed es' \<and> announced_once closes is_closed es' (evs @ evs') \<and> registry ident is_closed m es'"
proof -
  have "list_all (\<lambda>i. i < length es) (map snd m)" using assms(3) by (auto simp: registry_def list_all_iff)
  note s = close_all_sound [OF assms(1) this assms(2,3)]
  have "is_closed (es' ! i)" if "i < length es" for i
  proof (cases "is_closed (es ! i)")
    case False
    then have "map_of m (ident (es ! i)) = Some i" using assms(3) that by (simp add: registry_def)
    then have "i \<in> set (map snd m)" using map_of_SomeD by force
    then show ?thesis using s by blast
  qed (use s in blast)
  then show ?thesis using s by (simp add: list_all_length)
qed

lemma close_all_events:
  "(\<And>i e. list_all P (snd (tc i e))) \<Longrightarrow> list_all P (snd (close_all tc is es))"
  by (induction "is" arbitrary: es) (auto simp: Let_def split: prod.splits, metis snd_conv, metis snd_conv)

end

section \<open>Closing of media and data endpoints\<close>

text \<open>A producer or consumer announces its closing to its transport or to its listener; a data producer or
  data consumer closes its data channel.\<close>

definition closes_media :: "nat \<Rightarrow> event \<Rightarrow> bool" where
  "closes_media i e = (e = PrivateOnClose i \<or> e = ListenerOnTransportClose i)"

definition closes_data :: "nat \<Rightarrow> event \<Rightarrow> bool" where
  "closes_data i e = (e = DataChannelClose i)"

lemmas closes_simps = closes_media_def closes_data_def

definition quiet :: "event list \<Rightarrow> bool" where
  "quiet evs = (\<forall>i. announced closes_media i evs = 0 \<and> announced closes_data i evs = 0)"

lemma quiet_simps [simp]:
  "quiet []"
  "quiet (e # evs) = ((\<forall>i. \<not> closes_media i e \<and> \<not> closes_data i e) \<and> quiet evs)"
  by (auto simp: quiet_def)

text \<open>An identifier that is not in use.\<close>

definition fresh :: "string result \<Rightarrow> (string \<times> nat) list \<Rightarrow> bool" where
  "fresh r m = (case r of Inl _ \<Rightarrow> True | Inr i \<Rightarrow> i \<notin> fst ` set m)"

section \<open>The endpoints of one transport\<close>

text \<open>A transport has media endpoints \<open>ms\<close> with a map \<open>mm\<close> and data endpoints \<open>ds\<close> with a map \<open>dm\<close>, and one list of
  events for both.\<close>

definition tracked ::
  "('m \<Rightarrow> string) \<Rightarrow> ('m \<Rightarrow> bool) \<Rightarrow> ('d \<Rightarrow> string) \<Rightarrow> ('d \<Rightarrow> bool) \<Rightarrow> (string \<times> nat) list \<Rightarrow> 'm list \<Rightarrow> (string \<times> nat) list \<Rightarrow> 'd list
   \<Rightarrow> event list \<Rightarrow> bool" where
  "tracked mident mclosed dident dclosed mm ms dm ds evs =
     (announced_once closes_media mclosed ms evs \<and> registry mident mclosed mm ms
      \<and> announced_once closes_data dclosed ds evs \<and> registry dident dclosed dm ds)"

lemma tracked_start: "tracked mident mclosed dident dclosed [] [] [] [] []"
  by (simp add: tracked_def announced_once_def registry_def)

lemma tracked_quiet:
  "tracked mident mclosed dident dclosed mm ms dm ds evs \<Longrightarrow> quiet ev \<Longrightarrow> tracked mident mclosed dident dclosed mm ms dm ds (evs @ ev)"
  by (simp add: tracked_def quiet_def announced_once_quiet)

lemma tracked_new_media:
  "tracked mident mclosed dident dclosed mm ms dm ds evs \<Longrightarrow> k \<notin> fst ` set mm \<Longrightarrow> mident m = k \<Longrightarrow> \<not> mclosed m \<Longrightarrow>
   tracked mident mclosed dident dclosed (AList.update k (length ms) mm) (ms @ [m]) dm ds evs"
  by (simp add: tracked_def announced_once_open registry_new)

lemma tracked_new_data:
  "tracked mident mclosed dident dclosed mm ms dm ds evs \<Longrightarrow> k \<notin> fst ` set dm \<Longrightarrow> dident d = k \<Longrightarrow> \<not> dclosed d \<Longrightarrow>
   tracked mident mclosed dident dclosed mm ms (AList.update k (length ds) dm) (ds @ [d]) evs"
  by (simp add: tracked_def announced_once_open registry_new)

lemma tracked_update:
  "tracked mident mclosed dident dclosed mm ms dm ds evs \<Longrightarrow> mident m = mident (ms ! i) \<Longrightarrow> mclosed m = mclosed (ms ! i) \<Longrightarrow>
   tracked mident mclosed dident dclosed mm (ms[i := m]) dm ds evs"
  by (simp add: tracked_def announced_once_update registry_update)

lemma tracked_close_media:
  assumes "tracked mident mclosed dident dclosed mm ms dm ds evs" and "i < length ms" and "\<not> mclosed (ms ! i)"
    and "mident m = mident (ms ! i)" and "mclosed m"
  shows "tracked mident mclosed dident dclosed (AList.delete (mident (ms ! i)) mm) (ms[i := m]) dm ds (evs @ [PrivateOnClose i])"
proof -
  have "registry mident mclosed (AList.delete (mident (ms ! i)) mm) (ms[i := m])"
    using assms by (intro registry_erase) (simp_all add: tracked_def)
  moreover have "announced_once closes_media mclosed (ms[i := m]) (evs @ [PrivateOnClose i])"
    using assms by (intro announced_once_close) (simp_all add: tracked_def closes_simps)
  moreover have "announced_once closes_data dclosed ds (evs @ [PrivateOnClose i])"
    using assms(1) by (intro announced_once_quiet) (simp_all add: tracked_def closes_simps)
  ultimately show ?thesis using assms(1) by (simp add: tracked_def)
qed

lemma tracked_close_data:
  assumes "tracked mident mclosed dident dclosed mm ms dm ds evs" and "i < length ds" and "\<not> dclosed (ds ! i)"
    and "dident d = dident (ds ! i)" and "dclosed d"
  shows "tracked mident mclosed dident dclosed mm ms (AList.delete (dident (ds ! i)) dm) (ds[i := d])
    (evs @ [DataChannelClose i, DataPrivateOnClose i])"
proof -
  have "registry dident dclosed (AList.delete (dident (ds ! i)) dm) (ds[i := d])"
    using assms by (intro registry_erase) (simp_all add: tracked_def)
  moreover have "announced_once closes_data dclosed (ds[i := d]) (evs @ [DataChannelClose i, DataPrivateOnClose i])"
    using assms by (intro announced_once_close) (simp_all add: tracked_def closes_simps)
  moreover have "announced_once closes_media mclosed ms (evs @ [DataChannelClose i, DataPrivateOnClose i])"
    using assms(1) by (intro announced_once_quiet) (simp_all add: tracked_def closes_simps)
  ultimately show ?thesis using assms(1) by (simp add: tracked_def)
qed

text \<open>What the two kinds of endpoint of a transport promise each other: neither speaks for the other.\<close>

locale transport_endpoints =
  media: endpoint mident mclosed mtc closes_media + data: endpoint dident dclosed dtc closes_data
  for mident :: "'m \<Rightarrow> string" and mclosed :: "'m \<Rightarrow> bool" and mtc :: "nat \<Rightarrow> 'm \<Rightarrow> 'm \<times> event list"
    and dident :: "'d \<Rightarrow> string" and dclosed :: "'d \<Rightarrow> bool" and dtc :: "nat \<Rightarrow> 'd \<Rightarrow> 'd \<times> event list" +
  assumes media_quiet: "list_all (\<lambda>ev. \<not> closes_data j ev) (snd (mtc i m))"
    and data_quiet: "list_all (\<lambda>ev. \<not> closes_media j ev) (snd (dtc i d))"
begin

lemma close_both:
  assumes "tracked mident mclosed dident dclosed mm ms dm ds evs"
    and "close_all mtc (map snd mm) ms = (ms', ev1)" and "close_all dtc (map snd dm) ds = (ds', ev2)"
  shows "tracked mident mclosed dident dclosed mm ms' dm ds' (evs @ ev1 @ ev2) \<and> list_all mclosed ms' \<and> list_all dclosed ds'"
proof -
  have quiet1: "announced closes_data i ev1 = 0" for i
    using media.close_all_events [OF media_quiet, of i "map snd mm" ms] assms(2) by (simp add: announced_none)
  have quiet2: "announced closes_media i ev2 = 0" for i
    using data.close_all_events [OF data_quiet, of i "map snd dm" ds] assms(3) by (simp add: announced_none)
  have m: "list_all mclosed ms'" "announced_once closes_media mclosed ms' (evs @ ev1)" "registry mident mclosed mm ms'"
    using media.close_all_complete [OF assms(2), of evs] assms(1) by (simp_all add: tracked_def)
  have "announced_once closes_data dclosed ds (evs @ ev1)"
    using assms(1) quiet1 by (intro announced_once_quiet) (simp_all add: tracked_def)
  then have d: "list_all dclosed ds'" "announced_once closes_data dclosed ds' ((evs @ ev1) @ ev2)" "registry dident dclosed dm ds'"
    using data.close_all_complete [OF assms(3), of "evs @ ev1"] assms(1) by (simp_all add: tracked_def)
  show ?thesis using m d announced_once_quiet [OF m(2) quiet2] by (simp add: tracked_def)
qed

end

end
