(* ===== verification/Send_Transport.thy ===== *)
theory Send_Transport
  imports Endpoints
begin

text \<open>
  \<^verbatim>\<open>Producer.cpp\<close>, \<^verbatim>\<open>DataProducer.cpp\<close> and the class \<^verbatim>\<open>SendTransport\<close> of \<^verbatim>\<open>Transport.cpp\<close>.  A producer
  and its transport call each other, so the operations of a producer work on the transport, which
  holds the producer objects.  An operation returns the new state also when it throws, since what it
  has changed before stays changed.
\<close>

section \<open>State\<close>

record Producer =
  p_id :: string
  p_localId :: string
  p_rtpSender :: bool
  p_track :: nat
  p_rtpParameters :: json
  p_appData :: json
  p_closed :: bool
  p_maxSpatialLayer :: u8

definition mk_Producer :: "string \<Rightarrow> string \<Rightarrow> bool \<Rightarrow> nat \<Rightarrow> json \<Rightarrow> json \<Rightarrow> Producer" where
  "mk_Producer i localId rtpSender track rtpParameters appData =
     \<lparr>p_id = i, p_localId = localId, p_rtpSender = rtpSender, p_track = track, p_rtpParameters = rtpParameters,
      p_appData = appData, p_closed = False, p_maxSpatialLayer = 0\<rparr>"

record DataProducer =
  dp_id :: string
  dp_sctpStreamParameters :: json
  dp_appData :: json
  dp_closed :: bool

definition mk_DataProducer :: "string \<Rightarrow> json \<Rightarrow> json \<Rightarrow> DataProducer" where
  "mk_DataProducer i sctpStreamParameters appData =
     \<lparr>dp_id = i, dp_sctpStreamParameters = sctpStreamParameters, dp_appData = appData, dp_closed = False\<rparr>"

record SendTransport = Transport +
  maxSctpMessageSize :: u64
  producers :: "(string \<times> nat) list"
  dataProducers :: "(string \<times> nat) list"
  producer_objs :: "Producer list"
  data_producer_objs :: "DataProducer list"
  send_tracks :: "MediaStreamTrack list"

section \<open>Producers\<close>

definition Producer_IsPaused :: "nat \<Rightarrow> SendTransport \<Rightarrow> bool" where
  "Producer_IsPaused i s = (\<not> track_enabled (send_tracks s ! p_track (producer_objs s ! i)))"

definition SendTransport_OnClose :: "unit result \<Rightarrow> nat \<Rightarrow> SendTransport \<Rightarrow> SendTransport \<times> unit result" where
  "SendTransport_OnClose stop i s =
     (let p = producer_objs s ! i; s1 = s\<lparr>producers := AList.delete (p_id p) (producers s)\<rparr>
      in if t_closed s1 then (s1, Inr ())
         else (emit [HandlerStopSending (p_localId p)] s1, stop))"

definition Producer_Close :: "unit result \<Rightarrow> nat \<Rightarrow> SendTransport \<Rightarrow> SendTransport \<times> unit result" where
  "Producer_Close stop i s =
     (let p = producer_objs s ! i
      in if p_closed p then (s, Inr ())
         else SendTransport_OnClose stop i
                (emit [PrivateOnClose i] (s\<lparr>producer_objs := (producer_objs s)[i := p\<lparr>p_closed := True\<rparr>]\<rparr>)))"

definition SendTransport_OnGetStats :: "json result \<Rightarrow> nat \<Rightarrow> SendTransport \<Rightarrow> SendTransport \<times> json result" where
  "SendTransport_OnGetStats stats i s =
     (if t_closed s then (s, Inl (MscInvalidStateError ''SendTransport closed''))
      else (emit [HandlerGetSenderStats (p_localId (producer_objs s ! i))] s, stats))"

definition Producer_GetStats :: "json result \<Rightarrow> nat \<Rightarrow> SendTransport \<Rightarrow> SendTransport \<times> json result" where
  "Producer_GetStats stats i s =
     (if p_closed (producer_objs s ! i) then (s, Inl (MscInvalidStateError ''Producer closed''))
      else SendTransport_OnGetStats stats i s)"

definition Producer_Pause :: "nat \<Rightarrow> SendTransport \<Rightarrow> SendTransport" where
  "Producer_Pause i s =
     (let p = producer_objs s ! i
      in if p_closed p then s else s\<lparr>send_tracks := set_enabled (p_track p) False (send_tracks s)\<rparr>)"

definition Producer_Resume :: "nat \<Rightarrow> SendTransport \<Rightarrow> SendTransport" where
  "Producer_Resume i s =
     (let p = producer_objs s ! i
      in if p_closed p then s else s\<lparr>send_tracks := set_enabled (p_track p) True (send_tracks s)\<rparr>)"

definition SendTransport_OnReplaceTrack :: "unit result \<Rightarrow> nat \<Rightarrow> nat \<Rightarrow> SendTransport \<Rightarrow> SendTransport \<times> unit result" where
  "SendTransport_OnReplaceTrack outcome i track s =
     (emit [HandlerReplaceTrack (p_localId (producer_objs s ! i)) track] s, outcome)"

definition Producer_ReplaceTrack :: "unit result \<Rightarrow> nat \<Rightarrow> nat option \<Rightarrow> SendTransport \<Rightarrow> SendTransport \<times> unit result" where
  "Producer_ReplaceTrack outcome i track s =
     (let p = producer_objs s ! i
      in if p_closed p then (s, Inl (MscInvalidStateError ''Producer closed''))
         else case track of
           None \<Rightarrow> (s, Inl (MscTypeError ''missing track''))
         | Some t \<Rightarrow>
             if track_ended (send_tracks s ! t) then (s, Inl (MscInvalidStateError ''track ended''))
             else if t = p_track p then (s, Inr ())
             else
               (case SendTransport_OnReplaceTrack outcome i t s of
                  (s1, Inl e) \<Rightarrow> (s1, Inl e)
                | (s1, Inr _) \<Rightarrow>
                    let paused = Producer_IsPaused i s1
                    in (s1\<lparr>producer_objs := (producer_objs s1)[i := p\<lparr>p_track := t\<rparr>],
                           send_tracks := set_enabled t (\<not> paused) (send_tracks s1)\<rparr>, Inr ())))"

definition SendTransport_OnSetMaxSpatialLayer :: "unit result \<Rightarrow> nat \<Rightarrow> u8 \<Rightarrow> SendTransport \<Rightarrow> SendTransport \<times> unit result" where
  "SendTransport_OnSetMaxSpatialLayer outcome i spatialLayer s =
     (emit [HandlerSetMaxSpatialLayer (p_localId (producer_objs s ! i)) spatialLayer] s, outcome)"

definition Producer_SetMaxSpatialLayer :: "unit result \<Rightarrow> nat \<Rightarrow> u8 \<Rightarrow> SendTransport \<Rightarrow> SendTransport \<times> unit result" where
  "Producer_SetMaxSpatialLayer outcome i spatialLayer s =
     (let p = producer_objs s ! i
      in if p_closed p then (s, Inl (MscInvalidStateError ''Producer closed''))
         else if track_kind (send_tracks s ! p_track p) \<noteq> ''video'' then (s, Inl (MscTypeError ''not a video Producer''))
         else if spatialLayer = p_maxSpatialLayer p then (s, Inr ())
         else
           (case SendTransport_OnSetMaxSpatialLayer outcome i spatialLayer s of
              (s1, Inl e) \<Rightarrow> (s1, Inl e)
            | (s1, Inr _) \<Rightarrow>
                (s1\<lparr>producer_objs := (producer_objs s1)[i := p\<lparr>p_maxSpatialLayer := spatialLayer\<rparr>]\<rparr>, Inr ())))"

definition Producer_SetFrameEncryptor :: "nat \<Rightarrow> nat option \<Rightarrow> SendTransport \<Rightarrow> SendTransport \<times> unit result" where
  "Producer_SetFrameEncryptor i encryptor s =
     (let p = producer_objs s ! i
      in if p_closed p then (s, Inl (MscInvalidStateError ''Producer closed''))
         else if p_rtpSender p then (emit [SenderSetFrameEncryptor i encryptor] s, Inr ())
         else (s, Inr ()))"

definition Producer_TransportClosed :: "nat \<Rightarrow> Producer \<Rightarrow> Producer \<times> event list" where
  "Producer_TransportClosed i p =
     (if p_closed p then (p, []) else (p\<lparr>p_closed := True\<rparr>, [ListenerOnTransportClose i]))"

section \<open>Data producers\<close>

definition SendTransport_OnDataClose :: "nat \<Rightarrow> SendTransport \<Rightarrow> SendTransport" where
  "SendTransport_OnDataClose i s =
     s\<lparr>dataProducers := AList.delete (dp_id (data_producer_objs s ! i)) (dataProducers s)\<rparr>"

definition DataProducer_Close :: "nat \<Rightarrow> SendTransport \<Rightarrow> SendTransport" where
  "DataProducer_Close i s =
     (let d = data_producer_objs s ! i
      in if dp_closed d then s
         else SendTransport_OnDataClose i
                (emit [DataChannelClose i, DataPrivateOnClose i]
                  (s\<lparr>data_producer_objs := (data_producer_objs s)[i := d\<lparr>dp_closed := True\<rparr>]\<rparr>)))"

definition DataProducer_Send :: "nat \<Rightarrow> bytes \<Rightarrow> SendTransport \<Rightarrow> SendTransport" where
  "DataProducer_Send i buffer s = emit [DataChannelSend i buffer] s"

definition DataProducer_TransportClosed :: "nat \<Rightarrow> DataProducer \<Rightarrow> DataProducer \<times> event list" where
  "DataProducer_TransportClosed i d =
     (if dp_closed d then (d, [])
      else (d\<lparr>dp_closed := True\<rparr>, [DataChannelClose i, DataListenerOnTransportClose i]))"

definition DataProducer_OnStateChange :: "nat \<Rightarrow> DataState \<Rightarrow> SendTransport \<Rightarrow> SendTransport" where
  "DataProducer_OnStateChange i st s =
     (case st of
        kConnecting \<Rightarrow> s
      | kOpen \<Rightarrow> emit [DataListenerOnOpen i] s
      | kClosing \<Rightarrow> s
      | kClosed \<Rightarrow> emit [DataListenerOnClose i] s)"

definition DataProducer_OnBufferedAmountChange :: "nat \<Rightarrow> u64 \<Rightarrow> SendTransport \<Rightarrow> SendTransport" where
  "DataProducer_OnBufferedAmountChange i sentDataSize s = emit [DataListenerOnBufferedAmountChange i sentDataSize] s"

section \<open>The transport\<close>

text \<open>The part of the constructor that computes: the SCTP settings and the parameters that the send
  handler is given.  \<open>find("maxMessageSize")\<close> is dereferenced without a check.\<close>

definition sending_parameters :: "json \<Rightarrow> (json \<times> json) result" where
  "sending_parameters ext =
     rbind (getSendingRtpParameters ''audio'' ext) (\<lambda>a. rbind (getSendingRtpParameters ''video'' ext) (\<lambda>v.
     rbind (getSendingRemoteRtpParameters ''audio'' ext) (\<lambda>ra. rbind (getSendingRemoteRtpParameters ''video'' ext) (\<lambda>rv.
       Inr (mk_obj [(''audio'', a), (''video'', v)], mk_obj [(''audio'', ra), (''video'', rv)])))))"

definition mk_SendTransport :: "json \<Rightarrow> json \<Rightarrow> MediaStreamTrack list \<Rightarrow> (SendTransport \<times> json \<times> json) result" where
  "mk_SendTransport sctpParameters ext tracks =
     rbind (if is_object sctpParameters
            then rbind (deref_find sctpParameters ''maxMessageSize'') (\<lambda>m.
                 rbind (if is_number_integer m then get_u64 m else Inr 0) (\<lambda>n. Inr (True, n)))
            else Inr (False, 0)) (\<lambda>(sctp, n).
     rbind (sending_parameters ext) (\<lambda>params.
       Inr (\<lparr>t_closed = False, connectionState = kIceConnectionNew, hasSctpParameters = sctp, events = [],
             maxSctpMessageSize = n, producers = [], dataProducers = [], producer_objs = [], data_producer_objs = [],
             send_tracks = tracks\<rparr>, params)))"

text \<open>What the handler's \<open>Send\<close> returns.\<close>

record SendResult =
  sr_localId :: string
  sr_rtpSender :: bool
  sr_rtpParameters :: json

text \<open>The last part of \<open>Produce\<close>: the application is told and answers with an identifier; an exception of
  the library's own kind undoes the sending and is thrown on.\<close>

definition announce_producer ::
  "string result \<Rightarrow> unit result \<Rightarrow> SendResult \<Rightarrow> nat \<Rightarrow> json \<Rightarrow> SendTransport \<Rightarrow> SendTransport \<times> nat result" where
  "announce_producer on_produce stop r track appData s =
     (case (case validateRtpParameters (sr_rtpParameters r) of
              Inl e \<Rightarrow> (s, Inl e)
            | Inr ps \<Rightarrow>
                (emit [ListenerOnProduce (track_kind (send_tracks s ! track)) ps appData] s,
                 rbind on_produce (\<lambda>i. Inr (i, ps)))) of
        (s1, Inl e) \<Rightarrow>
          if is_msc_error e
          then (emit [HandlerStopSending (sr_localId r)] s1, rbind stop (\<lambda>_. Inl e))
          else (s1, Inl e)
      | (s1, Inr (producerId, ps)) \<Rightarrow>
          let n = length (producer_objs s1)
          in (s1\<lparr>producer_objs := producer_objs s1 @ [mk_Producer producerId (sr_localId r) (sr_rtpSender r) track ps appData],
                 producers := AList.update producerId n (producers s1)\<rparr>, Inr n))"

text \<open>Six members of an encoding are passed on, the others are reset.\<close>

definition normalize_encoding :: "RtpEncodingParameters \<Rightarrow> RtpEncodingParameters" where
  "normalize_encoding entry = mk_RtpEncodingParameters\<lparr>ep_active := ep_active entry, max_bitrate_bps := max_bitrate_bps entry,
     max_framerate := max_framerate entry, scale_resolution_down_by := scale_resolution_down_by entry,
     network_priority := network_priority entry, scalability_mode := scalability_mode entry\<rparr>"

definition SendTransport_Produce ::
  "(string \<Rightarrow> bool option) \<Rightarrow> SendResult result \<Rightarrow> string result \<Rightarrow> unit result \<Rightarrow> nat option \<Rightarrow> RtpEncodingParameters list option
   \<Rightarrow> json option \<Rightarrow> json option \<Rightarrow> json \<Rightarrow> SendTransport \<Rightarrow> SendTransport \<times> nat result" where
  "SendTransport_Produce canProduceByKind send on_produce stop track encodings codecOptions codec appData s =
     (if t_closed s then (s, Inl (MscInvalidStateError ''SendTransport closed''))
      else case track of
        None \<Rightarrow> (s, Inl (MscTypeError ''missing track''))
      | Some t \<Rightarrow>
          if track_ended (send_tracks s ! t) then (s, Inl (MscInvalidStateError ''track ended''))
          else if canProduceByKind (track_kind (send_tracks s ! t)) = None
          then (s, Inl (MscUnsupportedError ''cannot produce track kind''))
          else
            (case (case codecOptions of None \<Rightarrow> Inr None | Some j \<Rightarrow> rbind (validateProducerCodecOptions j) (\<lambda>j'. Inr (Some j'))) of
               Inl e \<Rightarrow> (s, Inl e)
             | Inr opts \<Rightarrow>
                 let normalizedEncodings = (case encodings of None \<Rightarrow> [] | Some es \<Rightarrow> map normalize_encoding es);
                     s1 = emit [HandlerSend t normalizedEncodings opts codec] s
                 in case send of
                      Inl e \<Rightarrow> (s1, Inl e)
                    | Inr r \<Rightarrow> announce_producer on_produce stop r t appData s1))"

definition SendTransport_ProduceData ::
  "json result \<Rightarrow> string result \<Rightarrow> string \<Rightarrow> string \<Rightarrow> bool \<Rightarrow> i32 \<Rightarrow> i32 \<Rightarrow> json \<Rightarrow> SendTransport \<Rightarrow> SendTransport \<times> nat result" where
  "SendTransport_ProduceData send on_produce_data label protocol ordered retransmits lifeTime appData s =
     (if \<not> hasSctpParameters s then (s, Inl (MscError ''SctpParameters are mandatory when using data producer listener''))
      else if retransmits \<noteq> -1 \<and> lifeTime \<noteq> 0 then (s, Inl (MscError ''Cannot set both maxRetransmits and maxPacketLifeTime''))
      else
        let init = mk_DataChannelInit\<lparr>dci_protocol := protocol, dci_ordered := ordered,
                     maxRetransmits := (if retransmits \<noteq> -1 then Some retransmits else None),
                     maxRetransmitTime := (if lifeTime \<noteq> 0 then Some lifeTime else None)\<rparr>;
            s1 = emit [HandlerSendDataChannel label init] s
        in case send of
             Inl e \<Rightarrow> (s1, Inl e)
           | Inr sctpStreamParameters \<Rightarrow>
               let s2 = emit [ListenerOnProduceData sctpStreamParameters label protocol appData] s1;
                   n = length (data_producer_objs s2)
               in case on_produce_data of
                    Inl e \<Rightarrow> (s2, Inl e)
                  | Inr i \<Rightarrow>
                      (emit [DataRegisterObserver n]
                        (s2\<lparr>data_producer_objs := data_producer_objs s2 @ [mk_DataProducer i sctpStreamParameters appData],
                            dataProducers := AList.update i n (dataProducers s2)\<rparr>), Inr n))"

definition SendTransport_Close :: "SendTransport \<Rightarrow> SendTransport" where
  "SendTransport_Close s =
     (if t_closed s then s
      else
        let s1 = Transport_Close s;
            (ps, ev1) = close_all Producer_TransportClosed (map snd (producers s1)) (producer_objs s1);
            (ds, ev2) = close_all DataProducer_TransportClosed (map snd (dataProducers s1)) (data_producer_objs s1)
        in emit (ev1 @ ev2) (s1\<lparr>producer_objs := ps, data_producer_objs := ds\<rparr>))"

end
