(* ===== verification/Send_Session.thy ===== *)
theory Send_Session
  imports Send_Transport
begin

text \<open>
  Sessions of a send transport: its operations and those of its producers in any order, with any outcome
  of the calls to the handler and to the application.  Identifiers that the application returns are not
  in use already, since the server makes them up.
\<close>

section \<open>Sessions\<close>

inductive send_session :: "SendTransport \<Rightarrow> bool" where
  start: "mk_SendTransport sctpParameters ext tracks = Inr (s, params) \<Longrightarrow> send_session s"
| produce: "send_session s \<Longrightarrow> fresh on_produce (producers s) \<Longrightarrow>
    SendTransport_Produce canProduce send on_produce stop track encodings codecOptions codec appData s = (s', r) \<Longrightarrow> send_session s'"
| produce_data: "send_session s \<Longrightarrow> fresh on_produce (dataProducers s) \<Longrightarrow>
    SendTransport_ProduceData send_data on_produce label protocol ordered retransmits lifeTime appData s = (s', r) \<Longrightarrow> send_session s'"
| close: "send_session s \<Longrightarrow> send_session (SendTransport_Close s)"
| producer_close: "send_session s \<Longrightarrow> i < length (producer_objs s) \<Longrightarrow> Producer_Close stop i s = (s', u) \<Longrightarrow> send_session s'"
| get_stats: "send_session s \<Longrightarrow> i < length (producer_objs s) \<Longrightarrow> Producer_GetStats stats i s = (s', st) \<Longrightarrow> send_session s'"
| pause: "send_session s \<Longrightarrow> i < length (producer_objs s) \<Longrightarrow> send_session (Producer_Pause i s)"
| resume: "send_session s \<Longrightarrow> i < length (producer_objs s) \<Longrightarrow> send_session (Producer_Resume i s)"
| replace_track: "send_session s \<Longrightarrow> i < length (producer_objs s) \<Longrightarrow> Producer_ReplaceTrack outcome i track s = (s', u) \<Longrightarrow> send_session s'"
| spatial_layer: "send_session s \<Longrightarrow> i < length (producer_objs s) \<Longrightarrow>
    Producer_SetMaxSpatialLayer outcome i layer s = (s', u) \<Longrightarrow> send_session s'"
| frame_encryptor: "send_session s \<Longrightarrow> i < length (producer_objs s) \<Longrightarrow>
    Producer_SetFrameEncryptor i encryptor s = (s', u) \<Longrightarrow> send_session s'"
| data_close: "send_session s \<Longrightarrow> i < length (data_producer_objs s) \<Longrightarrow> send_session (DataProducer_Close i s)"
| data_send: "send_session s \<Longrightarrow> i < length (data_producer_objs s) \<Longrightarrow> send_session (DataProducer_Send i buffer s)"
| data_state: "send_session s \<Longrightarrow> i < length (data_producer_objs s) \<Longrightarrow> send_session (DataProducer_OnStateChange i st s)"
| data_buffered: "send_session s \<Longrightarrow> i < length (data_producer_objs s) \<Longrightarrow>
    send_session (DataProducer_OnBufferedAmountChange i n s)"
| transport_stats: "send_session s \<Longrightarrow> Transport_GetStats stats s = (s', st) \<Longrightarrow> send_session s'"
| restart_ice: "send_session s \<Longrightarrow> Transport_RestartIce outcome iceParameters s = (s', u) \<Longrightarrow> send_session s'"
| ice_servers: "send_session s \<Longrightarrow> Transport_UpdateIceServers outcome iceServers s = (s', u) \<Longrightarrow> send_session s'"
| on_connect: "send_session s \<Longrightarrow> Transport_OnConnect outcome dtlsParameters s = (s', u) \<Longrightarrow> send_session s'"
| connection_state: "send_session s \<Longrightarrow> send_session (Transport_OnConnectionStateChange ice s)"

section \<open>Endpoints of a send transport\<close>

interpretation sending: transport_endpoints p_id p_closed Producer_TransportClosed dp_id dp_closed DataProducer_TransportClosed
  by unfold_locales (auto simp: Producer_TransportClosed_def DataProducer_TransportClosed_def closes_simps)

section \<open>The invariant\<close>

definition send_inv :: "SendTransport \<Rightarrow> bool" where
  "send_inv s =
     (tracked p_id p_closed dp_id dp_closed (producers s) (producer_objs s) (dataProducers s) (data_producer_objs s) (events s)
      \<and> (t_closed s \<longrightarrow> list_all p_closed (producer_objs s)))"

lemma send_inv_emit: "send_inv s \<Longrightarrow> quiet evs \<Longrightarrow> send_inv (emit evs s)"
  by (simp add: send_inv_def emit_def tracked_quiet)

lemma send_inv_tracks: "send_inv s \<Longrightarrow> send_inv (s\<lparr>send_tracks := ts\<rparr>)"
  by (simp add: send_inv_def)

lemma send_inv_producer:
  assumes "send_inv s" and "p_id p = p_id (producer_objs s ! i)" and "p_closed p = p_closed (producer_objs s ! i)"
  shows "send_inv (s\<lparr>producer_objs := (producer_objs s)[i := p]\<rparr>)"
proof -
  have "list_all p_closed ((producer_objs s)[i := p])" if "list_all p_closed (producer_objs s)"
    using that assms(3) by (cases "i < length (producer_objs s)") (auto simp: list_all_length nth_list_update)
  then show ?thesis using assms by (simp add: send_inv_def tracked_update)
qed

lemma send_inv_new_producer:
  assumes "send_inv s" and "\<not> t_closed s" and "k \<notin> fst ` set (producers s)" and "p_id p = k" and "\<not> p_closed p"
  shows "send_inv (s\<lparr>producer_objs := producer_objs s @ [p], producers := AList.update k (length (producer_objs s)) (producers s)\<rparr>)"
  using assms by (simp add: send_inv_def tracked_new_media)

lemma send_inv_new_data:
  assumes "send_inv s" and "k \<notin> fst ` set (dataProducers s)" and "dp_id d = k" and "\<not> dp_closed d"
  shows "send_inv (s\<lparr>data_producer_objs := data_producer_objs s @ [d],
    dataProducers := AList.update k (length (data_producer_objs s)) (dataProducers s)\<rparr>)"
  using assms by (simp add: send_inv_def tracked_new_data)

section \<open>Every operation keeps the invariant\<close>

lemma mk_SendTransport_inv:
  assumes "mk_SendTransport sctpParameters ext tracks = Inr (s, params)"
  shows "send_inv s \<and> \<not> t_closed s"
  using assms
  by (auto simp: mk_SendTransport_def rbind_Inr_iff send_inv_def tracked_start split: prod.splits)

lemma validate_outcome_inv:
  assumes "send_inv s" and "\<not> t_closed s" and "fresh on_produce (producers s)"
    and "announce_producer on_produce stop r t appData s = (s', res)"
  shows "send_inv s'"
proof (cases "validateRtpParameters (sr_rtpParameters r)")
  case (Inl e)
  then show ?thesis using assms by (auto simp: announce_producer_def closes_simps intro: send_inv_emit split: if_splits)
next
  case (Inr ps)
  let ?s1 = "emit [ListenerOnProduce (track_kind (send_tracks s ! t)) ps appData] s"
  have inv: "send_inv ?s1" using assms(1) by (rule send_inv_emit) (simp add: closes_simps)
  show ?thesis
  proof (cases on_produce)
    case (Inl e)
    then show ?thesis
      using assms(4) Inr inv by (auto simp: announce_producer_def closes_simps intro: send_inv_emit split: if_splits)
  next
    case on: (Inr i)
    have "i \<notin> fst ` set (producers ?s1)" using assms(3) on by (simp add: fresh_def emit_def)
    then have "send_inv (?s1\<lparr>producer_objs := producer_objs ?s1 @ [mk_Producer i (sr_localId r) (sr_rtpSender r) t ps appData],
        producers := AList.update i (length (producer_objs ?s1)) (producers ?s1)\<rparr>)"
      using send_inv_new_producer [OF inv, of i] assms(2) by (simp add: mk_Producer_def)
    then show ?thesis using assms(4) Inr on by (auto simp: announce_producer_def Let_def)
  qed
qed

lemma Produce_inv:
  assumes "send_inv s" and "fresh on_produce (producers s)"
    and "SendTransport_Produce canProduce send on_produce stop track encodings codecOptions codec appData s = (s', r)"
  shows "send_inv s'"
proof -
  consider "s' = s"
    | t encs opts where "\<not> t_closed s" "s' = emit [HandlerSend t encs opts codec] s"
    | t encs opts sr where "\<not> t_closed s" "announce_producer on_produce stop sr t appData (emit [HandlerSend t encs opts codec] s) = (s', r)"
    using assms(3) by (auto simp: SendTransport_Produce_def Let_def split: if_splits option.splits sum.splits)
  then show ?thesis
  proof cases
    case 2
    then show ?thesis using send_inv_emit [OF assms(1)] by (simp add: closes_simps)
  next
    case 3
    then show ?thesis
      using validate_outcome_inv [OF send_inv_emit [OF assms(1)] _ _ 3(2)] assms(2)
      by (simp add: closes_simps) (simp add: emit_def)
  qed (use assms in simp)
qed

lemma ProduceData_inv:
  assumes "send_inv s" and "fresh on_produce (dataProducers s)"
    and "SendTransport_ProduceData send on_produce label protocol ordered retransmits lifeTime appData s = (s', r)"
  shows "send_inv s'"
proof (cases "\<not> hasSctpParameters s \<or> (retransmits \<noteq> -1 \<and> lifeTime \<noteq> 0)")
  case False
  define init where "init = mk_DataChannelInit\<lparr>dci_protocol := protocol, dci_ordered := ordered,
    maxRetransmits := (if retransmits \<noteq> -1 then Some retransmits else None),
    maxRetransmitTime := (if lifeTime \<noteq> 0 then Some lifeTime else None)\<rparr>"
  define s1 where "s1 = emit [HandlerSendDataChannel label init] s"
  have s1: "send_inv s1" unfolding s1_def using assms(1) by (rule send_inv_emit) (simp add: closes_simps)
  note run = assms(3) [unfolded SendTransport_ProduceData_def init_def [symmetric] Let_def s1_def [symmetric]]
  show ?thesis
  proof (cases send)
    case (Inl e)
    then show ?thesis using run False s1 by auto
  next
    case (Inr ps)
    define s2 where "s2 = emit [ListenerOnProduceData ps label protocol appData] s1"
    have s2: "send_inv s2" unfolding s2_def using s1 by (rule send_inv_emit) (simp add: closes_simps)
    show ?thesis
    proof (cases on_produce)
      case (Inl e)
      then show ?thesis using run False \<open>send = Inr ps\<close> s2 by (auto simp: s2_def)
    next
      case on: (Inr i)
      have "i \<notin> fst ` set (dataProducers s2)" using assms(2) on by (simp add: fresh_def s2_def s1_def emit_def)
      then have new: "send_inv (s2\<lparr>data_producer_objs := data_producer_objs s2 @ [mk_DataProducer i ps appData],
          dataProducers := AList.update i (length (data_producer_objs s2)) (dataProducers s2)\<rparr>)"
        using send_inv_new_data [OF s2, of i] by (simp add: mk_DataProducer_def)
      have "send_inv (emit [DataRegisterObserver n] (s2\<lparr>data_producer_objs := data_producer_objs s2 @ [mk_DataProducer i ps appData],
          dataProducers := AList.update i (length (data_producer_objs s2)) (dataProducers s2)\<rparr>))" for n
        using new by (rule send_inv_emit) (simp add: closes_simps)
      then show ?thesis using run False \<open>send = Inr ps\<close> on by (auto simp: s2_def)
    qed
  qed
qed (use assms in \<open>auto simp: SendTransport_ProduceData_def split: if_splits\<close>)

lemma Producer_Close_inv:
  assumes "send_inv s" and "i < length (producer_objs s)" and "Producer_Close stop i s = (s', r)"
  shows "send_inv s'"
proof (cases "p_closed (producer_objs s ! i)")
  case False
  let ?p = "producer_objs s ! i"
  let ?s1 = "s\<lparr>producer_objs := (producer_objs s)[i := ?p\<lparr>p_closed := True\<rparr>],
               producers := AList.delete (p_id ?p) (producers s), events := events s @ [PrivateOnClose i]\<rparr>"
  have "\<not> t_closed s" using assms(1,2) False by (auto simp: send_inv_def list_all_length)
  then have inv: "send_inv ?s1" using assms(1,2) False by (simp add: send_inv_def tracked_close_media)
  have "s' = emit [HandlerStopSending (p_localId ?p)] ?s1"
    using assms(2,3) False \<open>\<not> t_closed s\<close> by (simp add: Producer_Close_def SendTransport_OnClose_def Let_def emit_def)
  then show ?thesis using send_inv_emit [OF inv] by (simp add: closes_simps)
qed (use assms in \<open>simp add: Producer_Close_def Let_def\<close>)

lemma DataProducer_Close_inv:
  assumes "send_inv s" and "i < length (data_producer_objs s)"
  shows "send_inv (DataProducer_Close i s)"
  using assms
  by (simp add: send_inv_def DataProducer_Close_def SendTransport_OnDataClose_def Let_def emit_def tracked_close_data)

lemma ReplaceTrack_inv:
  assumes "send_inv s" and "Producer_ReplaceTrack outcome i track s = (s', r)"
  shows "send_inv s'"
proof -
  consider "s' = s" | t where "s' = emit [HandlerReplaceTrack (p_localId (producer_objs s ! i)) t] s"
    | t b where "s' = (let s1 = emit [HandlerReplaceTrack (p_localId (producer_objs s ! i)) t] s
        in (s1\<lparr>producer_objs := (producer_objs s1)[i := (producer_objs s1 ! i)\<lparr>p_track := t\<rparr>]\<rparr>)\<lparr>send_tracks := set_enabled t b (send_tracks s1)\<rparr>)"
    using assms(2)
    by (auto simp: Producer_ReplaceTrack_def SendTransport_OnReplaceTrack_def Let_def emit_def split: if_splits option.splits sum.splits)
  then show ?thesis
  proof cases
    case 3
    have "send_inv (emit [HandlerReplaceTrack (p_localId (producer_objs s ! i)) t] s)"
      using assms(1) by (rule send_inv_emit) (simp add: closes_simps)
    then show ?thesis unfolding 3 Let_def by (intro send_inv_tracks send_inv_producer) simp_all
  qed (use assms(1) send_inv_emit in \<open>auto simp: closes_simps\<close>)
qed

lemma SetMaxSpatialLayer_inv:
  assumes "send_inv s" and "Producer_SetMaxSpatialLayer outcome i layer s = (s', r)"
  shows "send_inv s'"
proof -
  let ?s1 = "emit [HandlerSetMaxSpatialLayer (p_localId (producer_objs s ! i)) layer] s"
  have inv: "send_inv ?s1" using assms(1) by (rule send_inv_emit) (simp add: closes_simps)
  consider "s' = s" | "s' = ?s1"
    | "s' = ?s1\<lparr>producer_objs := (producer_objs ?s1)[i := (producer_objs ?s1 ! i)\<lparr>p_maxSpatialLayer := layer\<rparr>]\<rparr>"
    using assms(2)
    by (auto simp: Producer_SetMaxSpatialLayer_def SendTransport_OnSetMaxSpatialLayer_def Let_def emit_def split: if_splits sum.splits)
  then show ?thesis
  proof cases
    case 3
    show ?thesis unfolding 3 using inv by (rule send_inv_producer) simp_all
  qed (use assms(1) inv in auto)
qed

lemma SendTransport_Close_sound:
  assumes "send_inv s" and "\<not> t_closed s"
  shows "send_inv (SendTransport_Close s) \<and> list_all dp_closed (data_producer_objs (SendTransport_Close s))"
proof -
  obtain ps ev1 where ps: "close_all Producer_TransportClosed (map snd (producers s)) (producer_objs s) = (ps, ev1)"
    by fastforce
  obtain ds ev2 where ds: "close_all DataProducer_TransportClosed (map snd (dataProducers s)) (data_producer_objs s) = (ds, ev2)"
    by fastforce
  have s': "SendTransport_Close s =
      s\<lparr>t_closed := True, producer_objs := ps, data_producer_objs := ds, events := (events s @ [HandlerClose]) @ ev1 @ ev2\<rparr>"
    using assms(2) ps ds by (simp add: SendTransport_Close_def Transport_Close_def emit_def)
  have "tracked p_id p_closed dp_id dp_closed (producers s) (producer_objs s) (dataProducers s) (data_producer_objs s)
      (events s @ [HandlerClose])"
    using assms(1) by (simp add: send_inv_def tracked_quiet closes_simps)
  from sending.close_both [OF this ps ds] show ?thesis unfolding s' by (simp add: send_inv_def)
qed

lemma SendTransport_Close_inv: "send_inv s \<Longrightarrow> send_inv (SendTransport_Close s)"
  using SendTransport_Close_sound by (cases "t_closed s") (simp_all add: SendTransport_Close_def)

lemmas quiet_ops = Producer_GetStats_def SendTransport_OnGetStats_def Producer_SetFrameEncryptor_def DataProducer_Send_def
  DataProducer_OnStateChange_def DataProducer_OnBufferedAmountChange_def Transport_GetStats_def Transport_RestartIce_def
  Transport_UpdateIceServers_def Transport_OnConnect_def

lemma send_session_inv: "send_session s \<Longrightarrow> send_inv s"
proof (induction rule: send_session.induct)
  case (pause s i)
  then show ?case by (simp add: Producer_Pause_def Let_def send_inv_tracks)
next
  case (resume s i)
  then show ?case by (simp add: Producer_Resume_def Let_def send_inv_tracks)
next
  case (connection_state s ice)
  have "send_inv (s\<lparr>connectionState := ice\<rparr>)" using connection_state by (simp add: send_inv_def)
  then show ?case unfolding Transport_OnConnectionStateChange_def by (rule send_inv_emit) (simp add: closes_simps)
qed (auto simp: quiet_ops closes_simps Let_def split: if_splits DataState.splits
  intro: send_inv_emit Produce_inv ProduceData_inv SendTransport_Close_inv Producer_Close_inv DataProducer_Close_inv ReplaceTrack_inv
    SetMaxSpatialLayer_inv dest: mk_SendTransport_inv)

section \<open>What modelling the sending side shows\<close>

text \<open>A data producer can be made on a closed transport, which will never close it.\<close>

lemma produce_data_after_close:
  assumes "hasSctpParameters s" and "retransmits = -1 \<or> lifeTime = 0"
  shows "\<exists>s' n. SendTransport_ProduceData (Inr ps) (Inr i) label protocol ordered retransmits lifeTime appData (SendTransport_Close s) = (s', Inr n)
    \<and> t_closed s' \<and> \<not> dp_closed (data_producer_objs s' ! n) \<and> SendTransport_Close s' = s'"
proof -
  have "hasSctpParameters (SendTransport_Close s)" "t_closed (SendTransport_Close s)"
    using assms(1) by (auto simp: SendTransport_Close_def Transport_Close_def emit_def Let_def split: prod.splits)
  then show ?thesis
    using assms(2) by (auto simp: SendTransport_ProduceData_def Let_def emit_def mk_DataProducer_def SendTransport_Close_def [of "_\<lparr>events := _\<rparr>"])
qed

text \<open>Replacing a track keeps the paused state.\<close>

lemma replace_track_keeps_paused:
  assumes "i < length (producer_objs s)" and "t < length (send_tracks s)"
    and "Producer_ReplaceTrack outcome i (Some t) s = (s', Inr ())"
  shows "p_track (producer_objs s' ! i) = t \<and> Producer_IsPaused i s' = Producer_IsPaused i s"
  using assms
  by (auto simp: Producer_ReplaceTrack_def SendTransport_OnReplaceTrack_def Producer_IsPaused_def Let_def emit_def set_enabled_def
    split: if_splits sum.splits)

section \<open>Example\<close>

definition sample_track :: MediaStreamTrack where
  "sample_track = \<lparr>track_kind = ''video'', track_ended = False, track_enabled = True\<rparr>"

definition sample_ext :: json where
  "sample_ext = JObj [(''codecs'', JArr []), (''headerExtensions'', JArr [])]"

definition sample_sctp :: json where
  "sample_sctp = JObj [(''maxMessageSize'', JUInt 262144)]"

definition sample_start :: SendTransport where
  "sample_start = \<lparr>t_closed = False, connectionState = kIceConnectionNew, hasSctpParameters = True, events = [],
     maxSctpMessageSize = 262144, producers = [], dataProducers = [], producer_objs = [], data_producer_objs = [],
     send_tracks = [sample_track]\<rparr>"

text \<open>One producer and one data producer.\<close>

definition sample_media :: SendTransport where
  "sample_media = fst (SendTransport_Produce [''audio'' \<mapsto> True, ''video'' \<mapsto> True]
     (Inr \<lparr>sr_localId = ''0'', sr_rtpSender = True, sr_rtpParameters = params0'\<rparr>) (Inr ''p1'') (Inr ()) (Some 0) None None None (JObj []) sample_start)"

definition sample_send :: SendTransport where
  "sample_send = fst (SendTransport_ProduceData (Inr (JObj [])) (Inr ''d1'') ''chat'' '''' True (-1) 0 (JObj []) sample_media)"

lemma sample_params: "validateRtpParameters params0' = Inr params0'"
  by (simp add: params0'_def val_eval validateRtpParameters_eq validateRtpEncodingParameters_eq validateRtcpParameters_eq Let_def)

lemma sample_media_eq:
  "sample_media = sample_start\<lparr>events := [HandlerSend 0 [] None None, ListenerOnProduce ''video'' params0' (JObj [])],
     producer_objs := [mk_Producer ''p1'' ''0'' True 0 params0' (JObj [])], producers := [(''p1'', 0)]\<rparr>"
  by (simp add: sample_media_def SendTransport_Produce_def announce_producer_def sample_params sample_start_def sample_track_def
    Let_def emit_def)

lemma sample_send_fields:
  "\<not> t_closed sample_send" "producer_objs sample_send = [mk_Producer ''p1'' ''0'' True 0 params0' (JObj [])]"
  "producers sample_send = [(''p1'', 0)]" "data_producer_objs sample_send = [mk_DataProducer ''d1'' (JObj []) (JObj [])]"
  "dataProducers sample_send = [(''d1'', 0)]"
  by (simp_all add: sample_send_def SendTransport_ProduceData_def sample_media_eq sample_start_def Let_def emit_def)

lemma sample_send_session: "send_session sample_send"
proof -
  have "\<exists>params. mk_SendTransport sample_sctp sample_ext [sample_track] = Inr (sample_start, params)"
    by (simp add: mk_SendTransport_def sending_parameters_def sample_ext_def sample_sctp_def sample_start_def getSendingRtpParameters_def
      getSendingRemoteRtpParameters_def send_codecs_def send_exts_def obj_get_def)
  then obtain params where "mk_SendTransport sample_sctp sample_ext [sample_track] = Inr (sample_start, params)" by blast
  then have "send_session sample_start" by (rule send_session.start)
  moreover have "fresh (Inr ''p1'') (producers sample_start)" by (simp add: fresh_def sample_start_def)
  ultimately have "send_session sample_media"
    unfolding sample_media_def by (rule send_session.produce) (rule prod.collapse [symmetric])
  moreover have "fresh (Inr ''d1'') (dataProducers sample_media)" by (simp add: fresh_def sample_media_eq sample_start_def)
  ultimately show ?thesis unfolding sample_send_def by (rule send_session.produce_data) (rule prod.collapse [symmetric])
qed

section \<open>Property\<close>

text \<open>C35. After Close of a send transport all its producers are closed, the closing of each has been announced
  exactly once, be it by its own Close or by that of the transport, and a closed producer does nothing
  any more: Close, Pause and Resume have no effect and the other operations throw.  If the transport
  was open before, all its data producers are closed too; a data producer's closing has been announced
  exactly once if it is closed and never otherwise, and closing it again has no effect.  (Data producers
  can still be made on a closed transport; a second Close leaves those open.)  New producers are refused.
  This holds in every session, whatever the handler and the application answered, as long as the server
  does not hand out an identifier twice.\<close>

theorem send_transport_closes:
  assumes "send_session s" and "s' = SendTransport_Close s"
  shows "t_closed s'
    \<and> (\<forall>i < length (producer_objs s'). p_closed (producer_objs s' ! i) \<and> announced closes_media i (events s') = 1
        \<and> Producer_Close stop i s' = (s', Inr ()) \<and> Producer_Pause i s' = s' \<and> Producer_Resume i s' = s'
        \<and> Producer_ReplaceTrack outcome i track s' = (s', Inl (MscInvalidStateError ''Producer closed''))
        \<and> Producer_SetMaxSpatialLayer outcome i layer s' = (s', Inl (MscInvalidStateError ''Producer closed''))
        \<and> Producer_SetFrameEncryptor i encryptor s' = (s', Inl (MscInvalidStateError ''Producer closed''))
        \<and> Producer_GetStats stats i s' = (s', Inl (MscInvalidStateError ''Producer closed'')))
    \<and> (\<forall>j < length (data_producer_objs s'). (t_closed s \<or> dp_closed (data_producer_objs s' ! j))
        \<and> announced closes_data j (events s') = (if dp_closed (data_producer_objs s' ! j) then 1 else 0)
        \<and> (dp_closed (data_producer_objs s' ! j) \<longrightarrow> DataProducer_Close j s' = s'))
    \<and> SendTransport_Produce canProduce send on_produce stop newTrack encodings codecOptions codec appData s'
        = (s', Inl (MscInvalidStateError ''SendTransport closed''))"
proof -
  have inv: "send_inv s'" using send_session_inv [OF assms(1)] SendTransport_Close_inv assms(2) by blast
  have closed: "t_closed s'"
    unfolding assms(2) by (simp add: SendTransport_Close_def Transport_Close_def emit_def split: prod.splits)
  have "p_closed (producer_objs s' ! i) \<and> announced closes_media i (events s') = 1" if "i < length (producer_objs s')" for i
    using inv closed that by (simp add: send_inv_def tracked_def announced_once_def list_all_length)
  moreover have "(t_closed s \<or> dp_closed (data_producer_objs s' ! j))
      \<and> announced closes_data j (events s') = (if dp_closed (data_producer_objs s' ! j) then 1 else 0)"
    if "j < length (data_producer_objs s')" for j
    using SendTransport_Close_sound [OF send_session_inv [OF assms(1)]] inv assms(2) that
    by (auto simp: send_inv_def tracked_def announced_once_def list_all_length)
  ultimately show ?thesis
    using closed by (simp add: Producer_Close_def Producer_Pause_def Producer_Resume_def Producer_ReplaceTrack_def
      Producer_SetMaxSpatialLayer_def Producer_SetFrameEncryptor_def Producer_GetStats_def DataProducer_Close_def SendTransport_Produce_def Let_def)
qed

theorem send_transport_closes_witness:
  "\<not> t_closed sample_send \<and> \<not> p_closed (producer_objs sample_send ! 0) \<and> \<not> dp_closed (data_producer_objs sample_send ! 0)
   \<and> p_closed (producer_objs (SendTransport_Close sample_send) ! 0)
   \<and> announced closes_media 0 (events (SendTransport_Close sample_send)) = 1
   \<and> Producer_Close (Inr ()) 0 (SendTransport_Close sample_send) = (SendTransport_Close sample_send, Inr ())
   \<and> dp_closed (data_producer_objs (SendTransport_Close sample_send) ! 0)
   \<and> announced closes_data 0 (events (SendTransport_Close sample_send)) = 1
   \<and> DataProducer_Close 0 (SendTransport_Close sample_send) = SendTransport_Close sample_send"
proof -
  have "0 < length (producer_objs (SendTransport_Close sample_send))" "0 < length (data_producer_objs (SendTransport_Close sample_send))"
    by (simp_all add: sample_send_fields SendTransport_Close_def Transport_Close_def emit_def Producer_TransportClosed_def
      DataProducer_TransportClosed_def mk_Producer_def mk_DataProducer_def)
  with send_transport_closes [OF sample_send_session refl, of "Inr ()"]
  show ?thesis by (auto simp: sample_send_fields mk_Producer_def mk_DataProducer_def)
qed

end
