(* ===== verification/Recv_Transport.thy ===== *)
theory Recv_Transport
  imports Endpoints
begin

text \<open>
  \<^verbatim>\<open>Consumer.cpp\<close>, \<^verbatim>\<open>DataConsumer.cpp\<close> and the class \<^verbatim>\<open>RecvTransport\<close> of \<^verbatim>\<open>Transport.cpp\<close>, in the
  same form as the sending side.
\<close>

section \<open>State\<close>

record Consumer =
  c_id :: string
  c_localId :: string
  c_producerId :: string
  c_rtpReceiver :: bool
  c_track :: nat
  c_rtpParameters :: json
  c_appData :: json
  c_closed :: bool

definition mk_Consumer :: "string \<Rightarrow> string \<Rightarrow> string \<Rightarrow> bool \<Rightarrow> nat \<Rightarrow> json \<Rightarrow> json \<Rightarrow> Consumer" where
  "mk_Consumer i localId producerId rtpReceiver track rtpParameters appData =
     \<lparr>c_id = i, c_localId = localId, c_producerId = producerId, c_rtpReceiver = rtpReceiver, c_track = track,
      c_rtpParameters = rtpParameters, c_appData = appData, c_closed = False\<rparr>"

record DataConsumer =
  dc_id :: string
  dc_dataProducerId :: string
  dc_sctpParameters :: json
  dc_appData :: json
  dc_closed :: bool

definition mk_DataConsumer :: "string \<Rightarrow> string \<Rightarrow> json \<Rightarrow> json \<Rightarrow> DataConsumer" where
  "mk_DataConsumer i dataProducerId sctpStreamParameters appData =
     \<lparr>dc_id = i, dc_dataProducerId = dataProducerId, dc_sctpParameters = sctpStreamParameters, dc_appData = appData,
      dc_closed = False\<rparr>"

record RecvTransport = Transport +
  probatorConsumerCreated :: bool
  extendedCapabilities :: json
  consumers :: "(string \<times> nat) list"
  dataConsumers :: "(string \<times> nat) list"
  consumer_objs :: "Consumer list"
  data_consumer_objs :: "DataConsumer list"
  recv_tracks :: "MediaStreamTrack list"

section \<open>Consumers\<close>

definition Consumer_IsPaused :: "nat \<Rightarrow> RecvTransport \<Rightarrow> bool" where
  "Consumer_IsPaused i s = (\<not> track_enabled (recv_tracks s ! c_track (consumer_objs s ! i)))"

definition RecvTransport_OnClose :: "unit result \<Rightarrow> nat \<Rightarrow> RecvTransport \<Rightarrow> RecvTransport \<times> unit result" where
  "RecvTransport_OnClose stop i s =
     (let c = consumer_objs s ! i; s1 = s\<lparr>consumers := AList.delete (c_id c) (consumers s)\<rparr>
      in if t_closed s1 then (s1, Inr ())
         else (emit [HandlerStopReceiving (c_localId c)] s1, stop))"

definition Consumer_Close :: "unit result \<Rightarrow> nat \<Rightarrow> RecvTransport \<Rightarrow> RecvTransport \<times> unit result" where
  "Consumer_Close stop i s =
     (let c = consumer_objs s ! i
      in if c_closed c then (s, Inr ())
         else RecvTransport_OnClose stop i
                (emit [PrivateOnClose i] (s\<lparr>consumer_objs := (consumer_objs s)[i := c\<lparr>c_closed := True\<rparr>]\<rparr>)))"

definition RecvTransport_OnGetStats :: "json result \<Rightarrow> nat \<Rightarrow> RecvTransport \<Rightarrow> RecvTransport \<times> json result" where
  "RecvTransport_OnGetStats stats i s =
     (if t_closed s then (s, Inl (MscInvalidStateError ''RecvTransport closed''))
      else (emit [HandlerGetReceiverStats (c_localId (consumer_objs s ! i))] s, stats))"

definition Consumer_GetStats :: "json result \<Rightarrow> nat \<Rightarrow> RecvTransport \<Rightarrow> RecvTransport \<times> json result" where
  "Consumer_GetStats stats i s =
     (if c_closed (consumer_objs s ! i) then (s, Inl (MscInvalidStateError ''Consumer closed''))
      else RecvTransport_OnGetStats stats i s)"

definition Consumer_Pause :: "nat \<Rightarrow> RecvTransport \<Rightarrow> RecvTransport" where
  "Consumer_Pause i s =
     (let c = consumer_objs s ! i
      in if c_closed c then s else s\<lparr>recv_tracks := set_enabled (c_track c) False (recv_tracks s)\<rparr>)"

definition Consumer_Resume :: "nat \<Rightarrow> RecvTransport \<Rightarrow> RecvTransport" where
  "Consumer_Resume i s =
     (let c = consumer_objs s ! i
      in if c_closed c then s else s\<lparr>recv_tracks := set_enabled (c_track c) True (recv_tracks s)\<rparr>)"

definition Consumer_SetFrameDecryptor :: "nat \<Rightarrow> nat option \<Rightarrow> RecvTransport \<Rightarrow> RecvTransport \<times> unit result" where
  "Consumer_SetFrameDecryptor i decryptor s =
     (let c = consumer_objs s ! i
      in if c_closed c then (s, Inl (MscInvalidStateError ''Consumer closed''))
         else if c_rtpReceiver c then (emit [ReceiverSetFrameDecryptor i decryptor] s, Inr ())
         else (s, Inr ()))"

definition Consumer_TransportClosed :: "nat \<Rightarrow> Consumer \<Rightarrow> Consumer \<times> event list" where
  "Consumer_TransportClosed i c =
     (if c_closed c then (c, []) else (c\<lparr>c_closed := True\<rparr>, [ListenerOnTransportClose i]))"

section \<open>Data consumers\<close>

definition RecvTransport_OnDataClose :: "nat \<Rightarrow> RecvTransport \<Rightarrow> RecvTransport" where
  "RecvTransport_OnDataClose i s =
     s\<lparr>dataConsumers := AList.delete (dc_id (data_consumer_objs s ! i)) (dataConsumers s)\<rparr>"

definition DataConsumer_Close :: "nat \<Rightarrow> RecvTransport \<Rightarrow> RecvTransport" where
  "DataConsumer_Close i s =
     (let d = data_consumer_objs s ! i
      in if dc_closed d then s
         else RecvTransport_OnDataClose i
                (emit [DataChannelClose i, DataPrivateOnClose i]
                  (s\<lparr>data_consumer_objs := (data_consumer_objs s)[i := d\<lparr>dc_closed := True\<rparr>]\<rparr>)))"

definition DataConsumer_TransportClosed :: "nat \<Rightarrow> DataConsumer \<Rightarrow> DataConsumer \<times> event list" where
  "DataConsumer_TransportClosed i d =
     (if dc_closed d then (d, [])
      else (d\<lparr>dc_closed := True\<rparr>, [DataChannelClose i, DataListenerOnTransportClose i]))"

definition DataConsumer_OnStateChange :: "nat \<Rightarrow> DataState \<Rightarrow> RecvTransport \<Rightarrow> RecvTransport" where
  "DataConsumer_OnStateChange i st s =
     emit [case st of
             kConnecting \<Rightarrow> DataListenerOnConnecting i
           | kOpen \<Rightarrow> DataListenerOnOpen i
           | kClosing \<Rightarrow> DataListenerOnClosing i
           | kClosed \<Rightarrow> DataListenerOnClose i] s"

definition DataConsumer_OnMessage :: "nat \<Rightarrow> bytes \<Rightarrow> RecvTransport \<Rightarrow> RecvTransport" where
  "DataConsumer_OnMessage i buffer s = emit [DataListenerOnMessage i buffer] s"

section \<open>The transport\<close>

definition mk_RecvTransport :: "json \<Rightarrow> json \<Rightarrow> RecvTransport" where
  "mk_RecvTransport sctpParameters ext =
     \<lparr>t_closed = False, connectionState = kIceConnectionNew, hasSctpParameters = is_object sctpParameters, events = [],
      probatorConsumerCreated = False, extendedCapabilities = ext, consumers = [], dataConsumers = [],
      consumer_objs = [], data_consumer_objs = [], recv_tracks = []\<rparr>"

text \<open>What the handler's \<open>Receive\<close> returns; the track is a new one.\<close>

record RecvResult =
  rr_localId :: string
  rr_rtpReceiver :: bool
  rr_track :: MediaStreamTrack

text \<open>\<open>catch (std::runtime_error&)\<close>: the library's own exceptions derive from that class.\<close>

definition is_runtime_error :: "exn \<Rightarrow> bool" where
  "is_runtime_error e = (is_msc_error e \<or> e = StdException ''runtime_error'')"

text \<open>The consumer for RTP probation is created with the first video consumer; a failure is logged and
  tried again with the next one.\<close>

definition create_probator :: "RecvResult result \<Rightarrow> string \<Rightarrow> json \<Rightarrow> RecvTransport \<Rightarrow> RecvTransport \<times> unit result" where
  "create_probator receive kind rtpParameters s =
     (if probatorConsumerCreated s \<or> kind \<noteq> ''video'' then (s, Inr ())
      else
        case (case generateProbatorRtpParameters rtpParameters of
                Inl e \<Rightarrow> (s, Inl e)
              | Inr ps \<Rightarrow>
                  (emit [HandlerReceive ''probator'' kind ps] s, rbind receive (\<lambda>_. Inr ()))) of
          (s1, Inl e) \<Rightarrow> (s1, if is_runtime_error e then Inr () else Inl e)
        | (s1, Inr _) \<Rightarrow> (s1\<lparr>probatorConsumerCreated := True\<rparr>, Inr ()))"

text \<open>The last part of \<open>Consume\<close>: the new consumer, and the probator if it is due.\<close>

definition add_consumer ::
  "RecvResult result \<Rightarrow> RecvResult \<Rightarrow> string \<Rightarrow> string \<Rightarrow> string \<Rightarrow> json \<Rightarrow> json \<Rightarrow> RecvTransport \<Rightarrow> RecvTransport \<times> nat result" where
  "add_consumer receive_probator r i producerId kind rtpParameters appData s =
     (let n = length (consumer_objs s); t = length (recv_tracks s);
          s1 = s\<lparr>recv_tracks := recv_tracks s @ [rr_track r]\<rparr>;
          s2 = s1\<lparr>consumer_objs := consumer_objs s1
                    @ [mk_Consumer i (rr_localId r) producerId (rr_rtpReceiver r) t rtpParameters appData],
                  consumers := AList.update i n (consumers s1)\<rparr>;
          (s3, res) = create_probator receive_probator kind rtpParameters s2
      in (s3, rbind res (\<lambda>_. Inr n)))"

definition RecvTransport_Consume ::
  "RecvResult result \<Rightarrow> RecvResult result \<Rightarrow> string \<Rightarrow> string \<Rightarrow> string \<Rightarrow> json option \<Rightarrow> json
   \<Rightarrow> RecvTransport \<Rightarrow> RecvTransport \<times> nat result" where
  "RecvTransport_Consume receive receive_probator i producerId kind rtpParameters appData s =
     (if t_closed s then (s, Inl (MscInvalidStateError ''RecvTransport closed''))
      else if i = '''' then (s, Inl (MscTypeError ''missing id''))
      else if producerId = '''' then (s, Inl (MscTypeError ''missing producerId''))
      else if kind \<noteq> ''audio'' \<and> kind \<noteq> ''video'' then (s, Inl (MscTypeError ''invalid kind''))
      else case rtpParameters of
        None \<Rightarrow> (s, Inl (MscTypeError ''missing rtpParameters''))
      | Some params \<Rightarrow>
          if \<not> is_object appData then (s, Inl (MscTypeError ''appData must be a JSON object''))
          else
            (case canReceive params (extendedCapabilities s) of
               Inl e \<Rightarrow> (s, Inl e)
             | Inr (ok, ps) \<Rightarrow>
                 if \<not> ok then (s, Inl (MscUnsupportedError ''cannot consume this Producer''))
                 else
                   let s1 = emit [HandlerReceive i kind ps] s
                   in case receive of
                        Inl e \<Rightarrow> (s1, Inl e)
                      | Inr r \<Rightarrow> add_consumer receive_probator r i producerId kind ps appData s1))"

definition RecvTransport_ConsumeData ::
  "json result \<Rightarrow> string \<Rightarrow> string \<Rightarrow> u16 \<Rightarrow> string \<Rightarrow> string \<Rightarrow> json \<Rightarrow> RecvTransport \<Rightarrow> RecvTransport \<times> nat result" where
  "RecvTransport_ConsumeData receive i producerId streamId label protocol appData s =
     (if t_closed s then (s, Inl (MscInvalidStateError ''RecvTransport closed''))
      else if i = '''' then (s, Inl (MscTypeError ''missing id''))
      else if producerId = '''' then (s, Inl (MscTypeError ''missing producerId''))
      else if \<not> hasSctpParameters s
      then (s, Inl (MscTypeError ''Cannot use DataChannels with this transport. SctpParameters are not set.''))
      else
        let init = mk_DataChannelInit\<lparr>dci_protocol := protocol, dci_id := ucast streamId\<rparr>;
            s1 = emit [HandlerReceiveDataChannel label init] s
        in case receive of
             Inl e \<Rightarrow> (s1, Inl e)
           | Inr sctpStreamParameters \<Rightarrow>
               let n = length (data_consumer_objs s1)
               in (emit [DataRegisterObserver n]
                    (s1\<lparr>data_consumer_objs := data_consumer_objs s1 @ [mk_DataConsumer i producerId sctpStreamParameters appData],
                        dataConsumers := AList.update i n (dataConsumers s1)\<rparr>), Inr n))"

definition RecvTransport_Close :: "RecvTransport \<Rightarrow> RecvTransport" where
  "RecvTransport_Close s =
     (if t_closed s then s
      else
        let s1 = Transport_Close s;
            (cs, ev1) = close_all Consumer_TransportClosed (map snd (consumers s1)) (consumer_objs s1);
            (ds, ev2) = close_all DataConsumer_TransportClosed (map snd (dataConsumers s1)) (data_consumer_objs s1)
        in emit (ev1 @ ev2) (s1\<lparr>consumer_objs := cs, data_consumer_objs := ds\<rparr>))"

end
