(* ===== verification/Recv_Session.thy ===== *)
theory Recv_Session
  imports Recv_Transport
begin

text \<open>
  Sessions of a receive transport: its operations and those of its consumers in any order, with any
  outcome of the calls to the handler.  The server announces a consumer once, so its identifier is not in
  use already.
\<close>

section \<open>Sessions\<close>

inductive recv_session :: "RecvTransport \<Rightarrow> bool" where
  start: "recv_session (mk_RecvTransport sctpParameters ext)"
| consume: "recv_session s \<Longrightarrow> fresh (Inr k) (consumers s) \<Longrightarrow> (\<And>ps. rtpParameters = Some ps \<Longrightarrow> jwf ps) \<Longrightarrow>
    RecvTransport_Consume receive receive_probator k producerId kind rtpParameters appData s = (s', r) \<Longrightarrow> recv_session s'"
| consume_data: "recv_session s \<Longrightarrow> fresh (Inr k) (dataConsumers s) \<Longrightarrow>
    RecvTransport_ConsumeData receive_data k producerId streamId label protocol appData s = (s', r) \<Longrightarrow> recv_session s'"
| close: "recv_session s \<Longrightarrow> recv_session (RecvTransport_Close s)"
| consumer_close: "recv_session s \<Longrightarrow> i < length (consumer_objs s) \<Longrightarrow> Consumer_Close stop i s = (s', u) \<Longrightarrow> recv_session s'"
| get_stats: "recv_session s \<Longrightarrow> i < length (consumer_objs s) \<Longrightarrow> Consumer_GetStats stats i s = (s', st) \<Longrightarrow> recv_session s'"
| pause: "recv_session s \<Longrightarrow> i < length (consumer_objs s) \<Longrightarrow> recv_session (Consumer_Pause i s)"
| resume: "recv_session s \<Longrightarrow> i < length (consumer_objs s) \<Longrightarrow> recv_session (Consumer_Resume i s)"
| frame_decryptor: "recv_session s \<Longrightarrow> i < length (consumer_objs s) \<Longrightarrow>
    Consumer_SetFrameDecryptor i decryptor s = (s', u) \<Longrightarrow> recv_session s'"
| data_close: "recv_session s \<Longrightarrow> i < length (data_consumer_objs s) \<Longrightarrow> recv_session (DataConsumer_Close i s)"
| data_state: "recv_session s \<Longrightarrow> i < length (data_consumer_objs s) \<Longrightarrow> recv_session (DataConsumer_OnStateChange i dst s)"
| data_message: "recv_session s \<Longrightarrow> i < length (data_consumer_objs s) \<Longrightarrow> recv_session (DataConsumer_OnMessage i buffer s)"
| transport_stats: "recv_session s \<Longrightarrow> Transport_GetStats stats s = (s', st) \<Longrightarrow> recv_session s'"
| restart_ice: "recv_session s \<Longrightarrow> Transport_RestartIce outcome iceParameters s = (s', u) \<Longrightarrow> recv_session s'"
| ice_servers: "recv_session s \<Longrightarrow> Transport_UpdateIceServers outcome iceServers s = (s', u) \<Longrightarrow> recv_session s'"
| on_connect: "recv_session s \<Longrightarrow> Transport_OnConnect outcome dtlsParameters s = (s', u) \<Longrightarrow> recv_session s'"
| connection_state: "recv_session s \<Longrightarrow> recv_session (Transport_OnConnectionStateChange ice s)"

section \<open>Endpoints of a receive transport\<close>

interpretation receiving: transport_endpoints c_id c_closed Consumer_TransportClosed dc_id dc_closed DataConsumer_TransportClosed
  by unfold_locales (auto simp: Consumer_TransportClosed_def DataConsumer_TransportClosed_def closes_simps)

section \<open>The invariant\<close>

text \<open>Besides the closing of endpoints: the parameters of a consumer are complete, so validating them
  again changes nothing.\<close>

definition complete_consumer :: "Consumer \<Rightarrow> bool" where
  "complete_consumer c = (validateRtpParameters (c_rtpParameters c) = Inr (c_rtpParameters c) \<and> c_id c \<noteq> '''')"

definition recv_inv :: "RecvTransport \<Rightarrow> bool" where
  "recv_inv s =
     (tracked c_id c_closed dc_id dc_closed (consumers s) (consumer_objs s) (dataConsumers s) (data_consumer_objs s) (events s)
      \<and> (t_closed s \<longrightarrow> list_all c_closed (consumer_objs s) \<and> list_all dc_closed (data_consumer_objs s))
      \<and> list_all complete_consumer (consumer_objs s))"

lemma recv_inv_emit: "recv_inv s \<Longrightarrow> quiet evs \<Longrightarrow> recv_inv (emit evs s)"
  by (simp add: recv_inv_def emit_def tracked_quiet)

lemma recv_inv_tracks: "recv_inv s \<Longrightarrow> recv_inv (s\<lparr>recv_tracks := ts\<rparr>)"
  by (simp add: recv_inv_def)

lemma recv_inv_probator: "recv_inv s \<Longrightarrow> recv_inv (s\<lparr>probatorConsumerCreated := b\<rparr>)"
  by (simp add: recv_inv_def)

lemma recv_inv_new_consumer:
  assumes "recv_inv s" and "\<not> t_closed s" and "k \<notin> fst ` set (consumers s)" and "c_id c = k" and "\<not> c_closed c" and "complete_consumer c"
  shows "recv_inv (s\<lparr>consumer_objs := consumer_objs s @ [c], consumers := AList.update k (length (consumer_objs s)) (consumers s)\<rparr>)"
  using assms by (simp add: recv_inv_def tracked_new_media)

lemma recv_inv_new_data:
  assumes "recv_inv s" and "\<not> t_closed s" and "k \<notin> fst ` set (dataConsumers s)" and "dc_id d = k" and "\<not> dc_closed d"
  shows "recv_inv (s\<lparr>data_consumer_objs := data_consumer_objs s @ [d],
    dataConsumers := AList.update k (length (data_consumer_objs s)) (dataConsumers s)\<rparr>)"
  using assms by (simp add: recv_inv_def tracked_new_data)

section \<open>Every operation keeps the invariant\<close>

lemma canReceive_complete:
  assumes "jwf params" and "canReceive params ext = Inr (b, ps)"
  shows "validateRtpParameters ps = Inr ps"
proof -
  have "validateRtpParameters params = Inr ps"
    using assms(2) by (auto simp: canReceive_def rbind_Inr_iff split: if_splits)
  then show ?thesis using rtp_parameters.idempotent [OF assms(1)] by blast
qed

lemma create_probator_inv:
  assumes "recv_inv s"
  shows "recv_inv (fst (create_probator receive kind ps s))"
proof -
  have "recv_inv (emit [HandlerReceive ''probator'' k j] s)" for k j
    using assms by (rule recv_inv_emit) (simp add: closes_simps)
  then show ?thesis
    using assms by (simp add: create_probator_def recv_inv_probator split: sum.splits)
qed

lemma add_consumer_inv:
  assumes "recv_inv s" and "\<not> t_closed s" and "k \<notin> fst ` set (consumers s)" and "k \<noteq> ''''" and "validateRtpParameters ps = Inr ps"
  shows "recv_inv (fst (add_consumer receive rr k producerId kind ps appData s))"
proof -
  let ?s1 = "s\<lparr>recv_tracks := recv_tracks s @ [rr_track rr]\<rparr>"
    and ?c = "mk_Consumer k (rr_localId rr) producerId (rr_rtpReceiver rr) (length (recv_tracks s)) ps appData"
  have "recv_inv (?s1\<lparr>consumer_objs := consumer_objs ?s1 @ [?c], consumers := AList.update k (length (consumer_objs ?s1)) (consumers ?s1)\<rparr>)"
    using assms by (intro recv_inv_new_consumer recv_inv_tracks) (simp_all add: mk_Consumer_def complete_consumer_def)
  from create_probator_inv [OF this, of receive kind ps]
  show ?thesis by (simp add: add_consumer_def Let_def split_beta)
qed

lemma Consume_cases:
  assumes "RecvTransport_Consume receive receive_probator k producerId kind rtpParameters appData s = (s', r)"
  obtains "s' = s" | ps where "s' = emit [HandlerReceive k kind ps] s"
    | params ps rr where "\<not> t_closed s" "k \<noteq> ''''" "rtpParameters = Some params" "canReceive params (extendedCapabilities s) = Inr (True, ps)"
        "s' = fst (add_consumer receive_probator rr k producerId kind ps appData (emit [HandlerReceive k kind ps] s))"
proof (cases rtpParameters)
  case None
  then show ?thesis using assms that(1) unfolding RecvTransport_Consume_def by (auto split: if_splits)
next
  case (Some params)
  show ?thesis
  proof (cases "canReceive params (extendedCapabilities s)")
    case (Inl e)
    then show ?thesis using assms Some that(1) unfolding RecvTransport_Consume_def by (auto split: if_splits)
  next
    case (Inr okps)
    obtain ok ps where okps: "okps = (ok, ps)" by fastforce
    show ?thesis
    proof (cases receive)
      case (Inl e)
      then show ?thesis using assms Some Inr okps \<open>canReceive _ _ = _\<close> that(1,2) unfolding RecvTransport_Consume_def by (auto split: if_splits)
    next
      case rr: (Inr rr)
      then show ?thesis
        using assms Some \<open>canReceive _ _ = _\<close> okps that(1) that(3) [OF _ _ Some, of ps rr] unfolding RecvTransport_Consume_def
        by (auto split: if_splits)
    qed
  qed
qed

lemma Consume_inv:
  assumes "recv_inv s" and "fresh (Inr k) (consumers s)" and "\<And>ps. rtpParameters = Some ps \<Longrightarrow> jwf ps"
    and "RecvTransport_Consume receive receive_probator k producerId kind rtpParameters appData s = (s', r)"
  shows "recv_inv s'"
  using assms(4)
proof (cases rule: Consume_cases)
  case (2 ps)
  then show ?thesis using recv_inv_emit [OF assms(1)] by (simp add: closes_simps)
next
  case (3 params ps rr)
  have "recv_inv (emit [HandlerReceive k kind ps] s)" using recv_inv_emit [OF assms(1)] by (simp add: closes_simps)
  moreover have "k \<notin> fst ` set (consumers (emit [HandlerReceive k kind ps] s))" using assms(2) by (simp add: fresh_def emit_def)
  ultimately show ?thesis
    unfolding 3(5) using 3(1,2) canReceive_complete [OF assms(3) [OF 3(3)] 3(4)] by (intro add_consumer_inv) simp_all
qed (use assms(1) in simp)

lemma ConsumeData_inv:
  assumes "recv_inv s" and "fresh (Inr k) (dataConsumers s)"
    and "RecvTransport_ConsumeData receive k producerId streamId label protocol appData s = (s', r)"
  shows "recv_inv s'"
proof (cases "t_closed s \<or> k = '''' \<or> producerId = '''' \<or> \<not> hasSctpParameters s")
  case False
  define init where "init = mk_DataChannelInit\<lparr>dci_protocol := protocol, dci_id := ucast streamId\<rparr>"
  define s1 where "s1 = emit [HandlerReceiveDataChannel label init] s"
  have s1: "recv_inv s1" unfolding s1_def using assms(1) by (rule recv_inv_emit) (simp add: closes_simps)
  note run = assms(3) [unfolded RecvTransport_ConsumeData_def init_def [symmetric] Let_def s1_def [symmetric]]
  show ?thesis
  proof (cases receive)
    case (Inl e)
    then show ?thesis using run False s1 by auto
  next
    case (Inr ps)
    have "k \<notin> fst ` set (dataConsumers s1)" "\<not> t_closed s1" using assms(2) False by (simp_all add: fresh_def s1_def emit_def)
    then have new: "recv_inv (s1\<lparr>data_consumer_objs := data_consumer_objs s1 @ [mk_DataConsumer k producerId ps appData],
        dataConsumers := AList.update k (length (data_consumer_objs s1)) (dataConsumers s1)\<rparr>)"
      using recv_inv_new_data [OF s1] by (simp add: mk_DataConsumer_def)
    have "recv_inv (emit [DataRegisterObserver n] (s1\<lparr>data_consumer_objs := data_consumer_objs s1 @ [mk_DataConsumer k producerId ps appData],
        dataConsumers := AList.update k (length (data_consumer_objs s1)) (dataConsumers s1)\<rparr>))" for n
      using new by (rule recv_inv_emit) (simp add: closes_simps)
    then show ?thesis using run False Inr by auto
  qed
qed (use assms in \<open>auto simp: RecvTransport_ConsumeData_def split: if_splits\<close>)

lemma complete_update:
  "list_all complete_consumer cs \<Longrightarrow> i < length cs \<Longrightarrow> list_all complete_consumer (cs[i := (cs ! i)\<lparr>c_closed := True\<rparr>])"
  by (auto simp: list_all_length nth_list_update complete_consumer_def)

lemma Consumer_Close_inv:
  assumes "recv_inv s" and "i < length (consumer_objs s)" and "Consumer_Close stop i s = (s', r)"
  shows "recv_inv s'"
proof (cases "c_closed (consumer_objs s ! i)")
  case False
  let ?c = "consumer_objs s ! i"
  let ?s1 = "s\<lparr>consumer_objs := (consumer_objs s)[i := ?c\<lparr>c_closed := True\<rparr>],
               consumers := AList.delete (c_id ?c) (consumers s), events := events s @ [PrivateOnClose i]\<rparr>"
  have "\<not> t_closed s" using assms(1,2) False by (auto simp: recv_inv_def list_all_length)
  then have inv: "recv_inv ?s1" using assms(1,2) False by (simp add: recv_inv_def tracked_close_media complete_update)
  have "s' = emit [HandlerStopReceiving (c_localId ?c)] ?s1"
    using assms(2,3) False \<open>\<not> t_closed s\<close> by (simp add: Consumer_Close_def RecvTransport_OnClose_def Let_def emit_def)
  then show ?thesis using recv_inv_emit [OF inv] by (simp add: closes_simps)
qed (use assms in \<open>simp add: Consumer_Close_def Let_def\<close>)

lemma DataConsumer_Close_inv:
  assumes "recv_inv s" and "i < length (data_consumer_objs s)"
  shows "recv_inv (DataConsumer_Close i s)"
proof (cases "dc_closed (data_consumer_objs s ! i)")
  case False
  then have "\<not> t_closed s" using assms by (auto simp: recv_inv_def list_all_length)
  then show ?thesis
    using assms False
    by (simp add: recv_inv_def DataConsumer_Close_def RecvTransport_OnDataClose_def Let_def emit_def tracked_close_data)
qed (use assms in \<open>simp add: DataConsumer_Close_def Let_def\<close>)

lemma close_all_complete_consumer:
  "list_all complete_consumer cs \<Longrightarrow> list_all (\<lambda>i. i < length cs) is \<Longrightarrow>
   list_all complete_consumer (fst (close_all Consumer_TransportClosed is cs))"
  by (induction "is" arbitrary: cs)
    (auto simp: Let_def Consumer_TransportClosed_def complete_update split: prod.splits if_splits, metis complete_update fst_conv length_list_update)

lemma RecvTransport_Close_inv:
  assumes "recv_inv s"
  shows "recv_inv (RecvTransport_Close s)"
proof (cases "t_closed s")
  case False
  obtain cs ev1 where cs: "close_all Consumer_TransportClosed (map snd (consumers s)) (consumer_objs s) = (cs, ev1)"
    by fastforce
  obtain ds ev2 where ds: "close_all DataConsumer_TransportClosed (map snd (dataConsumers s)) (data_consumer_objs s) = (ds, ev2)"
    by fastforce
  have s': "RecvTransport_Close s =
      s\<lparr>t_closed := True, consumer_objs := cs, data_consumer_objs := ds, events := (events s @ [HandlerClose]) @ ev1 @ ev2\<rparr>"
    using False cs ds by (simp add: RecvTransport_Close_def Transport_Close_def emit_def)
  have "list_all (\<lambda>i. i < length (consumer_objs s)) (map snd (consumers s))"
    using assms by (auto simp: recv_inv_def tracked_def registry_def list_all_iff)
  then have complete: "list_all complete_consumer cs"
    using assms cs close_all_complete_consumer [of "consumer_objs s" "map snd (consumers s)"] by (simp add: recv_inv_def)
  have "tracked c_id c_closed dc_id dc_closed (consumers s) (consumer_objs s) (dataConsumers s) (data_consumer_objs s)
      (events s @ [HandlerClose])"
    using assms by (simp add: recv_inv_def tracked_quiet closes_simps)
  from receiving.close_both [OF this cs ds] complete show ?thesis unfolding s' by (simp add: recv_inv_def)
qed (use assms in \<open>simp add: RecvTransport_Close_def\<close>)

lemmas quiet_recv_ops = Consumer_GetStats_def RecvTransport_OnGetStats_def Consumer_SetFrameDecryptor_def
  DataConsumer_OnStateChange_def DataConsumer_OnMessage_def Transport_GetStats_def Transport_RestartIce_def
  Transport_UpdateIceServers_def Transport_OnConnect_def

lemma recv_session_inv: "recv_session s \<Longrightarrow> recv_inv s"
proof (induction rule: recv_session.induct)
  case (start sctpParameters ext)
  then show ?case by (simp add: mk_RecvTransport_def recv_inv_def tracked_start)
next
  case (pause s i)
  then show ?case by (simp add: Consumer_Pause_def Let_def recv_inv_tracks)
next
  case (resume s i)
  then show ?case by (simp add: Consumer_Resume_def Let_def recv_inv_tracks)
next
  case (consume s k rtpParameters receive receive_probator producerId kind appData s' r)
  show ?case using consume.IH consume.hyps(2-4) by (rule Consume_inv)
next
  case (consume_data s k receive_data producerId streamId label protocol appData s' r)
  show ?case using consume_data.IH consume_data.hyps(2,3) by (rule ConsumeData_inv)
next
  case (connection_state s ice)
  have "recv_inv (s\<lparr>connectionState := ice\<rparr>)" using connection_state by (simp add: recv_inv_def)
  then show ?case unfolding Transport_OnConnectionStateChange_def by (rule recv_inv_emit) (simp add: closes_simps)
qed (auto simp: quiet_recv_ops closes_simps Let_def split: if_splits DataState.splits
  intro: recv_inv_emit RecvTransport_Close_inv Consumer_Close_inv DataConsumer_Close_inv)

section \<open>Example\<close>

definition opus_params :: json where
  "opus_params = JObj [(''codecs'', JArr [JObj [(''channels'', JUInt 2), (''clockRate'', JUInt 48000), (''mimeType'', JStr ''audio/opus''),
     (''parameters'', JObj []), (''payloadType'', JUInt 100), (''rtcpFeedback'', JArr [])]]),
     (''encodings'', JArr []), (''headerExtensions'', JArr []),
     (''rtcp'', JObj [(''mux'', JBool True), (''reducedSize'', JBool True)])]"

definition opus_ext :: json where
  "opus_ext = JObj [(''codecs'', JArr [JObj [(''remotePayloadType'', JUInt 100)]]), (''headerExtensions'', JArr [])]"

definition opus_result :: RecvResult where
  "opus_result = \<lparr>rr_localId = ''0'', rr_rtpReceiver = True, rr_track = \<lparr>track_kind = ''audio'', track_ended = False, track_enabled = True\<rparr>\<rparr>"

definition sample_recv :: RecvTransport where
  "sample_recv = fst (RecvTransport_Consume (Inr opus_result) (Inr opus_result) ''c1'' ''p1'' ''audio'' (Some opus_params) (JObj [])
     (mk_RecvTransport JNull opus_ext))"

lemma opus_valid: "validateRtpParameters opus_params = Inr opus_params"
  by (simp add: opus_params_def val_eval validateRtpParameters_eq validateRtpCodecParameters_eq validateRtpEncodingParameters_eq
    validateRtcpParameters_eq Let_def)

lemma opus_received: "canReceive opus_params opus_ext = Inr (True, opus_params)"
  unfolding canReceive_def opus_valid rbind_simps by (simp add: opus_params_def opus_ext_def obj_get_def jempty_def)

lemma sample_recv_eq:
  "sample_recv = (mk_RecvTransport JNull opus_ext)\<lparr>events := [HandlerReceive ''c1'' ''audio'' opus_params],
     recv_tracks := [rr_track opus_result], consumer_objs := [mk_Consumer ''c1'' ''0'' ''p1'' True 0 opus_params (JObj [])],
     consumers := [(''c1'', 0)]\<rparr>"
  by (simp add: sample_recv_def RecvTransport_Consume_def add_consumer_def create_probator_def opus_received mk_RecvTransport_def
    opus_result_def Let_def emit_def)

lemma sample_recv_session: "recv_session sample_recv"
proof -
  have "jwf opus_params" by (simp add: opus_params_def obj_wf_def)
  moreover have "fresh (Inr ''c1'') (consumers (mk_RecvTransport JNull opus_ext))" by (simp add: fresh_def mk_RecvTransport_def)
  ultimately show ?thesis
    unfolding sample_recv_def
    by (intro recv_session.consume [OF recv_session.start _ _ prod.collapse [symmetric]]) simp_all
qed

section \<open>Property\<close>

text \<open>C36. Closing a receive transport closes all its consumers and data consumers, the closing of each has been
  announced exactly once, and from then on the transport refuses new ones.  The parameters that a
  consumer holds are complete: the server's parameters were validated and filled in, and validating
  them again changes nothing.  This holds in every session, whatever the handler answered, also when
  the consumer for RTP probation could not be made.\<close>

theorem recv_transport_closes:
  assumes "recv_session s" and "s' = RecvTransport_Close s"
  shows "t_closed s'
    \<and> (\<forall>i < length (consumer_objs s'). c_closed (consumer_objs s' ! i) \<and> announced closes_media i (events s') = 1
        \<and> Consumer_Close stop i s' = (s', Inr ())
        \<and> validateRtpParameters (c_rtpParameters (consumer_objs s' ! i)) = Inr (c_rtpParameters (consumer_objs s' ! i)))
    \<and> (\<forall>j < length (data_consumer_objs s'). dc_closed (data_consumer_objs s' ! j) \<and> announced closes_data j (events s') = 1)
    \<and> RecvTransport_Consume receive receive_probator k producerId kind rtpParameters appData s'
        = (s', Inl (MscInvalidStateError ''RecvTransport closed''))
    \<and> RecvTransport_ConsumeData receive_data k producerId streamId label protocol appData s'
        = (s', Inl (MscInvalidStateError ''RecvTransport closed''))"
proof -
  have inv: "recv_inv s'" using recv_session_inv [OF assms(1)] RecvTransport_Close_inv assms(2) by blast
  have closed: "t_closed s'"
    unfolding assms(2) by (simp add: RecvTransport_Close_def Transport_Close_def emit_def split: prod.splits)
  have "c_closed (consumer_objs s' ! i) \<and> announced closes_media i (events s') = 1 \<and> complete_consumer (consumer_objs s' ! i)"
    if "i < length (consumer_objs s')" for i
    using inv closed that by (simp add: recv_inv_def tracked_def announced_once_def list_all_length)
  moreover have "dc_closed (data_consumer_objs s' ! j) \<and> announced closes_data j (events s') = 1"
    if "j < length (data_consumer_objs s')" for j
    using inv closed that by (simp add: recv_inv_def tracked_def announced_once_def list_all_length)
  ultimately show ?thesis
    using closed by (simp add: complete_consumer_def Consumer_Close_def RecvTransport_Consume_def RecvTransport_ConsumeData_def)
qed

theorem recv_transport_closes_witness:
  "\<not> t_closed sample_recv \<and> \<not> c_closed (consumer_objs sample_recv ! 0)
   \<and> c_closed (consumer_objs (RecvTransport_Close sample_recv) ! 0)
   \<and> announced closes_media 0 (events (RecvTransport_Close sample_recv)) = 1
   \<and> snd (RecvTransport_Consume (Inr opus_result) (Inr opus_result) ''c2'' ''p2'' ''audio'' (Some opus_params) (JObj []) (RecvTransport_Close sample_recv))
       = Inl (MscInvalidStateError ''RecvTransport closed'')"
proof -
  have "0 < length (consumer_objs (RecvTransport_Close sample_recv))"
    by (simp add: sample_recv_eq mk_RecvTransport_def RecvTransport_Close_def Transport_Close_def emit_def Consumer_TransportClosed_def mk_Consumer_def)
  with recv_transport_closes [OF sample_recv_session refl]
  show ?thesis by (simp add: sample_recv_eq mk_RecvTransport_def mk_Consumer_def)
qed

end
