(* ===== verification/Ortc_Nego.thy ===== *)
theory Ortc_Nego
  imports Ortc_Caps "HOL-Library.Sublist"
begin

text \<open>
  What the negotiation guarantees: completed capabilities with payload types stay complete while they
  are matched, the extended capabilities have all the members that the later functions read, and the
  capabilities and parameters derived from them pass the validators.
\<close>

section \<open>Objects by their members\<close>

definition jhas :: "(json \<Rightarrow> bool) \<Rightarrow> string \<Rightarrow> json \<Rightarrow> bool" where
  "jhas p k j = (case jfind j k of Some v \<Rightarrow> p v | None \<Rightarrow> False)"

lemma jhas_obj [simp]: "jhas p k (JObj ps) = has p k ps"
  by (simp add: jhas_def has_def)

lemma jhasE: "jhas p k j \<Longrightarrow> (\<And>v. jfind j k = Some v \<Longrightarrow> p v \<Longrightarrow> R) \<Longrightarrow> R"
  by (auto simp: jhas_def split: option.splits)

lemma jhasI: "jfind j k = Some v \<Longrightarrow> p v \<Longrightarrow> jhas p k j"
  by (simp add: jhas_def)

lemma jhas_mono: "jhas p k j \<Longrightarrow> (\<And>v. p v \<Longrightarrow> q v) \<Longrightarrow> jhas q k j"
  by (auto simp: jhas_def split: option.splits)

lemma at_const_find: "jfind j k = Some v \<Longrightarrow> at_const j k = Inr v"
  by (cases j) simp_all

lemma at_mut_find: "jfind j k = Some v \<Longrightarrow> at_mut j k = Inr (j, v)"
  by (cases j) simp_all

lemma deref_find_find: "jfind j k = Some v \<Longrightarrow> deref_find j k = Inr v"
  by (cases j) simp_all

lemma set_key_find:
  assumes "is_object j"
  shows "\<exists>j'. set_key j k v = Inr j' \<and> is_object j' \<and> (\<forall>k'. jfind j' k' = (if k' = k then Some v else jfind j k'))
    \<and> (jwf j \<longrightarrow> jwf v \<longrightarrow> jwf j')"
  using assms jwf_set by (cases j) (auto simp: obj_get_set simp del: jwf.simps)

lemma mk_obj_find:
  "is_object (mk_obj kvs) \<and> jfind (mk_obj kvs) k = map_of kvs k \<and> ((\<forall>(k, v) \<in> set kvs. jwf v) \<longrightarrow> jwf (mk_obj kvs))"
proof -
  let ?f = "\<lambda>(k, v) ps. if obj_get k ps = None then obj_set k v ps else ps"
  have "obj_get k (fold ?f kvs ps) = (case obj_get k ps of Some v \<Rightarrow> Some v | None \<Rightarrow> map_of kvs k)
      \<and> ((\<forall>(k, v) \<in> set kvs. jwf v) \<longrightarrow> jwf (JObj ps) \<longrightarrow> jwf (JObj (fold ?f kvs ps)))" for ps
  proof (induction kvs arbitrary: ps)
    case (Cons kv kvs)
    then show ?case using jwf_set [of ps "snd kv" "fst kv"]
      by (cases kv) (auto simp: obj_get_set simp del: jwf.simps split: option.splits)
  qed (simp split: option.splits)
  from this [of "[]"] show ?thesis by (simp add: mk_obj_def obj_get_Nil obj_wf_def)
qed

lemma mk_obj_simps [simp]: "is_object (mk_obj kvs)" "jfind (mk_obj kvs) k = map_of kvs k"
  using mk_obj_find by simp_all

lemma jwf_mk_obj: "\<forall>(k, v) \<in> set kvs. jwf v \<Longrightarrow> jwf (mk_obj kvs)"
  using mk_obj_find by blast

lemma jwf_find: "jwf j \<Longrightarrow> jfind j k = Some v \<Longrightarrow> jwf v"
  using jwf_get by (cases j) auto

section \<open>Complete codecs\<close>

definition full_codec :: "json \<Rightarrow> bool" where
  "full_codec c \<longleftrightarrow> codec_capability_ok c \<and> jwf c \<and> jhas is_number_integer ''preferredPayloadType'' c"

lemma full_codecE:
  assumes "full_codec c"
  obtains ps m kind where "c = JObj ps" "obj_get ''mimeType'' ps = Some (JStr m)" "mime_kind m = Some kind"
    "obj_get ''kind'' ps = Some (JStr kind)" "codec_base_ok ps kind"
  using assms by (auto simp: full_codec_def codec_capability_ok_def codec_base_ok_def split: json.splits)

lemma codec_base_cong:
  assumes "codec_base_ok ps kind" and "\<And>k. k \<noteq> ''parameters'' \<Longrightarrow> obj_get k qs = obj_get k ps"
    and "has (obj_of codec_parameter_ok) ''parameters'' qs"
  shows "codec_base_ok qs kind"
  using assms by (auto simp: codec_base_ok_def has_def split: if_splits)

lemma obj_of_del: "list_all P ps \<Longrightarrow> list_all P (obj_del k ps)"
  by (auto simp: obj_del_def list_all_iff)

lemma obj_of_set: "list_all P ps \<Longrightarrow> P (k, v) \<Longrightarrow> list_all P (obj_set k v ps)"
  by (auto simp: list_all_iff dest!: obj_set_mem)

lemma set_profile_full:
  assumes "full_codec c" and "set_profile_level_id i c = Inr c'"
  shows "full_codec c'"
proof -
  obtain ps m kind where c: "c = JObj ps" and ok: "codec_base_ok ps kind" "obj_get ''kind'' ps = Some (JStr kind)"
    using assms(1) by (rule full_codecE)
  obtain qs where qs: "obj_get ''parameters'' ps = Some (JObj qs)" "list_all codec_parameter_ok qs"
    using ok(1) by (auto simp: codec_base_ok_def has_def split: option.splits elim!: obj_of.elims)
  define qs' where "qs' = (case i of Some s \<Rightarrow> obj_set ''profile-level-id'' (JStr s) qs | None \<Rightarrow> obj_del ''profile-level-id'' qs)"
  have "jwf (JObj ps)" using assms(1) c by (simp add: full_codec_def)
  moreover have "jwf (JObj qs)" using jwf_get [OF calculation qs(1)] .
  then have "jwf (JObj qs')"
    using jwf_set [of qs _ "''profile-level-id''"] jwf_del [of qs "''profile-level-id''"] by (simp add: qs'_def split: option.splits)
  ultimately have w: "jwf (JObj (obj_set ''parameters'' (JObj qs') ps))" by (rule jwf_set)
  have c': "c' = JObj (obj_set ''parameters'' (JObj qs') ps)"
    using assms(2) c qs(1) by (auto simp: set_profile_level_id_def qs'_def split: option.splits)
  have "list_all codec_parameter_ok qs'"
    using qs(2) by (auto simp: qs'_def obj_of_del obj_of_set codec_parameter_ok_def split: option.splits)
  then have "codec_base_ok (obj_set ''parameters'' (JObj qs') ps) kind"
    by (intro codec_base_cong [OF ok(1)]) (simp_all add: obj_get_set has_def)
  then show ?thesis using w assms(1) c ok(2)
    by (auto simp: full_codec_def c' codec_capability_ok_def obj_get_set has_def optional_def simp del: jwf.simps)
qed

lemma rbindE: "rbind m f = Inr y \<Longrightarrow> (\<And>x. m = Inr x \<Longrightarrow> f x = Inr y \<Longrightarrow> R) \<Longrightarrow> R"
  by (cases m) simp_all

text \<open>Matching changes nothing but the parameters of a codec, and what matches has the same MIME type.\<close>

definition same_head :: "json \<Rightarrow> json \<Rightarrow> bool" where
  "same_head c c' \<longleftrightarrow> (\<forall>k. k \<noteq> ''parameters'' \<longrightarrow> jfind c' k = jfind c k)"

lemma same_head_refl [simp]: "same_head c c"
  by (simp add: same_head_def)

lemma same_head_trans: "same_head a b \<Longrightarrow> same_head b c \<Longrightarrow> same_head a c"
  by (simp add: same_head_def)

definition lower_mime :: "json \<Rightarrow> string option" where
  "lower_mime c = (case jfind c ''mimeType'' of Some (JStr m) \<Rightarrow> Some (to_lower m) | _ \<Rightarrow> None)"

lemma same_head_keys: "same_head c c' \<Longrightarrow> lower_mime c' = lower_mime c
    \<and> jfind c' ''preferredPayloadType'' = jfind c ''preferredPayloadType''"
  by (simp add: same_head_def lower_mime_def)

lemma set_profile_head:
  assumes "is_object c" and "set_profile_level_id i c = Inr c'"
  shows "same_head c c'"
  using assms by (cases c) (auto simp: set_profile_level_id_def same_head_def rbind_Inr_iff obj_get_set split: option.splits)

lemma full_is_object: "full_codec c \<Longrightarrow> is_object c"
  by (auto elim: full_codecE)

lemma match_h264_full:
  assumes "full_codec a" and "full_codec b" and "match_h264 a b modify = Inr (ok, a', b')"
  shows "full_codec a' \<and> full_codec b' \<and> same_head a a' \<and> same_head b b'"
  using assms set_profile_full set_profile_head full_is_object
  by (auto simp: match_h264_def rbind_Inr_iff split: if_splits)

lemma matchCodecs_full:
  assumes "full_codec a" and "full_codec b" and "matchCodecs a b strict modify = Inr (ok, a', b')"
  shows "full_codec a' \<and> full_codec b' \<and> same_head a a' \<and> same_head b b'"
proof -
  obtain x y where "at_mut a ''clockRate'' = Inr (a, x)" "at_mut b ''clockRate'' = Inr (b, y)"
    using assms(1,2) by (auto elim!: full_codecE simp: codec_base_ok_def has_def split: option.splits)
  then show ?thesis using assms(3) match_h264_full [OF assms(1,2)] assms(1,2) unfolding matchCodecs_def Let_def
    by (elim rbindE) (auto elim!: rbindE split: if_splits)
qed

lemma matchCodecs_mime:
  assumes "full_codec a" and "full_codec b" and "matchCodecs a b strict modify = Inr (True, a', b')"
  shows "lower_mime a = lower_mime b"
proof -
  obtain m n where m: "jfind a ''mimeType'' = Some (JStr m)" "jfind b ''mimeType'' = Some (JStr n)"
    using assms(1,2) by (auto elim!: full_codecE)
  then have "to_lower m = to_lower n"
    using assms(3) unfolding matchCodecs_def Let_def by (auto simp: deref_find_find split: if_splits)
  then show ?thesis using m by (simp add: lower_mime_def)
qed

section \<open>Extended codecs\<close>

lemma find_at_Some: "find_at p xs = Inr (Some n) \<Longrightarrow> n < length xs \<and> p (xs ! n) = Inr True"
  by (induction xs arbitrary: n) (auto simp: rbind_Inr_iff split: if_splits)

lemma find_at_None: "find_at p xs = Inr None \<Longrightarrow> x \<in> set xs \<Longrightarrow> p x = Inr False"
  by (induction xs) (auto simp: rbind_Inr_iff split: if_splits)

definition ext_codec_ok :: "json \<Rightarrow> bool" where
  "ext_codec_ok e \<longleftrightarrow> is_object e \<and> jwf e
     \<and> (\<exists>m kind. jfind e ''mimeType'' = Some (JStr m) \<and> mime_kind m = Some kind \<and> jfind e ''kind'' = Some (JStr kind)
          \<and> (if kind = ''audio'' then jhas is_number_integer ''channels'' e else jfind e ''channels'' = None))
     \<and> jhas is_number_integer ''clockRate'' e
     \<and> jhas (obj_of codec_parameter_ok) ''localParameters'' e \<and> jhas (obj_of codec_parameter_ok) ''remoteParameters'' e
     \<and> jhas (arr_of feedback_ok) ''rtcpFeedback'' e
     \<and> jhas is_number_integer ''localPayloadType'' e \<and> jhas is_number_integer ''remotePayloadType'' e
     \<and> jhas (\<lambda>v. v = JNull \<or> is_number_integer v) ''localRtxPayloadType'' e
     \<and> jhas (\<lambda>v. v = JNull \<or> is_number_integer v) ''remoteRtxPayloadType'' e"

lemma full_codec_fields:
  assumes "full_codec c"
  obtains m kind cr pt params fbs where "is_object c" "jwf c" "jfind c ''mimeType'' = Some (JStr m)" "mime_kind m = Some kind"
    "jfind c ''kind'' = Some (JStr kind)" "jfind c ''clockRate'' = Some cr" "is_number_integer cr"
    "if kind = ''audio'' then jhas is_number_integer ''channels'' c else jfind c ''channels'' = None"
    "jfind c ''parameters'' = Some (JObj params)" "list_all codec_parameter_ok params"
    "jfind c ''rtcpFeedback'' = Some (JArr fbs)" "list_all feedback_ok fbs"
    "jfind c ''preferredPayloadType'' = Some pt" "is_number_integer pt"
proof -
  obtain ps m kind where c: "c = JObj ps" "obj_get ''mimeType'' ps = Some (JStr m)" "mime_kind m = Some kind"
    "obj_get ''kind'' ps = Some (JStr kind)" "codec_base_ok ps kind"
    using assms by (rule full_codecE)
  have has: "has is_number_integer ''clockRate'' ps" "has (obj_of codec_parameter_ok) ''parameters'' ps"
    "has (arr_of feedback_ok) ''rtcpFeedback'' ps" "has is_number_integer ''preferredPayloadType'' ps"
    using c(5) assms by (simp_all add: codec_base_ok_def full_codec_def c(1))
  obtain cr pt where "obj_get ''clockRate'' ps = Some cr" "is_number_integer cr"
    "obj_get ''preferredPayloadType'' ps = Some pt" "is_number_integer pt"
    using has(1,4) by (auto simp: has_def split: option.splits)
  moreover obtain params where "obj_get ''parameters'' ps = Some (JObj params)" "list_all codec_parameter_ok params"
    using has(2) by (auto simp: has_def split: option.splits elim!: obj_of.elims)
  moreover obtain fbs where "obj_get ''rtcpFeedback'' ps = Some (JArr fbs)" "list_all feedback_ok fbs"
    using has(3) by (auto simp: has_def split: option.splits elim!: arr_of.elims)
  ultimately show ?thesis
    using c assms by (intro that [of m kind cr params fbs pt]) (simp_all add: codec_base_ok_def full_codec_def del: jwf.simps)
qed

lemma reduceRtcpFeedback_ok:
  assumes "full_codec a" and "full_codec b" and "reduceRtcpFeedback a b = Inr j"
  shows "arr_of feedback_ok j \<and> jwf j"
proof -
  obtain fa where a: "jfind a ''rtcpFeedback'' = Some (JArr fa)" using assms(1) by (rule full_codec_fields)
  obtain fb where b: "jfind b ''rtcpFeedback'' = Some (JArr fb)" "list_all feedback_ok fb" "jwf b"
    using assms(2) by (rule full_codec_fields)
  have w: "list_all jwf fb" using jwf_find [OF b(3,1)] by simp
  obtain fs where j: "j = JArr (concat fs)"
    and fs: "mapM (\<lambda>x. rbind (find_at (same_feedback x) fb) (\<lambda>i. Inr (case i of Some n \<Rightarrow> [elems (JArr fb) ! n] | None \<Rightarrow> []))) fa = Inr fs"
    using assms(3) deref_find_find [OF a] deref_find_find [OF b(1)] by (auto simp: reduceRtcpFeedback_def rbind_Inr_iff)
  have "list_all (\<lambda>f. set f \<subseteq> set fb) fs"
    by (rule mapM_all [OF fs]) (auto simp: rbind_Inr_iff split: option.splits dest!: find_at_Some)
  then show ?thesis using b(2) w j by (auto simp: list_all_iff)
qed

lemma extended_codec_ok:
  assumes "full_codec l" and "full_codec r" and "extended_codec l r = Inr (e, l', r')"
  shows "l' = l \<and> r' = r \<and> ext_codec_ok e \<and> jfind e ''remotePayloadType'' = jfind r ''preferredPayloadType''
    \<and> lower_mime e = lower_mime l \<and> jfind e ''localPayloadType'' = jfind l ''preferredPayloadType''"
proof -
  obtain m kind cr pt params where l: "is_object l" "jwf l" "jfind l ''mimeType'' = Some (JStr m)" "mime_kind m = Some kind"
    "jfind l ''kind'' = Some (JStr kind)" "jfind l ''clockRate'' = Some cr" "is_number_integer cr"
    "if kind = ''audio'' then jhas is_number_integer ''channels'' l else jfind l ''channels'' = None"
    "jfind l ''parameters'' = Some (JObj params)" "list_all codec_parameter_ok params"
    "jfind l ''preferredPayloadType'' = Some pt" "is_number_integer pt"
    using assms(1) by (rule full_codec_fields)
  obtain pt' params' where r: "jwf r" "jfind r ''parameters'' = Some (JObj params')" "list_all codec_parameter_ok params'"
    "jfind r ''preferredPayloadType'' = Some pt'" "is_number_integer pt'"
    using assms(2) by (rule full_codec_fields)
  define kvs where "kvs fb = [(''mimeType'', JStr m), (''kind'', JStr kind), (''clockRate'', cr),
     (''localPayloadType'', pt), (''localRtxPayloadType'', JNull), (''remotePayloadType'', pt'), (''remoteRtxPayloadType'', JNull),
     (''localParameters'', JObj params), (''remoteParameters'', JObj params'), (''rtcpFeedback'', fb)]" for fb
  note ats = at_mut_find [OF l(3)] at_mut_find [OF l(5)] at_mut_find [OF l(6)] at_mut_find [OF l(9)] at_mut_find [OF l(11)]
    at_mut_find [OF r(2)] at_mut_find [OF r(4)]
  obtain fb where fb: "reduceRtcpFeedback l r = Inr fb"
    and e: "(if contains l ''channels''
          then rbind (at_mut l ''channels'') (\<lambda>(l6, ch). rbind (set_key (mk_obj (kvs fb)) ''channels'' ch) (\<lambda>e'. Inr (e', l6, r)))
          else Inr (mk_obj (kvs fb), l, r)) = Inr (e, l', r')"
    using assms(3) unfolding extended_codec_def kvs_def by (auto simp: ats rbind_Inr_iff Let_def)
  have w: "jwf (mk_obj (kvs fb))"
    using reduceRtcpFeedback_ok [OF assms(1,2) fb] jwf_find [OF l(2,9)] jwf_find [OF r(1,2)] l(7,12) r(5)
    by (intro jwf_mk_obj) (auto simp: kvs_def elim!: is_number_integer.elims)
  have fbok: "arr_of feedback_ok fb" using reduceRtcpFeedback_ok [OF assms(1,2) fb] by simp
  show ?thesis
  proof (cases "jfind l ''channels''")
    case None
    then have "e = mk_obj (kvs fb)" "l' = l" "r' = r" using e by (auto simp: contains_def)
    then show ?thesis using w None l r fbok
      by (auto simp: ext_codec_ok_def jhas_def kvs_def lower_mime_def split: if_splits)
  next
    case (Some ch)
    then have ch: "kind = ''audio''" "is_number_integer ch" using l(8) by (auto simp: jhas_def split: if_splits)
    obtain e' where e': "set_key (mk_obj (kvs fb)) ''channels'' ch = Inr e'" "is_object e'" "jwf e'"
      "\<forall>k. jfind e' k = (if k = ''channels'' then Some ch else map_of (kvs fb) k)"
      using set_key_find [OF mk_obj_simps(1), of "kvs fb" "''channels''" ch] w ch(2) by (auto elim!: is_number_integer.elims)
    then have "e = e'" "l' = l" "r' = r" using e Some at_mut_find [OF Some] by (auto simp: contains_def)
    then show ?thesis using e' l r fbok ch by (auto simp: ext_codec_ok_def jhas_def kvs_def lower_mime_def)
  qed
qed

section \<open>The loops\<close>

lemma find_local_full:
  assumes "list_all full_codec ls" and "full_codec r" and "find_local_codec ls r = Inr (i, ls', r')"
  shows "list_all full_codec ls' \<and> full_codec r' \<and> list_all2 same_head ls ls' \<and> same_head r r'
    \<and> (\<forall>n. i = Some n \<longrightarrow> n < length ls' \<and> lower_mime (ls' ! n) = lower_mime r')"
  using assms
proof (induction ls arbitrary: r i ls' r')
  case (Cons l ls)
  obtain ok l1 r1 where m: "matchCodecs l r True True = Inr (ok, l1, r1)" using Cons.prems(3) by (auto simp: rbind_Inr_iff)
  have f: "full_codec l1" "full_codec r1" "same_head l l1" "same_head r r1"
    using matchCodecs_full [OF _ _ m] Cons.prems by auto
  show ?case
  proof (cases ok)
    case True
    then have "lower_mime l1 = lower_mime r1"
      using matchCodecs_mime [of l r True True l1 r1] m Cons.prems f same_head_keys by simp
    then show ?thesis using True Cons.prems m f by (auto simp: list_all2_refl)
  next
    case False
    then obtain j ls1 where j: "find_local_codec ls r1 = Inr (j, ls1, r')" "i = map_option Suc j" "ls' = l1 # ls1"
      using Cons.prems(3) m by (auto simp: rbind_Inr_iff)
    then show ?thesis using Cons.IH [OF _ f(2) j(1)] Cons.prems(1) f same_head_trans by auto
  qed
qed simp

text \<open>Where an extended codec comes from: the payload type and MIME type of the remote codec.\<close>

definition codec_key :: "json \<Rightarrow> json option \<times> string option" where
  "codec_key c = (jfind c ''preferredPayloadType'', lower_mime c)"

definition ext_key :: "json \<Rightarrow> json option \<times> string option" where
  "ext_key e = (jfind e ''remotePayloadType'', lower_mime e)"

definition match_inv :: "json list \<Rightarrow> json list \<times> json list \<times> json list \<Rightarrow> bool" where
  "match_inv locals0 s = (case s of (locals, remotes, exts) \<Rightarrow>
     list_all full_codec locals \<and> list_all full_codec remotes \<and> list_all ext_codec_ok exts
     \<and> map codec_key locals = map codec_key locals0
     \<and> subseq (map ext_key exts) (map codec_key remotes)
     \<and> (\<forall>e \<in> set exts. \<exists>l \<in> set locals0. jfind e ''localPayloadType'' = jfind l ''preferredPayloadType'' \<and> lower_mime e = lower_mime l))"

lemma map_key_heads: "list_all2 same_head ls ls' \<Longrightarrow> map codec_key ls' = map codec_key ls"
  by (induction rule: list_all2_induct) (simp_all add: codec_key_def same_head_keys)

lemma match_codec_step_inv:
  assumes "full_codec r" and "match_inv locals0 s" and "match_codec_step r s = Inr s'"
  shows "match_inv locals0 s' \<and> map codec_key (fst (snd s')) = map codec_key (fst (snd s)) @ [codec_key r]"
proof -
  obtain locals remotes exts where s: "s = (locals, remotes, exts)" by (cases s)
  have inv: "list_all full_codec locals" "list_all full_codec remotes" "list_all ext_codec_ok exts"
    "map codec_key locals = map codec_key locals0" "subseq (map ext_key exts) (map codec_key remotes)"
    "\<forall>e \<in> set exts. \<exists>l \<in> set locals0. jfind e ''localPayloadType'' = jfind l ''preferredPayloadType'' \<and> lower_mime e = lower_mime l"
    using assms(2) by (simp_all add: s match_inv_def)
  have longer: "subseq (map ext_key exts) (map codec_key remotes @ [x])" for x
    using list_emb_append_mono [OF inv(5), of "[]" "[x]"] by simp
  show ?thesis
  proof (cases "isRtxCodec r = Inr True")
    case True
    then show ?thesis using assms(3) inv longer assms(1) by (auto simp: match_codec_step_def s match_inv_def)
  next
    case False
    then obtain i ls r1 where f: "find_local_codec locals r = Inr (i, ls, r1)"
      and s': "(case i of None \<Rightarrow> Inr (ls, remotes @ [r1], exts) | Some n \<Rightarrow> rbind (extended_codec (ls ! n) r1) (\<lambda>(e, l', r').
                Inr (ls[n := l'], remotes @ [r'], exts @ [e]))) = Inr s'"
      using assms(3) by (auto simp: match_codec_step_def s rbind_Inr_iff split: if_splits)
    note ff = find_local_full [OF inv(1) assms(1) f]
    have keys: "map codec_key ls = map codec_key locals0" "codec_key r1 = codec_key r"
      using ff map_key_heads inv(4) same_head_keys by (auto simp: codec_key_def)
    show ?thesis
    proof (cases i)
      case None
      then show ?thesis using s' ff inv keys longer by (auto simp: s match_inv_def)
    next
      case (Some n)
      then obtain e l' r' where e: "extended_codec (ls ! n) r1 = Inr (e, l', r')" "s' = (ls[n := l'], remotes @ [r'], exts @ [e])"
        using s' by (auto simp: rbind_Inr_iff)
      have n: "n < length ls" "lower_mime (ls ! n) = lower_mime r1" "full_codec (ls ! n)" "full_codec r1"
        using ff Some by (auto simp: list_all_length)
      note ek = extended_codec_ok [OF n(3,4) e(1)]
      have "ext_key e = codec_key r" using ek n(2) keys(2) by (simp add: ext_key_def codec_key_def)
      then have "subseq (map ext_key (exts @ [e])) (map codec_key remotes @ [codec_key r])" using inv(5) by (simp add: list_emb_append_mono)
      moreover have "codec_key (ls ! n) = codec_key (locals0 ! n)" "n < length locals0"
        using keys(1) n(1) by (metis nth_map length_map)+
      then have "\<exists>l \<in> set locals0. jfind e ''localPayloadType'' = jfind l ''preferredPayloadType'' \<and> lower_mime e = lower_mime l"
        using ek by (intro bexI [of _ "locals0 ! n"]) (simp_all add: codec_key_def)
      ultimately show ?thesis using e(2) ek inv ff keys n by (auto simp: s match_inv_def)
    qed
  qed
qed

lemma match_codecs_fold:
  assumes "foldM match_codec_step rs s = Inr s'" and "list_all full_codec rs" and "match_inv ls s"
  shows "match_inv ls s' \<and> map codec_key (fst (snd s')) = map codec_key (fst (snd s)) @ map codec_key rs"
  using assms
proof (induction rs arbitrary: s)
  case (Cons r rs)
  obtain t where t: "match_codec_step r s = Inr t" "foldM match_codec_step rs t = Inr s'"
    using Cons.prems(1) by (auto simp: rbind_Inr_iff)
  have "match_inv ls t \<and> map codec_key (fst (snd t)) = map codec_key (fst (snd s)) @ [codec_key r]"
    using match_codec_step_inv [OF _ Cons.prems(3) t(1)] Cons.prems(2) by simp
  then show ?case using Cons.IH [OF t(2)] Cons.prems(2) by simp
qed simp

lemma full_payload_type: "full_codec c \<Longrightarrow> \<exists>pt. jfind c ''preferredPayloadType'' = Some pt \<and> is_number_integer pt"
  by (auto simp: full_codec_def jhas_def split: option.splits)

text \<open>Adding the payload types of RTX codecs leaves every other member alone.\<close>

definition rtx_added :: "json \<Rightarrow> json \<Rightarrow> bool" where
  "rtx_added e e' \<longleftrightarrow> ext_codec_ok e' \<and> (\<forall>k. k \<notin> {''localRtxPayloadType'', ''remoteRtxPayloadType''} \<longrightarrow> jfind e' k = jfind e k)"

lemma rtx_members:
  assumes "ext_codec_ok e" and "is_number_integer v" and "is_number_integer w"
  shows "\<exists>e1 e2. set_key e ''localRtxPayloadType'' v = Inr e1 \<and> set_key e1 ''remoteRtxPayloadType'' w = Inr e2 \<and> rtx_added e e2"
proof -
  have wf: "is_object e" "jwf e" "jwf v" "jwf w" using assms by (auto simp: ext_codec_ok_def elim!: is_number_integer.elims)
  obtain e1 where e1: "set_key e ''localRtxPayloadType'' v = Inr e1" "is_object e1" "jwf e1"
    "\<forall>k. jfind e1 k = (if k = ''localRtxPayloadType'' then Some v else jfind e k)"
    using set_key_find [OF wf(1)] wf by blast
  obtain e2 where e2: "set_key e1 ''remoteRtxPayloadType'' w = Inr e2" "is_object e2" "jwf e2"
    "\<forall>k. jfind e2 k = (if k = ''remoteRtxPayloadType'' then Some w else jfind e1 k)"
    using set_key_find [OF e1(2)] e1(3) wf by blast
  have other: "k \<notin> {''localRtxPayloadType'', ''remoteRtxPayloadType''} \<Longrightarrow> jfind e2 k = jfind e k" for k using e1(4) e2(4) by simp
  then have "k \<notin> {''localRtxPayloadType'', ''remoteRtxPayloadType''} \<Longrightarrow> jhas p k e2 = jhas p k e" for p k by (simp add: jhas_def)
  moreover have "jhas (\<lambda>v. v = JNull \<or> is_number_integer v) ''localRtxPayloadType'' e2"
    "jhas (\<lambda>v. v = JNull \<or> is_number_integer v) ''remoteRtxPayloadType'' e2"
    using assms(2,3) e1(4) e2(4) by (simp_all add: jhas_def)
  ultimately have "rtx_added e e2" using assms(1) e2(2,3) other by (auto simp: rtx_added_def ext_codec_ok_def split: if_splits)
  then show ?thesis using e1(1) e2(1) by blast
qed

lemma match_rtx_step_ok:
  assumes "list_all full_codec ls" and "list_all full_codec rs" and "ext_codec_ok e" and "match_rtx_step e (ls, rs, out) = Inr s'"
  shows "\<exists>e'. s' = (ls, rs, out @ [e']) \<and> rtx_added e e'"
proof -
  have same: "rtx_added e e" using assms(3) by (simp add: rtx_added_def)
  obtain lpt rpt where pts: "at_mut e ''localPayloadType'' = Inr (e, lpt)" "at_mut e ''remotePayloadType'' = Inr (e, rpt)"
    using assms(3) by (auto simp: ext_codec_ok_def jhas_def at_mut_find split: option.splits)
  obtain i where i: "find_at (rtx_for lpt) ls = Inr i" using assms(4) by (auto simp: match_rtx_step_def pts rbind_Inr_iff)
  show ?thesis
  proof (cases i)
    case None
    then show ?thesis using assms(4) i same by (auto simp: match_rtx_step_def pts)
  next
    case (Some n)
    obtain j where j: "find_at (rtx_for rpt) rs = Inr j" using assms(4) i Some by (auto simp: match_rtx_step_def pts rbind_Inr_iff)
    show ?thesis
    proof (cases j)
      case None
      then show ?thesis using assms(4) i Some j same by (auto simp: match_rtx_step_def pts)
    next
      case (Some m)
      have n: "n < length ls" "m < length rs" using find_at_Some i j \<open>i = Some n\<close> Some by blast+
      then obtain v w where v: "jfind (ls ! n) ''preferredPayloadType'' = Some v" "is_number_integer v"
        "jfind (rs ! m) ''preferredPayloadType'' = Some w" "is_number_integer w"
        using assms(1,2) full_payload_type by (meson list_all_length)
      then show ?thesis using assms(4) i \<open>i = Some n\<close> j Some rtx_members [OF assms(3) v(2,4)]
        by (auto simp: match_rtx_step_def pts at_mut_find)
    qed
  qed
qed

lemma match_rtx_fold:
  assumes "list_all full_codec ls" and "list_all full_codec rs" and "list_all ext_codec_ok es"
    and "foldM match_rtx_step es (ls, rs, out) = Inr s'"
  shows "\<exists>es'. s' = (ls, rs, out @ es') \<and> list_all2 rtx_added es es'"
  using assms(3,4)
proof (induction es arbitrary: out)
  case (Cons e es)
  obtain t where "match_rtx_step e (ls, rs, out) = Inr t" "foldM match_rtx_step es t = Inr s'"
    using Cons.prems(2) by (auto simp: rbind_Inr_iff)
  moreover obtain e' where "t = (ls, rs, out @ [e'])" "rtx_added e e'"
    using match_rtx_step_ok [OF assms(1,2) _ calculation(1)] Cons.prems(1) by auto
  ultimately show ?case using Cons.IH [of "out @ [e']"] Cons.prems(1) by fastforce
qed simp

lemma rtx_added_key: "rtx_added e e' \<Longrightarrow> ext_key e' = ext_key e"
  by (simp add: rtx_added_def ext_key_def lower_mime_def)

section \<open>Header extensions\<close>

definition ext_header_ok :: "json \<Rightarrow> bool" where
  "ext_header_ok e \<longleftrightarrow> is_object e \<and> jwf e \<and> jfind e ''kind'' \<in> {Some (JStr ''audio''), Some (JStr ''video'')}
     \<and> jhas nonempty_string ''uri'' e \<and> jhas is_number_integer ''sendId'' e \<and> jhas is_number_integer ''recvId'' e
     \<and> jhas is_boolean ''encrypt'' e"

definition known_direction :: "json \<Rightarrow> bool" where
  "known_direction h \<longleftrightarrow> jhas (\<lambda>v. v \<in> {JStr ''sendrecv'', JStr ''sendonly'', JStr ''recvonly'', JStr ''inactive''}) ''direction'' h"

lemma header_fields:
  assumes "header_extension_ok h"
  obtains kind uri i b d where "is_object h" "jfind h ''kind'' = Some (JStr kind)" "kind \<in> {''audio'', ''video''}"
    "jfind h ''uri'' = Some (JStr uri)" "uri \<noteq> []" "jfind h ''preferredId'' = Some i" "is_number_integer i"
    "jfind h ''preferredEncrypt'' = Some (JBool b)" "jfind h ''direction'' = Some (JStr d)"
  using assms
  by (auto simp: header_extension_ok_def has_def split: json.splits option.splits
      elim!: nonempty_string.elims is_boolean.elims is_string.elims)

lemma extended_ext_ok:
  assumes "header_extension_ok l" and "header_extension_ok r" and "extended_ext l r = Inr (e, l', r')"
  shows "l' = l \<and> r' = r \<and> ext_header_ok e \<and> (known_direction r \<longrightarrow> jhas is_string ''direction'' e)"
proof -
  obtain li lb where l: "jfind l ''preferredId'' = Some li" "is_number_integer li" "jfind l ''preferredEncrypt'' = Some (JBool lb)"
    using assms(1) by (rule header_fields)
  obtain kind uri i d where r: "jfind r ''kind'' = Some (JStr kind)" "kind \<in> {''audio'', ''video''}"
    "jfind r ''uri'' = Some (JStr uri)" "uri \<noteq> []" "jfind r ''preferredId'' = Some i" "is_number_integer i"
    "jfind r ''direction'' = Some (JStr d)"
    using assms(2) by (rule header_fields)
  note ats = l(1,3) [THEN at_mut_find] r(1,3,5,7) [THEN at_mut_find]
  let ?kvs = "[(''kind'', JStr kind), (''uri'', JStr uri), (''sendId'', li), (''recvId'', i), (''encrypt'', JBool lb)]"
  have e: "(case opposite_direction d of Some s \<Rightarrow> set_key (mk_obj ?kvs) ''direction'' (JStr s) | None \<Rightarrow> Inr (mk_obj ?kvs)) = Inr e"
    "l' = l" "r' = r"
    using assms(3) by (auto simp: extended_ext_def ats rbind_Inr_iff Let_def)
  have w: "jwf (mk_obj ?kvs)" using l(2) r(6) by (intro jwf_mk_obj) (auto elim!: is_number_integer.elims)
  then have base: "ext_header_ok (mk_obj ?kvs)" using l r by (auto simp: ext_header_ok_def jhas_def)
  show ?thesis
  proof (cases "opposite_direction d")
    case None
    then have "\<not> known_direction r" using r(7) by (auto simp: known_direction_def jhas_def opposite_direction_def split: if_splits)
    then show ?thesis using None e base by simp
  next
    case (Some s)
    then obtain e' where "set_key (mk_obj ?kvs) ''direction'' (JStr s) = Inr e'" "is_object e'" "jwf e'"
      "\<forall>k. jfind e' k = (if k = ''direction'' then Some (JStr s) else jfind (mk_obj ?kvs) k)"
      using set_key_find [OF mk_obj_simps(1), of ?kvs "''direction''" "JStr s"] w by auto
    then show ?thesis using Some e base by (auto simp: ext_header_ok_def jhas_def)
  qed
qed

lemma match_ext_fold:
  assumes "foldM match_ext_step hs (ls, rs, out) = Inr (ls', rs', out')"
    and "list_all header_extension_ok hs" and "list_all header_extension_ok ls"
    and "list_all known_direction hs" and "list_all (\<lambda>e. ext_header_ok e \<and> jhas is_string ''direction'' e) out"
  shows "list_all (\<lambda>e. ext_header_ok e \<and> jhas is_string ''direction'' e) out'"
  using assms
proof (induction hs arbitrary: ls rs out)
  case (Cons h hs)
  obtain ls1 rs1 out1 where 1: "match_ext_step h (ls, rs, out) = Inr (ls1, rs1, out1)"
    "foldM match_ext_step hs (ls1, rs1, out1) = Inr (ls', rs', out')"
    using Cons.prems(1) by (auto simp: rbind_Inr_iff)
  obtain i where i: "find_at (\<lambda>l. matchHeaderExtensions l h) ls = Inr i" using 1(1) by (auto simp: match_ext_step_def rbind_Inr_iff)
  have "list_all header_extension_ok ls1 \<and> list_all (\<lambda>e. ext_header_ok e \<and> jhas is_string ''direction'' e) out1"
  proof (cases i)
    case None
    then show ?thesis using 1(1) i Cons.prems by (auto simp: match_ext_step_def)
  next
    case (Some n)
    then obtain e l r where e: "extended_ext (ls ! n) h = Inr (e, l, r)" "ls1 = ls[n := l]" "out1 = out @ [e]"
      using 1(1) i by (auto simp: match_ext_step_def rbind_Inr_iff)
    have "header_extension_ok (ls ! n)" using find_at_Some [OF i [unfolded Some]] Cons.prems(3) by (simp add: list_all_length)
    then show ?thesis using extended_ext_ok [OF _ _ e(1)] e Cons.prems by simp
  qed
  then show ?case using Cons.IH [OF 1(2)] Cons.prems by simp
qed simp

end
