(* ===== verification/Ortc_Derived.thy ===== *)
theory Ortc_Derived
  imports Ortc_Nego
begin

text \<open>
  The capabilities and parameters that are derived from extended capabilities: they are accepted by
  the validators, and the properties of the negotiation.
\<close>

section \<open>Values the validators accept\<close>

lemma codec_tail_accepts:
  assumes "jwf (JObj ps)" and "obj_get ''mimeType'' ps = Some (JStr m)" and "mime_kind m = Some kind"
    and "has is_number_integer ''clockRate'' ps" and "has (obj_of codec_parameter_ok) ''parameters'' ps"
    and "has (arr_of feedback_ok) ''rtcpFeedback'' ps"
  shows "\<exists>j. codec_tail kind ps = Inr j"
proof -
  define qs where "qs = (if kind = ''audio'' then fill is_number_integer ''channels'' (JInt 1) ps else obj_del ''channels'' ps)"
  have "jwf (JObj qs)" using assms(1) jwf_fill jwf_del by (simp add: qs_def del: jwf.simps(2))
  moreover have "codec_base_ok qs kind" using assms(2-6) by (simp add: codec_base_ok_def qs_def key_simps)
  ultimately have "codec_tail kind qs = Inr (JObj qs)" by (rule codec_tail_idle)
  moreover have "obj_del ''channels'' (obj_del ''channels'' ps) = obj_del ''channels'' ps" by (simp add: obj_del_def)
  then have "codec_tail kind ps = codec_tail kind qs" by (simp add: codec_tail_def qs_def Let_def) (simp add: fill_def has_set)
  ultimately show ?thesis by simp
qed

definition acceptable :: "string \<Rightarrow> json \<Rightarrow> bool" where
  "acceptable ptKey c \<longleftrightarrow> is_object c \<and> jwf c \<and> (\<exists>m kind. jfind c ''mimeType'' = Some (JStr m) \<and> mime_kind m = Some kind)
     \<and> jhas is_number_integer ptKey c \<and> jhas is_number_integer ''clockRate'' c
     \<and> jhas (obj_of codec_parameter_ok) ''parameters'' c \<and> jhas (arr_of feedback_ok) ''rtcpFeedback'' c"

lemma capability_accepted:
  assumes "acceptable ''preferredPayloadType'' c"
  shows "\<exists>c'. validateRtpCodecCapability c = Inr c'"
proof -
  obtain ps m kind where c: "c = JObj ps" "jwf (JObj ps)" "obj_get ''mimeType'' ps = Some (JStr m)" "mime_kind m = Some kind"
    "has is_number_integer ''preferredPayloadType'' ps" "has is_number_integer ''clockRate'' ps"
    "has (obj_of codec_parameter_ok) ''parameters'' ps" "has (arr_of feedback_ok) ''rtcpFeedback'' ps"
    using assms by (cases c) (auto simp: acceptable_def simp del: jwf.simps)
  have "jwf (JObj (obj_set ''kind'' (JStr kind) ps))" by (rule jwf_set [OF c(2)]) simp
  then have "\<exists>j. codec_tail kind (obj_set ''kind'' (JStr kind) ps) = Inr j"
    by (rule codec_tail_accepts) (use c in \<open>simp_all add: key_simps\<close>)
  then show ?thesis using c by (simp add: capability_by_tail has_optional)
qed

lemma parameters_accepted:
  assumes "acceptable ''payloadType'' c"
  shows "\<exists>c'. validateRtpCodecParameters c = Inr c'"
proof -
  obtain ps m kind where c: "c = JObj ps" "jwf (JObj ps)" "obj_get ''mimeType'' ps = Some (JStr m)" "mime_kind m = Some kind"
    "has is_number_integer ''payloadType'' ps" "has is_number_integer ''clockRate'' ps"
    "has (obj_of codec_parameter_ok) ''parameters'' ps" "has (arr_of feedback_ok) ''rtcpFeedback'' ps"
    using assms by (cases c) (auto simp: acceptable_def simp del: jwf.simps)
  then show ?thesis using codec_tail_accepts [OF c(2-4,6-8)] by (simp add: parameters_by_tail)
qed

lemma mapM_succeeds: "list_all (\<lambda>x. \<exists>y. f x = Inr y) xs \<Longrightarrow> \<exists>ys. mapM f xs = Inr ys"
  by (induction xs) (auto simp: rbind_Inr_iff)

lemma mapM_succeeds_with: "list_all (\<lambda>x. \<exists>y. f x = Inr y \<and> P y) xs \<Longrightarrow> \<exists>ys. mapM f xs = Inr ys \<and> list_all P ys"
  by (induction xs) (auto simp: rbind_Inr_iff)

section \<open>Derived codecs\<close>

lemma integer_u8: "is_number_integer v \<Longrightarrow> \<exists>n. get_u8 v = Inr n"
  by (auto elim!: is_number_integer.elims)

lemma integer_jwf: "is_number_integer v \<Longrightarrow> jwf v"
  by (auto elim!: is_number_integer.elims)

lemma mime_kind_rtx: "mime_kind m = Some kind \<Longrightarrow> mime_kind (kind @ ''/rtx'') = Some kind"
  by (auto simp: mime_kind_def min_def split: if_splits)

lemma ext_codec_fields:
  assumes "ext_codec_ok e"
  obtains m kind cr lp rp fb lpt rpt lrtx rrtx where "jfind e ''mimeType'' = Some (JStr m)" "mime_kind m = Some kind"
    "jfind e ''kind'' = Some (JStr kind)" "jfind e ''clockRate'' = Some cr" "is_number_integer cr"
    "jfind e ''localParameters'' = Some lp" "obj_of codec_parameter_ok lp"
    "jfind e ''remoteParameters'' = Some rp" "obj_of codec_parameter_ok rp"
    "jfind e ''rtcpFeedback'' = Some fb" "arr_of feedback_ok fb"
    "jfind e ''localPayloadType'' = Some lpt" "is_number_integer lpt"
    "jfind e ''remotePayloadType'' = Some rpt" "is_number_integer rpt"
    "jfind e ''localRtxPayloadType'' = Some lrtx" "lrtx = JNull \<or> is_number_integer lrtx"
    "jfind e ''remoteRtxPayloadType'' = Some rrtx" "rrtx = JNull \<or> is_number_integer rrtx"
    "jfind e ''channels'' = None \<or> jhas is_number_integer ''channels'' e" "jwf e"
proof -
  obtain m kind where m: "jfind e ''mimeType'' = Some (JStr m)" "mime_kind m = Some kind" "jfind e ''kind'' = Some (JStr kind)"
    "jfind e ''channels'' = None \<or> jhas is_number_integer ''channels'' e" "jwf e"
    using assms by (auto simp: ext_codec_ok_def split: if_splits)
  have j: "jhas is_number_integer ''clockRate'' e" "jhas (obj_of codec_parameter_ok) ''localParameters'' e"
    "jhas (obj_of codec_parameter_ok) ''remoteParameters'' e" "jhas (arr_of feedback_ok) ''rtcpFeedback'' e"
    "jhas is_number_integer ''localPayloadType'' e" "jhas is_number_integer ''remotePayloadType'' e"
    "jhas (\<lambda>v. v = JNull \<or> is_number_integer v) ''localRtxPayloadType'' e"
    "jhas (\<lambda>v. v = JNull \<or> is_number_integer v) ''remoteRtxPayloadType'' e"
    using assms by (simp_all add: ext_codec_ok_def)
  show ?thesis using j m by (elim jhasE) (rule that)
qed

lemma copy_channels_ok:
  assumes "acceptable ptKey c" and "jfind e ''channels'' = None \<or> jhas is_number_integer ''channels'' e"
    and "ptKey \<noteq> ''channels''"
  shows "\<exists>c'. copy_channels e c = Inr c' \<and> acceptable ptKey c'"
proof (cases "jfind e ''channels''")
  case None
  then show ?thesis using assms(1) by (simp add: copy_channels_def contains_def)
next
  case (Some ch)
  then have "is_number_integer ch" using assms(2) by (simp add: jhas_def)
  moreover obtain c' where c': "set_key c ''channels'' ch = Inr c'" "is_object c'" "jwf c'"
    "\<forall>k. jfind c' k = (if k = ''channels'' then Some ch else jfind c k)"
    using set_key_find [of c "''channels''" ch] assms(1) integer_jwf [OF calculation] by (auto simp: acceptable_def)
  ultimately have "acceptable ptKey c'" using assms(1,3) by (auto simp: acceptable_def jhas_def)
  then show ?thesis using c'(1) Some at_const_find [OF Some] by (simp add: copy_channels_def contains_def)
qed

lemma acceptable_obj:
  assumes "mime_kind m = Some kind" and "is_number_integer pt" and "is_number_integer cr" and "obj_of codec_parameter_ok params"
    and "arr_of feedback_ok fb" and "jwf params" and "jwf fb" and "\<forall>(k, v) \<in> set extra. jwf v"
    and "fst ` set extra \<inter> {''mimeType'', ptKey, ''clockRate'', ''parameters'', ''rtcpFeedback''} = {}"
    and "ptKey \<in> {''payloadType'', ''preferredPayloadType''}"
  shows "acceptable ptKey (mk_obj ([(''mimeType'', JStr m)] @ extra @ [(ptKey, pt), (''clockRate'', cr), (''parameters'', params),
    (''rtcpFeedback'', fb)]))"
proof -
  have "map_of extra k = None" if "k \<in> {''mimeType'', ptKey, ''clockRate'', ''parameters'', ''rtcpFeedback''}" for k
    unfolding map_of_eq_None_iff using assms(9) that by blast
  moreover have "jwf (mk_obj ([(''mimeType'', JStr m)] @ extra @ [(ptKey, pt), (''clockRate'', cr), (''parameters'', params), (''rtcpFeedback'', fb)]))"
    using assms by (intro jwf_mk_obj) (auto simp: integer_jwf)
  ultimately show ?thesis using assms by (auto simp: acceptable_def jhas_def map_add_def)
qed

lemma rtx_codec_ok:
  assumes "jfind e ''kind'' = Some (JStr kind)" and "mime_kind m = Some kind" and "jfind e rtxKey = Some pt" and "is_number_integer pt"
    and "jfind e ''clockRate'' = Some cr" and "is_number_integer cr" and "jfind e aptKey = Some apt" and "is_number_integer apt"
    and "ptKey \<in> {''payloadType'', ''preferredPayloadType''}" and "extra \<in> {[], [(''kind'', JStr kind)]}"
  shows "\<exists>r. rtx_codec ptKey aptKey rtxKey e extra = Inr r \<and> acceptable ptKey r"
proof -
  obtain n where n: "get_u8 apt = Inr n" using integer_u8 [OF assms(8)] by blast
  let ?params = "mk_obj [(''apt'', JUInt (ucast n))]"
  have p: "?params = JObj [(''apt'', JUInt (ucast n))]" by (simp add: mk_obj_def obj_get_def)
  have "acceptable ptKey (mk_obj ([(''mimeType'', JStr (kind @ ''/rtx''))] @ extra @ [(ptKey, pt), (''clockRate'', cr),
      (''parameters'', ?params), (''rtcpFeedback'', JArr [])]))"
    using assms by (intro acceptable_obj [OF mime_kind_rtx [OF assms(2)]]) (auto simp: p codec_parameter_ok_def obj_wf_def is_number_def)
  then show ?thesis using n assms(1,3,5,7) by (simp add: rtx_codec_def at_const_find)
qed

lemma recv_codec_ok:
  assumes "ext_codec_ok e"
  shows "\<exists>cs. recv_codec e = Inr cs \<and> list_all (acceptable ''preferredPayloadType'') cs"
proof -
  obtain m kind cr lp fb rpt rrtx where e: "jfind e ''mimeType'' = Some (JStr m)" "mime_kind m = Some kind"
    "jfind e ''kind'' = Some (JStr kind)" "jfind e ''clockRate'' = Some cr" "is_number_integer cr"
    "jfind e ''localParameters'' = Some lp" "obj_of codec_parameter_ok lp" "jfind e ''rtcpFeedback'' = Some fb" "arr_of feedback_ok fb"
    "jfind e ''remotePayloadType'' = Some rpt" "is_number_integer rpt"
    "jfind e ''remoteRtxPayloadType'' = Some rrtx" "rrtx = JNull \<or> is_number_integer rrtx"
    "jfind e ''channels'' = None \<or> jhas is_number_integer ''channels'' e" "jwf e"
    using assms by (rule ext_codec_fields)
  have "acceptable ''preferredPayloadType'' (mk_obj ([(''mimeType'', JStr m)] @ [(''kind'', JStr kind)] @
      [(''preferredPayloadType'', rpt), (''clockRate'', cr), (''parameters'', lp), (''rtcpFeedback'', fb)]))"
    using e jwf_find [OF e(15)] by (intro acceptable_obj) auto
  then obtain c where c: "copy_channels e (mk_obj [(''mimeType'', JStr m), (''kind'', JStr kind), (''preferredPayloadType'', rpt),
      (''clockRate'', cr), (''parameters'', lp), (''rtcpFeedback'', fb)]) = Inr c" "acceptable ''preferredPayloadType'' c"
    using copy_channels_ok [OF _ e(14)] by fastforce
  note ats = e(1,3,4,6,8,10,12) [THEN at_const_find]
  show ?thesis
  proof (cases "json_eq rrtx JNull")
    case True
    then show ?thesis using c by (simp add: recv_codec_def ats)
  next
    case False
    then have "is_number_integer rrtx" using e(13) by auto
    then obtain r where "rtx_codec ''preferredPayloadType'' ''remotePayloadType'' ''remoteRtxPayloadType'' e [(''kind'', JStr kind)] = Inr r"
      "acceptable ''preferredPayloadType'' r"
      using rtx_codec_ok [OF e(3,2,12) _ e(4,5,10,11)] by blast
    then show ?thesis using c False by (simp add: recv_codec_def ats)
  qed
qed

lemma send_codec_ok:
  assumes "ext_codec_ok e" and "paramKey \<in> {''localParameters'', ''remoteParameters''}"
  shows "\<exists>cs. send_codec paramKey e = Inr cs \<and> cs \<noteq> [] \<and> list_all (acceptable ''payloadType'') cs"
proof -
  obtain m kind cr lp rp fb lpt lrtx where e: "jfind e ''mimeType'' = Some (JStr m)" "mime_kind m = Some kind"
    "jfind e ''kind'' = Some (JStr kind)" "jfind e ''clockRate'' = Some cr" "is_number_integer cr"
    "jfind e ''rtcpFeedback'' = Some fb" "arr_of feedback_ok fb"
    "jfind e ''localPayloadType'' = Some lpt" "is_number_integer lpt"
    "jfind e ''localRtxPayloadType'' = Some lrtx" "lrtx = JNull \<or> is_number_integer lrtx"
    "jfind e ''channels'' = None \<or> jhas is_number_integer ''channels'' e" "jwf e"
    "jfind e ''localParameters'' = Some lp" "obj_of codec_parameter_ok lp"
    "jfind e ''remoteParameters'' = Some rp" "obj_of codec_parameter_ok rp"
    using assms(1) by (rule ext_codec_fields)
  obtain params where params: "jfind e paramKey = Some params" "obj_of codec_parameter_ok params"
    using assms(2) e(14-17) by blast
  have "acceptable ''payloadType'' (mk_obj ([(''mimeType'', JStr m)] @ [] @
      [(''payloadType'', lpt), (''clockRate'', cr), (''parameters'', params), (''rtcpFeedback'', fb)]))"
    using e params jwf_find [OF e(13)] by (intro acceptable_obj) auto
  then obtain c where c: "copy_channels e (mk_obj [(''mimeType'', JStr m), (''payloadType'', lpt),
      (''clockRate'', cr), (''parameters'', params), (''rtcpFeedback'', fb)]) = Inr c" "acceptable ''payloadType'' c"
    using copy_channels_ok [OF _ e(12)] by fastforce
  note ats = e(1,4,6,8,10) [THEN at_const_find] at_const_find [OF params(1)]
  show ?thesis
  proof (cases "json_eq lrtx JNull")
    case True
    then show ?thesis using c by (simp add: send_codec_def ats)
  next
    case False
    then have "is_number_integer lrtx" using e(11) by auto
    then obtain r where "rtx_codec ''payloadType'' ''localPayloadType'' ''localRtxPayloadType'' e [] = Inr r"
      "acceptable ''payloadType'' r"
      using rtx_codec_ok [OF e(3,2,10) _ e(4,5,8,9)] by blast
    then show ?thesis using c False by (simp add: send_codec_def ats)
  qed
qed

section \<open>Derived header extensions\<close>

abbreviation directed_header_ok :: "json \<Rightarrow> bool" where
  "directed_header_ok e \<equiv> ext_header_ok e \<and> jhas is_string ''direction'' e"

lemma directed_header_fields:
  assumes "directed_header_ok x"
  obtains kind uri si ri b d where "jfind x ''kind'' = Some (JStr kind)" "kind \<in> {''audio'', ''video''}"
    "jfind x ''uri'' = Some (JStr uri)" "uri \<noteq> []" "jfind x ''sendId'' = Some si" "is_number_integer si"
    "jfind x ''recvId'' = Some ri" "is_number_integer ri" "jfind x ''encrypt'' = Some (JBool b)" "jfind x ''direction'' = Some (JStr d)"
  using assms
  by (auto simp: ext_header_ok_def jhas_def split: option.splits elim!: nonempty_string.elims is_boolean.elims is_string.elims)

lemma recv_ext_ok:
  assumes "directed_header_ok x"
  shows "\<exists>hs. recv_ext x = Inr hs \<and> list_all (\<lambda>h. header_extension_ok h \<and> jwf h) hs"
proof -
  obtain kind uri ri b d where x: "jfind x ''kind'' = Some (JStr kind)" "kind \<in> {''audio'', ''video''}"
    "jfind x ''uri'' = Some (JStr uri)" "uri \<noteq> []" "jfind x ''recvId'' = Some ri" "is_number_integer ri"
    "jfind x ''encrypt'' = Some (JBool b)" "jfind x ''direction'' = Some (JStr d)"
    using assms by (rule directed_header_fields)
  let ?kvs = "[(''kind'', JStr kind), (''uri'', JStr uri), (''preferredId'', ri), (''preferredEncrypt'', JBool b), (''direction'', JStr d)]"
  obtain ps where ps: "mk_obj ?kvs = JObj ps" by (simp add: mk_obj_def)
  then have get: "obj_get k ps = map_of ?kvs k" for k using mk_obj_simps(2) [of ?kvs k] by simp
  have "jwf (mk_obj ?kvs)" using x(6) by (intro jwf_mk_obj) (auto simp: integer_jwf)
  moreover have "header_extension_ok (mk_obj ?kvs)" unfolding ps header_extension_ok_def has_def using x(2,4,6)
    by (auto simp: get)
  ultimately show ?thesis using x(1,3,5,7,8) [THEN at_const_find] by (auto simp: recv_ext_def)
qed

lemma has_kind_ok: "jfind e ''kind'' = Some (JStr s) \<Longrightarrow> has_kind kind e = Inr (kind = s)"
  by (simp add: has_kind_def at_const_find)

lemma send_ext_ok:
  assumes "directed_header_ok x"
  shows "\<exists>hs. send_ext kind x = Inr hs \<and> list_all (\<lambda>h. \<exists>u. jfind h ''uri'' = Some (JStr u)) hs"
proof -
  obtain k uri si b d where x: "jfind x ''kind'' = Some (JStr k)" "jfind x ''uri'' = Some (JStr uri)" "jfind x ''sendId'' = Some si"
    "jfind x ''encrypt'' = Some (JBool b)" "jfind x ''direction'' = Some (JStr d)"
    using assms by (rule directed_header_fields)
  then show ?thesis by (simp add: send_ext_def has_kind_ok at_const_find)
qed

section \<open>The result of the negotiation\<close>

definition arr_at :: "string \<Rightarrow> json \<Rightarrow> json list" where
  "arr_at k j = (case jfind j k of Some (JArr xs) \<Rightarrow> xs | _ \<Rightarrow> [])"

text \<open>Completed capabilities in which every codec has a payload type.\<close>

definition typed_caps :: "json \<Rightarrow> bool" where
  "typed_caps caps \<longleftrightarrow> list_all (jhas is_number_integer ''preferredPayloadType'') (arr_at ''codecs'' caps)"

lemma caps_fields:
  assumes "rtp_capabilities_ok caps" and "jwf caps" and "typed_caps caps"
  shows "jfind caps ''codecs'' = Some (JArr (arr_at ''codecs'' caps))" "list_all full_codec (arr_at ''codecs'' caps)"
    "jfind caps ''headerExtensions'' = Some (JArr (arr_at ''headerExtensions'' caps))"
    "list_all header_extension_ok (arr_at ''headerExtensions'' caps)"
proof -
  obtain ps cs hs where c: "caps = JObj ps" "obj_get ''codecs'' ps = Some (JArr cs)" "list_all codec_capability_ok cs"
    "obj_get ''headerExtensions'' ps = Some (JArr hs)" "list_all header_extension_ok hs"
    using assms(1) by (auto simp: rtp_capabilities_ok_def has_def split: json.splits option.splits elim!: arr_of.elims)
  have "jwf (JArr cs)" using jwf_get [OF assms(2) [unfolded c(1)] c(2)] .
  then show "jfind caps ''codecs'' = Some (JArr (arr_at ''codecs'' caps))" "list_all full_codec (arr_at ''codecs'' caps)"
    "jfind caps ''headerExtensions'' = Some (JArr (arr_at ''headerExtensions'' caps))"
    "list_all header_extension_ok (arr_at ''headerExtensions'' caps)"
    using c assms(3) by (simp_all add: arr_at_def typed_caps_def full_codec_def list_all_iff)
qed

lemma extended_sound:
  assumes "jwf l" and "jwf r" and "validateRtpCapabilities l = Inr lc" and "validateRtpCapabilities r = Inr rc"
    and "typed_caps lc" and "typed_caps rc" and "getExtendedRtpCapabilities l r = Inr (l', r', ext)"
  obtains exts hexts where "jfind ext ''codecs'' = Some (JArr exts)" "jfind ext ''headerExtensions'' = Some (JArr hexts)"
    "list_all ext_codec_ok exts" "subseq (map ext_key exts) (map codec_key (arr_at ''codecs'' rc))"
    "\<forall>e \<in> set exts. \<exists>c \<in> set (arr_at ''codecs'' lc). jfind e ''localPayloadType'' = jfind c ''preferredPayloadType'' \<and> lower_mime e = lower_mime c"
    "list_all known_direction (arr_at ''headerExtensions'' rc) \<longrightarrow> list_all directed_header_ok hexts"
proof -
  note lf = caps_fields [OF conjunct1 [OF rtp_capabilities.sound [OF assms(1,3)]] conjunct2 [OF rtp_capabilities.sound [OF assms(1,3)]] assms(5)]
  note rf = caps_fields [OF conjunct1 [OF rtp_capabilities.sound [OF assms(2,4)]] conjunct2 [OF rtp_capabilities.sound [OF assms(2,4)]] assms(6)]
  let ?lcs = "arr_at ''codecs'' lc" and ?rcs = "arr_at ''codecs'' rc"
    and ?lhs = "arr_at ''headerExtensions'' lc" and ?rhs = "arr_at ''headerExtensions'' rc"
  obtain ls rs exts1 s2 ls2 rs2 exts2 lhs1 rhs1 hexts where
    f1: "foldM match_codec_step ?rcs (?lcs, [], []) = Inr (ls, rs, exts1)"
    and f2: "foldM match_rtx_step exts1 (ls, rs, []) = Inr (ls2, rs2, exts2)"
    and f3: "foldM match_ext_step ?rhs (?lhs, [], []) = Inr (lhs1, rhs1, hexts)"
    and ext: "ext = mk_obj [(''codecs'', JArr exts2), (''headerExtensions'', JArr hexts)]"
    using assms(7) unfolding getExtendedRtpCapabilities_def
    by (auto simp: assms(3,4) lf(1,3) [THEN at_mut_find] rf(3) [THEN at_mut_find] deref_find_find [OF rf(1)] rbind_Inr_iff)
  have "match_inv ?lcs (?lcs, [], [])" using lf(2) by (simp add: match_inv_def)
  then have m: "match_inv ?lcs (ls, rs, exts1)" "map codec_key rs = map codec_key ?rcs"
    using match_codecs_fold [OF f1 rf(2)] by simp_all
  then have i: "list_all full_codec ls" "list_all full_codec rs" "list_all ext_codec_ok exts1"
    "subseq (map ext_key exts1) (map codec_key ?rcs)"
    "\<forall>e \<in> set exts1. \<exists>c \<in> set ?lcs. jfind e ''localPayloadType'' = jfind c ''preferredPayloadType'' \<and> lower_mime e = lower_mime c"
    by (simp_all add: match_inv_def)
  have a: "list_all2 rtx_added exts1 exts2" using match_rtx_fold [OF i(1-3) f2] by auto
  have "map ext_key exts2 = map ext_key exts1"
    using a by (induction rule: list_all2_induct) (simp_all add: rtx_added_key)
  moreover have "list_all ext_codec_ok exts2" using a by (induction rule: list_all2_induct) (simp_all add: rtx_added_def)
  moreover have "\<forall>e' \<in> set exts2. \<exists>e \<in> set exts1. rtx_added e e'" using a by (metis in_set_conv_nth list_all2_conv_all_nth)
  then have "\<forall>e \<in> set exts2. \<exists>c \<in> set ?lcs. jfind e ''localPayloadType'' = jfind c ''preferredPayloadType'' \<and> lower_mime e = lower_mime c"
    using i(5) by (fastforce simp: rtx_added_def lower_mime_def)
  ultimately show ?thesis
    using that [of exts2 hexts] i(4) match_ext_fold [OF f3 rf(4) lf(4)] by (simp add: ext)
qed

lemma find_at_total: "list_all (\<lambda>x. \<exists>b. p x = Inr b) xs \<Longrightarrow> \<exists>i. find_at p xs = Inr i"
proof (induction xs)
  case (Cons x xs)
  then obtain b i where "p x = Inr b" "find_at p xs = Inr i" by auto
  then show ?case by (cases b) simp_all
qed simp

lemma removeM_total: "list_all (\<lambda>x. \<exists>b. p x = Inr b) xs \<Longrightarrow> \<exists>ys. removeM p xs = Inr ys \<and> set ys \<subseteq> set xs"
proof (induction xs)
  case (Cons x xs)
  then obtain b ys where "p x = Inr b" "removeM p xs = Inr ys" "set ys \<subseteq> set xs" by auto
  then show ?case by (cases b) auto
qed simp

lemma capabilities_accepted:
  assumes "list_all (acceptable ''preferredPayloadType'') cs" and "list_all (\<lambda>h. header_extension_ok h \<and> jwf h) hs"
  shows "\<exists>caps. validateRtpCapabilities (mk_obj [(''codecs'', JArr cs), (''headerExtensions'', JArr hs)]) = Inr caps"
proof -
  let ?kvs = "[(''codecs'', JArr cs), (''headerExtensions'', JArr hs)]"
  obtain ps where ps: "mk_obj ?kvs = JObj ps" by (simp add: mk_obj_def)
  then have get: "obj_get k ps = map_of ?kvs k" for k using mk_obj_simps(2) [of ?kvs k] by simp
  obtain cs' where cs': "mapM validateRtpCodecCapability cs = Inr cs'"
    using mapM_succeeds [of validateRtpCodecCapability cs] capability_accepted assms(1) by (auto simp: list_all_iff)
  have "mapM validateRtpHeaderExtension hs = Inr hs"
    using header_extension.mapM_idle [of hs] assms(2) by (simp add: list_all_iff)
  then show ?thesis using cs'
    by (simp add: ps validateRtpCapabilities_eq optional_def fill_def has_def get validate_elems_def obj_get_set)
qed

lemma drop_feedback_ok:
  assumes "acceptable ''payloadType'' c"
  shows "\<exists>c'. drop_feedback types c = Inr c' \<and> acceptable ''payloadType'' c'"
proof -
  obtain fbs where fbs: "jfind c ''rtcpFeedback'' = Some (JArr fbs)" "list_all feedback_ok fbs" "jwf c" "is_object c"
    using assms by (auto simp: acceptable_def jhas_def split: option.splits elim!: arr_of.elims)
  have "\<exists>b. feedback_type_in types fb = Inr b" if "feedback_ok fb" for fb
    using that by (auto simp: feedback_ok_def has_def feedback_type_in_def split: json.splits option.splits elim!: is_string.elims)
  then obtain ys where ys: "removeM (feedback_type_in types) fbs = Inr ys" "set ys \<subseteq> set fbs"
    using removeM_total [of "feedback_type_in types" fbs] fbs(2) by (auto simp: list_all_iff)
  have "jwf (JArr ys)" "list_all feedback_ok ys" using ys(2) fbs(2) jwf_find [OF fbs(3,1)] by (auto simp: list_all_iff)
  moreover obtain c' where "set_key c ''rtcpFeedback'' (JArr ys) = Inr c'" "is_object c'" "jwf (JArr ys) \<longrightarrow> jwf c'"
    "\<forall>k. jfind c' k = (if k = ''rtcpFeedback'' then Some (JArr ys) else jfind c k)"
    using set_key_find [OF fbs(4), of "''rtcpFeedback''" "JArr ys"] fbs(3) by blast
  ultimately show ?thesis using assms ys(1) by (auto simp: drop_feedback_def at_mut_find [OF fbs(1)] acceptable_def jhas_def)
qed

lemma send_codecs_ok:
  assumes "jfind ext ''codecs'' = Some (JArr exts)" and "list_all ext_codec_ok exts"
    and "paramKey \<in> {''localParameters'', ''remoteParameters''}"
  shows "\<exists>cs. send_codecs paramKey kind ext = Inr cs \<and> list_all (acceptable ''payloadType'') cs \<and> canSend kind ext = Inr (cs \<noteq> [])"
proof -
  have "\<exists>b. has_kind kind e = Inr b" if "ext_codec_ok e" for e
    using that by (auto simp: ext_codec_ok_def has_kind_ok)
  then obtain i where i: "find_at (has_kind kind) exts = Inr i"
    using find_at_total [of "has_kind kind" exts] assms(2) by (auto simp: list_all_iff)
  show ?thesis
  proof (cases i)
    case None
    then show ?thesis using i assms(1) by (simp add: send_codecs_def canSend_def at_const_find)
  next
    case (Some n)
    then have "ext_codec_ok (exts ! n)" using find_at_Some [OF i [unfolded Some]] assms(2) by (simp add: list_all_length)
    then show ?thesis using send_codec_ok [OF _ assms(3)] i Some assms(1)
      by (auto simp: send_codecs_def canSend_def at_const_find)
  qed
qed

lemma send_exts_ok:
  assumes "jfind ext ''headerExtensions'' = Some (JArr hexts)" and "list_all directed_header_ok hexts"
  shows "\<exists>hs. send_exts kind ext = Inr hs \<and> list_all (\<lambda>h. \<exists>u. jfind h ''uri'' = Some (JStr u)) hs"
proof -
  obtain hss where "mapM (send_ext kind) hexts = Inr hss" "list_all (list_all (\<lambda>h. \<exists>u. jfind h ''uri'' = Some (JStr u))) hss"
    using mapM_succeeds_with [of "send_ext kind" "list_all (\<lambda>h. \<exists>u. jfind h ''uri'' = Some (JStr u))" hexts] send_ext_ok assms(2)
    by (auto simp: list_all_iff)
  then show ?thesis using assms(1) by (auto simp: send_exts_def at_const_find list_all_iff)
qed

lemma send_parameters_codecs [simp]: "jfind (send_parameters cs hs) ''codecs'' = Some (JArr cs)"
  by (simp add: send_parameters_def)

lemma remote_parameters_ok:
  assumes "send_codecs ''remoteParameters'' kind ext = Inr cs" and "list_all (acceptable ''payloadType'') cs"
    and "send_exts kind ext = Inr hs" and "list_all (\<lambda>h. \<exists>u. jfind h ''uri'' = Some (JStr u)) hs"
  shows "\<exists>cs'. getSendingRemoteRtpParameters kind ext = Inr (send_parameters cs' hs) \<and> list_all (acceptable ''payloadType'') cs'"
proof -
  have "\<exists>b. uses_uri uri h = Inr b" if "\<exists>u. jfind h ''uri'' = Some (JStr u)" for uri h
    using that by (auto simp: uses_uri_def at_mut_find)
  then have "\<exists>i. find_at (uses_uri uri) hs = Inr i" for uri
    using find_at_total [of "uses_uri uri" hs] assms(4) by (auto simp: list_all_iff)
  then obtain i j where ij: "find_at (uses_uri transport_cc_uri) hs = Inr i" "find_at (uses_uri abs_send_time_uri) hs = Inr j" by blast
  have "\<forall>types. \<exists>cs'. mapM (drop_feedback types) cs = Inr cs' \<and> list_all (acceptable ''payloadType'') cs'"
    using mapM_succeeds_with [of "drop_feedback _" "acceptable ''payloadType''" cs] drop_feedback_ok assms(2) by (auto simp: list_all_iff)
  then obtain g where "mapM (drop_feedback types) cs = Inr (g types)" "list_all (acceptable ''payloadType'') (g types)" for types
    by metis
  then show ?thesis by (simp add: getSendingRemoteRtpParameters_def assms(1,3) ij) blast
qed

lemma recv_capabilities_ok:
  assumes "jfind ext ''codecs'' = Some (JArr exts)" and "list_all ext_codec_ok exts"
    and "jfind ext ''headerExtensions'' = Some (JArr hexts)" and "list_all directed_header_ok hexts"
  shows "\<exists>recv recv'. getRecvRtpCapabilities ext = Inr recv \<and> validateRtpCapabilities recv = Inr recv' \<and> jwf recv"
proof -
  obtain css where css: "mapM recv_codec exts = Inr css" "list_all (list_all (acceptable ''preferredPayloadType'')) css"
    using mapM_succeeds_with [of recv_codec "list_all (acceptable ''preferredPayloadType'')" exts] recv_codec_ok assms(2)
    by (auto simp: list_all_iff)
  obtain hss where hss: "mapM recv_ext hexts = Inr hss" "list_all (list_all (\<lambda>h. header_extension_ok h \<and> jwf h)) hss"
    using mapM_succeeds_with [of recv_ext "list_all (\<lambda>h. header_extension_ok h \<and> jwf h)" hexts] recv_ext_ok assms(4)
    by (auto simp: list_all_iff)
  have "list_all (acceptable ''preferredPayloadType'') (concat css)" "list_all (\<lambda>h. header_extension_ok h \<and> jwf h) (concat hss)"
    using css(2) hss(2) by (auto simp: list_all_iff)
  moreover from this have "jwf (mk_obj [(''codecs'', JArr (concat css)), (''headerExtensions'', JArr (concat hss))])"
    by (intro jwf_mk_obj) (auto simp: list_all_iff acceptable_def)
  ultimately show ?thesis using capabilities_accepted css(1) hss(1)
    by (simp add: getRecvRtpCapabilities_def at_const_find [OF assms(1)] at_const_find [OF assms(3)])
qed

text \<open>What the receiving and sending sides are given.\<close>

lemma derived_ok:
  assumes "jwf l" and "jwf r" and "validateRtpCapabilities l = Inr lc" and "validateRtpCapabilities r = Inr rc"
    and "typed_caps lc" and "typed_caps rc" and "list_all known_direction (arr_at ''headerExtensions'' rc)"
    and "getExtendedRtpCapabilities l r = Inr (l', r', ext)"
  shows "(\<exists>recv recv'. getRecvRtpCapabilities ext = Inr recv \<and> validateRtpCapabilities recv = Inr recv' \<and> jwf recv)
    \<and> (\<exists>p cs cs'. getSendingRtpParameters kind ext = Inr p \<and> jfind p ''codecs'' = Some (JArr cs)
        \<and> mapM validateRtpCodecParameters cs = Inr cs' \<and> canSend kind ext = Inr (cs \<noteq> []))
    \<and> (\<exists>p cs cs'. getSendingRemoteRtpParameters kind ext = Inr p \<and> jfind p ''codecs'' = Some (JArr cs)
        \<and> mapM validateRtpCodecParameters cs = Inr cs')"
proof -
  obtain exts hexts where e: "jfind ext ''codecs'' = Some (JArr exts)" "jfind ext ''headerExtensions'' = Some (JArr hexts)"
    "list_all ext_codec_ok exts" "list_all directed_header_ok hexts"
    using assms(1-6,8) by (rule extended_sound) (use assms(7) in blast)
  have valid: "\<exists>cs'. mapM validateRtpCodecParameters cs = Inr cs'" if "list_all (acceptable ''payloadType'') cs" for cs
    using mapM_succeeds [of validateRtpCodecParameters cs] parameters_accepted that by (auto simp: list_all_iff)
  obtain cs where cs: "send_codecs ''localParameters'' kind ext = Inr cs" "list_all (acceptable ''payloadType'') cs"
    "canSend kind ext = Inr (cs \<noteq> [])"
    using send_codecs_ok [OF e(1,3)] by blast
  obtain cr where cr: "send_codecs ''remoteParameters'' kind ext = Inr cr" "list_all (acceptable ''payloadType'') cr"
    using send_codecs_ok [OF e(1,3)] by blast
  obtain hs where hs: "send_exts kind ext = Inr hs" "list_all (\<lambda>h. \<exists>u. jfind h ''uri'' = Some (JStr u)) hs"
    using send_exts_ok [OF e(2,4)] by blast
  have "getSendingRtpParameters kind ext = Inr (send_parameters cs hs)" by (simp add: getSendingRtpParameters_def cs(1) hs(1))
  then show ?thesis
    using recv_capabilities_ok [OF e(1,3,2,4)] cs(2,3) valid remote_parameters_ok [OF cr hs] by fastforce
qed

section \<open>A sample negotiation\<close>

text \<open>Completed capabilities with one video codec and one header extension of the given direction.\<close>

definition sample_caps :: "string \<Rightarrow> json" where
  "sample_caps d = JObj [
     (''codecs'', JArr [JObj [(''clockRate'', JUInt 90000), (''kind'', JStr ''video''), (''mimeType'', JStr ''video/vp8''),
        (''parameters'', JObj []), (''preferredPayloadType'', JUInt 96), (''rtcpFeedback'', JArr [])]]),
     (''headerExtensions'', JArr [JObj [(''direction'', JStr d), (''kind'', JStr ''video''), (''preferredEncrypt'', JBool False),
        (''preferredId'', JUInt 1), (''uri'', JStr ''urn:x'')]])]"

lemma sample_caps_wf: "jwf (sample_caps d)"
  by (simp add: sample_caps_def obj_wf_def)

lemma sample_caps_ok: "rtp_capabilities_ok (sample_caps d)"
  by (simp add: sample_caps_def rtp_capabilities_ok_def codec_capability_ok_def codec_base_ok_def header_extension_ok_def
      has_def optional_def obj_get_def mime_kind_def to_lower_def to_lower_char_def)

lemma sample_caps_valid: "validateRtpCapabilities (sample_caps d) = Inr (sample_caps d)"
  by (rule rtp_capabilities.idle [OF sample_caps_wf sample_caps_ok])

lemma sample_caps_typed: "typed_caps (sample_caps d)"
  by (simp add: sample_caps_def typed_caps_def arr_at_def obj_get_def has_def)

lemma sample_extended: "\<exists>l r ext e. getExtendedRtpCapabilities (sample_caps ''sendrecv'') (sample_caps ''recvonly'') = Inr (l, r, ext)
    \<and> jfind ext ''codecs'' = Some (JArr [e])"
  unfolding getExtendedRtpCapabilities_def sample_caps_valid rbind_simps
  by (simp add: sample_caps_def obj_get_def match_codec_step_def isRtxCodec_def matchCodecs_def contains_def to_lower_def to_lower_char_def
      extended_codec_def reduceRtcpFeedback_def mk_obj_def match_rtx_step_def rtx_for_def match_ext_step_def matchHeaderExtensions_def
      extended_ext_def opposite_direction_def Let_def)

section \<open>Properties\<close>

text \<open>C31. The negotiated codecs come from both sides: each has the payload type of a local codec of the
  same MIME type, and in the order in which they are listed they are a subsequence of the remote side's
  codecs, so the remote preference is kept.  Both sides' capabilities are completed first and have
  payload types.\<close>

theorem extended_codecs_common:
  assumes "jwf l" and "jwf r" and "validateRtpCapabilities l = Inr lc" and "validateRtpCapabilities r = Inr rc"
    and "typed_caps lc" and "typed_caps rc" and "getExtendedRtpCapabilities l r = Inr (l', r', ext)"
  shows "\<exists>exts. jfind ext ''codecs'' = Some (JArr exts)
    \<and> subseq (map (\<lambda>e. (jfind e ''remotePayloadType'', lower_mime e)) exts)
        (map (\<lambda>c. (jfind c ''preferredPayloadType'', lower_mime c)) (arr_at ''codecs'' rc))
    \<and> (\<forall>e \<in> set exts. \<exists>c \<in> set (arr_at ''codecs'' lc).
        jfind e ''localPayloadType'' = jfind c ''preferredPayloadType'' \<and> lower_mime e = lower_mime c)"
proof -
  obtain exts where "jfind ext ''codecs'' = Some (JArr exts)" "subseq (map ext_key exts) (map codec_key (arr_at ''codecs'' rc))"
    "\<forall>e \<in> set exts. \<exists>c \<in> set (arr_at ''codecs'' lc). jfind e ''localPayloadType'' = jfind c ''preferredPayloadType'' \<and> lower_mime e = lower_mime c"
    using assms by (rule extended_sound)
  then show ?thesis unfolding ext_key_def [abs_def] codec_key_def [abs_def] by blast
qed

theorem extended_codecs_common_witness:
  "\<exists>l r ext e. getExtendedRtpCapabilities (sample_caps ''sendrecv'') (sample_caps ''recvonly'') = Inr (l, r, ext)
    \<and> jfind ext ''codecs'' = Some (JArr [e]) \<and> jfind e ''localPayloadType'' = Some (JUInt 96) \<and> lower_mime e = Some ''video/vp8''"
proof -
  obtain l r ext e where e: "getExtendedRtpCapabilities (sample_caps ''sendrecv'') (sample_caps ''recvonly'') = Inr (l, r, ext)"
    "jfind ext ''codecs'' = Some (JArr [e])"
    using sample_extended by blast
  have "\<exists>c \<in> set (arr_at ''codecs'' (sample_caps ''sendrecv'')).
      jfind e ''localPayloadType'' = jfind c ''preferredPayloadType'' \<and> lower_mime e = lower_mime c"
    using extended_codecs_common [OF sample_caps_wf sample_caps_wf sample_caps_valid sample_caps_valid sample_caps_typed sample_caps_typed e(1)]
      e(2) by simp
  moreover have "\<forall>c \<in> set (arr_at ''codecs'' (sample_caps ''sendrecv'')). jfind c ''preferredPayloadType'' = Some (JUInt 96)
      \<and> lower_mime c = Some ''video/vp8''"
    by (simp add: sample_caps_def arr_at_def obj_get_def lower_mime_def to_lower_def to_lower_char_def)
  ultimately show ?thesis using e by fastforce
qed





lemma reduce_loop_last:
  assumes "\<forall>x \<in> set xs. matchCodecs x cap False False = Inr (False, x, cap)" and "matchCodecs c cap False False = Inr (True, c', cap')"
    and "i \<le> length xs"
  shows "reduce_loop cap (JArr (xs @ [c])) i = Inl (JsonTypeError 305)"
  using assms(3)
proof (induction rule: inc_induct)
  case base
  show ?case using assms(2) by (subst reduce_loop.simps) (simp add: isRtxCodec_def Let_def nth_append)
next
  case (step n)
  then have "xs ! n \<in> set xs" by simp
  then have "matchCodecs (xs ! n) cap False False = Inr (False, xs ! n, cap)" using assms(1) by blast
  moreover have "(xs @ [c])[n := xs ! n] = xs @ [c]" using step by (simp add: list_update_append)
  ultimately show ?case using step by (subst reduce_loop.simps) (simp add: Let_def nth_append)
qed

text \<open>C34. reduceCodecs reads the element after the matching codec without a bounds check.  If the codec that
  matches is the last one, that read appends a null to the array and the test for RTX throws a JSON
  type error: a codec without an RTX codec behind it cannot be selected.\<close>

theorem reduce_last_codec_throws:
  assumes "\<forall>x \<in> set xs. matchCodecs x (JObj cap) False False = Inr (False, x, JObj cap)"
    and "matchCodecs c (JObj cap) False False = Inr (True, c', cap')"
  shows "reduceCodecs (JArr (xs @ [c])) (Some (JObj cap)) = Inl (JsonTypeError 305)"
  using reduce_loop_last [OF assms, of 0] by (simp add: reduceCodecs_def)

theorem reduce_last_codec_throws_witness:
  "let opus = JObj [(''clockRate'', JUInt 48000), (''mimeType'', JStr ''audio/opus'')]
   in reduceCodecs (JArr [opus]) (Some opus) = Inl (JsonTypeError 305)"
  unfolding Let_def
  by (rule reduce_last_codec_throws [where xs = "[]", simplified]) (simp add: matchCodecs_def obj_get_def contains_def to_lower_def to_lower_char_def Let_def)

end
