(* ===== verification/Device.thy ===== *)
theory Device
  imports Send_Session Recv_Session Ortc_Derived
begin

text \<open>
  \<^verbatim>\<open>Device.cpp\<close>: loading negotiates the capabilities of the router with those of WebRTC, and a loaded
  device makes transports.  The native capabilities come from WebRTC and are an argument.
\<close>

section \<open>State\<close>

record Device =
  loaded :: bool
  extendedRtpCapabilities :: json
  recvRtpCapabilities :: json
  canProduceByKind :: "string \<Rightarrow> bool option"
  sctpCapabilities :: json

definition mk_Device :: Device where
  "mk_Device = \<lparr>loaded = False, extendedRtpCapabilities = JNull, recvRtpCapabilities = JNull,
     canProduceByKind = [''audio'' \<mapsto> False, ''video'' \<mapsto> False], sctpCapabilities = JNull\<rparr>"

definition SctpNumStreams :: json where
  "SctpNumStreams = mk_obj [(''OS'', JUInt 1024), (''MIS'', JUInt 1024)]"

definition GetNativeSctpCapabilities :: json where
  "GetNativeSctpCapabilities = mk_obj [(''numStreams'', SctpNumStreams)]"

section \<open>Operations\<close>

definition Device_GetRtpCapabilities :: "Device \<Rightarrow> json result" where
  "Device_GetRtpCapabilities d =
     (if \<not> loaded d then Inl (MscInvalidStateError ''not loaded'') else Inr (recvRtpCapabilities d))"

definition Device_GetSctpCapabilities :: "Device \<Rightarrow> json result" where
  "Device_GetSctpCapabilities d =
     (if \<not> loaded d then Inl (MscInvalidStateError ''not loaded'') else Inr (sctpCapabilities d))"

text \<open>The second half of \<open>Load\<close>, from the extended capabilities on; members that were written before a
  throw keep their new value.\<close>

definition load_extended :: "json \<Rightarrow> Device \<Rightarrow> Device \<times> unit result" where
  "load_extended ext d =
     (let d1 = d\<lparr>extendedRtpCapabilities := ext\<rparr>
      in case canSend ''audio'' ext of
           Inl e \<Rightarrow> (d1, Inl e)
         | Inr audio \<Rightarrow>
             let d2 = d1\<lparr>canProduceByKind := (canProduceByKind d1)(''audio'' \<mapsto> audio)\<rparr>
             in case canSend ''video'' ext of
                  Inl e \<Rightarrow> (d2, Inl e)
                | Inr video \<Rightarrow>
                    let d3 = d2\<lparr>canProduceByKind := (canProduceByKind d2)(''video'' \<mapsto> video)\<rparr>
                    in case getRecvRtpCapabilities ext of
                         Inl e \<Rightarrow> (d3, Inl e)
                       | Inr recv \<Rightarrow>
                           (case validateRtpCapabilities recv of
                              Inl e \<Rightarrow> (d3\<lparr>recvRtpCapabilities := recv\<rparr>, Inl e)
                            | Inr recv' \<Rightarrow>
                                let d4 = d3\<lparr>recvRtpCapabilities := recv'\<rparr>
                                in case validateSctpCapabilities GetNativeSctpCapabilities of
                                     Inl e \<Rightarrow> (d4\<lparr>sctpCapabilities := GetNativeSctpCapabilities\<rparr>, Inl e)
                                   | Inr sctp \<Rightarrow> (d4\<lparr>sctpCapabilities := sctp, loaded := True\<rparr>, Inr ())))"

definition Device_Load :: "json result \<Rightarrow> json \<Rightarrow> Device \<Rightarrow> Device \<times> unit result" where
  "Device_Load native routerRtpCapabilities d =
     (if loaded d then (d, Inl (MscInvalidStateError ''already loaded''))
      else
        case rbind (validateRtpCapabilities routerRtpCapabilities) (\<lambda>router.
             rbind native (\<lambda>nativeRtpCapabilities.
             rbind (validateRtpCapabilities nativeRtpCapabilities) (\<lambda>local.
               getExtendedRtpCapabilities local router))) of
          Inl e \<Rightarrow> (d, Inl e)
        | Inr (_, _, ext) \<Rightarrow> load_extended ext d)"

definition Device_CanProduce :: "string \<Rightarrow> Device \<Rightarrow> bool result" where
  "Device_CanProduce kind d =
     (if \<not> loaded d then Inl (MscInvalidStateError ''not loaded'')
      else if kind \<noteq> ''audio'' \<and> kind \<noteq> ''video'' then Inl (MscTypeError ''invalid kind'')
      else Inr (case canProduceByKind d kind of Some b \<Rightarrow> b | None \<Rightarrow> False))"

text \<open>The checks that both kinds of transport have in common; the result is the completed SCTP parameters.\<close>

definition transport_arguments :: "json \<Rightarrow> json \<Rightarrow> json \<Rightarrow> json \<Rightarrow> json \<Rightarrow> Device \<Rightarrow> json result" where
  "transport_arguments iceParameters iceCandidates dtlsParameters sctpParameters appData d =
     (if \<not> loaded d then Inl (MscInvalidStateError ''not loaded'')
      else if \<not> is_object appData then Inl (MscTypeError ''appData must be a JSON object'')
      else
        rbind (validateIceParameters iceParameters) (\<lambda>_. rbind (validateIceCandidates iceCandidates) (\<lambda>_.
        rbind (validateDtlsParameters dtlsParameters) (\<lambda>_.
          if is_null sctpParameters then Inr sctpParameters else validateSctpParameters sctpParameters))))"

definition Device_CreateSendTransport ::
  "unit result \<Rightarrow> json \<Rightarrow> json \<Rightarrow> json \<Rightarrow> json \<Rightarrow> json \<Rightarrow> MediaStreamTrack list \<Rightarrow> Device \<Rightarrow> (SendTransport \<times> json \<times> json) result" where
  "Device_CreateSendTransport handler iceParameters iceCandidates dtlsParameters sctpParameters appData tracks d =
     rbind (transport_arguments iceParameters iceCandidates dtlsParameters sctpParameters appData d) (\<lambda>sctp.
     rbind (mk_SendTransport sctp (extendedRtpCapabilities d) tracks) (\<lambda>t. rbind handler (\<lambda>_. Inr t)))"

definition Device_CreateRecvTransport ::
  "unit result \<Rightarrow> json \<Rightarrow> json \<Rightarrow> json \<Rightarrow> json \<Rightarrow> json \<Rightarrow> Device \<Rightarrow> RecvTransport result" where
  "Device_CreateRecvTransport handler iceParameters iceCandidates dtlsParameters sctpParameters appData d =
     rbind (transport_arguments iceParameters iceCandidates dtlsParameters sctpParameters appData d) (\<lambda>sctp.
     rbind handler (\<lambda>_. Inr (mk_RecvTransport sctp (extendedRtpCapabilities d))))"

section \<open>Loading\<close>

lemma native_sctp_valid: "\<exists>sctp. validateSctpCapabilities GetNativeSctpCapabilities = Inr sctp"
  by (simp add: validateSctpCapabilities_eq validateNumSctpStreams_eq GetNativeSctpCapabilities_def SctpNumStreams_def
    mk_obj_def has_def obj_get_def)

lemma load_extended_ok:
  assumes "canSend ''audio'' ext = Inr a" and "canSend ''video'' ext = Inr v"
    and "getRecvRtpCapabilities ext = Inr recv" and "validateRtpCapabilities recv = Inr recv'"
  obtains sctp where "load_extended ext d =
    (d\<lparr>extendedRtpCapabilities := ext, canProduceByKind := (canProduceByKind d)(''audio'' \<mapsto> a, ''video'' \<mapsto> v),
       recvRtpCapabilities := recv', sctpCapabilities := sctp, loaded := True\<rparr>, Inr ())"
  using native_sctp_valid assms by (auto simp: load_extended_def Let_def)

text \<open>A failed load leaves the device unloaded, so that it can be tried again.\<close>

lemma load_failed:
  assumes "Device_Load native router d = (d', Inl e)"
  shows "loaded d' = loaded d"
  using assms
  by (auto simp: Device_Load_def load_extended_def Let_def split: if_splits sum.splits prod.splits)

text \<open>The map that \<open>Produce\<close> looks a kind up in has both kinds from the start, so the look-up always
  succeeds: a track is handed to the handler also when the device cannot produce its kind.\<close>

lemma both_kinds_present:
  assumes "canProduceByKind d ''audio'' \<noteq> None" and "canProduceByKind d ''video'' \<noteq> None"
    and "Device_Load native router d = (d', r)"
  shows "canProduceByKind d' ''audio'' \<noteq> None \<and> canProduceByKind d' ''video'' \<noteq> None"
  using assms
  by (auto simp: Device_Load_def load_extended_def Let_def split: if_splits sum.splits prod.splits)

lemma produce_not_refused:
  assumes "Device_Load native router mk_Device = (d, Inr ())" and "track_kind (send_tracks s ! t) \<in> {''audio'', ''video''}"
    and "\<not> t_closed s" and "\<not> track_ended (send_tracks s ! t)"
  shows "HandlerSend t (map normalize_encoding encodings) None codec \<in> set (events (fst (SendTransport_Produce (canProduceByKind d) (Inl e) on_produce stop (Some t) (Some encodings) None codec appData s)))"
proof -
  have "canProduceByKind mk_Device ''audio'' \<noteq> None" "canProduceByKind mk_Device ''video'' \<noteq> None" by (simp_all add: mk_Device_def)
  note both_kinds_present [OF this assms(1)]
  then have "canProduceByKind d (track_kind (send_tracks s ! t)) \<noteq> None" using assms(2) by auto
  then show ?thesis using assms(3,4) by (auto simp: SendTransport_Produce_def emit_def)
qed

section \<open>Transports of a loaded device\<close>

lemma sctp_settings:
  assumes "validateSctpParameters sctp = Inr sctp'"
  shows "\<exists>m n. is_object sctp' \<and> deref_find sctp' ''maxMessageSize'' = Inr m \<and> is_number_integer m \<and> get_u64 m = Inr n"
  using assms
  by (auto simp: validateSctpParameters_eq has_def split: json.splits if_splits option.splits elim!: is_number_integer.elims)

lemma mk_SendTransport_ok:
  assumes "sctp = JNull \<or> (\<exists>sctp0. validateSctpParameters sctp0 = Inr sctp)" and "sending_parameters ext = Inr params"
  shows "\<exists>s. mk_SendTransport sctp ext tracks = Inr (s, params)"
  using assms(1)
proof
  assume "\<exists>sctp0. validateSctpParameters sctp0 = Inr sctp"
  then obtain m n where "is_object sctp" "deref_find sctp ''maxMessageSize'' = Inr m" "is_number_integer m" "get_u64 m = Inr n"
    using sctp_settings by blast
  then show ?thesis using assms(2) by (simp add: mk_SendTransport_def)
qed (use assms(2) in \<open>simp add: mk_SendTransport_def\<close>)

lemma transport_arguments_sctp:
  assumes "transport_arguments iceParameters iceCandidates dtlsParameters sctpParameters appData d = Inr sctp"
  shows "sctp = JNull \<or> (\<exists>sctp0. validateSctpParameters sctp0 = Inr sctp)"
  using assms by (cases sctpParameters) (auto simp: transport_arguments_def rbind_Inr_iff split: if_splits)

lemma sending_parameters_ok:
  assumes "\<And>kind. \<exists>p q. getSendingRtpParameters kind ext = Inr p \<and> getSendingRemoteRtpParameters kind ext = Inr q"
  shows "\<exists>params. sending_parameters ext = Inr params"
proof -
  obtain f g where "getSendingRtpParameters kind ext = Inr (f kind)" "getSendingRemoteRtpParameters kind ext = Inr (g kind)" for kind
    using assms by metis
  then show ?thesis by (simp add: sending_parameters_def)
qed

lemma transports_start:
  assumes "sending_parameters (extendedRtpCapabilities d) = Inr params"
    and "transport_arguments ice candidates dtls sctp appData d = Inr sctp'"
  shows "(\<exists>s params. Device_CreateSendTransport (Inr ()) ice candidates dtls sctp appData tracks d = Inr (s, params) \<and> send_session s)
    \<and> (\<exists>s. Device_CreateRecvTransport (Inr ()) ice candidates dtls sctp appData d = Inr s \<and> recv_session s)"
proof -
  obtain s where "mk_SendTransport sctp' (extendedRtpCapabilities d) tracks = Inr (s, params)"
    using mk_SendTransport_ok [OF transport_arguments_sctp [OF assms(2)] assms(1)] by blast
  then show ?thesis
    using assms(2) send_session.start recv_session.start
    by (auto simp: Device_CreateSendTransport_def Device_CreateRecvTransport_def)
qed

section \<open>Property\<close>

text \<open>C37. If WebRTC's and the router's capabilities are acceptable, have payload types and directions that exist,
  and can be matched, then loading a device succeeds: its receiving capabilities are complete, for each
  kind it says that it can produce exactly when there is a common codec of that kind, arguments that pass
  the checks make a transport of either kind that starts a session, and a second load is refused.\<close>

theorem device_load:
  assumes "jwf native" and "jwf router" and "validateRtpCapabilities native = Inr lc" and "validateRtpCapabilities router = Inr rc"
    and "typed_caps lc" and "typed_caps rc" and "list_all known_direction (arr_at ''headerExtensions'' rc)"
    and "getExtendedRtpCapabilities lc rc = Inr (l', r', ext)" and "\<not> loaded d"
  shows "\<exists>d'. Device_Load (Inr native) router d = (d', Inr ())
    \<and> (\<exists>caps. Device_GetRtpCapabilities d' = Inr caps \<and> validateRtpCapabilities caps = Inr caps)
    \<and> (\<forall>kind \<in> {''audio'', ''video''}. Device_CanProduce kind d' = canSend kind ext)
    \<and> (\<forall>ice candidates dtls sctp appData sctp' tracks. transport_arguments ice candidates dtls sctp appData d' = Inr sctp' \<longrightarrow>
         (\<exists>s params. Device_CreateSendTransport (Inr ()) ice candidates dtls sctp appData tracks d' = Inr (s, params) \<and> send_session s)
         \<and> (\<exists>s. Device_CreateRecvTransport (Inr ()) ice candidates dtls sctp appData d' = Inr s \<and> recv_session s))
    \<and> Device_Load native2 router2 d' = (d', Inl (MscInvalidStateError ''already loaded''))"
proof -
  have l: "jwf lc" "validateRtpCapabilities lc = Inr lc"
    using rtp_capabilities.sound [OF assms(1,3)] rtp_capabilities.idempotent [OF assms(1,3)] by blast+
  have r: "jwf rc" "validateRtpCapabilities rc = Inr rc"
    using rtp_capabilities.sound [OF assms(2,4)] rtp_capabilities.idempotent [OF assms(2,4)] by blast+
  note derived = derived_ok [OF l(1) r(1) l(2) r(2) assms(5-8)]
  obtain recv recv' where recv: "getRecvRtpCapabilities ext = Inr recv" "validateRtpCapabilities recv = Inr recv'" "jwf recv"
    using derived by blast
  obtain a v where av: "canSend ''audio'' ext = Inr a" "canSend ''video'' ext = Inr v"
    using derived [of "''audio''"] derived [of "''video''"] by blast
  obtain params where params: "sending_parameters ext = Inr params"
    using sending_parameters_ok derived by blast
  obtain sctp where load: "load_extended ext d =
      (d\<lparr>extendedRtpCapabilities := ext, canProduceByKind := (canProduceByKind d)(''audio'' \<mapsto> a, ''video'' \<mapsto> v),
         recvRtpCapabilities := recv', sctpCapabilities := sctp, loaded := True\<rparr>, Inr ())" (is "_ = (?d, _)")
    using load_extended_ok [OF av recv(1,2)] by blast
  have "Device_Load (Inr native) router d = (?d, Inr ())" using assms(3,4,8,9) load by (simp add: Device_Load_def)
  moreover have "Device_GetRtpCapabilities ?d = Inr recv' \<and> validateRtpCapabilities recv' = Inr recv'"
    using rtp_capabilities.idempotent [OF recv(3,2)] by (simp add: Device_GetRtpCapabilities_def)
  moreover have "\<forall>kind \<in> {''audio'', ''video''}. Device_CanProduce kind ?d = canSend kind ext"
    using av by (simp add: Device_CanProduce_def)
  moreover have "(\<exists>s params. Device_CreateSendTransport (Inr ()) ice candidates dtls sctp appData tracks ?d = Inr (s, params) \<and> send_session s)
      \<and> (\<exists>s. Device_CreateRecvTransport (Inr ()) ice candidates dtls sctp appData ?d = Inr s \<and> recv_session s)"
    if "transport_arguments ice candidates dtls sctp appData ?d = Inr sctp'" for ice candidates dtls sctp appData sctp' tracks
    using params that by (intro transports_start) simp_all
  moreover have "Device_Load native2 router2 ?d = (?d, Inl (MscInvalidStateError ''already loaded''))"
    by (simp add: Device_Load_def)
  ultimately show ?thesis by blast
qed

theorem device_load_witness:
  "\<exists>d'. Device_Load (Inr (sample_caps ''sendrecv'')) (sample_caps ''recvonly'') mk_Device = (d', Inr ())
    \<and> (\<exists>caps. Device_GetRtpCapabilities d' = Inr caps \<and> validateRtpCapabilities caps = Inr caps)
    \<and> Device_Load (Inr JNull) JNull d' = (d', Inl (MscInvalidStateError ''already loaded''))"
proof -
  obtain l r ext where e: "getExtendedRtpCapabilities (sample_caps ''sendrecv'') (sample_caps ''recvonly'') = Inr (l, r, ext)"
    using sample_extended by blast
  have "list_all known_direction (arr_at ''headerExtensions'' (sample_caps ''recvonly''))"
    by (simp add: sample_caps_def arr_at_def obj_get_def known_direction_def has_def)
  moreover have "\<not> loaded mk_Device" by (simp add: mk_Device_def)
  ultimately show ?thesis
    using device_load [OF sample_caps_wf sample_caps_wf sample_caps_valid sample_caps_valid sample_caps_typed sample_caps_typed _ e,
        of mk_Device "Inr JNull" JNull]
    by blast
qed

end
