(* ===== verification/Media_Section.thy ===== *)
theory Media_Section
  imports Ortc_Caps
begin

text \<open>
  \<^verbatim>\<open>sdp/MediaSection.cpp\<close>: a media section of the remote session description.  Its JSON object starts
  empty and is never assigned as a whole, so it is an object here.  An answer reads its arguments
  through the mutable subscript operator, which gives null for an absent member, an offer through the
  const one; the helpers that both share take the reading function as an argument.
\<close>

section \<open>Reading and writing members\<close>

text \<open>\<open>j[key]\<close> on a mutable value of which only the member is used again: reading it once more gives the
  same value, whether it was there or has been inserted as null.\<close>

definition read_mut :: "json \<Rightarrow> string \<Rightarrow> json result" where
  "read_mut j k = rbind (at_mut j k) (\<lambda>(_, v). Inr v)"

definition put_all :: "obj \<Rightarrow> obj \<Rightarrow> obj" where
  "put_all kvs m = fold (\<lambda>(k, v). obj_set k v) kvs m"

definition erase_all :: "string list \<Rightarrow> obj \<Rightarrow> obj" where
  "erase_all ks m = fold obj_del ks m"

fun get_u32 :: "json \<Rightarrow> u32 result" where
  "get_u32 (JUInt n) = Inr (ucast n)"
| "get_u32 (JInt n) = Inr (ucast n)"
| "get_u32 (JFloat q) = (if 0 \<le> trunc q \<and> trunc q < 2 ^ 32 then Inr (word_of_int (trunc q)) else Inl (Undefined ''float conversion''))"
| "get_u32 (JBool b) = Inr (of_bool b)"
| "get_u32 _ = Inl (JsonTypeError 302)"

lemma read_mut_obj [simp]: "read_mut (JObj ps) k = Inr (case obj_get k ps of Some v \<Rightarrow> v | None \<Rightarrow> JNull)"
  by (simp add: read_mut_def split: option.splits)

lemma obj_get_put_all: "obj_get k (put_all kvs m) = (case map_of (rev kvs) k of Some v \<Rightarrow> Some v | None \<Rightarrow> obj_get k m)"
  unfolding put_all_def
  by (induction kvs arbitrary: m) (auto simp: obj_get_set map_add_def split: option.splits)

lemma obj_get_erase_all: "obj_get k (erase_all ks m) = (if k \<in> set ks then None else obj_get k m)"
  unfolding erase_all_def by (induction ks arbitrary: m) (auto simp: obj_get_del)

section \<open>Text of numbers\<close>

text \<open>\<open>std::ostream\<close> writes a \<open>float\<close> as \<open>printf\<close> does with \<open>%g\<close>: six significant digits, without
  trailing zeros.\<close>

definition round_even :: "rat \<Rightarrow> int" where
  "round_even x =
     (let f = \<lfloor>x\<rfloor>; r = x - of_int f
      in if r < 1 / 2 then f else if 1 / 2 < r then f + 1 else if even f then f else f + 1)"

definition rpow :: "rat \<Rightarrow> int \<Rightarrow> rat" where
  "rpow b k = (if 0 \<le> k then b ^ nat k else 1 / b ^ nat (- k))"

fun digits_of :: "nat \<Rightarrow> nat \<Rightarrow> nat" where
  "digits_of b n = (if b < 2 \<or> n < b then 1 else Suc (digits_of b (n div b)))"

declare digits_of.simps [simp del]

text \<open>The exponent \<open>e\<close> with \<open>b\<^sup>e \<le> a < b\<^sup>e\<^sup>+\<^sup>1\<close>, for a positive \<open>a\<close>.\<close>

definition exponent_of :: "nat \<Rightarrow> rat \<Rightarrow> int" where
  "exponent_of b a =
     (case quotient_of a of (n, d) \<Rightarrow>
        let k = int (digits_of b (nat n)) - int (digits_of b (nat d))
        in if rpow (of_nat b) k \<le> a then k else k - 1)"

text \<open>\<open>static_cast<float>\<close>: 24 bits, exponents down to \<open>-126\<close>; too large a value is undefined.\<close>

definition to_float :: "rat \<Rightarrow> rat result" where
  "to_float q =
     (if q = 0 then Inr 0
      else
        let a = \<bar>q\<bar>; e = max (exponent_of 2 a) (-126); u = rpow 2 (e - 23); v = of_int (round_even (a / u)) * u
        in if 2 ^ 128 \<le> v then Inl (Undefined ''float conversion'') else Inr (if q < 0 then - v else v))"

definition strip_zeros :: "string \<Rightarrow> string" where
  "strip_zeros s = rev (dropWhile (\<lambda>c. c = CHR ''0'') (rev s))"

definition with_fraction :: "string \<Rightarrow> string \<Rightarrow> string" where
  "with_fraction whole fr = (let f = strip_zeros fr in if f = '''' then whole else whole @ ''.'' @ f)"

definition float_digits :: "rat \<Rightarrow> string \<times> int" where
  "float_digits a =
     (let e = exponent_of 10 a; m = round_even (a / rpow 10 (e - 5))
      in if m = 1000000 then (''100000'', e + 1) else (nat_string (nat m), e))"

definition float_text :: "rat \<Rightarrow> string" where
  "float_text q =
     (if q = 0 then ''0''
      else
        case float_digits \<bar>q\<bar> of (ds, e) \<Rightarrow>
          (if q < 0 then ''-'' else '''')
          @ (if -4 \<le> e \<and> e < 6
             then (if 0 \<le> e then with_fraction (take (nat e + 1) ds) (drop (nat e + 1) ds)
                   else with_fraction ''0'' (replicate (nat (- e - 1)) (CHR ''0'') @ ds))
             else with_fraction (take 1 ds) (drop 1 ds) @ ''e'' @ (if e < 0 then ''-'' else ''+'')
                  @ (if \<bar>e\<bar> < 10 then ''0'' else '''') @ nat_string (nat \<bar>e\<bar>)))"

section \<open>Media sections\<close>

record MediaSection =
  is_answer :: bool
  mediaObject :: obj

definition GetMid :: "MediaSection \<Rightarrow> string result" where
  "GetMid m = rbind (at_const (JObj (mediaObject m)) ''mid'') get_string"

definition ms_IsClosed :: "MediaSection \<Rightarrow> bool result" where
  "ms_IsClosed m = rbind (at_const (JObj (mediaObject m)) ''port'') (\<lambda>p. Inr (json_eq p (JInt 0)))"

definition GetObject :: "MediaSection \<Rightarrow> json" where
  "GetObject m = JObj (mediaObject m)"

definition SetIceParameters :: "json \<Rightarrow> MediaSection \<Rightarrow> MediaSection result" where
  "SetIceParameters iceParameters m =
     rbind (at_const iceParameters ''usernameFragment'') (\<lambda>u. rbind (at_const iceParameters ''password'') (\<lambda>p.
       Inr (m\<lparr>mediaObject := put_all [(''iceUfrag'', u), (''icePwd'', p)] (mediaObject m)\<rparr>)))"

definition ms_Disable :: "MediaSection \<Rightarrow> MediaSection" where
  "ms_Disable m = m\<lparr>mediaObject := erase_all [''ext'', ''ssrcs'', ''ssrcGroups'', ''simulcast'', ''rids'']
     (put_all [(''direction'', JStr ''inactive'')] (mediaObject m))\<rparr>"

definition ms_Close :: "MediaSection \<Rightarrow> MediaSection" where
  "ms_Close m = m\<lparr>mediaObject := erase_all [''ext'', ''ssrcs'', ''ssrcGroups'', ''simulcast'', ''rids'', ''extmapAllowMixed'']
     (put_all [(''direction'', JStr ''inactive''), (''port'', JInt 0)] (mediaObject m))\<rparr>"

definition setup_of :: "string \<Rightarrow> obj" where
  "setup_of role =
     (if role = ''client'' then [(''setup'', JStr ''active'')]
      else if role = ''server'' then [(''setup'', JStr ''passive'')]
      else if role = ''auto'' then [(''setup'', JStr ''actpass'')]
      else [])"

text \<open>\<open>SetDtlsRole\<close> of an answer and of an offer.\<close>

definition SetDtlsRole :: "string \<Rightarrow> MediaSection \<Rightarrow> MediaSection" where
  "SetDtlsRole role m =
     m\<lparr>mediaObject := put_all (if is_answer m then setup_of role else [(''setup'', JStr ''actpass'')]) (mediaObject m)\<rparr>"

definition candidate_object :: "json \<Rightarrow> json result" where
  "candidate_object candidate =
     rbind (at_const candidate ''foundation'') (\<lambda>foundation. rbind (at_const candidate ''ip'') (\<lambda>ip.
     rbind (at_const candidate ''port'') (\<lambda>port. rbind (at_const candidate ''priority'') (\<lambda>priority.
     rbind (at_const candidate ''protocol'') (\<lambda>protocol. rbind (at_const candidate ''type'') (\<lambda>type.
       Inr (JObj (put_all ([(''component'', JInt 1), (''foundation'', foundation), (''ip'', ip), (''port'', port),
          (''priority'', priority), (''transport'', protocol), (''type'', type)]
          @ (case jfind candidate ''tcpType'' of Some t \<Rightarrow> [(''tcptype'', t)] | None \<Rightarrow> [])) []))))))))"

definition mk_MediaSection :: "bool \<Rightarrow> json \<Rightarrow> json \<Rightarrow> MediaSection result" where
  "mk_MediaSection answer iceParameters iceCandidates =
     rbind (SetIceParameters iceParameters \<lparr>is_answer = answer, mediaObject = []\<rparr>) (\<lambda>m.
     rbind (mapM candidate_object (elems iceCandidates)) (\<lambda>cs.
       Inr (m\<lparr>mediaObject := put_all [(''candidates'', JArr cs), (''endOfCandidates'', JStr ''end-of-candidates''),
         (''iceOptions'', JStr ''renomination'')] (mediaObject m)\<rparr>)))"

section \<open>The lines of a media section\<close>

text \<open>The code replaces the pattern \<open>^(audio|video)/\<close>, in any case, by nothing.\<close>

definition getCodecName :: "json \<Rightarrow> string result" where
  "getCodecName codec =
     rbind (at_const codec ''mimeType'') (\<lambda>v. rbind (get_string v) (\<lambda>mimeType.
       Inr (if to_lower (take 6 mimeType) \<in> {''audio/'', ''video/''} then drop 6 mimeType else mimeType)))"

definition rtp_line :: "(json \<Rightarrow> string \<Rightarrow> json result) \<Rightarrow> json \<Rightarrow> json result" where
  "rtp_line get codec =
     rbind (get codec ''payloadType'') (\<lambda>payload. rbind (getCodecName codec) (\<lambda>name.
     rbind (get codec ''clockRate'') (\<lambda>rate.
     rbind (case jfind codec ''channels'' of
              None \<Rightarrow> Inr []
            | Some v \<Rightarrow> rbind (get_u8 v) (\<lambda>channels. Inr (if 1 < channels then [(''encoding'', JUInt (ucast channels))] else []))) (\<lambda>encoding.
       Inr (JObj (put_all ([(''payload'', payload), (''codec'', JStr name), (''rate'', rate)] @ encoding) []))))))"

text \<open>\<open>items()\<close> of a value: the members of an object, or the elements of an array under their index.\<close>

fun items :: "json \<Rightarrow> obj" where
  "items (JObj ps) = ps"
| "items (JArr xs) = zip (map nat_string [0..<length xs]) xs"
| "items JNull = []"
| "items j = [([], j)]"

fun config_value :: "(u64 \<Rightarrow> int) \<Rightarrow> json \<Rightarrow> string result" where
  "config_value num (JStr s) = Inr s"
| "config_value num (JFloat q) = rbind (to_float q) (\<lambda>v. Inr (float_text v))"
| "config_value num (JInt n) = Inr (int_string (num n))"
| "config_value num (JUInt n) = Inr (int_string (num n))"
| "config_value num _ = Inr []"

fun join :: "string \<Rightarrow> string list \<Rightarrow> string" where
  "join sep [] = []"
| "join sep [s] = s"
| "join sep (s # ss) = s @ sep @ join sep ss"

text \<open>The \<open>key=value\<close> pairs of a codec; \<open>num\<close> is the conversion of an integer to the type it is written
  with.\<close>

definition config_text :: "(u64 \<Rightarrow> int) \<Rightarrow> json \<Rightarrow> string result" where
  "config_text num codecParameters =
     rbind (mapM (\<lambda>(k, v). rbind (config_value num v) (\<lambda>t. Inr (k @ ''='' @ t))) (items codecParameters)) (\<lambda>ts. Inr (join '';'' ts))"

definition fmtp_lines :: "(json \<Rightarrow> string \<Rightarrow> json result) \<Rightarrow> json \<Rightarrow> json \<Rightarrow> json list result" where
  "fmtp_lines get codec codecParameters =
     rbind (get codec ''payloadType'') (\<lambda>payload. rbind (config_text sint codecParameters) (\<lambda>config.
       Inr (if config = [] then [] else [mk_obj [(''payload'', payload), (''config'', JStr config)]])))"

definition feedback_lines :: "(json \<Rightarrow> string \<Rightarrow> json result) \<Rightarrow> json \<Rightarrow> json list result" where
  "feedback_lines get codec =
     rbind (get codec ''rtcpFeedback'') (\<lambda>fbs.
       mapM (\<lambda>fb. rbind (get codec ''payloadType'') (\<lambda>payload. rbind (get fb ''type'') (\<lambda>type.
              rbind (get fb ''parameter'') (\<lambda>parameter.
                Inr (mk_obj [(''payload'', payload), (''type'', type), (''subtype'', parameter)]))))) (elems fbs))"

definition payloads_text :: "(json \<Rightarrow> string \<Rightarrow> json result) \<Rightarrow> json list \<Rightarrow> string result" where
  "payloads_text get codecs =
     rbind (mapM (\<lambda>codec. rbind (get codec ''payloadType'') (\<lambda>v. rbind (get_u8 v) (\<lambda>p. Inr (nat_string (unat p))))) codecs)
       (\<lambda>ts. Inr (join '' '' ts))"

definition ext_line :: "(json \<Rightarrow> string \<Rightarrow> json result) \<Rightarrow> json \<Rightarrow> json result" where
  "ext_line get ext =
     rbind (get ext ''uri'') (\<lambda>uri. rbind (get ext ''id'') (\<lambda>i. Inr (mk_obj [(''uri'', uri), (''value'', i)])))"

definition application_lines :: "json \<Rightarrow> obj result" where
  "application_lines sctpParameters =
     rbind (at_const sctpParameters ''port'') (\<lambda>port. rbind (at_const sctpParameters ''maxMessageSize'') (\<lambda>size.
       Inr [(''payloads'', JStr ''webrtc-datachannel''), (''sctpPort'', port), (''maxMessageSize'', size)]))"

definition connection_line :: json where
  "connection_line = mk_obj [(''ip'', JStr ''127.0.0.1''), (''version'', JInt 4)]"

section \<open>Answers\<close>

text \<open>The search for the codec of the offer with the given payload type; reading the payload type of an
  offered codec inserts it when it is absent.\<close>

fun find_offer :: "json \<Rightarrow> json list \<Rightarrow> (nat option \<times> json list) result" where
  "find_offer payload [] = Inr (None, [])"
| "find_offer payload (c # cs) =
     rbind (at_mut c ''payloadType'') (\<lambda>(c', p).
       if json_eq p payload then Inr (Some 0, c' # cs)
       else rbind (find_offer payload cs) (\<lambda>(i, cs'). Inr (map_option Suc i, c' # cs')))"

fun set_elems :: "json \<Rightarrow> json list \<Rightarrow> json" where
  "set_elems (JArr _) ys = JArr ys"
| "set_elems (JObj ps) ys = JObj (zip (map fst ps) ys)"
| "set_elems j ys = j"

text \<open>A boolean option of the application, such as \<open>opusStereo\<close>: it is written to the parameters of the
  offered codec and to those of the answer.\<close>

definition flag_option :: "json \<Rightarrow> string \<times> string \<times> string \<Rightarrow> json \<times> json \<Rightarrow> (json \<times> json) result" where
  "flag_option codecOptions ks s =
     (case (ks, s) of ((opt, offerKey, key), (offerCodec, codecParameters)) \<Rightarrow>
        case jfind codecOptions opt of
          None \<Rightarrow> Inr (offerCodec, codecParameters)
        | Some v \<Rightarrow>
            rbind (get_bool v) (\<lambda>b.
            rbind (at_mut offerCodec ''parameters'') (\<lambda>(offerCodec1, ps).
            rbind (set_key ps offerKey (JInt (if b then 1 else 0))) (\<lambda>ps'.
            rbind (set_key offerCodec1 ''parameters'' ps') (\<lambda>offerCodec2.
            rbind (set_key codecParameters key (JInt (if b then 1 else 0))) (\<lambda>codecParameters'.
              Inr (offerCodec2, codecParameters')))))))"

definition number_option :: "json \<Rightarrow> string \<times> string \<Rightarrow> json \<Rightarrow> json result" where
  "number_option codecOptions ks codecParameters =
     (case ks of (opt, key) \<Rightarrow>
        case jfind codecOptions opt of
          None \<Rightarrow> Inr codecParameters
        | Some v \<Rightarrow> rbind (get_u32 v) (\<lambda>n. set_key codecParameters key (JUInt (ucast n))))"

definition codec_options :: "json \<Rightarrow> string \<Rightarrow> json \<times> json \<Rightarrow> (json \<times> json) result" where
  "codec_options codecOptions mimeType s =
     (if mimeType = ''audio/opus''
      then
        rbind (foldM (flag_option codecOptions)
                 [(''opusStereo'', ''sprop-stereo'', ''stereo''), (''opusFec'', ''useinbandfec'', ''useinbandfec''),
                  (''opusDtx'', ''usedtx'', ''usedtx''), (''opusCbr'', ''cbr'', ''cbr'')] s) (\<lambda>(offerCodec, ps).
        rbind (foldM (number_option codecOptions)
                 [(''opusMaxPlaybackRate'', ''maxplaybackrate''), (''opusMaxAverageBitrate'', ''maxaveragebitrate''),
                  (''opusPtime'', ''ptime'')] ps) (\<lambda>ps'. Inr (offerCodec, ps')))
      else if mimeType \<in> {''video/vp8'', ''video/vp9'', ''video/h264'', ''video/h265''}
      then
        (case s of (offerCodec, ps) \<Rightarrow>
          rbind (foldM (number_option codecOptions)
                   [(''videoGoogleStartBitrate'', ''x-google-start-bitrate''), (''videoGoogleMaxBitrate'', ''x-google-max-bitrate''),
                    (''videoGoogleMinBitrate'', ''x-google-min-bitrate'')] ps) (\<lambda>ps'. Inr (offerCodec, ps')))
      else Inr s)"

text \<open>The options applied to one codec of the answer, with the parameters of the answer and the offered
  RTP parameters they change.\<close>

definition apply_codec_options :: "json option \<Rightarrow> json \<Rightarrow> json \<Rightarrow> json \<Rightarrow> (json \<times> json) result" where
  "apply_codec_options codecOptions codec codecParameters offerRtpParameters =
     (case codecOptions of
        None \<Rightarrow> Inr (codecParameters, offerRtpParameters)
      | Some opts \<Rightarrow>
          if jempty opts then Inr (codecParameters, offerRtpParameters)
          else
            rbind (at_mut offerRtpParameters ''codecs'') (\<lambda>(offer1, offerCodecs).
            rbind (read_mut codec ''payloadType'') (\<lambda>payload.
            rbind (find_offer payload (elems offerCodecs)) (\<lambda>(i, cs).
            case i of
              None \<Rightarrow> Inl (Undefined ''end iterator'')
            | Some n \<Rightarrow>
                rbind (read_mut codec ''mimeType'') (\<lambda>v. rbind (get_string v) (\<lambda>mimeType.
                rbind (codec_options opts (to_lower mimeType) (cs ! n, codecParameters)) (\<lambda>(offerCodec, ps).
                rbind (set_key offer1 ''codecs'' (set_elems offerCodecs (cs[n := offerCodec]))) (\<lambda>offer2.
                  Inr (ps, offer2)))))))))"

definition answer_codec :: "json option \<Rightarrow> json \<Rightarrow> (json list \<times> json list \<times> json list) \<times> json
    \<Rightarrow> ((json list \<times> json list \<times> json list) \<times> json) result" where
  "answer_codec codecOptions codec s =
     (case s of ((rtp, fmtp, rtcpFb), offerRtpParameters) \<Rightarrow>
        rbind (rtp_line read_mut codec) (\<lambda>r.
        rbind (read_mut codec ''parameters'') (\<lambda>codecParameters.
        rbind (apply_codec_options codecOptions codec codecParameters offerRtpParameters) (\<lambda>(ps, offer').
        rbind (fmtp_lines read_mut codec ps) (\<lambda>f.
        rbind (feedback_lines read_mut codec) (\<lambda>fbs.
          Inr ((rtp @ [r], fmtp @ f, rtcpFb @ fbs), offer')))))))"

text \<open>A header extension of the answer is kept when the offer has its URI.\<close>

definition answer_ext :: "json \<Rightarrow> json \<Rightarrow> json list result" where
  "answer_ext offerMediaObject ext =
     rbind (at_const offerMediaObject ''ext'') (\<lambda>localExts.
     rbind (find_at (\<lambda>l. rbind (at_const l ''uri'') (\<lambda>u. rbind (read_mut ext ''uri'') (\<lambda>v. Inr (json_eq u v)))) (elems localExts)) (\<lambda>i.
       case i of None \<Rightarrow> Inr [] | Some _ \<Rightarrow> rbind (ext_line read_mut ext) (\<lambda>l. Inr [l])))"

definition answer_simulcast :: "json \<Rightarrow> obj result" where
  "answer_simulcast offerMediaObject =
     (case jfind offerMediaObject ''simulcast'' of
        None \<Rightarrow> Inr []
      | Some sim \<Rightarrow>
          if \<not> is_object sim then Inr []
          else
            rbind (deref_find offerMediaObject ''rids'') (\<lambda>rids.
            if \<not> is_array rids then Inr []
            else
              rbind (at_const sim ''list1'') (\<lambda>list1.
              rbind (mapM (\<lambda>rid. rbind (at_const rid ''direction'') (\<lambda>d.
                       if \<not> json_eq d (JStr ''send'') then Inr []
                       else rbind (at_const rid ''id'') (\<lambda>i. Inr [mk_obj [(''id'', i), (''direction'', JStr ''recv'')]])))
                     (elems rids)) (\<lambda>rs.
                Inr [(''simulcast'', mk_obj [(''dir1'', JStr ''recv''), (''list1'', list1)]), (''rids'', JArr (concat rs))]))))"

text \<open>The members of a media section in the order they are assigned.\<close>

definition answer_members :: "json list \<times> json list \<times> json list \<Rightarrow> string \<Rightarrow> json list \<Rightarrow> json option \<Rightarrow> obj \<Rightarrow> obj" where
  "answer_members lines payloads ext mixed simulcast =
     (case lines of (rtp, fmtp, rtcpFb) \<Rightarrow>
        [(''direction'', JStr ''recvonly''), (''rtp'', JArr rtp), (''rtcpFb'', JArr rtcpFb), (''fmtp'', JArr fmtp),
         (''payloads'', JStr payloads), (''ext'', JArr ext)]
        @ (case mixed of
             None \<Rightarrow> []
           | Some v \<Rightarrow> if is_string v then [(''extmapAllowMixed'', JStr ''extmap-allow-mixed'')] else [])
        @ simulcast @ [(''rtcpMux'', JStr ''rtcp-mux''), (''rtcpRsize'', JStr ''rtcp-rsize'')])"

definition answer_media :: "json \<Rightarrow> json \<Rightarrow> json \<Rightarrow> json option \<Rightarrow> (obj \<times> json) result" where
  "answer_media offerMediaObject offerRtpParameters answerRtpParameters codecOptions =
     rbind (read_mut answerRtpParameters ''codecs'') (\<lambda>codecs.
     rbind (foldM (answer_codec codecOptions) (elems codecs) (([], [], []), offerRtpParameters)) (\<lambda>(lines, offer').
     rbind (payloads_text read_mut (elems codecs)) (\<lambda>payloads.
     rbind (read_mut answerRtpParameters ''headerExtensions'') (\<lambda>exts.
     rbind (mapM (answer_ext offerMediaObject) (elems exts)) (\<lambda>es.
     rbind (answer_simulcast offerMediaObject) (\<lambda>sim.
       Inr (answer_members lines payloads (concat es) (jfind offerMediaObject ''extmapAllowMixed'') sim, offer')))))))"

definition answer_lines :: "string \<Rightarrow> json \<Rightarrow> json \<Rightarrow> json \<Rightarrow> json \<Rightarrow> json option \<Rightarrow> (obj \<times> json) result" where
  "answer_lines type sctpParameters offerMediaObject offerRtpParameters answerRtpParameters codecOptions =
     (if type = ''audio'' \<or> type = ''video''
      then answer_media offerMediaObject offerRtpParameters answerRtpParameters codecOptions
      else if type = ''application''
      then rbind (application_lines sctpParameters) (\<lambda>kvs. Inr (kvs, offerRtpParameters))
      else Inr ([], offerRtpParameters))"

definition mk_AnswerMediaSection :: "json \<Rightarrow> json \<Rightarrow> json \<Rightarrow> json \<Rightarrow> json \<Rightarrow> json \<Rightarrow> json \<Rightarrow> json option
    \<Rightarrow> (MediaSection \<times> json) result" where
  "mk_AnswerMediaSection iceParameters iceCandidates dtlsParameters sctpParameters offerMediaObject offerRtpParameters
       answerRtpParameters codecOptions =
     rbind (mk_MediaSection True iceParameters iceCandidates) (\<lambda>m.
     rbind (at_const offerMediaObject ''type'') (\<lambda>v. rbind (get_string v) (\<lambda>type.
     rbind (at_const offerMediaObject ''mid'') (\<lambda>mid.
     rbind (at_const offerMediaObject ''protocol'') (\<lambda>protocol.
     rbind (at_const dtlsParameters ''role'') (\<lambda>r. rbind (get_string r) (\<lambda>dtlsRole.
     rbind (answer_lines type sctpParameters offerMediaObject offerRtpParameters answerRtpParameters codecOptions) (\<lambda>(kvs, offer').
       Inr (m\<lparr>mediaObject := put_all ([(''mid'', mid), (''type'', JStr type), (''protocol'', protocol),
              (''connection'', connection_line), (''port'', JInt 7)] @ setup_of dtlsRole @ kvs) (mediaObject m)\<rparr>, offer')))))))))"

section \<open>Offers\<close>

definition offer_codec :: "json \<Rightarrow> json list \<times> json list \<times> json list \<Rightarrow> (json list \<times> json list \<times> json list) result" where
  "offer_codec codec s =
     (case s of (rtp, fmtp, rtcpFb) \<Rightarrow>
        rbind (rtp_line at_const codec) (\<lambda>r.
        rbind (at_const codec ''parameters'') (\<lambda>codecParameters.
        rbind (fmtp_lines at_const codec codecParameters) (\<lambda>f.
        rbind (feedback_lines at_const codec) (\<lambda>fbs.
          Inr (rtp @ [r], fmtp @ f, rtcpFb @ fbs))))))"

text \<open>\<open>j[0]\<close> on a const value.\<close>

fun first_const :: "json \<Rightarrow> json result" where
  "first_const (JArr (x # _)) = Inr x"
| "first_const (JArr []) = Inl (Undefined ''const operator[]'')"
| "first_const _ = Inl (JsonTypeError 305)"

definition offer_rtx_ssrc :: "json \<Rightarrow> u32 result" where
  "offer_rtx_ssrc encoding =
     (case jfind encoding ''rtx'' of
        None \<Rightarrow> Inr 0
      | Some rtx \<Rightarrow> (case jfind rtx ''ssrc'' of None \<Rightarrow> Inr 0 | Some v \<Rightarrow> get_u32 v))"

definition ssrc_line :: "u32 \<Rightarrow> string \<Rightarrow> string \<Rightarrow> json" where
  "ssrc_line ssrc attribute val = mk_obj [(''id'', JUInt (ucast ssrc)), (''attribute'', JStr attribute), (''value'', JStr val)]"

text \<open>The \<open>ssrcs\<close> and \<open>ssrcGroups\<close> of an offer: none without a canonical name, and those of the
  retransmission stream with its group when it has an SSRC.\<close>

definition offer_ssrcs :: "u32 \<Rightarrow> u32 \<Rightarrow> json option \<Rightarrow> string \<Rightarrow> json list \<times> json list" where
  "offer_ssrcs ssrc rtxSsrc cname msid =
     (case cname of
        Some (JStr c) \<Rightarrow>
          ([ssrc_line ssrc ''cname'' c, ssrc_line ssrc ''msid'' msid]
             @ (if rtxSsrc \<noteq> 0 then [ssrc_line rtxSsrc ''cname'' c, ssrc_line rtxSsrc ''msid'' msid] else []),
           if rtxSsrc \<noteq> 0
           then [mk_obj [(''semantics'', JStr ''FID''),
                         (''ssrcs'', JStr (nat_string (unat ssrc) @ '' '' @ nat_string (unat rtxSsrc)))]]
           else [])
      | _ \<Rightarrow> ([], []))"

definition offer_members :: "json list \<times> json list \<times> json list \<Rightarrow> string \<Rightarrow> json list \<Rightarrow> json list \<times> json list \<Rightarrow> obj" where
  "offer_members lines payloads ext ssrcs =
     (case lines of (rtp, fmtp, rtcpFb) \<Rightarrow>
        [(''direction'', JStr ''sendonly''), (''rtp'', JArr rtp), (''rtcpFb'', JArr rtcpFb), (''fmtp'', JArr fmtp),
         (''payloads'', JStr payloads), (''ext'', JArr ext), (''rtcpMux'', JStr ''rtcp-mux''),
         (''rtcpRsize'', JStr ''rtcp-rsize''), (''ssrcs'', JArr (fst ssrcs)), (''ssrcGroups'', JArr (snd ssrcs))])"

definition offer_media :: "json \<Rightarrow> string \<Rightarrow> string \<Rightarrow> obj result" where
  "offer_media offerRtpParameters streamId trackId =
     rbind (at_const offerRtpParameters ''codecs'') (\<lambda>codecs.
     rbind (foldM offer_codec (elems codecs) ([], [], [])) (\<lambda>lines.
     rbind (payloads_text at_const (elems codecs)) (\<lambda>payloads.
     rbind (at_const offerRtpParameters ''headerExtensions'') (\<lambda>exts.
     rbind (mapM (ext_line at_const) (elems exts)) (\<lambda>es.
     rbind (at_const offerRtpParameters ''encodings'') (\<lambda>encodings.
     rbind (first_const encodings) (\<lambda>encoding.
     rbind (at_const encoding ''ssrc'') (\<lambda>v. rbind (get_u32 v) (\<lambda>ssrc.
     rbind (offer_rtx_ssrc encoding) (\<lambda>rtxSsrc.
     rbind (at_const offerRtpParameters ''rtcp'') (\<lambda>rtcp.
       Inr (offer_members lines payloads es
         (offer_ssrcs ssrc rtxSsrc (jfind rtcp ''cname'') (streamId @ '' '' @ trackId))))))))))))))"

definition offer_lines :: "string \<Rightarrow> json \<Rightarrow> json \<Rightarrow> string \<Rightarrow> string \<Rightarrow> obj result" where
  "offer_lines kind sctpParameters offerRtpParameters streamId trackId =
     (if kind = ''audio'' \<or> kind = ''video'' then offer_media offerRtpParameters streamId trackId
      else if kind = ''application'' then application_lines sctpParameters
      else Inr [])"

definition mk_OfferMediaSection :: "json \<Rightarrow> json \<Rightarrow> json \<Rightarrow> string \<Rightarrow> string \<Rightarrow> json \<Rightarrow> string \<Rightarrow> string \<Rightarrow> MediaSection result" where
  "mk_OfferMediaSection iceParameters iceCandidates sctpParameters mid kind offerRtpParameters streamId trackId =
     rbind (mk_MediaSection False iceParameters iceCandidates) (\<lambda>m.
     rbind (offer_lines kind sctpParameters offerRtpParameters streamId trackId) (\<lambda>kvs.
       Inr (m\<lparr>mediaObject := put_all ([(''mid'', JStr mid), (''type'', JStr kind),
              (''protocol'', JStr (if json_eq sctpParameters JNull then ''UDP/TLS/RTP/SAVPF'' else ''UDP/DTLS/SCTP'')),
              (''connection'', connection_line), (''port'', JInt 7), (''setup'', JStr ''actpass'')] @ kvs) (mediaObject m)\<rparr>)))"

section \<open>What a section keeps\<close>

text \<open>Every operation on a section leaves its mid alone, and only closing it touches its port.\<close>

definition has_mid :: "MediaSection \<Rightarrow> string \<Rightarrow> bool" where
  "has_mid m s = (obj_get ''mid'' (mediaObject m) = Some (JStr s))"

definition has_port :: "MediaSection \<Rightarrow> 64 word \<Rightarrow> bool" where
  "has_port m p = (obj_get ''port'' (mediaObject m) = Some (JInt p))"

lemma GetMid_has: "has_mid m s \<Longrightarrow> GetMid m = Inr s"
  by (simp add: has_mid_def GetMid_def)

lemma IsClosed_has: "has_port m p \<Longrightarrow> ms_IsClosed m = Inr (p = 0)"
  by (simp add: has_port_def ms_IsClosed_def)

named_theorems section_keeps

lemma SetIceParameters_keeps [section_keeps]:
  "SetIceParameters ice m = Inr m' \<Longrightarrow> has_mid m' = has_mid m \<and> has_port m' = has_port m"
  by (auto simp: SetIceParameters_def has_mid_def has_port_def fun_eq_iff obj_get_put_all res_simps)

lemma SetDtlsRole_keeps [section_keeps]:
  "has_mid (SetDtlsRole role m) = has_mid m" "has_port (SetDtlsRole role m) = has_port m"
  by (auto simp: SetDtlsRole_def setup_of_def has_mid_def has_port_def fun_eq_iff obj_get_put_all)

lemma Disable_keeps [section_keeps]:
  "has_mid (ms_Disable m) = has_mid m" "has_port (ms_Disable m) = has_port m"
  by (auto simp: ms_Disable_def has_mid_def has_port_def fun_eq_iff obj_get_put_all obj_get_erase_all)

lemma Close_keeps [section_keeps]:
  "has_mid (ms_Close m) = has_mid m" "has_port (ms_Close m) 0"
  by (auto simp: ms_Close_def has_mid_def has_port_def fun_eq_iff obj_get_put_all obj_get_erase_all)

text \<open>A closed section is as good as disabled.\<close>

lemma Disable_Close: "obj_get k (mediaObject (ms_Close (ms_Disable m))) = obj_get k (mediaObject (ms_Close m))"
  by (simp add: ms_Disable_def ms_Close_def obj_get_put_all obj_get_erase_all)

text \<open>The members a section is given besides its mid and port.\<close>

lemma application_keys: "application_lines sctp = Inr kvs \<Longrightarrow> fst ` set kvs \<subseteq> {''payloads'', ''sctpPort'', ''maxMessageSize''}"
  by (auto simp: application_lines_def res_simps)

lemma simulcast_keys: "answer_simulcast o' = Inr kvs \<Longrightarrow> fst ` set kvs \<subseteq> {''simulcast'', ''rids''}"
  by (auto simp: answer_simulcast_def res_simps split: option.splits if_splits)

definition other_members :: "obj \<Rightarrow> bool" where
  "other_members kvs = (''mid'' \<notin> fst ` set kvs \<and> ''port'' \<notin> fst ` set kvs)"

lemma other_append: "other_members (xs @ ys) \<longleftrightarrow> other_members xs \<and> other_members ys"
  by (auto simp: other_members_def)

lemma setup_other: "other_members (setup_of role)"
  by (auto simp: setup_of_def other_members_def)

lemma answer_members_other: "answer_simulcast o' = Inr sim \<Longrightarrow> other_members (answer_members ls ps es mixed sim)"
  using simulcast_keys [of o' sim] unfolding answer_members_def other_append
  by (cases ls) (auto simp: other_members_def split: option.splits)

lemma answer_lines_other:
  assumes "answer_lines type sctp o' p a opts = Inr (kvs, p')"
  shows "other_members kvs"
proof (cases "type = ''audio'' \<or> type = ''video''")
  case True
  then obtain sim ls ps es where "answer_simulcast o' = Inr sim" "kvs = answer_members ls ps es (jfind o' ''extmapAllowMixed'') sim"
    using assms by (auto simp: answer_lines_def answer_media_def rbind_Inr_iff)
  then show ?thesis by (simp add: answer_members_other)
next
  case False
  then show ?thesis using assms application_keys [of sctp kvs] 
    by (auto simp: answer_lines_def other_members_def rbind_Inr_iff split: if_splits)
qed

lemma offer_members_other: "other_members (offer_members ls ps es ss)"
  by (cases ls) (simp add: offer_members_def other_members_def)

lemma offer_lines_other:
  assumes "offer_lines kind sctp p s t = Inr kvs"
  shows "other_members kvs"
proof (cases "kind = ''audio'' \<or> kind = ''video''")
  case True
  then show ?thesis
    using assms by (auto simp: offer_lines_def offer_media_def rbind_Inr_iff offer_members_other)
next
  case False
  then show ?thesis using assms application_keys [of sctp kvs] 
    by (auto simp: offer_lines_def other_members_def split: if_splits)
qed

lemma obj_get_put_all_absent: "k \<notin> fst ` set kvs \<Longrightarrow> obj_get k (put_all (kvs0 @ kvs) m) = obj_get k (put_all kvs0 m)"
  by (simp add: put_all_def) (use obj_get_put_all [of k kvs, unfolded put_all_def] in \<open>auto simp: map_of_eq_None_iff [THEN iffD2]\<close>)

lemma has_put_all:
  assumes "other_members kvs" "obj_get ''mid'' (put_all base m) = Some (JStr s)" "obj_get ''port'' (put_all base m) = Some (JInt p)"
    and "mediaObject x = put_all (base @ kvs) m"
  shows "has_mid x s" "has_port x p"
  using assms by (simp_all add: has_mid_def has_port_def other_members_def obj_get_put_all_absent)

lemma mk_Answer_has:
  assumes "mk_AnswerMediaSection ice cs dtls sctp o' p a opts = Inr (m, p')" and "jfind o' ''mid'' = Some (JStr s)"
  shows "has_mid m s" "has_port m 7"
proof -
  have mid: "at_const o' ''mid'' = Inr (JStr s)" using assms(2) by (cases o') simp_all
  obtain m0 kvs type protocol role where "answer_lines type sctp o' p a opts = Inr (kvs, p')"
    and m: "mediaObject m = put_all ([(''mid'', JStr s), (''type'', JStr type),
      (''protocol'', protocol), (''connection'', connection_line), (''port'', JInt 7)] @ (setup_of role @ kvs)) m0"
    using assms(1) by (auto simp: mk_AnswerMediaSection_def mid rbind_Inr_iff)
  then have "other_members (setup_of role @ kvs)" by (simp add: other_append setup_other answer_lines_other)
  from has_put_all [OF this _ _ m] show "has_mid m s" "has_port m 7" by (simp_all add: obj_get_put_all)
qed

lemma mk_Offer_has:
  assumes "mk_OfferMediaSection ice cs sctp s kind p sid tid = Inr m"
  shows "has_mid m s" "has_port m 7"
proof -
  obtain m0 kvs protocol where "offer_lines kind sctp p sid tid = Inr kvs"
    and m: "mediaObject m = put_all ([(''mid'', JStr s), (''type'', JStr kind),
      (''protocol'', protocol), (''connection'', connection_line), (''port'', JInt 7), (''setup'', JStr ''actpass'')] @ kvs) m0"
    using assms by (auto simp: mk_OfferMediaSection_def rbind_Inr_iff)
  then have "other_members kvs" by (simp add: offer_lines_other)
  from has_put_all [OF this _ _ m] show "has_mid m s" "has_port m 7" by (simp_all add: obj_get_put_all)
qed

end
