(* ===== verification/Sdp_Utils.thy ===== *)
theory Sdp_Utils
  imports Media_Section
begin

text \<open>
  \<^verbatim>\<open>sdp/Utils.cpp\<close>: what the handlers read from the local session description and write into it.  The
  descriptions are the JSON objects that \<open>sdptransform::parse\<close> gives; the parser of codec parameters,
  \<open>sdptransform::parseParams\<close>, is the argument \<open>parse\<close>.
\<close>

section \<open>Strings\<close>

text \<open>\<open>Utils::split\<close>: the pieces that \<open>std::getline\<close> reads; nothing follows a delimiter at the end.\<close>

function split :: "char \<Rightarrow> string \<Rightarrow> string list" where
  "split d s =
     (if s = [] then []
      else takeWhile (\<lambda>c. c \<noteq> d) s # split d (tl (dropWhile (\<lambda>c. c \<noteq> d) s)))"
  by pat_completeness auto
termination
proof (relation "measure (\<lambda>(d, s). length s)")
  fix d :: char and s :: string
  assume "s \<noteq> []"
  then have "0 < length s" by simp
  with length_dropWhile_le [of "\<lambda>c. c \<noteq> d" s] have "length (tl (dropWhile (\<lambda>c. c \<noteq> d) s)) < length s"
    unfolding length_tl by linarith
  then show "((d, tl (dropWhile (\<lambda>c. c \<noteq> d) s)), d, s) \<in> measure (\<lambda>(d, s). length s)" by simp
qed simp

declare split.simps [simp del]

definition vec_at :: "'a list \<Rightarrow> nat \<Rightarrow> 'a result" where
  "vec_at xs i = (if i < length xs then Inr (xs ! i) else Inl (Undefined ''operator[]''))"

definition is_digit :: "char \<Rightarrow> bool" where
  "is_digit c = (48 \<le> (of_char c :: nat) \<and> (of_char c :: nat) \<le> 57)"

definition is_space :: "char \<Rightarrow> bool" where
  "is_space c = ((of_char c :: nat) \<in> {9, 10, 11, 12, 13, 32})"

definition digits_value :: "string \<Rightarrow> nat" where
  "digits_value ds = fold (\<lambda>c n. 10 * n + (of_char c - 48)) ds 0"

text \<open>\<open>std::stoi\<close> and \<open>std::stoull\<close>: blanks, a sign and digits; what follows is ignored.\<close>

definition sign_digits :: "string \<Rightarrow> bool \<times> string" where
  "sign_digits s =
     (let t = dropWhile is_space s
      in (take 1 t = ''-'', takeWhile is_digit (if take 1 t \<in> {''-'', ''+''} then drop 1 t else t)))"

definition stoi :: "string \<Rightarrow> i32 result" where
  "stoi s =
     (case sign_digits s of (neg, ds) \<Rightarrow>
        let v = (if neg then - int (digits_value ds) else int (digits_value ds))
        in if ds = [] then Inl (StdException ''invalid_argument'')
           else if v < - (2 ^ 31) \<or> 2 ^ 31 \<le> v then Inl (StdException ''out_of_range'')
           else Inr (word_of_int v))"

definition stoull :: "string \<Rightarrow> u64 result" where
  "stoull s =
     (case sign_digits s of (neg, ds) \<Rightarrow>
        if ds = [] then Inl (StdException ''invalid_argument'')
        else if 2 ^ 64 \<le> digits_value ds then Inl (StdException ''out_of_range'')
        else Inr (if neg then - of_nat (digits_value ds) else of_nat (digits_value ds)))"

section \<open>Capabilities\<close>

definition string_at :: "json \<Rightarrow> string \<Rightarrow> string result" where
  "string_at j k = rbind (at_const j k) get_string"

type_synonym codecs_map = "u8 \<rightharpoonup> json"

definition rtp_channels :: "string \<Rightarrow> json \<Rightarrow> obj result" where
  "rtp_channels kind rtp =
     (if kind \<noteq> ''audio'' then Inr []
      else
        (case jfind rtp ''encoding'' of
           Some (JStr s) \<Rightarrow> rbind (stoi s) (\<lambda>n. Inr [(''channels'', JInt (scast n))])
         | _ \<Rightarrow> Inr [(''channels'', JInt 1)]))"

definition rtp_codec :: "string \<Rightarrow> json \<Rightarrow> codecs_map \<Rightarrow> codecs_map result" where
  "rtp_codec kind rtp cm =
     rbind (string_at rtp ''codec'') (\<lambda>name. rbind (at_const rtp ''payload'') (\<lambda>payload. rbind (at_const rtp ''rate'') (\<lambda>rate.
     rbind (rtp_channels kind rtp) (\<lambda>channels. rbind (get_u8 payload) (\<lambda>p.
       Inr (cm(p \<mapsto> JObj (put_all ([(''kind'', JStr kind), (''mimeType'', JStr (kind @ ''/'' @ name)), (''preferredPayloadType'', payload),
         (''clockRate'', rate), (''parameters'', JObj []), (''rtcpFeedback'', JArr [])] @ channels) []))))))))"

definition fmtp_codec :: "(string \<Rightarrow> json result) \<Rightarrow> json \<Rightarrow> codecs_map \<Rightarrow> codecs_map result" where
  "fmtp_codec parse fmtp cm =
     rbind (string_at fmtp ''config'') (\<lambda>config. rbind (parse config) (\<lambda>parameters.
     rbind (at_const fmtp ''payload'') (\<lambda>v. rbind (get_u8 v) (\<lambda>p.
       case cm p of
         None \<Rightarrow> Inr cm
       | Some codec \<Rightarrow>
           rbind (case jfind parameters ''profile-id'' of
                    Some (JStr s) \<Rightarrow> rbind (stoi s) (\<lambda>n. set_key parameters ''profile-id'' (JInt (scast n)))
                  | _ \<Rightarrow> Inr parameters) (\<lambda>parameters'.
           rbind (set_key codec ''parameters'' parameters') (\<lambda>codec'. Inr (cm(p \<mapsto> codec'))))))))"

definition fb_codec :: "json \<Rightarrow> codecs_map \<Rightarrow> codecs_map result" where
  "fb_codec fb cm =
     rbind (string_at fb ''payload'') (\<lambda>s. rbind (stoi s) (\<lambda>n.
       case cm (ucast n) of
         None \<Rightarrow> Inr cm
       | Some codec \<Rightarrow>
           rbind (at_const fb ''type'') (\<lambda>type.
           rbind (at_mut codec ''rtcpFeedback'') (\<lambda>(codec1, fbs).
           rbind (push_back fbs (mk_obj ([(''type'', type)] @ (case jfind fb ''subtype'' of Some v \<Rightarrow> [(''parameter'', v)] | None \<Rightarrow> [])))) (\<lambda>fbs'.
           rbind (set_key codec1 ''rtcpFeedback'' fbs') (\<lambda>codec'. Inr (cm(ucast n \<mapsto> codec'))))))))"

definition ext_capability :: "string \<Rightarrow> json \<Rightarrow> json result" where
  "ext_capability kind ext =
     rbind (at_const ext ''uri'') (\<lambda>uri. rbind (at_const ext ''value'') (\<lambda>v.
       Inr (mk_obj [(''kind'', JStr kind), (''uri'', uri), (''preferredId'', v)])))"

definition media_capabilities :: "(string \<Rightarrow> json result) \<Rightarrow> string \<Rightarrow> json \<Rightarrow> codecs_map \<times> json list \<Rightarrow> (codecs_map \<times> json list) result" where
  "media_capabilities parse kind m s =
     (case s of (cm, exts) \<Rightarrow>
        rbind (at_const m ''rtp'') (\<lambda>rtps. rbind (foldM (rtp_codec kind) (elems rtps) cm) (\<lambda>cm1.
        rbind (at_const m ''fmtp'') (\<lambda>fmtps. rbind (foldM (fmtp_codec parse) (elems fmtps) cm1) (\<lambda>cm2.
        rbind (at_const m ''rtcpFb'') (\<lambda>fbs. rbind (foldM fb_codec (elems fbs) cm2) (\<lambda>cm3.
        rbind (at_const m ''ext'') (\<lambda>es. rbind (mapM (ext_capability kind) (elems es)) (\<lambda>es'.
          Inr (cm3, exts @ es'))))))))))"

text \<open>Only the first section of each kind is read.\<close>

definition media_step :: "(string \<Rightarrow> json result) \<Rightarrow> json \<Rightarrow> string set \<times> codecs_map \<times> json list \<Rightarrow> (string set \<times> codecs_map \<times> json list) result" where
  "media_step parse m s =
     (case s of (got, acc) \<Rightarrow>
        rbind (string_at m ''type'') (\<lambda>kind.
          if kind \<notin> {''audio'', ''video''} \<or> kind \<in> got then Inr s
          else rbind (media_capabilities parse kind m acc) (\<lambda>acc'. Inr (insert kind got, acc'))))"

definition extractRtpCapabilities :: "(string \<Rightarrow> json result) \<Rightarrow> json \<Rightarrow> json result" where
  "extractRtpCapabilities parse sdp =
     rbind (at_const sdp ''media'') (\<lambda>media.
     rbind (foldM (media_step parse) (elems media) ({}, Map.empty, [])) (\<lambda>(_, cm, exts).
       Inr (mk_obj [(''headerExtensions'', JArr exts),
         (''codecs'', JArr (List.map_filter (\<lambda>i. cm (of_nat i)) [0..<256])), (''fecMechanisms'', JArr [])])))"

section \<open>DTLS parameters\<close>

fun active_media :: "json list \<Rightarrow> json result" where
  "active_media [] = Inr JNull"
| "active_media (m # ms) =
     (if contains m ''iceUfrag''
      then rbind (at_const m ''port'') (\<lambda>p. if \<not> json_eq p (JInt 0) then Inr m else active_media ms)
      else active_media ms)"

definition dtls_role :: "string \<Rightarrow> string" where
  "dtls_role setup =
     (if setup = ''active'' then ''client'' else if setup = ''passive'' then ''server'' else if setup = ''actpass'' then ''auto'' else '''')"

definition extractDtlsParameters :: "json \<Rightarrow> json result" where
  "extractDtlsParameters sdp =
     rbind (at_const sdp ''media'') (\<lambda>media. rbind (active_media (elems media)) (\<lambda>m.
     rbind (case jfind m ''setup'' of None \<Rightarrow> Inr '''' | Some v \<Rightarrow> rbind (get_string v) (\<lambda>s. Inr (dtls_role s))) (\<lambda>role.
     let fingerprint = (case jfind m ''fingerprint'' of
                          Some f \<Rightarrow> f
                        | None \<Rightarrow> (case jfind sdp ''fingerprint'' of Some f \<Rightarrow> f | None \<Rightarrow> JNull))
     in rbind (read_mut fingerprint ''type'') (\<lambda>a. rbind (read_mut fingerprint ''hash'') (\<lambda>h.
          Inr (mk_obj [(''role'', JStr role), (''fingerprints'', JArr [mk_obj [(''algorithm'', a), (''value'', h)]])]))))))"

section \<open>Streams\<close>

definition attribute_is :: "(string \<Rightarrow> bool) \<Rightarrow> json \<Rightarrow> bool" where
  "attribute_is p line = (case jfind line ''attribute'' of Some (JStr s) \<Rightarrow> p s | _ \<Rightarrow> False)"

definition getCname :: "json \<Rightarrow> string result" where
  "getCname offerMediaObject =
     (case jfind offerMediaObject ''ssrcs'' of
        None \<Rightarrow> Inr ''''
      | Some ssrcs \<Rightarrow>
          (case find_if (attribute_is (\<lambda>_. True)) (elems ssrcs) of
             None \<Rightarrow> Inr ''''
           | Some line \<Rightarrow> string_at line ''value''))"

text \<open>A line that associates two streams.\<close>

definition fid_line :: "json \<Rightarrow> u32 list \<times> (u32 \<rightharpoonup> u32) \<Rightarrow> (u32 list \<times> (u32 \<rightharpoonup> u32)) result" where
  "fid_line line s =
     (case s of (ssrcs, rtx) \<Rightarrow>
        rbind (string_at line ''semantics'') (\<lambda>sem.
          if sem \<noteq> ''FID'' then Inr s
          else
            rbind (string_at line ''ssrcs'') (\<lambda>t. let v = split (CHR '' '') t in
            rbind (vec_at v 0) (\<lambda>a. rbind (stoull a) (\<lambda>ssrc. rbind (vec_at v 1) (\<lambda>b. rbind (stoull b) (\<lambda>rtxSsrc.
              Inr (filter (\<lambda>x. x \<noteq> ucast rtxSsrc) ssrcs, rtx(ucast ssrc \<mapsto> ucast rtxSsrc))))))))) "

definition encoding_of :: "(u32 \<rightharpoonup> u32) \<Rightarrow> u32 \<Rightarrow> json" where
  "encoding_of rtx ssrc =
     mk_obj ([(''ssrc'', JUInt (ucast ssrc))]
       @ (case rtx ssrc of Some r \<Rightarrow> [(''rtx'', mk_obj [(''ssrc'', JUInt (ucast r))])] | None \<Rightarrow> []))"

definition getRtpEncodings :: "json \<Rightarrow> json result" where
  "getRtpEncodings offerMediaObject =
     rbind (at_const offerMediaObject ''ssrcs'') (\<lambda>lines.
     rbind (mapM (\<lambda>line. rbind (at_const line ''id'') get_u32) (elems lines)) (\<lambda>ids.
       if ids = [] then Inl (MscError ''no a=ssrc lines found'')
       else
         rbind (foldM fid_line (case jfind offerMediaObject ''ssrcGroups'' of Some gs \<Rightarrow> elems gs | None \<Rightarrow> []) (remdups_adj ids, Map.empty))
           (\<lambda>(ssrcs, rtx). Inr (JArr (map (encoding_of rtx) ssrcs)))))"

text \<open>The RTX stream of the first group whose first stream is the given one.\<close>

fun rtx_of :: "u32 \<Rightarrow> json list \<Rightarrow> u32 result" where
  "rtx_of firstSsrc [] = Inr 0"
| "rtx_of firstSsrc (line # lines) =
     (case (jfind line ''semantics'', jfind line ''ssrcs'') of
        (Some (JStr _), Some (JStr t)) \<Rightarrow>
          (let v = split (CHR '' '') t in
           rbind (vec_at v 0) (\<lambda>a. rbind (stoull a) (\<lambda>n.
             if n = ucast firstSsrc then rbind (vec_at v 1) (\<lambda>b. rbind (stoull b) (\<lambda>r. Inr (ucast r)))
             else rtx_of firstSsrc lines)))
      | _ \<Rightarrow> rtx_of firstSsrc lines)"

definition numeric_id :: "json \<Rightarrow> bool" where
  "numeric_id line = (case jfind line ''id'' of Some v \<Rightarrow> is_number v | None \<Rightarrow> False)"

definition group_line :: "string \<Rightarrow> u32 list \<Rightarrow> json" where
  "group_line semantics ssrcs =
     mk_obj [(''semantics'', JStr semantics), (''ssrcs'', JStr (join '' '' (map (\<lambda>s. nat_string (unat s)) ssrcs)))]"

definition stream_lines :: "string \<Rightarrow> string \<Rightarrow> u32 \<Rightarrow> json list" where
  "stream_lines cname msid ssrc = [ssrc_line ssrc ''cname'' cname, ssrc_line ssrc ''msid'' msid]"

definition addLegacySimulcast :: "json \<Rightarrow> u8 \<Rightarrow> json result" where
  "addLegacySimulcast offerMediaObject numStreams =
     (if numStreams \<le> 1 then Inr offerMediaObject
      else
        rbind (at_mut offerMediaObject ''ssrcs'') (\<lambda>(m1, mSsrcs).
        case find_if (attribute_is (\<lambda>s. s = ''msid'')) (elems mSsrcs) of
          None \<Rightarrow> Inl (MscError ''a=ssrc line with msid information not found'')
        | Some msidLine \<Rightarrow>
            rbind (read_mut msidLine ''value'') (\<lambda>v. rbind (get_string v) (\<lambda>t.
            let ids = split (CHR '' '') t in
            rbind (vec_at ids 0) (\<lambda>streamId. rbind (vec_at ids 1) (\<lambda>trackId.
            rbind (read_mut msidLine ''id'') (\<lambda>i. rbind (get_u32 i) (\<lambda>firstSsrc.
            rbind (rtx_of firstSsrc (case jfind m1 ''ssrcGroups'' of Some gs \<Rightarrow> elems gs | None \<Rightarrow> [])) (\<lambda>firstRtxSsrc.
            case find_if (\<lambda>l. attribute_is (\<lambda>s. s = ''cname'') l \<and> numeric_id l) (elems mSsrcs) of
              None \<Rightarrow> Inl (MscError ''CNAME line not found'')
            | Some cnameLine \<Rightarrow>
                rbind (read_mut cnameLine ''value'') (\<lambda>c. rbind (get_string c) (\<lambda>cname.
                let n = unat numStreams;
                    ssrcs = map (\<lambda>k. firstSsrc + of_nat k) [0..<n];
                    rtxSsrcs = (if firstRtxSsrc \<noteq> 0 then map (\<lambda>k. firstRtxSsrc + of_nat k) [0..<n] else []);
                    msid = streamId @ '' '' @ trackId
                in rbind (set_key m1 ''ssrcGroups''
                           (JArr (group_line ''SIM'' ssrcs # map (\<lambda>(s, r). group_line ''FID'' [s, r]) (zip ssrcs rtxSsrcs)))) (\<lambda>m2.
                   set_key m2 ''ssrcs'' (JArr (concat (map (stream_lines cname msid) (ssrcs @ rtxSsrcs))))))))))))))))"

section \<open>Codec parameters of an answer\<close>

definition stereo_parameter :: "json \<Rightarrow> json \<Rightarrow> json result" where
  "stereo_parameter codecParameters parameters =
     (case jfind codecParameters ''sprop-stereo'' of
        Some (JBool b) \<Rightarrow> set_key parameters ''stereo'' (JInt (if b then 1 else 0))
      | _ \<Rightarrow> Inr parameters)"

definition same_payload :: "json \<Rightarrow> json \<Rightarrow> bool result" where
  "same_payload codec line =
     rbind (at_const line ''payload'') (\<lambda>a. rbind (at_const codec ''payloadType'') (\<lambda>b. Inr (json_eq a b)))"

text \<open>The index of the \<open>fmtp\<close> line of a codec and all lines, with a new line at the end where there is none.\<close>

definition fmtp_of :: "json \<Rightarrow> json \<Rightarrow> (nat \<times> json) result" where
  "fmtp_of codec fmtps =
     rbind (find_at (same_payload codec) (elems fmtps)) (\<lambda>i.
       case i of
         Some n \<Rightarrow> Inr (n, fmtps)
       | None \<Rightarrow>
           rbind (at_const codec ''payloadType'') (\<lambda>p.
           rbind (push_back fmtps (mk_obj [(''payload'', p), (''config'', JStr '''')])) (\<lambda>fmtps'. Inr (jsize fmtps' - 1, fmtps'))))"

text \<open>The configuration of an \<open>fmtp\<close> line with the stereo parameter of the offered codec.\<close>

definition stereo_config :: "(string \<Rightarrow> json result) \<Rightarrow> json \<Rightarrow> string \<Rightarrow> string result" where
  "stereo_config parse codec config =
     rbind (parse config) (\<lambda>parameters. rbind (at_const codec ''parameters'') (\<lambda>ps.
     rbind (stereo_parameter ps parameters) (config_text (\<lambda>w. sint (ucast w :: i32)))))"

definition apply_opus :: "(string \<Rightarrow> json result) \<Rightarrow> json \<Rightarrow> json \<Rightarrow> json result" where
  "apply_opus parse codec answer =
     rbind (at_mut answer ''rtp'') (\<lambda>(a1, rtps).
     rbind (find_at (same_payload codec) (elems rtps)) (\<lambda>i.
       case i of
         None \<Rightarrow> Inr a1
       | Some _ \<Rightarrow>
           rbind (fmtp_of codec (case jfind a1 ''fmtp'' of Some f \<Rightarrow> f | None \<Rightarrow> JArr [])) (\<lambda>(n, fmtps).
           rbind (at_mut (elems fmtps ! n) ''config'') (\<lambda>(fmtp, c). rbind (get_string c) (\<lambda>config.
           rbind (stereo_config parse codec config) (\<lambda>text.
           rbind (set_key fmtp ''config'' (JStr text)) (\<lambda>fmtp'.
             set_key a1 ''fmtp'' (set_elems fmtps ((elems fmtps)[n := fmtp'])))))))))"

definition apply_codec :: "(string \<Rightarrow> json result) \<Rightarrow> json \<Rightarrow> json \<Rightarrow> json result" where
  "apply_codec parse codec answer =
     rbind (string_at codec ''mimeType'') (\<lambda>mimeType.
       if to_lower mimeType \<noteq> ''audio/opus'' then Inr answer else apply_opus parse codec answer)"

definition applyCodecParameters :: "(string \<Rightarrow> json result) \<Rightarrow> json \<Rightarrow> json \<Rightarrow> json result" where
  "applyCodecParameters parse offerRtpParameters answerMediaObject =
     rbind (at_const offerRtpParameters ''codecs'') (\<lambda>codecs. foldM (apply_codec parse) (elems codecs) answerMediaObject)"

end
