(* ===== verification/Sdp_Contract.thy ===== *)
theory Sdp_Contract
  imports Sdp_Utils Ortc_Contract
begin

text \<open>
  What the readers and writers of session descriptions guarantee: decimal numbers and group lines are
  read back as they were written, the streams added for legacy simulcast are found again as encodings,
  the capabilities of the platform pass validation, and the stereo parameter of a validated offer is
  never applied.
\<close>

section \<open>Decimal numbers\<close>

lemma digit_char: "d < 10 \<Longrightarrow> (of_char (char_of (48 + d) :: char) :: nat) = 48 + d"
  by (simp add: of_char_of)

lemma is_digit_char: "(d :: nat) < 10 \<Longrightarrow> is_digit (char_of (48 + d))"
  by (simp add: is_digit_def digit_char)

lemma nat_string_digits: "list_all is_digit (nat_string n)"
proof (induction n rule: nat_string.induct)
  case (1 n)
  then show ?case by (subst nat_string.simps) (auto simp: is_digit_char)
qed

lemma nat_string_nonempty: "nat_string n \<noteq> []"
  by (subst nat_string.simps) simp

lemma nat_string_value: "digits_value (nat_string n) = n"
proof (induction n rule: nat_string.induct)
  case (1 n)
  have snoc: "digits_value (ds @ [c]) = 10 * digits_value ds + (of_char c - 48)" for ds c by (simp add: digits_value_def)
  show ?case
  proof (cases "n < 10")
    case True
    then show ?thesis by (subst nat_string.simps) (simp add: digits_value_def digit_char)
  next
    case False
    with 1 show ?thesis by (subst nat_string.simps) (simp add: snoc digit_char)
  qed
qed

lemma digit_not:
  assumes "is_digit c"
  shows "\<not> is_space c" "c \<noteq> CHR ''-''" "c \<noteq> CHR ''+''" "c \<noteq> CHR '' ''"
  using assms by (auto simp: is_digit_def is_space_def)

lemma sign_digits_nat: "sign_digits (nat_string n) = (False, nat_string n)"
proof -
  obtain c cs where c: "nat_string n = c # cs" using nat_string_nonempty by (cases "nat_string n") auto
  then have "is_digit c" "list_all is_digit cs" using nat_string_digits [of n] by auto
  then show ?thesis
    by (simp add: sign_digits_def c digit_not takeWhile_eq_all_conv list_all_iff)
qed

lemma stoull_nat: "n < 2 ^ 64 \<Longrightarrow> stoull (nat_string n) = Inr (of_nat n)"
  by (simp add: stoull_def sign_digits_nat nat_string_value nat_string_nonempty)

lemma stoull_u32: "stoull (nat_string (unat (s :: u32))) = Inr (ucast s)"
proof -
  have "unat s < 2 ^ 64" using unsigned_less [of s, where ?'a = nat] by (simp add: less_trans)
  then show ?thesis by (simp add: stoull_nat)
qed

lemma split_Nil: "split d [] = []"
  by (subst split.simps) simp

lemma split_blank: "CHR '' '' \<notin> set s \<Longrightarrow> s \<noteq> [] \<Longrightarrow> split (CHR '' '') s = [s]"
proof -
  assume s: "CHR '' '' \<notin> set s" "s \<noteq> []"
  then have t: "takeWhile (\<lambda>c. c \<noteq> CHR '' '') s = s" "dropWhile (\<lambda>c. c \<noteq> CHR '' '') s = []" by auto
  show ?thesis unfolding split.simps [of _ s] t using s(2) by (simp add: split_Nil)
qed

lemma split_two:
  assumes "CHR '' '' \<notin> set s" "CHR '' '' \<notin> set t" "s \<noteq> []" "t \<noteq> []"
  shows "split (CHR '' '') (s @ '' '' @ t) = [s, t]"
proof -
  have t: "takeWhile (\<lambda>c. c \<noteq> CHR '' '') (s @ '' '' @ t) = s" "dropWhile (\<lambda>c. c \<noteq> CHR '' '') (s @ '' '' @ t) = '' '' @ t"
    using assms(1) by (auto simp: takeWhile_append dropWhile_append)
  show ?thesis unfolding split.simps [of _ "s @ '' '' @ t"] t using assms split_blank [of t] by simp
qed

lemma nat_string_blank: "CHR '' '' \<notin> set (nat_string n)"
  using nat_string_digits [of n] digit_not(4) by (auto simp: list_all_iff)

lemma split_streams: "split (CHR '' '') (nat_string m @ '' '' @ nat_string n) = [nat_string m, nat_string n]"
  by (rule split_two) (simp_all add: nat_string_blank nat_string_nonempty)

section \<open>Streams\<close>

lemma ucast_up_down [simp]: "(ucast (ucast (w :: u32) :: u64) :: u32) = w"
  by (rule bit_word_eqI) (simp add: bit_unsigned_iff)

lemma fid_line_read:
  "fid_line (group_line ''FID'' [s, r]) (xs, m) = Inr (filter (\<lambda>x. x \<noteq> r) xs, m(s \<mapsto> r))"
  using split_streams [of "unat s" "unat r"]
  by (simp add: fid_line_def group_line_def string_at_def mk_obj_def obj_get_Cons obj_get_Nil vec_at_def stoull_u32)

lemma sim_line_read: "fid_line (group_line ''SIM'' ss) s = Inr s"
  by (cases s) (simp add: fid_line_def group_line_def string_at_def mk_obj_def obj_get_Cons obj_get_Nil)

lemma fid_lines_read:
  "foldM fid_line (map (\<lambda>(s, r). group_line ''FID'' [s, r]) ps) (xs, m) = Inr (filter (\<lambda>x. x \<notin> snd ` set ps) xs, m ++ map_of (rev ps))"
proof (induction ps arbitrary: xs m)
  case (Cons p ps)
  then show ?case by (cases p) (auto simp: fid_line_read map_add_def fun_eq_iff filter_filter intro!: filter_cong split: option.splits)
qed simp

lemma stream_ids: "mapM (\<lambda>line. rbind (at_const line ''id'') get_u32) (concat (map (stream_lines cname msid) ss)) = Inr (concat (map (\<lambda>s. [s, s]) ss))"
  by (induction ss) (simp_all add: stream_lines_def ssrc_line_def mk_obj_def obj_get_Cons obj_get_Nil)

lemma remdups_pairs: "remdups_adj (concat (map (\<lambda>s. [s, s]) ss)) = remdups_adj ss"
  by (induction ss rule: remdups_adj.induct) auto

lemma remdups_distinct: "distinct xs \<Longrightarrow> remdups_adj xs = xs"
  by (induction xs rule: remdups_adj.induct) auto

lemma encodings_of_streams:
  assumes "jfind m ''ssrcs'' = Some (JArr (concat (map (stream_lines cname msid) (ss @ rs))))"
    and "jfind m ''ssrcGroups'' = Some (JArr (group_line ''SIM'' ss # map (\<lambda>(s, r). group_line ''FID'' [s, r]) (zip ss rs)))"
    and "distinct (ss @ rs)" "ss \<noteq> []" "rs = [] \<or> length rs = length ss"
  shows "getRtpEncodings m = Inr (JArr (map (encoding_of (map_of (zip ss rs))) ss))"
proof -
  have lines: "at_const m ''ssrcs'' = Inr (JArr (concat (map (stream_lines cname msid) (ss @ rs))))"
    using assms(1) by (cases m) simp_all
  have rtx: "snd ` set (zip ss rs) = set rs" using assms(5) by (force simp: set_zip set_conv_nth)
  have keep: "filter (\<lambda>x. x \<notin> set rs) (ss @ rs) = ss" using assms(3) by (auto simp: filter_id_conv filter_empty_conv)
  have "distinct (map fst (zip ss rs))" using assms(3) by (simp add: map_fst_zip_take)
  then have "map_of (rev (zip ss rs)) = map_of (zip ss rs)" by (intro map_of_eqI) (auto simp: rev_map [symmetric] map_of_eq_Some_iff)
  moreover have "\<exists>x. x \<in> set ss \<or> x \<in> set rs" using assms(4) by (cases ss) auto
  ultimately show ?thesis
    using assms(2-4) lines by (simp add: getRtpEncodings_def stream_ids remdups_pairs remdups_distinct sim_line_read fid_lines_read rtx keep
        del: map_append concat_append filter_append)
qed

lemma addLegacySimulcast_writes:
  assumes "addLegacySimulcast m n = Inr m'" "1 < n" "jfind m ''ssrcs'' = Some lines"
    and "find_if (attribute_is (\<lambda>s. s = ''msid'')) (elems lines) = Some line" "rbind (read_mut line ''id'') get_u32 = Inr s"
    and "rtx_of s (case jfind m ''ssrcGroups'' of Some gs \<Rightarrow> elems gs | None \<Rightarrow> []) = Inr r"
  defines "ss \<equiv> map (\<lambda>k. s + of_nat k) [0..<unat n]" and "rs \<equiv> (if r \<noteq> 0 then map (\<lambda>k. r + of_nat k) [0..<unat n] else [])"
  obtains cname msid where "jfind m' ''ssrcs'' = Some (JArr (concat (map (stream_lines cname msid) (ss @ rs))))"
    "jfind m' ''ssrcGroups'' = Some (JArr (group_line ''SIM'' ss # map (\<lambda>(s, r). group_line ''FID'' [s, r]) (zip ss rs)))"
proof -
  obtain ob where m: "m = JObj ob" "obj_get ''ssrcs'' ob = Some lines" using assms(3) by (cases m) simp_all
  obtain i where i: "read_mut line ''id'' = Inr i" "get_u32 i = Inr s" using assms(5) by (auto simp: rbind_Inr_iff)
  have "\<not> n \<le> 1" using assms(2) by simp
  then obtain cname msid where "m' = JObj (obj_set ''ssrcs'' (JArr (concat (map (stream_lines cname msid) (ss @ rs))))
      (obj_set ''ssrcGroups'' (JArr (group_line ''SIM'' ss # map (\<lambda>(s, r). group_line ''FID'' [s, r]) (zip ss rs))) ob))"
    using assms(1,4,6) i unfolding ss_def rs_def
    by (auto simp: addLegacySimulcast_def m Let_def rbind_Inr_iff split: option.splits)
  then show thesis by (intro that) (simp_all add: obj_get_set)
qed

lemma offset_inj: "i < 256 \<Longrightarrow> j < 256 \<Longrightarrow> (s :: u32) + of_nat i = s + of_nat j \<Longrightarrow> i = j"
  by (simp add: of_nat_inverse word_of_nat_eq_iff take_bit_nat_eq_self)

lemma offsets_distinct: "distinct (map (\<lambda>k. (s :: u32) + of_nat k) [0..<unat (n :: u8)])"
proof -
  have "unat n < 256" using unsigned_less [of n, where ?'a = nat] by simp
  then show ?thesis using offset_inj [of _ _ s] by (auto simp: distinct_map inj_on_def)
qed

lemma rtx_of_group: "rtx_of s (group_line sem [s, r] # ls) = Inr r"
  using split_streams [of "unat s" "unat r"]
  by (simp add: group_line_def mk_obj_def obj_get_Cons obj_get_Nil vec_at_def stoull_u32)

section \<open>Properties\<close>

text \<open>C10. The streams that legacy simulcast adds to an offer are read back from it as encodings: one for
  each spatial layer, in order, with consecutive SSRCs from the one the offer had, and with consecutive RTX
  SSRCs where the offer had a retransmission stream, as long as the two ranges do not meet.\<close>

theorem legacy_simulcast_encodings:
  assumes "addLegacySimulcast m n = Inr m'" "1 < n" "jfind m ''ssrcs'' = Some lines"
    and "find_if (attribute_is (\<lambda>s. s = ''msid'')) (elems lines) = Some line" "rbind (read_mut line ''id'') get_u32 = Inr s"
    and "rtx_of s (case jfind m ''ssrcGroups'' of Some gs \<Rightarrow> elems gs | None \<Rightarrow> []) = Inr r"
    and "r \<noteq> 0 \<longrightarrow> (\<forall>i < unat n. \<forall>j < unat n. s + of_nat i \<noteq> r + of_nat j)"
  shows "getRtpEncodings m' = Inr (JArr (map (\<lambda>k. mk_obj ((''ssrc'', JUInt (ucast (s + of_nat k)))
           # (if r = 0 then [] else [(''rtx'', mk_obj [(''ssrc'', JUInt (ucast (r + of_nat k)))])]))) [0..<unat n]))"
proof -
  define ss where "ss = map (\<lambda>k. s + of_nat k) [0..<unat n]"
  define rs where "rs = (if r \<noteq> 0 then map (\<lambda>k. r + of_nat k) [0..<unat n] else [])"
  have dist: "distinct (ss @ rs)" using assms(7) offsets_distinct [of s n] offsets_distinct [of r n] by (auto simp: ss_def rs_def)
  have "0 < unat n" using assms(2) by (auto simp: unat_gt_0)
  then have len: "ss \<noteq> []" "rs = [] \<or> length rs = length ss" by (simp_all add: ss_def rs_def)
  obtain cname msid where "jfind m' ''ssrcs'' = Some (JArr (concat (map (stream_lines cname msid) (ss @ rs))))"
    "jfind m' ''ssrcGroups'' = Some (JArr (group_line ''SIM'' ss # map (\<lambda>(s, r). group_line ''FID'' [s, r]) (zip ss rs)))"
    by (rule addLegacySimulcast_writes [OF assms(1-6), folded ss_def rs_def])
  from encodings_of_streams [OF this dist len] have "getRtpEncodings m' = Inr (JArr (map (encoding_of (map_of (zip ss rs))) ss))" .
  moreover have "map_of (zip ss rs) (s + of_nat k) = (if r = 0 then None else Some (r + of_nat k))" if "k < unat n" for k
    using that dist map_of_zip_nth [of ss rs k] by (auto simp: ss_def rs_def)
  then have "map (encoding_of (map_of (zip ss rs))) ss = map (\<lambda>k. mk_obj ((''ssrc'', JUInt (ucast (s + of_nat k)))
           # (if r = 0 then [] else [(''rtx'', mk_obj [(''ssrc'', JUInt (ucast (r + of_nat k)))])]))) [0..<unat n]"
    unfolding ss_def by (auto simp: encoding_of_def)
  ultimately show ?thesis by simp
qed

definition sample_media :: json where
  "sample_media = JObj [(''ssrcGroups'', JArr [group_line ''FID'' [100, 200]]),
     (''ssrcs'', JArr (stream_lines ''c'' ''s t'' 100 @ stream_lines ''c'' ''s t'' 200))]"

theorem legacy_simulcast_encodings_witness:
  "\<exists>m'. addLegacySimulcast sample_media 2 = Inr m'
     \<and> getRtpEncodings m' = Inr (JArr [mk_obj [(''ssrc'', JUInt 100), (''rtx'', mk_obj [(''ssrc'', JUInt 200)])],
          mk_obj [(''ssrc'', JUInt 101), (''rtx'', mk_obj [(''ssrc'', JUInt 201)])]])"
proof -
  define lines where "lines = JArr (stream_lines ''c'' ''s t'' 100 @ stream_lines ''c'' ''s t'' 200)"
  define line where "line = ssrc_line 100 ''msid'' ''s t''"
  note evals = stream_lines_def ssrc_line_def mk_obj_def obj_get_Cons obj_get_Nil attribute_is_def
  have l: "jfind sample_media ''ssrcs'' = Some lines" "find_if (attribute_is (\<lambda>s. s = ''msid'')) (elems lines) = Some line"
    "rbind (read_mut line ''id'') get_u32 = Inr 100"
    by (simp_all add: sample_media_def lines_def line_def evals)
  have r: "rtx_of 100 (case jfind sample_media ''ssrcGroups'' of Some gs \<Rightarrow> elems gs | None \<Rightarrow> []) = Inr 200"
    by (simp add: sample_media_def obj_get_Cons rtx_of_group del: rtx_of.simps)
  have ids: "split (CHR '' '') ''s t'' = [''s'', ''t'']" using split_two [of "''s''" "''t''"] by simp
  have "\<exists>m'. addLegacySimulcast sample_media 2 = Inr m'"
    by (simp add: addLegacySimulcast_def sample_media_def evals vec_at_def ids numeric_id_def is_number_def rtx_of_group Let_def del: rtx_of.simps)
  then obtain m' where m': "addLegacySimulcast sample_media 2 = Inr m'" by blast
  have d: "(200 :: u32) \<noteq> 0 \<longrightarrow> (\<forall>i < unat (2 :: u8). \<forall>j < unat (2 :: u8). (100 :: u32) + of_nat i \<noteq> 200 + of_nat j)"
    by (auto simp: less_2_cases_iff)
  show ?thesis using legacy_simulcast_encodings [OF m' _ l r d] m' by (simp add: upt_rec)
qed

section \<open>Stereo\<close>

text \<open>RTP parameters without the \<open>sprop-stereo\<close> parameter of their codecs.\<close>

definition without_stereo :: "json \<Rightarrow> json" where
  "without_stereo codec =
     (case codec of
        JObj ps \<Rightarrow> (case obj_get ''parameters'' ps of
                       Some (JObj qs) \<Rightarrow> JObj (obj_set ''parameters'' (JObj (obj_del ''sprop-stereo'' qs)) ps)
                     | _ \<Rightarrow> codec)
      | _ \<Rightarrow> codec)"

definition drop_stereo :: "json \<Rightarrow> json" where
  "drop_stereo params =
     (case params of
        JObj ps \<Rightarrow> (case obj_get ''codecs'' ps of Some (JArr cs) \<Rightarrow> JObj (obj_set ''codecs'' (JArr (map without_stereo cs)) ps) | _ \<Rightarrow> params)
      | _ \<Rightarrow> params)"

lemma without_stereo_same:
  assumes "codec_parameters_ok codec"
  shows "apply_codec parse (without_stereo codec) answer = apply_codec parse codec answer"
proof -
  obtain ps qs where c: "codec = JObj ps" "obj_get ''parameters'' ps = Some (JObj qs)" "list_all codec_parameter_ok qs"
    using assms by (auto simp: codec_parameters_ok_def codec_base_ok_def has_def split: json.splits option.splits elim!: obj_of.elims)
  have "obj_get ''sprop-stereo'' qs \<noteq> Some (JBool b)" for b
    using c(3) obj_get_set_mem [of "''sprop-stereo''" qs "JBool b"] by (fastforce simp: list_all_iff codec_parameter_ok_def is_number_def)
  then have "stereo_parameter (JObj qs) p = Inr p" "stereo_parameter (JObj (obj_del ''sprop-stereo'' qs)) p = Inr p" for p
    by (auto simp: stereo_parameter_def obj_get_del split: option.splits json.splits)
  moreover have "without_stereo codec = JObj (obj_set ''parameters'' (JObj (obj_del ''sprop-stereo'' qs)) ps)"
    by (simp add: without_stereo_def c)
  ultimately have config: "stereo_config parse (without_stereo codec) = stereo_config parse codec"
    and same: "same_payload (without_stereo codec) = same_payload codec"
      "at_const (without_stereo codec) ''payloadType'' = at_const codec ''payloadType''"
      "string_at (without_stereo codec) ''mimeType'' = string_at codec ''mimeType''"
    by (simp_all add: stereo_config_def same_payload_def string_at_def c obj_get_set fun_eq_iff)
  have fmtp: "fmtp_of (without_stereo codec) = fmtp_of codec" unfolding fun_eq_iff fmtp_of_def same by blast
  show ?thesis unfolding apply_codec_def apply_opus_def config same fmtp ..
qed

lemma foldM_map: "foldM f (map g xs) s = foldM (\<lambda>x. f (g x)) xs s"
  by (induction xs arbitrary: s) (auto intro: rbind_cong)

text \<open>C40. The stereo parameter of an offer is never applied to the answer: it would have to be a boolean, and
  validation, which every received offer has passed, admits only strings, numbers and null.\<close>

theorem stereo_never_applied:
  assumes "jwf params" "validateRtpParameters params = Inr params'"
  shows "applyCodecParameters parse params' answer = applyCodecParameters parse (drop_stereo params') answer"
proof -
  obtain ps cs where p: "params' = JObj ps" "obj_get ''codecs'' ps = Some (JArr cs)" "list_all codec_parameters_ok cs"
    using rtp_parameters.sound [OF assms] by (auto simp: rtp_parameters_ok_def has_def split: json.splits option.splits elim!: arr_of.elims)
  have "foldM (\<lambda>c. apply_codec parse (without_stereo c)) cs answer = foldM (apply_codec parse) cs answer"
    using p(3) by (intro foldM_cong) (auto simp: list_all_iff without_stereo_same)
  then show ?thesis by (simp add: applyCodecParameters_def drop_stereo_def p obj_get_set foldM_map)
qed

definition stereo_offer :: "json \<Rightarrow> json" where
  "stereo_offer v = JObj [(''codecs'', JArr [JObj [(''clockRate'', JUInt 48000), (''mimeType'', JStr ''audio/opus''),
     (''parameters'', JObj [(''sprop-stereo'', v)]), (''payloadType'', JUInt 100)]])]"

definition sample_answer :: json where
  "sample_answer = JObj [(''fmtp'', JArr [JObj [(''config'', JStr ''minptime=10''), (''payload'', JUInt 100)]]), (''rtp'', JArr [JObj [(''payload'', JUInt 100)]])]"

theorem stereo_never_applied_witness:
  "\<exists>params. validateRtpParameters (stereo_offer (JInt 1)) = Inr params \<and> drop_stereo params \<noteq> params
     \<and> applyCodecParameters (\<lambda>_. Inr (JObj [])) params sample_answer
         = applyCodecParameters (\<lambda>_. Inr (JObj [])) (drop_stereo params) sample_answer"
proof -
  have w: "jwf (stereo_offer (JInt 1))" by (simp add: stereo_offer_def obj_wf_def)
  have "case validateRtpParameters (stereo_offer (JInt 1)) of Inr p \<Rightarrow> drop_stereo p \<noteq> p | Inl _ \<Rightarrow> False" by code_simp
  then obtain params where v: "validateRtpParameters (stereo_offer (JInt 1)) = Inr params" "drop_stereo params \<noteq> params"
    by (auto split: sum.splits)
  show ?thesis using v stereo_never_applied [OF w v(1)] by blast
qed

end
