(* ===== verification/Native_Caps.thy ===== *)
theory Native_Caps
  imports Sdp_Contract
begin

text \<open>
  The RTP capabilities that are read from an offer of the platform: for a description whose audio and
  video sections have well-formed lines the extraction succeeds and its result passes the validation
  that loading a device performs.
\<close>

section \<open>Well-formed descriptions\<close>

definition readable_int :: "string \<Rightarrow> bool" where
  "readable_int s = (case stoi s of Inr _ \<Rightarrow> True | Inl _ \<Rightarrow> False)"

fun codec_name :: "json \<Rightarrow> bool" where
  "codec_name (JStr s) = (s \<noteq> [] \<and> list_all (\<lambda>c. of_char c \<noteq> (10 :: nat) \<and> of_char c \<noteq> (13 :: nat)) s)"
| "codec_name _ = False"

fun int_text :: "json \<Rightarrow> bool" where
  "int_text (JStr s) = readable_int s"
| "int_text _ = False"

definition rtp_wf :: "json \<Rightarrow> bool" where
  "rtp_wf r = (case r of JObj ps \<Rightarrow> has codec_name ''codec'' ps \<and> has is_number_integer ''payload'' ps
     \<and> has is_number_integer ''rate'' ps \<and> optional int_text ''encoding'' ps | _ \<Rightarrow> False)"

fun parameters_wf :: "json result \<Rightarrow> bool" where
  "parameters_wf (Inr (JObj qs)) = (list_all codec_parameter_ok qs \<and> optional (\<lambda>v. is_string v \<longrightarrow> int_text v) ''profile-id'' qs)"
| "parameters_wf _ = False"

fun config_wf :: "(string \<Rightarrow> json result) \<Rightarrow> json \<Rightarrow> bool" where
  "config_wf parse (JStr s) = parameters_wf (parse s)"
| "config_wf parse _ = False"

definition fmtp_wf :: "(string \<Rightarrow> json result) \<Rightarrow> json \<Rightarrow> bool" where
  "fmtp_wf parse f = (case f of JObj ps \<Rightarrow> has (config_wf parse) ''config'' ps \<and> has is_number_integer ''payload'' ps | _ \<Rightarrow> False)"

definition fb_wf :: "json \<Rightarrow> bool" where
  "fb_wf f = (case f of JObj ps \<Rightarrow> has int_text ''payload'' ps \<and> has is_string ''type'' ps | _ \<Rightarrow> False)"

definition ext_wf :: "json \<Rightarrow> bool" where
  "ext_wf e = (case e of JObj ps \<Rightarrow> has nonempty_string ''uri'' ps \<and> has is_number_integer ''value'' ps | _ \<Rightarrow> False)"

text \<open>Sections of other kinds are not looked at.\<close>

definition media_wf :: "(string \<Rightarrow> json result) \<Rightarrow> json \<Rightarrow> bool" where
  "media_wf parse m = (case m of JObj ps \<Rightarrow> has is_string ''type'' ps
     \<and> (has (\<lambda>v. v \<in> {JStr ''audio'', JStr ''video''}) ''type'' ps \<longrightarrow> has (arr_of rtp_wf) ''rtp'' ps
     \<and> has (arr_of (fmtp_wf parse)) ''fmtp'' ps \<and> has (arr_of fb_wf) ''rtcpFb'' ps \<and> has (arr_of ext_wf) ''ext'' ps) | _ \<Rightarrow> False)"

definition sdp_wf :: "(string \<Rightarrow> json result) \<Rightarrow> json \<Rightarrow> bool" where
  "sdp_wf parse sdp = (case sdp of JObj ps \<Rightarrow> has (arr_of (media_wf parse)) ''media'' ps | _ \<Rightarrow> False)"

section \<open>What is collected\<close>

definition typed_feedback :: "json \<Rightarrow> bool" where
  "typed_feedback f = (case f of JObj ps \<Rightarrow> has is_string ''type'' ps | _ \<Rightarrow> False)"

definition raw_codec_ok :: "json \<Rightarrow> bool" where
  "raw_codec_ok c = (case c of JObj ps \<Rightarrow>
     (\<exists>s k. obj_get ''mimeType'' ps = Some (JStr s) \<and> mime_kind s = Some k) \<and> has is_number_integer ''preferredPayloadType'' ps
     \<and> has is_number_integer ''clockRate'' ps \<and> has (obj_of codec_parameter_ok) ''parameters'' ps
     \<and> has (arr_of typed_feedback) ''rtcpFeedback'' ps | _ \<Rightarrow> False)"

definition raw_ext_ok :: "json \<Rightarrow> bool" where
  "raw_ext_ok e = (case e of JObj ps \<Rightarrow> obj_get ''kind'' ps \<in> {Some (JStr ''audio''), Some (JStr ''video'')}
     \<and> has nonempty_string ''uri'' ps \<and> has is_number_integer ''preferredId'' ps
     \<and> obj_get ''preferredEncrypt'' ps = None \<and> obj_get ''direction'' ps = None | _ \<Rightarrow> False)"

definition map_ok :: "codecs_map \<Rightarrow> bool" where
  "map_ok cm = (\<forall>p c. cm p = Some c \<longrightarrow> raw_codec_ok c)"

lemma mapM_ok: "(\<And>x. x \<in> set xs \<Longrightarrow> \<exists>y. f x = Inr y \<and> P y) \<Longrightarrow> \<exists>ys. mapM f xs = Inr ys \<and> list_all P ys"
  by (induction xs) fastforce+

lemma foldM_ok:
  assumes "P s" and "\<And>x s. x \<in> set xs \<Longrightarrow> P s \<Longrightarrow> \<exists>s'. f x s = Inr s' \<and> P s'"
  shows "\<exists>s'. foldM f xs s = Inr s' \<and> P s'"
  using assms
proof (induction xs arbitrary: s)
  case (Cons x xs)
  obtain s1 where "f x s = Inr s1" "P s1" using Cons.prems(2) [of x s] Cons.prems(1) by auto
  then show ?case using Cons.IH [of s1] Cons.prems(2) by auto
qed simp

lemma has_arr: "has (arr_of p) k ps \<Longrightarrow> \<exists>xs. obj_get k ps = Some (JArr xs) \<and> list_all p xs"
  by (auto simp: has_def split: option.splits elim: arr_of.elims)

lemma has_obj: "has (obj_of p) k ps \<Longrightarrow> \<exists>qs. obj_get k ps = Some (JObj qs) \<and> list_all p qs"
  by (auto simp: has_def split: option.splits elim: obj_of.elims)

lemma feedback_valid: "typed_feedback f \<Longrightarrow> \<exists>f'. validateRtcpFeedback f = Inr f' \<and> True"
  by (cases f) (simp_all add: typed_feedback_def validateRtcpFeedback_eq)

lemma raw_codec_valid:
  assumes "raw_codec_ok c"
  shows "\<exists>c'. validateRtpCodecCapability c = Inr c'"
proof -
  obtain ps s k where c: "c = JObj ps" "obj_get ''mimeType'' ps = Some (JStr s)" "mime_kind s = Some k"
    "has is_number_integer ''preferredPayloadType'' ps" "has is_number_integer ''clockRate'' ps"
    "has (obj_of codec_parameter_ok) ''parameters'' ps" "has (arr_of typed_feedback) ''rtcpFeedback'' ps"
    using assms by (auto simp: raw_codec_ok_def split: json.splits)
  define ps2 where "ps2 = (if k = ''audio'' then fill is_number_integer ''channels'' (JInt 1) (obj_set ''kind'' (JStr k) ps)
    else obj_del ''channels'' (obj_set ''kind'' (JStr k) ps))"
  have keep: "has (obj_of codec_parameter_ok) ''parameters'' ps2" "has (arr_of typed_feedback) ''rtcpFeedback'' ps2"
    using c(6,7) by (simp_all add: ps2_def has_fill has_del has_set)
  note objs = has_obj_object [OF keep(1)] has_arr_array [OF keep(2)]
  have "check_parameters check_codec_parameter ps2 = Inr ()"
    using check_parameters_ok [OF check_codec_parameter_iff objs(1)] keep(1) by simp
  moreover obtain fbs where "obj_get ''rtcpFeedback'' ps2 = Some (JArr fbs)" "list_all typed_feedback fbs" using has_arr [OF keep(2)] by blast
  then have "\<exists>ps5. validate_elems validateRtcpFeedback ''rtcpFeedback'' ps2 = Inr ps5"
    using mapM_ok [of fbs validateRtcpFeedback "\<lambda>_. True"] feedback_valid by (auto simp: validate_elems_def list_all_iff)
  ultimately show ?thesis
    using c(1-5) objs by (auto simp: capability_by_tail codec_tail_def Let_def ps2_def [symmetric] has_optional)
qed

lemma raw_ext_valid: "raw_ext_ok e \<Longrightarrow> \<exists>e'. validateRtpHeaderExtension e = Inr e'"
  by (cases e) (auto simp: raw_ext_ok_def validateRtpHeaderExtension_eq optional_def Let_def)

section \<open>The collecting loops\<close>

lemma int_textE: "int_text v \<Longrightarrow> \<exists>s n. v = JStr s \<and> stoi s = Inr n"
  by (cases v) (auto simp: readable_int_def split: sum.splits)

lemma get_u8_int: "is_number_integer v \<Longrightarrow> \<exists>n. get_u8 v = Inr n"
  by (cases v) simp_all

lemma has_SomeE: "has p k ps \<Longrightarrow> \<exists>v. obj_get k ps = Some v \<and> p v"
  by (simp add: has_def split: option.splits)

lemma mime_kind_media: "kind \<in> {''audio'', ''video''} \<Longrightarrow> codec_name (JStr name) \<Longrightarrow> mime_kind (kind @ ''/'' @ name) = Some kind"
  by (auto simp: mime_kind_def to_lower_def to_lower_char_def)

lemma rtp_codec_ok:
  assumes "kind \<in> {''audio'', ''video''}" "rtp_wf r" "map_ok cm"
  shows "\<exists>cm'. rtp_codec kind r cm = Inr cm' \<and> map_ok cm'"
proof -
  obtain ps name p rate where r: "r = JObj ps" "obj_get ''codec'' ps = Some (JStr name)" "codec_name (JStr name)"
    "obj_get ''payload'' ps = Some p" "is_number_integer p" "obj_get ''rate'' ps = Some rate" "is_number_integer rate"
    "optional int_text ''encoding'' ps"
    using assms(2) by (auto simp: rtp_wf_def dest!: has_SomeE split: json.splits elim!: codec_name.elims)
  obtain n where "get_u8 p = Inr n" using get_u8_int [OF r(5)] by blast
  have "\<exists>ch. rtp_channels kind r = Inr ch \<and> fst ` set ch \<subseteq> {''channels''}"
    using r(8) by (cases "kind = ''audio''") (auto simp: rtp_channels_def r(1) optional_def split: option.splits json.splits dest!: int_textE)
  then obtain ch where ch: "rtp_channels kind r = Inr ch" "fst ` set ch \<subseteq> {''channels''}" by blast
  define base where "base = [(''kind'', JStr kind), (''mimeType'', JStr (kind @ ''/'' @ name)), (''preferredPayloadType'', p),
         (''clockRate'', rate), (''parameters'', JObj []), (''rtcpFeedback'', JArr [])]"
  have get: "obj_get k (put_all (base @ ch) []) = obj_get k (put_all base [])" if "k \<noteq> ''channels''" for k
    by (rule obj_get_put_all_absent) (use ch(2) that in auto)
  have "raw_codec_ok (JObj (put_all (base @ ch) []))"
    using r(5,7) mime_kind_media [OF assms(1) r(3)] by (simp add: raw_codec_ok_def has_def get) (simp add: base_def obj_get_put_all)
  then show ?thesis using assms(3) ch(1) r \<open>get_u8 p = Inr n\<close>
    by (auto simp: rtp_codec_def string_at_def base_def map_ok_def)
qed

lemma raw_codec_set_parameters:
  assumes "raw_codec_ok c" "list_all codec_parameter_ok qs"
  shows "\<exists>c'. set_key c ''parameters'' (JObj qs) = Inr c' \<and> raw_codec_ok c'"
  using assms by (cases c) (auto simp: raw_codec_ok_def has_set obj_get_set)

lemma raw_codec_push_feedback:
  assumes "raw_codec_ok c" "typed_feedback f"
  shows "\<exists>c1 fbs fbs' c'. at_mut c ''rtcpFeedback'' = Inr (c1, fbs) \<and> push_back fbs f = Inr fbs'
    \<and> set_key c1 ''rtcpFeedback'' fbs' = Inr c' \<and> raw_codec_ok c'"
proof -
  obtain ps fbs where c: "c = JObj ps" "obj_get ''rtcpFeedback'' ps = Some (JArr fbs)" "list_all typed_feedback fbs"
    using assms(1) by (cases c) (auto simp: raw_codec_ok_def dest: has_arr)
  then have "raw_codec_ok (JObj (obj_set ''rtcpFeedback'' (JArr (fbs @ [f])) ps))"
    using assms by (auto simp: raw_codec_ok_def has_set obj_get_set)
  then show ?thesis by (simp add: c)
qed

lemma map_ok_upd: "map_ok cm \<Longrightarrow> raw_codec_ok c \<Longrightarrow> map_ok (cm(p \<mapsto> c))"
  by (simp add: map_ok_def)

lemma profile_id_ok:
  assumes "list_all codec_parameter_ok qs" "optional (\<lambda>v. is_string v \<longrightarrow> int_text v) ''profile-id'' qs"
  shows "\<exists>qs'. (case jfind (JObj qs) ''profile-id'' of
      Some (JStr s) \<Rightarrow> rbind (stoi s) (\<lambda>n. set_key (JObj qs) ''profile-id'' (JInt (scast n))) | _ \<Rightarrow> Inr (JObj qs)) = Inr (JObj qs')
    \<and> list_all codec_parameter_ok qs'"
proof (cases "\<exists>s. obj_get ''profile-id'' qs = Some (JStr s)")
  case True
  then obtain s n where "obj_get ''profile-id'' qs = Some (JStr s)" "stoi s = Inr n"
    using assms(2) by (auto simp: optional_def readable_int_def split: sum.splits)
  moreover have "list_all codec_parameter_ok (obj_set ''profile-id'' (JInt (scast n)) qs)"
    using assms(1) by (auto simp: list_all_iff codec_parameter_ok_def is_number_def dest!: obj_set_mem)
  ultimately show ?thesis by simp
next
  case False
  then show ?thesis using assms(1) by (auto split: option.splits json.splits)
qed

lemma fmtp_codec_ok:
  assumes "fmtp_wf parse f" "map_ok cm"
  shows "\<exists>cm'. fmtp_codec parse f cm = Inr cm' \<and> map_ok cm'"
proof -
  obtain ps s qs p where f: "f = JObj ps" "obj_get ''config'' ps = Some (JStr s)" "parse s = Inr (JObj qs)" "list_all codec_parameter_ok qs"
    "optional (\<lambda>v. is_string v \<longrightarrow> int_text v) ''profile-id'' qs" "obj_get ''payload'' ps = Some p" "is_number_integer p"
    using assms(1) by (auto simp: fmtp_wf_def dest!: has_SomeE split: json.splits elim!: config_wf.elims parameters_wf.elims)
  obtain n where n: "get_u8 p = Inr n" using get_u8_int [OF f(7)] by blast
  obtain qs' where qs': "(case jfind (JObj qs) ''profile-id'' of
      Some (JStr s) \<Rightarrow> rbind (stoi s) (\<lambda>n. set_key (JObj qs) ''profile-id'' (JInt (scast n))) | _ \<Rightarrow> Inr (JObj qs)) = Inr (JObj qs')"
    "list_all codec_parameter_ok qs'" using profile_id_ok [OF f(4,5)] by blast
  show ?thesis
  proof (cases "cm n")
    case None
    then show ?thesis using assms(2) by (simp add: fmtp_codec_def string_at_def f n)
  next
    case (Some c)
    then have "raw_codec_ok c" using assms(2) by (simp add: map_ok_def)
    from raw_codec_set_parameters [OF this qs'(2)] obtain c' where c': "set_key c ''parameters'' (JObj qs') = Inr c'" "raw_codec_ok c'" by blast
    have "fmtp_codec parse f cm = Inr (cm(n \<mapsto> c'))" unfolding fmtp_codec_def string_at_def
      using Some by (simp add: f n c' qs'(1) [simplified])
    then show ?thesis using map_ok_upd [OF assms(2) c'(2)] by blast
  qed
qed

lemma fb_codec_ok:
  assumes "fb_wf f" "map_ok cm"
  shows "\<exists>cm'. fb_codec f cm = Inr cm' \<and> map_ok cm'"
proof -
  obtain ps s n t where f: "f = JObj ps" "obj_get ''payload'' ps = Some (JStr s)" "stoi s = Inr n" "obj_get ''type'' ps = Some t" "is_string t"
    using assms(1) by (auto simp: fb_wf_def dest!: has_SomeE int_textE split: json.splits)
  define g where "g = mk_obj ([(''type'', t)] @ (case jfind f ''subtype'' of Some v \<Rightarrow> [(''parameter'', v)] | None \<Rightarrow> []))"
  have g: "typed_feedback g"
    using f(5) by (auto simp: g_def typed_feedback_def mk_obj_def has_def obj_get_Cons obj_get_Nil obj_get_set split: option.splits)
  show ?thesis
  proof (cases "cm (ucast n)")
    case None
    then show ?thesis using assms(2) by (simp add: fb_codec_def string_at_def f)
  next
    case (Some c)
    then have "raw_codec_ok c" using assms(2) by (simp add: map_ok_def)
    from raw_codec_push_feedback [OF this g] obtain c1 fbs fbs' c' where c': "at_mut c ''rtcpFeedback'' = Inr (c1, fbs)"
      "push_back fbs g = Inr fbs'" "set_key c1 ''rtcpFeedback'' fbs' = Inr c'" "raw_codec_ok c'" by blast
    have "fb_codec f cm = Inr (cm(ucast n \<mapsto> c'))"
      using Some c'(2) by (simp add: fb_codec_def string_at_def f c'(1,3) g_def)
    then show ?thesis using map_ok_upd [OF assms(2) c'(4)] by blast
  qed
qed

lemma ext_capability_ok:
  assumes "kind \<in> {''audio'', ''video''}" "ext_wf e"
  shows "\<exists>e'. ext_capability kind e = Inr e' \<and> raw_ext_ok e'"
proof -
  obtain ps u v where e: "e = JObj ps" "obj_get ''uri'' ps = Some u" "nonempty_string u" "obj_get ''value'' ps = Some v" "is_number_integer v"
    using assms(2) by (auto simp: ext_wf_def dest!: has_SomeE split: json.splits)
  then show ?thesis using assms(1)
    by (auto simp: ext_capability_def raw_ext_ok_def mk_obj_def has_def obj_get_Cons obj_get_Nil)
qed

lemma media_capabilities_ok:
  assumes "kind \<in> {''audio'', ''video''}" "m = JObj ps" "has (arr_of rtp_wf) ''rtp'' ps" "has (arr_of (fmtp_wf parse)) ''fmtp'' ps"
    "has (arr_of fb_wf) ''rtcpFb'' ps" "has (arr_of ext_wf) ''ext'' ps" "map_ok cm" "list_all raw_ext_ok exts"
  shows "\<exists>cm' exts'. media_capabilities parse kind m (cm, exts) = Inr (cm', exts') \<and> map_ok cm' \<and> list_all raw_ext_ok exts'"
proof -
  obtain rs fs bs es where l: "obj_get ''rtp'' ps = Some (JArr rs)" "list_all rtp_wf rs" "obj_get ''fmtp'' ps = Some (JArr fs)" "list_all (fmtp_wf parse) fs"
    "obj_get ''rtcpFb'' ps = Some (JArr bs)" "list_all fb_wf bs" "obj_get ''ext'' ps = Some (JArr es)" "list_all ext_wf es"
    using assms(3-6) by (auto dest!: has_arr)
  obtain cm1 where 1: "foldM (rtp_codec kind) rs cm = Inr cm1" "map_ok cm1"
    using foldM_ok [of map_ok cm rs "rtp_codec kind"] rtp_codec_ok [OF assms(1)] assms(7) l(2) by (auto simp: list_all_iff)
  obtain cm2 where 2: "foldM (fmtp_codec parse) fs cm1 = Inr cm2" "map_ok cm2"
    using foldM_ok [of map_ok cm1 fs "fmtp_codec parse"] fmtp_codec_ok 1(2) l(4) by (auto simp: list_all_iff)
  obtain cm3 where 3: "foldM fb_codec bs cm2 = Inr cm3" "map_ok cm3"
    using foldM_ok [of map_ok cm2 bs fb_codec] fb_codec_ok 2(2) l(6) by (auto simp: list_all_iff)
  obtain es' where 4: "mapM (ext_capability kind) es = Inr es'" "list_all raw_ext_ok es'"
    using mapM_ok [of es "ext_capability kind" raw_ext_ok] ext_capability_ok [OF assms(1)] l(8) by (auto simp: list_all_iff)
  then show ?thesis using assms(2,8) l 1 2 3 by (simp add: media_capabilities_def)
qed

lemma media_step_ok:
  assumes "media_wf parse m" "map_ok cm" "list_all raw_ext_ok exts"
  shows "\<exists>got' cm' exts'. media_step parse m (got, cm, exts) = Inr (got', cm', exts') \<and> map_ok cm' \<and> list_all raw_ext_ok exts'"
proof -
  obtain ps where ps: "m = JObj ps" "has is_string ''type'' ps" "has (\<lambda>v. v \<in> {JStr ''audio'', JStr ''video''}) ''type'' ps \<longrightarrow>
      has (arr_of rtp_wf) ''rtp'' ps \<and> has (arr_of (fmtp_wf parse)) ''fmtp'' ps \<and> has (arr_of fb_wf) ''rtcpFb'' ps \<and> has (arr_of ext_wf) ''ext'' ps"
    using assms(1) by (cases m) (auto simp: media_wf_def)
  obtain kind where m: "m = JObj ps" "obj_get ''type'' ps = Some (JStr kind)"
    using ps(1) has_SomeE [OF ps(2)] by (auto elim!: is_string.elims)
  have "has (\<lambda>v. v \<in> {JStr ''audio'', JStr ''video''}) ''type'' ps \<longleftrightarrow> kind \<in> {''audio'', ''video''}" by (simp add: has_def m(2))
  note lines = ps(3) [unfolded this]
  show ?thesis
  proof (cases "kind \<notin> {''audio'', ''video''} \<or> kind \<in> got")
    case True
    then show ?thesis using assms(2,3) by (auto simp: media_step_def string_at_def m)
  next
    case False
    then obtain cm' exts' where "media_capabilities parse kind m (cm, exts) = Inr (cm', exts')" "map_ok cm'" "list_all raw_ext_ok exts'"
      using media_capabilities_ok [of kind m ps parse cm exts] m(1) lines assms(2,3) by blast
    then show ?thesis using False by (auto simp: media_step_def string_at_def m)
  qed
qed

lemma validated_collection:
  assumes "list_all raw_codec_ok cs" "list_all raw_ext_ok es"
  shows "\<exists>caps'. validateRtpCapabilities (mk_obj [(''headerExtensions'', JArr es), (''codecs'', JArr cs), (''fecMechanisms'', JArr [])]) = Inr caps'"
proof -
  obtain cs' where "mapM validateRtpCodecCapability cs = Inr cs'"
    using mapM_ok [of cs validateRtpCodecCapability "\<lambda>_. True"] raw_codec_valid assms(1) by (auto simp: list_all_iff)
  moreover obtain es' where "mapM validateRtpHeaderExtension es = Inr es'"
    using mapM_ok [of es validateRtpHeaderExtension "\<lambda>_. True"] raw_ext_valid assms(2) by (auto simp: list_all_iff)
  ultimately show ?thesis
    by (simp add: validateRtpCapabilities_eq mk_obj_def optional_def fill_def has_def obj_get_Cons obj_get_Nil validate_elems_def)
qed

section \<open>Properties\<close>

text \<open>C38. The capabilities that are read from a well-formed offer of the platform are accepted by the validation
  that loading a device performs on them: no line makes the extraction throw, every codec has a media MIME
  type, integer payload type and clock rate, admissible parameters and typed feedback.\<close>

theorem native_capabilities_valid:
  assumes "sdp_wf parse sdp"
  shows "\<exists>caps caps'. extractRtpCapabilities parse sdp = Inr caps \<and> validateRtpCapabilities caps = Inr caps'"
proof -
  obtain ps ms where sdp: "sdp = JObj ps" "obj_get ''media'' ps = Some (JArr ms)" "list_all (media_wf parse) ms"
    using assms by (auto simp: sdp_wf_def dest!: has_arr split: json.splits)
  have "\<exists>s'. foldM (media_step parse) ms ({}, Map.empty, []) = Inr s' \<and> (case s' of (got, cm, exts) \<Rightarrow> map_ok cm \<and> list_all raw_ext_ok exts)"
    using sdp(3) media_step_ok by (intro foldM_ok) (fastforce simp: map_ok_def list_all_iff)+
  then obtain got cm exts where run: "foldM (media_step parse) ms ({}, Map.empty, []) = Inr (got, cm, exts)" "map_ok cm" "list_all raw_ext_ok exts"
    by auto
  have "list_all raw_codec_ok (List.map_filter (\<lambda>i. cm (of_nat i)) [0..<256])"
    using run(2) by (auto simp: List.map_filter_def list_all_iff map_ok_def)
  from validated_collection [OF this run(3)] show ?thesis
    by (simp add: extractRtpCapabilities_def sdp run(1))
qed

definition sample_sdp :: json where
  "sample_sdp = JObj [(''media'', JArr [JObj [(''ext'', JArr [JObj [(''uri'', JStr ''urn:ietf:params:rtp-hdrext:sdes:mid''), (''value'', JInt 4)]]),
     (''fmtp'', JArr [JObj [(''config'', JStr ''minptime=10''), (''payload'', JInt 111)]]),
     (''rtcpFb'', JArr [JObj [(''payload'', JStr ''111''), (''type'', JStr ''transport-cc'')]]),
     (''rtp'', JArr [JObj [(''codec'', JStr ''opus''), (''encoding'', JStr ''2''), (''payload'', JInt 111), (''rate'', JInt 48000)]]),
     (''type'', JStr ''audio'')]])]"

theorem native_capabilities_valid_witness:
  "\<exists>caps caps'. extractRtpCapabilities (\<lambda>_. Inr (JObj [(''minptime'', JInt 10)])) sample_sdp = Inr caps \<and> validateRtpCapabilities caps = Inr caps'"
proof -
  have "sdp_wf (\<lambda>_. Inr (JObj [(''minptime'', JInt 10)])) sample_sdp"
    by code_simp
  then show ?thesis by (rule native_capabilities_valid)
qed

end
