(* ===== verification/Remote_Sdp.thy ===== *)
theory Remote_Sdp
  imports Media_Section
begin

text \<open>
  \<^verbatim>\<open>sdp/RemoteSdp.cpp\<close>: the description of the remote side of a peer connection.  The media sections are
  kept in a vector, under their mid in a map of indices, and once more as JSON in the session object
  that is handed to the SDP writer.  An exception of an operation leaves its partial effect out of the
  model; the lemmas show that none is thrown on the states the handlers reach.
\<close>

record RemoteSdp =
  rs_iceParameters :: json
  rs_iceCandidates :: json
  rs_dtlsParameters :: json
  rs_sctpParameters :: json
  mediaSections :: "MediaSection list"
  midToIndex :: "string \<rightharpoonup> nat"
  firstMid :: string
  sdpObject :: json

section \<open>Assignments to the session object\<close>

text \<open>\<open>j[idx] = v\<close>.\<close>

fun assign_idx :: "json \<Rightarrow> nat \<Rightarrow> json \<Rightarrow> json result" where
  "assign_idx j i v = rbind (at_idx j i) (\<lambda>(j', _). Inr (JArr ((elems j')[i := v])))"

definition set_media :: "nat \<Rightarrow> json \<Rightarrow> json \<Rightarrow> json result" where
  "set_media idx v sdp =
     rbind (at_mut sdp ''media'') (\<lambda>(s, media). rbind (assign_idx media idx v) (\<lambda>media'. set_key s ''media'' media'))"

definition push_media :: "json \<Rightarrow> json \<Rightarrow> json result" where
  "push_media v sdp =
     rbind (at_mut sdp ''media'') (\<lambda>(s, media). rbind (push_back media v) (\<lambda>media'. set_key s ''media'' media'))"

definition set_mids :: "string \<Rightarrow> json \<Rightarrow> json result" where
  "set_mids mids sdp =
     rbind (at_mut sdp ''groups'') (\<lambda>(s, groups). rbind (at_idx groups 0) (\<lambda>(groups', g).
     rbind (set_key g ''mids'' (JStr mids)) (\<lambda>g'. rbind (assign_idx groups' 0 g') (\<lambda>groups''. set_key s ''groups'' groups''))))"

definition set_icelite :: "json \<Rightarrow> json \<Rightarrow> json result" where
  "set_icelite ice sdp = (if contains ice ''iceLite'' then set_key sdp ''icelite'' (JStr ''ice-lite'') else Inr sdp)"

section \<open>Operations\<close>

text \<open>The last fingerprint; the index of an empty array wraps around.\<close>

definition last_fingerprint :: "json \<Rightarrow> (json \<times> json) result" where
  "last_fingerprint dtls =
     rbind (at_mut dtls ''fingerprints'') (\<lambda>(dtls', fps).
       if jsize fps = 0 then Inl (Undefined ''operator[]'')
       else rbind (at_idx fps (jsize fps - 1)) (\<lambda>(_, fp). Inr (dtls', fp)))"

definition initial_sdp :: json where
  "initial_sdp = mk_obj [(''version'', JInt 0),
     (''origin'', mk_obj [(''address'', JStr ''0.0.0.0''), (''ipVer'', JInt 4), (''netType'', JStr ''IN''),
        (''sessionId'', JInt 10000), (''sessionVersion'', JInt 0), (''username'', JStr ''libmediasoupclient'')]),
     (''name'', JStr ''-''), (''timing'', mk_obj [(''start'', JInt 0), (''stop'', JInt 0)]), (''media'', JArr [])]"

text \<open>The fingerprint is read with the mutable subscript operator; members it inserts into the DTLS
  parameters are not read again.\<close>

definition mk_RemoteSdp :: "json \<Rightarrow> json \<Rightarrow> json \<Rightarrow> json \<Rightarrow> RemoteSdp result" where
  "mk_RemoteSdp iceParameters iceCandidates dtlsParameters sctpParameters =
     rbind (set_icelite iceParameters initial_sdp) (\<lambda>s1.
     rbind (set_key s1 ''msidSemantic'' (mk_obj [(''semantic'', JStr ''WMS''), (''token'', JStr ''*'')])) (\<lambda>s2.
     rbind (last_fingerprint dtlsParameters) (\<lambda>(dtls, fp).
     rbind (read_mut fp ''algorithm'') (\<lambda>algorithm. rbind (read_mut fp ''value'') (\<lambda>val.
     rbind (set_key s2 ''fingerprint'' (mk_obj [(''type'', algorithm), (''hash'', val)])) (\<lambda>s3.
     rbind (set_key s3 ''groups'' (JArr [mk_obj [(''type'', JStr ''BUNDLE''), (''mids'', JStr '''')]])) (\<lambda>s4.
       Inr \<lparr>rs_iceParameters = iceParameters, rs_iceCandidates = iceCandidates, rs_dtlsParameters = dtls,
            rs_sctpParameters = sctpParameters, mediaSections = [], midToIndex = Map.empty, firstMid = '''', sdpObject = s4\<rparr>)))))))"

text \<open>The mids of the sections that are not closed, with blanks between them.\<close>

definition open_mids :: "MediaSection list \<Rightarrow> string list result" where
  "open_mids ms =
     rbind (mapM (\<lambda>m. rbind (ms_IsClosed m) (\<lambda>c. if c then Inr [] else rbind (GetMid m) (\<lambda>s. Inr [s]))) ms) (\<lambda>ss. Inr (concat ss))"

definition bundle_text :: "string list \<Rightarrow> string" where
  "bundle_text ss = fold (\<lambda>s mids. if mids = [] then s else mids @ '' '' @ s) ss []"

definition RegenerateBundleMids :: "RemoteSdp \<Rightarrow> RemoteSdp result" where
  "RegenerateBundleMids rs =
     rbind (open_mids (mediaSections rs)) (\<lambda>ss. rbind (set_mids (bundle_text ss) (sdpObject rs)) (\<lambda>sdp. Inr (rs\<lparr>sdpObject := sdp\<rparr>)))"

text \<open>One round of the loops that change every section: the section and its copy in the session object.\<close>

definition update_section :: "(MediaSection \<Rightarrow> MediaSection result) \<Rightarrow> nat \<Rightarrow> RemoteSdp \<Rightarrow> RemoteSdp result" where
  "update_section f idx rs =
     (if length (mediaSections rs) \<le> idx then Inl (Undefined ''operator[]'')
      else
        rbind (f (mediaSections rs ! idx)) (\<lambda>m. rbind (set_media idx (GetObject m) (sdpObject rs)) (\<lambda>sdp.
          Inr (rs\<lparr>mediaSections := (mediaSections rs)[idx := m], sdpObject := sdp\<rparr>))))"

definition UpdateIceParameters :: "json \<Rightarrow> RemoteSdp \<Rightarrow> RemoteSdp result" where
  "UpdateIceParameters iceParameters rs =
     rbind (set_icelite iceParameters (sdpObject rs)) (\<lambda>sdp.
       foldM (update_section (SetIceParameters iceParameters)) [0..<length (mediaSections rs)]
         (rs\<lparr>rs_iceParameters := iceParameters, sdpObject := sdp\<rparr>))"

definition UpdateDtlsRole :: "string \<Rightarrow> RemoteSdp \<Rightarrow> RemoteSdp result" where
  "UpdateDtlsRole role rs =
     rbind (set_key (rs_dtlsParameters rs) ''role'' (JStr role)) (\<lambda>dtls.
     rbind (set_icelite (rs_iceParameters rs) (sdpObject rs)) (\<lambda>sdp.
       foldM (update_section (\<lambda>m. Inr (SetDtlsRole role m))) [0..<length (mediaSections rs)]
         (rs\<lparr>rs_dtlsParameters := dtls, sdpObject := sdp\<rparr>)))"

text \<open>The index of the next media section and the mid it replaces, empty for a new section.\<close>

fun next_section :: "nat \<Rightarrow> MediaSection list \<Rightarrow> (nat \<times> string) result" where
  "next_section i [] = Inr (i, '''')"
| "next_section i (m # ms) =
     rbind (ms_IsClosed m) (\<lambda>c. if c then rbind (GetMid m) (\<lambda>s. Inr (i, s)) else next_section (Suc i) ms)"

definition GetNextMediaSectionIdx :: "RemoteSdp \<Rightarrow> (nat \<times> string) result" where
  "GetNextMediaSectionIdx rs = next_section 0 (mediaSections rs)"

text \<open>\<open>midToIndex[mid]\<close>: an unknown mid is inserted with index 0.\<close>

definition index_of :: "string \<Rightarrow> RemoteSdp \<Rightarrow> nat \<times> RemoteSdp" where
  "index_of mid rs = (case midToIndex rs mid of Some i \<Rightarrow> (i, rs) | None \<Rightarrow> (0, rs\<lparr>midToIndex := (midToIndex rs)(mid \<mapsto> 0)\<rparr>))"

definition section_at :: "RemoteSdp \<Rightarrow> nat \<Rightarrow> MediaSection result" where
  "section_at rs i = (if i < length (mediaSections rs) then Inr (mediaSections rs ! i) else Inl (Undefined ''operator[]''))"

definition AddMediaSection :: "MediaSection \<Rightarrow> RemoteSdp \<Rightarrow> RemoteSdp result" where
  "AddMediaSection m rs =
     rbind (GetMid m) (\<lambda>mid.
     rbind (push_media (GetObject m) (sdpObject rs)) (\<lambda>sdp.
       RegenerateBundleMids (rs\<lparr>firstMid := (if firstMid rs = [] then mid else firstMid rs),
         mediaSections := mediaSections rs @ [m], midToIndex := (midToIndex rs)(mid \<mapsto> length (mediaSections rs)), sdpObject := sdp\<rparr>)))"

definition ReplaceMediaSection :: "MediaSection \<Rightarrow> string \<Rightarrow> RemoteSdp \<Rightarrow> RemoteSdp result" where
  "ReplaceMediaSection m reuseMid rs =
     (if reuseMid \<noteq> []
      then
        (case index_of reuseMid rs of (idx, rs1) \<Rightarrow>
           rbind (section_at rs1 idx) (\<lambda>old. rbind (GetMid old) (\<lambda>oldMid. rbind (GetMid m) (\<lambda>mid.
           rbind (set_media idx (GetObject m) (sdpObject rs1)) (\<lambda>sdp.
             RegenerateBundleMids (rs1\<lparr>mediaSections := (mediaSections rs1)[idx := m],
               midToIndex := ((midToIndex rs1)(oldMid := None))(mid \<mapsto> idx), sdpObject := sdp\<rparr>))))))
      else
        rbind (GetMid m) (\<lambda>mid. case index_of mid rs of (idx, rs1) \<Rightarrow>
          rbind (section_at rs1 idx) (\<lambda>old.
          rbind (set_media (length (mediaSections rs1) - 1) (GetObject m) (sdpObject rs1)) (\<lambda>sdp.
            Inr (rs1\<lparr>mediaSections := (mediaSections rs1)[idx := m], sdpObject := sdp\<rparr>)))))"

text \<open>The offered RTP parameters that the codec options change are returned as well.\<close>

definition rs_Send :: "json \<Rightarrow> string \<Rightarrow> json \<Rightarrow> json \<Rightarrow> json option \<Rightarrow> RemoteSdp \<Rightarrow> (RemoteSdp \<times> json) result" where
  "rs_Send offerMediaObject reuseMid offerRtpParameters answerRtpParameters codecOptions rs =
     rbind (mk_AnswerMediaSection (rs_iceParameters rs) (rs_iceCandidates rs) (rs_dtlsParameters rs) (rs_sctpParameters rs)
              offerMediaObject offerRtpParameters answerRtpParameters codecOptions) (\<lambda>(m, offer').
     rbind (if reuseMid \<noteq> [] then ReplaceMediaSection m reuseMid rs else AddMediaSection m rs) (\<lambda>rs'. Inr (rs', offer')))"

definition SendSctpAssociation :: "json \<Rightarrow> RemoteSdp \<Rightarrow> RemoteSdp result" where
  "SendSctpAssociation offerMediaObject rs =
     rbind (mk_AnswerMediaSection (rs_iceParameters rs) (rs_iceCandidates rs) (rs_dtlsParameters rs) (rs_sctpParameters rs)
              offerMediaObject JNull JNull None) (\<lambda>(m, _). AddMediaSection m rs)"

definition RecvSctpAssociation :: "RemoteSdp \<Rightarrow> RemoteSdp result" where
  "RecvSctpAssociation rs =
     rbind (mk_OfferMediaSection (rs_iceParameters rs) (rs_iceCandidates rs) (rs_sctpParameters rs) ''datachannel'' ''application''
              JNull '''' '''') (\<lambda>m. AddMediaSection m rs)"

definition rs_Receive :: "string \<Rightarrow> string \<Rightarrow> json \<Rightarrow> string \<Rightarrow> string \<Rightarrow> RemoteSdp \<Rightarrow> RemoteSdp result" where
  "rs_Receive mid kind offerRtpParameters streamId trackId rs =
     rbind (mk_OfferMediaSection (rs_iceParameters rs) (rs_iceCandidates rs) JNull mid kind offerRtpParameters streamId trackId) (\<lambda>m.
     rbind (find_at ms_IsClosed (mediaSections rs)) (\<lambda>i.
       case i of
         Some n \<Rightarrow> rbind (GetMid (mediaSections rs ! n)) (\<lambda>old. ReplaceMediaSection m old rs)
       | None \<Rightarrow> AddMediaSection m rs))"

text \<open>Disabling a section does not touch its copy in the session object.\<close>

definition DisableMediaSection :: "string \<Rightarrow> RemoteSdp \<Rightarrow> RemoteSdp result" where
  "DisableMediaSection mid rs =
     (case index_of mid rs of (idx, rs1) \<Rightarrow>
        rbind (section_at rs1 idx) (\<lambda>m. Inr (rs1\<lparr>mediaSections := (mediaSections rs1)[idx := ms_Disable m]\<rparr>)))"

definition CloseMediaSection :: "string \<Rightarrow> RemoteSdp \<Rightarrow> RemoteSdp result" where
  "CloseMediaSection mid rs =
     (case index_of mid rs of (idx, rs1) \<Rightarrow>
        rbind (update_section (\<lambda>m. Inr (if mid = firstMid rs1 then ms_Disable m else ms_Close m)) idx rs1) RegenerateBundleMids)"

text \<open>The session object that \<open>GetSdp\<close> hands to the writer, with its version increased.\<close>

definition GetSdp :: "RemoteSdp \<Rightarrow> (RemoteSdp \<times> json) result" where
  "GetSdp rs =
     rbind (at_mut (sdpObject rs) ''origin'') (\<lambda>(s, origin). rbind (at_mut origin ''sessionVersion'') (\<lambda>(origin', v).
     rbind (get_u32 v) (\<lambda>version.
     rbind (set_key origin' ''sessionVersion'' (JUInt (ucast (version + 1)))) (\<lambda>origin''.
     rbind (set_key s ''origin'' origin'') (\<lambda>sdp. Inr (rs\<lparr>sdpObject := sdp\<rparr>, sdp))))))"

end
