(* ===== verification/Remote_Session.thy ===== *)
theory Remote_Session
  imports Remote_Sdp
begin

text \<open>
  The remote description over a whole session: the three places that hold the media sections agree, the
  BUNDLE group lists the mids of the open sections, and the first section is never closed.
\<close>

section \<open>The session object\<close>

text \<open>A session object with the given media objects and BUNDLE mids.\<close>

definition sdp_shape :: "json list \<Rightarrow> string \<Rightarrow> json \<Rightarrow> bool" where
  "sdp_shape medias mids sdp =
     (\<exists>ob g org v n. sdp = JObj ob \<and> obj_get ''media'' ob = Some (JArr medias)
        \<and> obj_get ''groups'' ob = Some (JArr [JObj g]) \<and> obj_get ''mids'' g = Some (JStr mids)
        \<and> obj_get ''origin'' ob = Some (JObj org) \<and> obj_get ''sessionVersion'' org = Some v \<and> get_u32 v = Inr n)"

named_theorems shape

lemma set_media_shape [shape]:
  assumes "sdp_shape medias mids sdp" "i < length medias"
  shows "\<exists>sdp'. set_media i v sdp = Inr sdp' \<and> sdp_shape (medias[i := v]) mids sdp'"
  using assms by (auto simp: sdp_shape_def set_media_def obj_get_set)

lemma push_media_shape [shape]:
  assumes "sdp_shape medias mids sdp"
  shows "\<exists>sdp'. push_media v sdp = Inr sdp' \<and> sdp_shape (medias @ [v]) mids sdp'"
  using assms by (auto simp: sdp_shape_def push_media_def obj_get_set)

lemma set_mids_shape [shape]:
  assumes "sdp_shape medias mids sdp"
  shows "\<exists>sdp'. set_mids mids' sdp = Inr sdp' \<and> sdp_shape medias mids' sdp'"
  using assms by (auto simp: sdp_shape_def set_mids_def obj_get_set)

lemma set_key_shape:
  assumes "sdp_shape medias mids sdp" "k \<notin> {''media'', ''groups'', ''origin''}"
  shows "\<exists>sdp'. set_key sdp k v = Inr sdp' \<and> sdp_shape medias mids sdp'"
  using assms by (auto simp: sdp_shape_def obj_get_set)

lemma set_icelite_shape [shape]:
  assumes "sdp_shape medias mids sdp"
  shows "\<exists>sdp'. set_icelite ice sdp = Inr sdp' \<and> sdp_shape medias mids sdp'"
  using assms set_key_shape [OF assms, of "''icelite''"] by (auto simp: set_icelite_def)

section \<open>The invariant\<close>

definition sec_mid :: "MediaSection \<Rightarrow> string" where
  "sec_mid m = (case obj_get ''mid'' (mediaObject m) of Some (JStr s) \<Rightarrow> s | _ \<Rightarrow> [])"

definition sec_open :: "MediaSection \<Rightarrow> bool" where
  "sec_open m = has_port m 7"

definition sec_ok :: "MediaSection \<Rightarrow> bool" where
  "sec_ok m = (has_mid m (sec_mid m) \<and> sec_mid m \<noteq> [] \<and> (has_port m 0 \<or> has_port m 7))"

definition open_list :: "MediaSection list \<Rightarrow> string list" where
  "open_list ms = map sec_mid (filter sec_open ms)"

text \<open>The sections, the map of indices and the first mid.\<close>

definition sections_ok :: "MediaSection list \<Rightarrow> (string \<rightharpoonup> nat) \<Rightarrow> string \<Rightarrow> bool" where
  "sections_ok ms m2i first =
     (list_all sec_ok ms \<and> (\<forall>s i. m2i s = Some i \<longleftrightarrow> i < length ms \<and> sec_mid (ms ! i) = s)
      \<and> (case ms of [] \<Rightarrow> first = [] | m # _ \<Rightarrow> first = sec_mid m \<and> sec_open m))"

definition rs_inv :: "RemoteSdp \<Rightarrow> bool" where
  "rs_inv rs =
     (sections_ok (mediaSections rs) (midToIndex rs) (firstMid rs)
      \<and> sdp_shape (map GetObject (mediaSections rs)) (bundle_text (open_list (mediaSections rs))) (sdpObject rs))"

lemma sec_mid_has: "has_mid m s \<Longrightarrow> sec_mid m = s"
  by (simp add: has_mid_def sec_mid_def)

lemma has_port_07: "has_port m 0 \<Longrightarrow> \<not> has_port m 7"
  by (simp add: has_port_def)

lemma sec_ok_reads:
  assumes "sec_ok m"
  shows "GetMid m = Inr (sec_mid m)" "ms_IsClosed m = Inr (\<not> sec_open m)"
  using assms by (auto simp: sec_ok_def sec_open_def GetMid_has IsClosed_has has_port_07)

lemma new_section_ok:
  assumes "has_mid m s" "has_port m 7" "s \<noteq> []"
  shows "sec_ok m" "sec_open m" "sec_mid m = s"
  using assms by (simp_all add: sec_ok_def sec_open_def sec_mid_has)

lemma open_mids_ok: "list_all sec_ok ms \<Longrightarrow> open_mids ms = Inr (open_list ms)"
  by (induction ms) (auto simp: open_mids_def open_list_def sec_ok_reads rbind_Inr_iff)

lemma Regenerate_ok:
  assumes "sections_ok (mediaSections rs) (midToIndex rs) (firstMid rs)"
    and "sdp_shape (map GetObject (mediaSections rs)) mids (sdpObject rs)"
  shows "\<exists>sdp. RegenerateBundleMids rs = Inr (rs\<lparr>sdpObject := sdp\<rparr>) \<and> rs_inv (rs\<lparr>sdpObject := sdp\<rparr>)"
  using assms(1) set_mids_shape [OF assms(2), of "bundle_text (open_list (mediaSections rs))"]
  by (auto simp: RegenerateBundleMids_def rs_inv_def open_mids_ok sections_ok_def)

text \<open>The sections with one replaced by a section with the same mid, or by one with a fresh mid.\<close>

lemma sections_replace:
  assumes ok: "sections_ok ms m2i first" and i: "i < length ms" and m: "sec_ok m" and first: "i = 0 \<longrightarrow> sec_mid m = first \<and> sec_open m"
    and fresh: "\<And>j. j < length ms \<Longrightarrow> j \<noteq> i \<Longrightarrow> sec_mid (ms ! j) \<noteq> sec_mid m"
  shows "sections_ok (ms[i := m]) ((m2i(sec_mid (ms ! i) := None))(sec_mid m \<mapsto> i)) first"
proof -
  have idx: "m2i s = Some j \<longleftrightarrow> j < length ms \<and> sec_mid (ms ! j) = s" for s j
    using ok by (simp add: sections_ok_def)
  have "list_all sec_ok (ms[i := m])"
    using ok m by (auto simp: sections_ok_def list_all_iff dest!: set_update_subset_insert [THEN subsetD])
  moreover have "((m2i(sec_mid (ms ! i) := None))(sec_mid m \<mapsto> i)) s = Some j \<longleftrightarrow> j < length (ms[i := m]) \<and> sec_mid (ms[i := m] ! j) = s" for s j
    using i idx [of s j] idx [of "sec_mid (ms ! i)" i] idx [of "sec_mid (ms ! i)" j] fresh [of j] by (auto simp: nth_list_update)
  moreover have "case ms[i := m] of [] \<Rightarrow> first = [] | m # _ \<Rightarrow> first = sec_mid m \<and> sec_open m"
    using ok first i by (cases ms; cases i) (auto simp: sections_ok_def)
  ultimately show ?thesis by (simp add: sections_ok_def)
qed

lemma first_open: "sections_ok ms m2i first \<Longrightarrow> 0 < length ms \<Longrightarrow> sec_open (ms ! 0) \<and> sec_mid (ms ! 0) = first"
  by (cases ms) (simp_all add: sections_ok_def)

lemma sections_replace_same:
  assumes "sections_ok ms m2i first" "i < length ms" "sec_ok m" "sec_mid m = sec_mid (ms ! i)" "i = 0 \<longrightarrow> sec_open m"
  shows "sections_ok (ms[i := m]) m2i first"
proof -
  have idx: "m2i s = Some j \<longleftrightarrow> j < length ms \<and> sec_mid (ms ! j) = s" for s j
    using assms(1) by (simp add: sections_ok_def)
  have first: "i = 0 \<longrightarrow> sec_mid m = first \<and> sec_open m"
    using assms by (cases ms) (auto simp: sections_ok_def)
  have "sec_mid (ms ! j) \<noteq> sec_mid m" if "j < length ms" "j \<noteq> i" for j
    using that idx [of _ i] idx [of _ j] assms(2,4) by (metis option.inject)
  from sections_replace [OF assms(1-3) first this] have "sections_ok (ms[i := m]) ((m2i(sec_mid m := None))(sec_mid m \<mapsto> i)) first"
    by (simp add: assms(4))
  moreover have "(m2i(sec_mid m := None))(sec_mid m \<mapsto> i) = m2i" using idx [of "sec_mid m" i] assms(2,4) by auto
  ultimately show ?thesis by simp
qed

lemma sections_add:
  assumes "sections_ok ms m2i first" "sec_ok m" "sec_open m" "\<And>j. j < length ms \<Longrightarrow> sec_mid (ms ! j) \<noteq> sec_mid m"
  shows "sections_ok (ms @ [m]) (m2i(sec_mid m \<mapsto> length ms)) (if first = [] then sec_mid m else first)"
proof -
  have idx: "m2i s = Some j \<longleftrightarrow> j < length ms \<and> sec_mid (ms ! j) = s" for s j
    using assms(1) by (simp add: sections_ok_def)
  have "(m2i(sec_mid m \<mapsto> length ms)) s = Some j \<longleftrightarrow> j < length (ms @ [m]) \<and> sec_mid ((ms @ [m]) ! j) = s" for s j
    using idx [of s j] assms(4) [of j] by (auto simp: nth_append less_Suc_eq)
  moreover have "case ms @ [m] of [] \<Rightarrow> (if first = [] then sec_mid m else first) = []
      | n # _ \<Rightarrow> (if first = [] then sec_mid m else first) = sec_mid n \<and> sec_open n"
    using assms(1,3) by (cases ms) (auto simp: sections_ok_def sec_ok_def)
  ultimately show ?thesis using assms(1,2) by (simp add: sections_ok_def)
qed

section \<open>Operations\<close>

text \<open>A mid that no section has, but possibly the one that is replaced.\<close>

definition fresh_mid :: "RemoteSdp \<Rightarrow> nat \<Rightarrow> string \<Rightarrow> bool" where
  "fresh_mid rs i s = (s \<noteq> [] \<and> (\<forall>j < length (mediaSections rs). j \<noteq> i \<longrightarrow> sec_mid (mediaSections rs ! j) \<noteq> s))"

lemma mk_RemoteSdp_inv: "mk_RemoteSdp ice cs dtls sctp = Inr rs \<Longrightarrow> rs_inv rs"
proof -
  assume mk: "mk_RemoteSdp ice cs dtls sctp = Inr rs"
  define shape where "shape = (\<lambda>j. \<exists>ob org. j = JObj ob \<and> obj_get ''media'' ob = Some (JArr []) \<and> obj_get ''origin'' ob = Some (JObj org)
    \<and> obj_get ''sessionVersion'' org = Some (JInt 0))"
  have init: "shape initial_sdp" by (simp add: shape_def initial_sdp_def mk_obj_def obj_get_Cons obj_get_Nil)
  have keep: "shape j'" if "shape j" "set_key j k v = Inr j'" "k \<notin> {''media'', ''origin''}" for j j' k v
    using that by (auto simp: shape_def obj_get_set)
  obtain s1 s2 s3 fp where s: "set_icelite ice initial_sdp = Inr s1" "set_key s1 ''msidSemantic'' (mk_obj [(''semantic'', JStr ''WMS''), (''token'', JStr ''*'')]) = Inr s2"
    "set_key s2 ''fingerprint'' fp = Inr s3" "set_key s3 ''groups'' (JArr [mk_obj [(''type'', JStr ''BUNDLE''), (''mids'', JStr '''')]]) = Inr (sdpObject rs)"
    and rs: "mediaSections rs = []" "midToIndex rs = Map.empty" "firstMid rs = ''''"
    using mk by (auto simp: mk_RemoteSdp_def rbind_Inr_iff)
  have "shape s1" using s(1) keep [OF init, of "''icelite''"] init by (auto simp: set_icelite_def split: if_splits)
  from keep [OF this s(2)] have "shape s2" by simp
  from keep [OF this s(3)] have "shape s3" by simp
  then have "sdp_shape [] '''' (sdpObject rs)"
    using s(4) by (auto simp: shape_def sdp_shape_def obj_get_set mk_obj_def obj_get_Cons obj_get_Nil simp del: ex_simps
        dest!: sym [of _ "sdpObject rs"])
  then show ?thesis by (simp add: rs_inv_def rs sections_ok_def open_list_def bundle_text_def)
qed

lemma AddMediaSection_inv:
  assumes "rs_inv rs" "has_mid m s" "has_port m 7" "fresh_mid rs (length (mediaSections rs)) s"
  shows "\<exists>rs'. AddMediaSection m rs = Inr rs' \<and> rs_inv rs' \<and> mediaSections rs' = mediaSections rs @ [m]"
proof -
  have s: "s \<noteq> []" using assms(4) by (simp add: fresh_mid_def)
  note ok = new_section_ok [OF assms(2,3) s]
  have secs: "sections_ok (mediaSections rs) (midToIndex rs) (firstMid rs)" using assms(1) by (simp add: rs_inv_def)
  obtain sdp where sdp: "push_media (GetObject m) (sdpObject rs) = Inr sdp"
    "sdp_shape (map GetObject (mediaSections rs @ [m])) (bundle_text (open_list (mediaSections rs))) sdp"
    using assms(1) push_media_shape [of _ _ "sdpObject rs" "GetObject m"] by (auto simp: rs_inv_def)
  define rs1 where "rs1 = rs\<lparr>firstMid := (if firstMid rs = [] then s else firstMid rs),
         mediaSections := mediaSections rs @ [m], midToIndex := (midToIndex rs)(s \<mapsto> length (mediaSections rs)), sdpObject := sdp\<rparr>"
  have "sections_ok (mediaSections rs1) (midToIndex rs1) (firstMid rs1)"
    using sections_add [OF secs ok(1,2)] assms(4) by (auto simp: rs1_def ok(3) fresh_mid_def split: if_splits)
  then obtain sdp' where "RegenerateBundleMids rs1 = Inr (rs1\<lparr>sdpObject := sdp'\<rparr>)" "rs_inv (rs1\<lparr>sdpObject := sdp'\<rparr>)"
    using Regenerate_ok [of rs1] sdp(2) by (auto simp: rs1_def)
  then show ?thesis using sdp(1) by (auto simp: AddMediaSection_def GetMid_has [OF assms(2)] rs1_def)
qed

lemma index_known:
  assumes "rs_inv rs" "i < length (mediaSections rs)"
  shows "index_of (sec_mid (mediaSections rs ! i)) rs = (i, rs)" "sec_mid (mediaSections rs ! i) \<noteq> []"
    "sec_ok (mediaSections rs ! i)"
proof -
  have "midToIndex rs (sec_mid (mediaSections rs ! i)) = Some i" using assms by (simp add: rs_inv_def sections_ok_def)
  then show "index_of (sec_mid (mediaSections rs ! i)) rs = (i, rs)" by (simp add: index_of_def)
  show "sec_ok (mediaSections rs ! i)" using assms by (simp add: rs_inv_def sections_ok_def list_all_length)
  then show "sec_mid (mediaSections rs ! i) \<noteq> []" by (simp add: sec_ok_def)
qed

lemma set_media_sections:
  assumes "rs_inv rs" "i < length (mediaSections rs)"
  shows "\<exists>sdp. set_media i (GetObject m) (sdpObject rs) = Inr sdp
    \<and> sdp_shape (map GetObject ((mediaSections rs)[i := m])) (bundle_text (open_list (mediaSections rs))) sdp"
proof -
  have "sdp_shape (map GetObject (mediaSections rs)) (bundle_text (open_list (mediaSections rs))) (sdpObject rs)"
    using assms(1) by (simp add: rs_inv_def)
  from set_media_shape [OF this, of i "GetObject m"] assms(2) show ?thesis by (simp add: map_update)
qed

lemma ReplaceMediaSection_inv:
  assumes inv: "rs_inv rs" and m: "has_mid m s" "has_port m 7" and i: "i < length (mediaSections rs)"
    and closed: "\<not> sec_open (mediaSections rs ! i)" and fresh: "fresh_mid rs i s"
  shows "\<exists>rs'. ReplaceMediaSection m (sec_mid (mediaSections rs ! i)) rs = Inr rs' \<and> rs_inv rs' \<and> mediaSections rs' = (mediaSections rs)[i := m]"
proof -
  have s: "s \<noteq> []" using fresh by (simp add: fresh_mid_def)
  note ok = new_section_ok [OF m s] and known = index_known [OF inv i]
  have secs: "sections_ok (mediaSections rs) (midToIndex rs) (firstMid rs)" using inv by (simp add: rs_inv_def)
  have "i \<noteq> 0" using first_open [OF secs] closed i by metis
  obtain sdp where sdp: "set_media i (GetObject m) (sdpObject rs) = Inr sdp"
    "sdp_shape (map GetObject ((mediaSections rs)[i := m])) (bundle_text (open_list (mediaSections rs))) sdp"
    using set_media_sections [OF inv i] by blast
  define rs1 where "rs1 = rs\<lparr>mediaSections := (mediaSections rs)[i := m],
    midToIndex := ((midToIndex rs)(sec_mid (mediaSections rs ! i) := None))(s \<mapsto> i), sdpObject := sdp\<rparr>"
  have "sections_ok (mediaSections rs1) (midToIndex rs1) (firstMid rs1)"
    using sections_replace [OF secs i ok(1)] \<open>i \<noteq> 0\<close> fresh by (simp add: rs1_def ok(3) fresh_mid_def)
  then obtain sdp' where "RegenerateBundleMids rs1 = Inr (rs1\<lparr>sdpObject := sdp'\<rparr>)" "rs_inv (rs1\<lparr>sdpObject := sdp'\<rparr>)"
    using Regenerate_ok [of rs1] sdp(2) by (auto simp: rs1_def)
  then show ?thesis
    using sdp(1) i known by (auto simp: ReplaceMediaSection_def GetMid_has [OF m(1)] rs1_def section_at_def sec_ok_reads)
qed

lemma open_list_update:
  "i < length ms \<Longrightarrow> sec_mid m = sec_mid (ms ! i) \<Longrightarrow> sec_open m = sec_open (ms ! i) \<Longrightarrow> open_list (ms[i := m]) = open_list ms"
proof (induction ms arbitrary: i)
  case (Cons x xs)
  then show ?case by (cases i) (auto simp: open_list_def)
qed simp

lemma update_section_inv:
  assumes inv: "rs_inv rs" and i: "i < length (mediaSections rs)" and f: "f (mediaSections rs ! i) = Inr m"
    and keeps: "has_mid m = has_mid (mediaSections rs ! i)" "has_port m = has_port (mediaSections rs ! i)"
  shows "\<exists>rs'. update_section f i rs = Inr rs' \<and> rs_inv rs' \<and> mediaSections rs' = (mediaSections rs)[i := m]"
proof -
  have secs: "sections_ok (mediaSections rs) (midToIndex rs) (firstMid rs)" using inv by (simp add: rs_inv_def)
  note known = index_known [OF inv i]
  have mid: "sec_mid m = sec_mid (mediaSections rs ! i)" using known(3) keeps(1) by (simp add: sec_ok_def sec_mid_has)
  then have ok: "sec_ok m" "sec_open m = sec_open (mediaSections rs ! i)"
    using known(3) keeps by (auto simp: sec_ok_def sec_open_def)
  have "open_list ((mediaSections rs)[i := m]) = open_list (mediaSections rs)"
    by (rule open_list_update [OF i mid ok(2)])
  moreover have "sections_ok ((mediaSections rs)[i := m]) (midToIndex rs) (firstMid rs)"
    using sections_replace_same [OF secs i ok(1) mid] ok(2) first_open [OF secs] i by (cases "mediaSections rs = []") simp_all
  moreover obtain sdp where "set_media i (GetObject m) (sdpObject rs) = Inr sdp"
    "sdp_shape (map GetObject ((mediaSections rs)[i := m])) (bundle_text (open_list (mediaSections rs))) sdp"
    using set_media_sections [OF inv i] by blast
  ultimately show ?thesis using i f by (auto simp: update_section_def rs_inv_def)
qed

lemma sec_same:
  assumes "sec_ok m" "has_mid m' = has_mid m" "has_port m' 0 \<or> has_port m' 7"
  shows "sec_mid m' = sec_mid m" "sec_ok m'"
proof -
  have "has_mid m' (sec_mid m)" using assms(1,2) by (simp add: sec_ok_def)
  then show "sec_mid m' = sec_mid m" by (rule sec_mid_has)
  with assms show "sec_ok m'" by (simp add: sec_ok_def)
qed

lemma Disable_sec:
  assumes "sec_ok m"
  shows "sec_mid (ms_Disable m) = sec_mid m" "sec_ok (ms_Disable m)" "sec_open (ms_Disable m) = sec_open m"
  using sec_same [OF assms, of "ms_Disable m"] assms by (simp_all add: section_keeps sec_open_def sec_ok_def)

lemma Close_sec:
  assumes "sec_ok m"
  shows "sec_mid (ms_Close m) = sec_mid m" "sec_ok (ms_Close m)" "\<not> sec_open (ms_Close m)"
  using sec_same [OF assms, of "ms_Close m"] has_port_07 [of "ms_Close m"] by (simp_all add: section_keeps sec_open_def)

lemma CloseMediaSection_inv:
  assumes inv: "rs_inv rs" and i: "i < length (mediaSections rs)"
  defines "m \<equiv> (if i = 0 then ms_Disable (mediaSections rs ! i) else ms_Close (mediaSections rs ! i))"
  shows "\<exists>rs'. CloseMediaSection (sec_mid (mediaSections rs ! i)) rs = Inr rs' \<and> rs_inv rs' \<and> mediaSections rs' = (mediaSections rs)[i := m]"
proof -
  have secs: "sections_ok (mediaSections rs) (midToIndex rs) (firstMid rs)" using inv by (simp add: rs_inv_def)
  note known = index_known [OF inv i]
  have first: "sec_mid (mediaSections rs ! i) = firstMid rs \<longleftrightarrow> i = 0"
    using first_open [OF secs] known(1) index_known(1) [OF inv, of 0] i by (metis Pair_inject gr_zeroI not_less0)
  have mid: "sec_mid m = sec_mid (mediaSections rs ! i)" "sec_ok m" "i = 0 \<longrightarrow> sec_open m"
    using Disable_sec [OF known(3)] Close_sec [OF known(3)] first_open [OF secs] i
    unfolding m_def by (cases "i = 0"; simp; fail)+
  obtain sdp where sdp: "set_media i (GetObject m) (sdpObject rs) = Inr sdp"
    "sdp_shape (map GetObject ((mediaSections rs)[i := m])) (bundle_text (open_list (mediaSections rs))) sdp"
    using set_media_sections [OF inv i] by blast
  define rs1 where "rs1 = rs\<lparr>mediaSections := (mediaSections rs)[i := m], sdpObject := sdp\<rparr>"
  have "sections_ok (mediaSections rs1) (midToIndex rs1) (firstMid rs1)"
    using sections_replace_same [OF secs i mid(2,1,3)] by (simp add: rs1_def)
  then obtain sdp' where "RegenerateBundleMids rs1 = Inr (rs1\<lparr>sdpObject := sdp'\<rparr>)" "rs_inv (rs1\<lparr>sdpObject := sdp'\<rparr>)"
    using Regenerate_ok [of rs1] sdp(2) by (auto simp: rs1_def)
  then show ?thesis using sdp(1) i by (auto simp: CloseMediaSection_def known update_section_def first m_def rs1_def)
qed

lemma update_all_inv:
  assumes "foldM (update_section f) [0..<n] rs = Inr rs'" "rs_inv rs" "n \<le> length (mediaSections rs)"
    and "\<And>m m'. f m = Inr m' \<Longrightarrow> has_mid m' = has_mid m \<and> has_port m' = has_port m"
  shows "rs_inv rs' \<and> length (mediaSections rs') = length (mediaSections rs)"
proof -
  have "rs_inv r' \<and> length (mediaSections r') = length (mediaSections rs)"
    if "i \<in> set [0..<n]" "rs_inv r \<and> length (mediaSections r) = length (mediaSections rs)" "update_section f i r = Inr r'" for i r r'
  proof -
    note step = that
    have "i < length (mediaSections r)" using that assms(3) by simp
    moreover obtain m where "f (mediaSections r ! i) = Inr m" using step(3) by (auto simp: update_section_def rbind_Inr_iff split: if_splits)
    ultimately show ?thesis using update_section_inv [of r i f m] step assms(4) by fastforce
  qed
  from foldM_inv [OF assms(1), where P = "\<lambda>r. rs_inv r \<and> length (mediaSections r) = length (mediaSections rs)", OF _ this] assms(2)
  show ?thesis by simp
qed

lemma rs_inv_sdp:
  assumes "rs_inv rs" "sdp_shape (map GetObject (mediaSections rs)) (bundle_text (open_list (mediaSections rs))) sdp"
  shows "rs_inv (rs\<lparr>sdpObject := sdp\<rparr>)"
  using assms by (simp add: rs_inv_def)

lemma rs_inv_icelite:
  assumes "rs_inv rs" "set_icelite ice (sdpObject rs) = Inr sdp"
  shows "rs_inv (rs\<lparr>sdpObject := sdp\<rparr>)"
  using assms set_icelite_shape [of _ _ "sdpObject rs" ice] by (intro rs_inv_sdp) (force simp: rs_inv_def)+

lemma UpdateIceParameters_inv:
  assumes "UpdateIceParameters ice rs = Inr rs'" "rs_inv rs"
  shows "rs_inv rs'"
proof -
  obtain sdp where "set_icelite ice (sdpObject rs) = Inr sdp" and loop: "foldM (update_section (SetIceParameters ice)) [0..<length (mediaSections rs)]
      (rs\<lparr>rs_iceParameters := ice, sdpObject := sdp\<rparr>) = Inr rs'"
    using assms(1) by (auto simp: UpdateIceParameters_def rbind_Inr_iff)
  then have "rs_inv (rs\<lparr>rs_iceParameters := ice, sdpObject := sdp\<rparr>)"
    using rs_inv_icelite [OF assms(2)] by (simp add: rs_inv_def)
  from update_all_inv [OF loop this] show ?thesis using SetIceParameters_keeps by simp
qed

lemma UpdateDtlsRole_inv:
  assumes "UpdateDtlsRole role rs = Inr rs'" "rs_inv rs"
  shows "rs_inv rs'"
proof -
  obtain sdp dtls where "set_icelite (rs_iceParameters rs) (sdpObject rs) = Inr sdp"
    and loop: "foldM (update_section (\<lambda>m. Inr (SetDtlsRole role m))) [0..<length (mediaSections rs)]
      (rs\<lparr>rs_dtlsParameters := dtls, sdpObject := sdp\<rparr>) = Inr rs'"
    using assms(1) by (auto simp: UpdateDtlsRole_def rbind_Inr_iff)
  then have "rs_inv (rs\<lparr>rs_dtlsParameters := dtls, sdpObject := sdp\<rparr>)"
    using rs_inv_icelite [OF assms(2)] by (simp add: rs_inv_def)
  from update_all_inv [OF loop this] show ?thesis by (auto simp: section_keeps)
qed

lemma GetSdp_inv:
  assumes "rs_inv rs"
  shows "\<exists>rs'. GetSdp rs = Inr (rs', sdpObject rs') \<and> rs_inv rs' \<and> mediaSections rs' = mediaSections rs"
  using assms by (auto simp: GetSdp_def rs_inv_def sdp_shape_def obj_get_set)

text \<open>The search for a section to recycle.\<close>

lemma find_closed:
  assumes "list_all sec_ok ms"
  shows "\<exists>r. find_at ms_IsClosed ms = Inr r \<and> (case r of None \<Rightarrow> list_all sec_open ms | Some n \<Rightarrow> n < length ms \<and> \<not> sec_open (ms ! n))"
  using assms
proof (induction ms)
  case (Cons m ms)
  then obtain r where "find_at ms_IsClosed ms = Inr r" "case r of None \<Rightarrow> list_all sec_open ms | Some n \<Rightarrow> n < length ms \<and> \<not> sec_open (ms ! n)"
    by auto
  then show ?case using Cons.prems by (cases r; cases "sec_open m") (auto simp: sec_ok_reads)
qed simp

lemma next_section_find:
  assumes "list_all sec_ok ms"
  shows "next_section i ms = rbind (find_at ms_IsClosed ms) (\<lambda>r. Inr (case r of None \<Rightarrow> (i + length ms, '''') | Some n \<Rightarrow> (i + n, sec_mid (ms ! n))))"
  using assms
proof (induction ms arbitrary: i)
  case (Cons m ms)
  moreover obtain r where "find_at ms_IsClosed ms = Inr r" using find_closed Cons.prems by auto
  ultimately show ?case by (cases r) (auto simp: sec_ok_reads)
qed simp

lemma rs_sec_ok: "rs_inv rs \<Longrightarrow> list_all sec_ok (mediaSections rs)"
  by (simp add: rs_inv_def sections_ok_def)

lemma GetNext_cases:
  assumes "rs_inv rs"
  obtains "GetNextMediaSectionIdx rs = Inr (length (mediaSections rs), '''')" "find_at ms_IsClosed (mediaSections rs) = Inr None"
    "list_all sec_open (mediaSections rs)"
  | i where "i < length (mediaSections rs)" "\<not> sec_open (mediaSections rs ! i)" "find_at ms_IsClosed (mediaSections rs) = Inr (Some i)"
    "GetNextMediaSectionIdx rs = Inr (i, sec_mid (mediaSections rs ! i))"
  using find_closed [OF rs_sec_ok [OF assms]] next_section_find [OF rs_sec_ok [OF assms], of 0] that
  by (auto simp: GetNextMediaSectionIdx_def split: option.splits)

lemma rs_Send_inv:
  assumes inv: "rs_inv rs" and nxt: "GetNextMediaSectionIdx rs = Inr (idx, reuseMid)" and mid: "jfind media ''mid'' = Some (JStr s)"
    and fresh: "fresh_mid rs idx s" and send: "rs_Send media reuseMid offer answer opts rs = Inr (rs', offer')"
  shows "rs_inv rs' \<and> midToIndex rs' s = Some idx"
proof -
  obtain m where mk: "mk_AnswerMediaSection (rs_iceParameters rs) (rs_iceCandidates rs) (rs_dtlsParameters rs) (rs_sctpParameters rs)
      media offer answer opts = Inr (m, offer')"
    and op: "(if reuseMid \<noteq> [] then ReplaceMediaSection m reuseMid rs else AddMediaSection m rs) = Inr rs'"
    using send by (auto simp: rs_Send_def rbind_Inr_iff)
  note m = mk_Answer_has [OF mk mid]
  have "s \<noteq> []" using fresh by (simp add: fresh_mid_def)
  note mids = new_section_ok [OF m this]
  from inv show ?thesis
  proof (cases rule: GetNext_cases)
    case 1
    then have "AddMediaSection m rs = Inr rs'" "idx = length (mediaSections rs)" using op nxt by auto
    then show ?thesis using AddMediaSection_inv [OF inv m] fresh mids(3) by (auto simp: rs_inv_def sections_ok_def)
  next
    case (2 i)
    then have "ReplaceMediaSection m (sec_mid (mediaSections rs ! i)) rs = Inr rs'" "idx = i"
      using op nxt index_known(2) [OF inv] by auto
    then show ?thesis using ReplaceMediaSection_inv [OF inv m 2(1,2)] fresh mids(3) 2(1) by (auto simp: rs_inv_def sections_ok_def)
  qed
qed

lemma rs_Receive_inv:
  assumes inv: "rs_inv rs" and nxt: "GetNextMediaSectionIdx rs = Inr (idx, reuseMid)"
    and fresh: "fresh_mid rs idx s" and recv: "rs_Receive s kind p sid tid rs = Inr rs'"
  shows "rs_inv rs' \<and> midToIndex rs' s = Some idx"
proof -
  obtain m where mk: "mk_OfferMediaSection (rs_iceParameters rs) (rs_iceCandidates rs) JNull s kind p sid tid = Inr m"
    and op: "rbind (find_at ms_IsClosed (mediaSections rs)) (\<lambda>i. case i of
         Some n \<Rightarrow> rbind (GetMid (mediaSections rs ! n)) (\<lambda>old. ReplaceMediaSection m old rs)
       | None \<Rightarrow> AddMediaSection m rs) = Inr rs'"
    using recv by (auto simp: rs_Receive_def rbind_Inr_iff)
  note m = mk_Offer_has [OF mk]
  have "s \<noteq> []" using fresh by (simp add: fresh_mid_def)
  note mids = new_section_ok [OF m this]
  from inv show ?thesis
  proof (cases rule: GetNext_cases)
    case 1
    then have "AddMediaSection m rs = Inr rs'" "idx = length (mediaSections rs)" using op nxt by auto
    then show ?thesis using AddMediaSection_inv [OF inv m] fresh mids(3) by (auto simp: rs_inv_def sections_ok_def)
  next
    case (2 i)
    then have "ReplaceMediaSection m (sec_mid (mediaSections rs ! i)) rs = Inr rs'" "idx = i"
      using op nxt index_known(3) [OF inv] by (auto simp: sec_ok_reads)
    then show ?thesis using ReplaceMediaSection_inv [OF inv m 2(1,2)] fresh mids(3) 2(1) by (auto simp: rs_inv_def sections_ok_def)
  qed
qed

lemma SendSctpAssociation_inv:
  assumes "rs_inv rs" "jfind media ''mid'' = Some (JStr s)" "fresh_mid rs (length (mediaSections rs)) s"
    and "SendSctpAssociation media rs = Inr rs'"
  shows "rs_inv rs'"
  using assms AddMediaSection_inv [OF assms(1) mk_Answer_has, OF _ assms(2) _ assms(2) assms(3)]
  by (fastforce simp: SendSctpAssociation_def rbind_Inr_iff)

lemma RecvSctpAssociation_inv:
  assumes "rs_inv rs" "fresh_mid rs (length (mediaSections rs)) ''datachannel''" "RecvSctpAssociation rs = Inr rs'"
  shows "rs_inv rs'"
  using assms AddMediaSection_inv [OF assms(1) mk_Offer_has, OF _ _ assms(2)]
  by (fastforce simp: RecvSctpAssociation_def rbind_Inr_iff)

lemma known_mid:
  assumes "rs_inv rs" "midToIndex rs mid = Some i"
  shows "i < length (mediaSections rs)" "mid = sec_mid (mediaSections rs ! i)"
  using assms by (simp_all add: rs_inv_def sections_ok_def)

section \<open>Sessions\<close>

text \<open>
  The operations the handlers perform.  The mid of a new section is not the mid of another section; the
  section that is recycled is the one \<open>GetNextMediaSectionIdx\<close> names; only sections that exist are
  closed.
\<close>

inductive remote_session :: "RemoteSdp \<Rightarrow> bool" where
  start: "mk_RemoteSdp ice cs dtls sctp = Inr rs \<Longrightarrow> remote_session rs"
| send: "remote_session rs \<Longrightarrow> GetNextMediaSectionIdx rs = Inr (idx, reuseMid) \<Longrightarrow> jfind media ''mid'' = Some (JStr s)
    \<Longrightarrow> fresh_mid rs idx s \<Longrightarrow> rs_Send media reuseMid offer answer opts rs = Inr (rs', offer') \<Longrightarrow> remote_session rs'"
| send_sctp: "remote_session rs \<Longrightarrow> jfind media ''mid'' = Some (JStr s) \<Longrightarrow> fresh_mid rs (length (mediaSections rs)) s
    \<Longrightarrow> SendSctpAssociation media rs = Inr rs' \<Longrightarrow> remote_session rs'"
| receive: "remote_session rs \<Longrightarrow> GetNextMediaSectionIdx rs = Inr (idx, reuseMid) \<Longrightarrow> fresh_mid rs idx s
    \<Longrightarrow> rs_Receive s kind p sid tid rs = Inr rs' \<Longrightarrow> remote_session rs'"
| recv_sctp: "remote_session rs \<Longrightarrow> fresh_mid rs (length (mediaSections rs)) ''datachannel'' \<Longrightarrow> RecvSctpAssociation rs = Inr rs'
    \<Longrightarrow> remote_session rs'"
| close: "remote_session rs \<Longrightarrow> midToIndex rs mid \<noteq> None \<Longrightarrow> CloseMediaSection mid rs = Inr rs' \<Longrightarrow> remote_session rs'"
| ice: "remote_session rs \<Longrightarrow> UpdateIceParameters ice rs = Inr rs' \<Longrightarrow> remote_session rs'"
| role: "remote_session rs \<Longrightarrow> UpdateDtlsRole role rs = Inr rs' \<Longrightarrow> remote_session rs'"
| sdp: "remote_session rs \<Longrightarrow> GetSdp rs = Inr (rs', sdp) \<Longrightarrow> remote_session rs'"

lemma remote_session_inv: "remote_session rs \<Longrightarrow> rs_inv rs"
proof (induction rule: remote_session.induct)
  case (close rs mid rs')
  then obtain i where "midToIndex rs mid = Some i" by auto
  from known_mid [OF close.IH this] show ?case using CloseMediaSection_inv [OF close.IH, of i] close.hyps(3) by force
next
  case (sdp rs rs' sdp)
  then show ?case using GetSdp_inv by fastforce
qed (auto dest: mk_RemoteSdp_inv rs_Send_inv SendSctpAssociation_inv rs_Receive_inv RecvSctpAssociation_inv
      UpdateIceParameters_inv UpdateDtlsRole_inv)

lemma bundle_text_join:
  assumes "list_all (\<lambda>s. s \<noteq> []) ss"
  shows "bundle_text ss = join '' '' ss"
proof -
  have "fold (\<lambda>s mids. if mids = [] then s else mids @ '' '' @ s) ss acc = (if ss = [] then acc else acc @ '' '' @ join '' '' ss)"
    if "acc \<noteq> []" "list_all (\<lambda>s. s \<noteq> []) ss" for acc :: string and ss
    using that by (induction ss arbitrary: acc rule: induct_list012) auto
  from this [of "hd ss" "tl ss"] assms show ?thesis
    by (cases ss; cases "tl ss") (auto simp: bundle_text_def)
qed

lemma validated_fingerprints:
  assumes "validateDtlsParameters dtls = Inr dtls'"
  shows "\<exists>qs x xs. dtls' = JObj (obj_set ''fingerprints'' (JArr (x # xs)) qs) \<and> list_all (\<lambda>f. \<exists>ps. f = JObj ps) (x # xs)"
proof -
  obtain ps xs ys where p: "obj_get ''fingerprints'' ps = Some (JArr xs)" "xs \<noteq> []" "mapM validateDtlsFingerprint xs = Inr ys"
      "dtls' = JObj (obj_set ''fingerprints'' (JArr ys) ps)"
    using assms by (auto simp: validateDtlsParameters_eq validate_elems_def has_def jempty_def res_simps
        split: json.splits if_splits option.splits elim!: is_array.elims)
  have "list_all (\<lambda>f. \<exists>ps. f = JObj ps) ys"
    by (rule mapM_all [OF p(3)]) (auto simp: validateDtlsFingerprint_eq split: json.splits if_splits)
  moreover have "ys \<noteq> []" using mapM_length [OF p(3)] p(2) by auto
  ultimately show ?thesis using p(4) by (cases ys) auto
qed

section \<open>A sample session\<close>

definition sample_ice :: json where
  "sample_ice = mk_obj [(''password'', JStr ''p''), (''usernameFragment'', JStr ''u'')]"

definition sample_dtls :: json where
  "sample_dtls = mk_obj [(''fingerprints'', JArr [mk_obj [(''algorithm'', JStr ''sha-256''), (''value'', JStr ''aa'')]]), (''role'', JStr ''auto'')]"

definition sample_offer :: json where
  "sample_offer = mk_obj [(''codecs'', JArr []), (''headerExtensions'', JArr []), (''encodings'', JArr [mk_obj [(''ssrc'', JUInt 5)]]), (''rtcp'', JObj [])]"

text \<open>Two sections are received and the second one is closed.\<close>

definition sample_run :: "(RemoteSdp \<times> RemoteSdp \<times> RemoteSdp \<times> RemoteSdp) result" where
  "sample_run =
     rbind (mk_RemoteSdp sample_ice (JArr []) sample_dtls JNull) (\<lambda>r0.
     rbind (rs_Receive ''0'' ''audio'' sample_offer ''s'' ''t'' r0) (\<lambda>r1.
     rbind (rs_Receive ''1'' ''video'' sample_offer ''s'' ''t'' r1) (\<lambda>r2.
     rbind (CloseMediaSection ''1'' r2) (\<lambda>r3. Inr (r0, r1, r2, r3)))))"

lemma sample_steps:
  "case sample_run of
     Inl _ \<Rightarrow> False
   | Inr (r0, r1, r2, r3) \<Rightarrow>
       GetNextMediaSectionIdx r0 = Inr (0, '''') \<and> fresh_mid r0 0 ''0'' \<and> GetNextMediaSectionIdx r1 = Inr (1, '''') \<and> fresh_mid r1 1 ''1''
       \<and> midToIndex r2 ''1'' \<noteq> None \<and> map sec_mid (mediaSections r3) = [''0'', ''1'']
       \<and> map sec_mid (filter (\<lambda>m. ms_IsClosed m = Inr False) (mediaSections r3)) = [''0'']"
  by code_simp

lemma sample_remote_session:
  obtains rs where "remote_session rs" "map sec_mid (mediaSections rs) = [''0'', ''1'']"
    "map sec_mid (filter (\<lambda>m. ms_IsClosed m = Inr False) (mediaSections rs)) = [''0'']"
proof -
  obtain r0 r1 r2 r3 where run: "sample_run = Inr (r0, r1, r2, r3)" using sample_steps by (auto split: sum.splits)
  note r = this [unfolded sample_run_def] and steps = sample_steps [unfolded run, simplified]
  have "remote_session r0" using r by (auto simp: rbind_Inr_iff intro: start)
  moreover have "remote_session r0 \<Longrightarrow> remote_session r1" using r steps by (auto simp: rbind_Inr_iff intro: receive)
  moreover have "remote_session r1 \<Longrightarrow> remote_session r2" using r steps by (auto simp: rbind_Inr_iff intro: receive)
  moreover have "remote_session r2 \<Longrightarrow> remote_session r3" using r steps by (auto simp: rbind_Inr_iff intro: close)
  ultimately have "remote_session r3" by iprover
  then show thesis by (rule that) (use steps in simp_all)
qed

section \<open>Properties\<close>

text \<open>C9. Whatever the handlers do in a session, the session object lists the JSON of the media sections in
  their order, its BUNDLE group names the mids of the sections that are not closed, the map of indices
  finds each section under its mid and knows no other mid, and the first section, which carries the
  bundled transport, is found under the first mid and is never closed.\<close>

theorem remote_description:
  assumes "remote_session rs"
  shows "(\<exists>ob g. sdpObject rs = JObj ob \<and> obj_get ''media'' ob = Some (JArr (map GetObject (mediaSections rs)))
            \<and> obj_get ''groups'' ob = Some (JArr [JObj g])
            \<and> obj_get ''mids'' g = Some (JStr (join '' '' (map sec_mid (filter (\<lambda>m. ms_IsClosed m = Inr False) (mediaSections rs))))))
         \<and> (\<forall>mid i. midToIndex rs mid = Some i \<longleftrightarrow> i < length (mediaSections rs) \<and> GetMid (mediaSections rs ! i) = Inr mid)
         \<and> (mediaSections rs \<noteq> [] \<longrightarrow> midToIndex rs (firstMid rs) = Some 0 \<and> ms_IsClosed (mediaSections rs ! 0) = Inr False)"
proof -
  note inv = remote_session_inv [OF assms]
  then have secs: "sections_ok (mediaSections rs) (midToIndex rs) (firstMid rs)" by (simp add: rs_inv_def)
  have ok: "sec_ok m" if "m \<in> set (mediaSections rs)" for m using rs_sec_ok [OF inv] that by (simp add: list_all_iff)
  then have filt: "filter (\<lambda>m. ms_IsClosed m = Inr False) (mediaSections rs) = filter sec_open (mediaSections rs)"
    by (intro filter_cong) (simp_all add: sec_ok_reads)
  have "list_all (\<lambda>s. s \<noteq> []) (open_list (mediaSections rs))" using ok by (auto simp: open_list_def list_all_iff sec_ok_def)
  then have btext: "bundle_text (open_list (mediaSections rs)) = join '' '' (map sec_mid (filter (\<lambda>m. ms_IsClosed m = Inr False) (mediaSections rs)))"
    by (simp add: bundle_text_join filt) (simp add: open_list_def)
  from inv obtain ob g where "sdpObject rs = JObj ob" "obj_get ''media'' ob = Some (JArr (map GetObject (mediaSections rs)))"
    "obj_get ''groups'' ob = Some (JArr [JObj g])" "obj_get ''mids'' g = Some (JStr (bundle_text (open_list (mediaSections rs))))"
    by (auto simp: rs_inv_def sdp_shape_def)
  note shape = this [unfolded btext]
  have idx: "midToIndex rs mid = Some i \<longleftrightarrow> i < length (mediaSections rs) \<and> GetMid (mediaSections rs ! i) = Inr mid" for mid i
    using secs sec_ok_reads(1) [OF ok, of "mediaSections rs ! i"] by (auto simp: sections_ok_def)
  have "midToIndex rs (firstMid rs) = Some 0 \<and> ms_IsClosed (mediaSections rs ! 0) = Inr False" if "mediaSections rs \<noteq> []"
    using first_open [OF secs] that secs sec_ok_reads(2) [OF ok, of "mediaSections rs ! 0"] by (simp add: sections_ok_def)
  with shape idx show ?thesis by blast
qed

theorem remote_description_witness:
  "\<exists>rs ob g. remote_session rs \<and> sdpObject rs = JObj ob \<and> obj_get ''groups'' ob = Some (JArr [JObj g])
     \<and> obj_get ''mids'' g = Some (JStr ''0'') \<and> midToIndex rs (firstMid rs) = Some 0"
proof -
  obtain rs where rs: "remote_session rs" "map sec_mid (mediaSections rs) = [''0'', ''1'']"
    "map sec_mid (filter (\<lambda>m. ms_IsClosed m = Inr False) (mediaSections rs)) = [''0'']" by (rule sample_remote_session)
  then have "mediaSections rs \<noteq> []" by auto
  then show ?thesis using remote_description [OF rs(1)] rs(1) unfolding rs(3) by auto
qed

text \<open>C39. For ICE and DTLS parameters that passed validation the remote description can always be made, but it
  always announces an ICE-lite peer: validation inserts iceLite = false where the member is absent, and the
  description tests for its presence only.\<close>

theorem validated_always_ice_lite:
  assumes "validateIceParameters ice = Inr ice'" "validateDtlsParameters dtls = Inr dtls'"
  shows "\<exists>rs. mk_RemoteSdp ice' cs dtls' sctp = Inr rs \<and> jfind (sdpObject rs) ''icelite'' = Some (JStr ''ice-lite'')"
proof -
  obtain ps where ice: "ice' = JObj (fill is_boolean ''iceLite'' (JBool False) ps)"
    using assms(1) by (auto simp: validateIceParameters_eq split: json.splits if_splits)
  have lite: "contains ice' ''iceLite''" by (auto simp: ice contains_def obj_get_fill has_def split: option.splits)
  obtain qs x xs where fps: "dtls' = JObj (obj_set ''fingerprints'' (JArr (x # xs)) qs)" "list_all (\<lambda>f. \<exists>ps. f = JObj ps) (x # xs)"
    using assms(2) validated_fingerprints by blast
  have "length xs < length (x # xs)" by simp
  then obtain ks where "(x # xs) ! length xs = JObj ks" using fps(2) unfolding list_all_length by blast
  then obtain a b where fp: "last_fingerprint dtls' = Inr (dtls', JObj ks)" "read_mut (JObj ks) ''algorithm'' = Inr a" "read_mut (JObj ks) ''value'' = Inr b"
    by (simp add: last_fingerprint_def fps obj_get_set)
  show ?thesis using lite by (simp add: mk_RemoteSdp_def fp set_icelite_def initial_sdp_def mk_obj_def obj_get_set obj_get_Cons)
qed

theorem validated_always_ice_lite_witness:
  "\<exists>ice dtls rs. validateIceParameters sample_ice = Inr ice \<and> jfind ice ''iceLite'' = Some (JBool False)
     \<and> validateDtlsParameters sample_dtls = Inr dtls
     \<and> mk_RemoteSdp ice (JArr []) dtls JNull = Inr rs \<and> jfind (sdpObject rs) ''icelite'' = Some (JStr ''ice-lite'')"
proof -
  have "validateIceParameters sample_ice = Inr (mk_obj [(''iceLite'', JBool False), (''password'', JStr ''p''), (''usernameFragment'', JStr ''u'')])"
    "validateDtlsParameters sample_dtls = Inr sample_dtls" by code_simp+
  from this validated_always_ice_lite [OF this, of "JArr []" JNull] show ?thesis
    by (auto simp: mk_obj_def obj_get_Cons obj_get_Nil)
qed

end
