(* ===== verification/Handlers.thy ===== *)
theory Handlers
  imports Remote_Sdp Sdp_Utils Endpoints
begin

text \<open>
  \<^verbatim>\<open>Handler.cpp\<close>: the handlers that drive a peer connection for the transports.  An operation maps the
  state of the handler to its outcome and the new state, which an exception does not undo.  What leaves
  the library is recorded as a call with the flag whether it succeeded; the answers of the peer
  connection, of the SDP parser and writer and of the listener are the fields of \<open>pc_env\<close>.  Transceivers
  are named by numbers.
\<close>

section \<open>State\<close>

datatype pc_call =
    PcAddTransceiver nat "RtpEncodingParameters list"
  | PcCreateOffer bool
  | PcCreateAnswer
  | PcSetLocalDescription bool string
  | PcSetRemoteDescription bool json
  | PcCreateDataChannel string DataChannelInit
  | PcRemoveTrack nat
  | PcSetConfiguration "string list"
  | PcGetStats "nat option"
  | PcClose
  | SetDirectionInactive nat
  | SenderSetTrack nat "nat option"
  | SenderSetParameters nat "RtpEncodingParameters list"
  | OnConnect json
  | OnConnectionStateChange IceConnectionState

record pc_env =
  sdp_parse :: "string \<Rightarrow> json result"
  sdp_write :: "json \<Rightarrow> string"
  sdp_parseParams :: "string \<Rightarrow> json result"
  pc_transceiver :: "nat option"
  pc_offer :: "string result"
  pc_answer :: "string result"
  pc_setLocal :: "unit result"
  pc_setRemote :: "unit result"
  pc_currentDescription :: string
  pc_localDescription :: string
  pc_mid :: "nat \<Rightarrow> string option"
  pc_transceivers :: "nat list"
  pc_dataChannel :: "unit result"
  pc_stats :: "json result"
  pc_encodings :: "RtpEncodingParameters list"
  pc_setParameters :: "unit result"
  pc_setConfiguration :: bool
  on_connect :: "unit result"

record Handler =
  remoteSdp :: RemoteSdp
  transportReady :: bool
  mapMidTransceiver :: "(string \<times> nat) list"
  hasDataChannelMediaSection :: bool
  nextSendSctpStreamId :: u32
  forcedLocalDtlsRole :: string
  calls :: "(pc_call \<times> bool) list"

record SendHandler = Handler +
  sendingRtpParametersByKind :: json
  sendingRemoteRtpParametersByKind :: json

type_synonym ('x, 's) hm = "'s \<Rightarrow> 'x result \<times> 's"

section \<open>Operations that keep their effects\<close>

definition hret :: "'x \<Rightarrow> ('x, 's) hm" where
  "hret x h = (Inr x, h)"

definition hlift :: "'x result \<Rightarrow> ('x, 's) hm" where
  "hlift r h = (r, h)"

definition hbind :: "('x, 's) hm \<Rightarrow> ('x \<Rightarrow> ('y, 's) hm) \<Rightarrow> ('y, 's) hm" where
  "hbind m f h = (case m h of (Inl e, h') \<Rightarrow> (Inl e, h') | (Inr x, h') \<Rightarrow> f x h')"

definition hget :: "('s \<Rightarrow> 'x) \<Rightarrow> ('x, 's) hm" where
  "hget f h = (Inr (f h), h)"

definition hmod :: "('s \<Rightarrow> 's) \<Rightarrow> (unit, 's) hm" where
  "hmod f h = (Inr (), f h)"

text \<open>\<open>catch (std::exception&)\<close> with a handler that throws the exception again.\<close>

definition hcatch :: "('x, 's) hm \<Rightarrow> ('s \<Rightarrow> 's) \<Rightarrow> ('x, 's) hm" where
  "hcatch m f h = (case m h of (Inl e, h') \<Rightarrow> (Inl e, if is_std_exception e then f h' else h') | r \<Rightarrow> r)"

definition log_call :: "pc_call \<Rightarrow> bool \<Rightarrow> 'z Handler_scheme \<Rightarrow> 'z Handler_scheme" where
  "log_call c ok h = h\<lparr>calls := calls h @ [(c, ok)]\<rparr>"

definition hcall :: "pc_call \<Rightarrow> 'x result \<Rightarrow> ('x, 'z Handler_scheme) hm" where
  "hcall c r h = (r, log_call c (case r of Inl _ \<Rightarrow> False | Inr _ \<Rightarrow> True) h)"

definition hsdp :: "(RemoteSdp \<Rightarrow> (RemoteSdp \<times> 'x) result) \<Rightarrow> ('x, 'z Handler_scheme) hm" where
  "hsdp f h = (case f (remoteSdp h) of Inl e \<Rightarrow> (Inl e, h) | Inr (rs, x) \<Rightarrow> (Inr x, h\<lparr>remoteSdp := rs\<rparr>))"

definition hsdpu :: "(RemoteSdp \<Rightarrow> RemoteSdp result) \<Rightarrow> (unit, 'z Handler_scheme) hm" where
  "hsdpu f = hsdp (\<lambda>rs. rbind (f rs) (\<lambda>rs'. Inr (rs', ())))"

text \<open>The remote description is written out and given to the peer connection.\<close>

definition set_remote :: "pc_env \<Rightarrow> bool \<Rightarrow> (unit, 'z Handler_scheme) hm" where
  "set_remote env offer = hbind (hsdp GetSdp) (\<lambda>sdp. hcall (PcSetRemoteDescription offer sdp) (pc_setRemote env))"

section \<open>The base class\<close>

definition GetNativeRtpCapabilities :: "pc_env \<Rightarrow> json result" where
  "GetNativeRtpCapabilities env =
     rbind (pc_offer env) (\<lambda>offer. rbind (sdp_parse env offer) (extractRtpCapabilities (sdp_parseParams env)))"

definition mk_Handler :: "json \<Rightarrow> json \<Rightarrow> json \<Rightarrow> json \<Rightarrow> Handler result" where
  "mk_Handler iceParameters iceCandidates dtlsParameters sctpParameters =
     rbind (case jfind dtlsParameters ''role'' of
              None \<Rightarrow> Inr ''''
            | Some v \<Rightarrow> rbind (get_string v) (\<lambda>role.
                Inr (if role \<noteq> ''auto'' then (if role = ''server'' then ''client'' else ''server'') else ''''))) (\<lambda>forced.
     rbind (mk_RemoteSdp iceParameters iceCandidates dtlsParameters sctpParameters) (\<lambda>rs.
       Inr \<lparr>remoteSdp = rs, transportReady = False, mapMidTransceiver = [], hasDataChannelMediaSection = False,
            nextSendSctpStreamId = 0, forcedLocalDtlsRole = forced, calls = []\<rparr>))"

definition Handler_Close :: "(unit, 'z Handler_scheme) hm" where
  "Handler_Close = hcall PcClose (Inr ())"

definition GetTransportStats :: "pc_env \<Rightarrow> (json, 'z Handler_scheme) hm" where
  "GetTransportStats env = hcall (PcGetStats None) (pc_stats env)"

definition UpdateIceServers :: "pc_env \<Rightarrow> json \<Rightarrow> (unit, 'z Handler_scheme) hm" where
  "UpdateIceServers env iceServerUris =
     hbind (hlift (mapM get_string (elems iceServerUris))) (\<lambda>uris.
       hcall (PcSetConfiguration uris) (if pc_setConfiguration env then Inr () else Inl (MscError ''failed to update ICE servers'')))"

definition OnIceConnectionChange :: "IceConnectionState \<Rightarrow> (unit, 'z Handler_scheme) hm" where
  "OnIceConnectionChange newState = hcall (OnConnectionStateChange newState) (Inr ())"

definition SetupTransport :: "pc_env \<Rightarrow> string \<Rightarrow> json \<Rightarrow> (unit, 'z Handler_scheme) hm" where
  "SetupTransport env localDtlsRole localSdpObject =
     hbind (hlift (if jempty localSdpObject then sdp_parse env (pc_currentDescription env) else Inr localSdpObject)) (\<lambda>sdp.
     hbind (hlift (extractDtlsParameters sdp)) (\<lambda>d. hbind (hlift (set_key d ''role'' (JStr localDtlsRole))) (\<lambda>dtlsParameters.
     hbind (hsdpu (UpdateDtlsRole (if localDtlsRole = ''client'' then ''server'' else ''client''))) (\<lambda>_.
     hbind (hcall (OnConnect dtlsParameters) (on_connect env)) (\<lambda>_.
       hmod (\<lambda>h. h\<lparr>transportReady := True\<rparr>))))))"

definition ensure_transport :: "pc_env \<Rightarrow> string \<Rightarrow> json \<Rightarrow> (unit, 'z Handler_scheme) hm" where
  "ensure_transport env role localSdpObject =
     hbind (hget transportReady) (\<lambda>ready. if ready then hret ()
       else hbind (hget forcedLocalDtlsRole) (\<lambda>forced. SetupTransport env (if forced \<noteq> '''' then forced else role) localSdpObject))"

definition transceiver_mid :: "pc_env \<Rightarrow> nat \<Rightarrow> string result" where
  "transceiver_mid env t = (case pc_mid env t of Some s \<Rightarrow> Inr s | None \<Rightarrow> Inl (StdException ''bad_optional_access''))"

definition find_transceiver :: "string \<Rightarrow> (nat, 'z Handler_scheme) hm" where
  "find_transceiver localId =
     hbind (hget mapMidTransceiver) (\<lambda>m. case map_of m localId of None \<Rightarrow> hlift (Inl (MscError ''associated RtpTransceiver not found'')) | Some t \<Rightarrow> hret t)"

section \<open>Encodings\<close>

definition fillJsonRtpEncodingParameters :: "RtpEncodingParameters \<Rightarrow> json \<Rightarrow> json result" where
  "fillJsonRtpEncodingParameters encoding j =
     foldM (\<lambda>(k, v) j. set_key j k v)
       ([(''active'', JBool (ep_active encoding))]
        @ (if ep_rid encoding \<noteq> '''' then [(''rid'', JStr (ep_rid encoding))] else [])
        @ (case max_bitrate_bps encoding of Some n \<Rightarrow> [(''maxBitrate'', JInt (scast n))] | None \<Rightarrow> [])
        @ (case max_framerate encoding of Some q \<Rightarrow> [(''maxFramerate'', JFloat q)] | None \<Rightarrow> [])
        @ (case scale_resolution_down_by encoding of Some q \<Rightarrow> [(''scaleResolutionDownBy'', JFloat q)] | None \<Rightarrow> [])
        @ (case scalability_mode encoding of Some s \<Rightarrow> [(''scalabilityMode'', JStr s)] | None \<Rightarrow> [])
        @ [(''networkPriority'', JInt (case network_priority encoding of kVeryLow \<Rightarrow> 0 | kLow \<Rightarrow> 1 | kMedium \<Rightarrow> 2 | kHigh \<Rightarrow> 3))]) j"

text \<open>One or two digits without a leading zero.\<close>

fun layer_digits :: "string \<Rightarrow> (nat \<times> string) option" where
  "layer_digits (c # d # s) =
     (if is_digit c \<and> c \<noteq> CHR ''0'' then (if is_digit d then Some (digits_value [c, d], s) else Some (digits_value [c], d # s)) else None)"
| "layer_digits [c] = (if is_digit c \<and> c \<noteq> CHR ''0'' then Some (digits_value [c], []) else None)"
| "layer_digits [] = None"

text \<open>The pattern \<^verbatim>\<open>^[LS]([1-9]\d{0,1})T([1-9]\d{0,1}).*\<close>.\<close>

definition parseScalabilityMode :: "string \<Rightarrow> json" where
  "parseScalabilityMode s =
     (let dflt = mk_obj [(''spatialLayers'', JInt 1), (''temporalLayers'', JInt 1)] in
      if take 1 s \<notin> {''L'', ''S''} then dflt
      else case layer_digits (drop 1 s) of
             Some (spatial, CHR ''T'' # t) \<Rightarrow>
               (case layer_digits t of
                  Some (temporal, rest) \<Rightarrow>
                    if list_all (\<lambda>c. of_char c \<noteq> (10 :: nat) \<and> of_char c \<noteq> (13 :: nat)) rest
                    then mk_obj [(''spatialLayers'', JUInt (of_nat spatial)), (''temporalLayers'', JUInt (of_nat temporal))]
                    else dflt
                | None \<Rightarrow> dflt)
           | _ \<Rightarrow> dflt)"

definition assign_rids :: "RtpEncodingParameters list \<Rightarrow> RtpEncodingParameters list" where
  "assign_rids es =
     (if 1 < length es then map (\<lambda>(k, e). e\<lparr>ep_rid := ''r'' @ nat_string (k mod 256)\<rparr>) (zip [0..<length es] es) else es)"

section \<open>The sending side\<close>

definition mk_SendHandler :: "json \<Rightarrow> json \<Rightarrow> json \<Rightarrow> json \<Rightarrow> json \<Rightarrow> json \<Rightarrow> SendHandler result" where
  "mk_SendHandler iceParameters iceCandidates dtlsParameters sctpParameters sendingRtpParams sendingRemoteRtpParams =
     rbind (mk_Handler iceParameters iceCandidates dtlsParameters sctpParameters) (\<lambda>h.
       Inr (Handler.extend h (SendHandler.fields sendingRtpParams sendingRemoteRtpParams)))"

text \<open>The parameters of a kind with their codecs reduced; the codec of the application may be rewritten.\<close>

definition reduced_parameters :: "json \<Rightarrow> json option \<Rightarrow> (json \<times> json option) result" where
  "reduced_parameters p codec =
     rbind (at_mut p ''codecs'') (\<lambda>(p1, cs). rbind (reduceCodecs cs codec) (\<lambda>(_, codec', reduced).
     rbind (set_key p1 ''codecs'' (JArr reduced)) (\<lambda>p2. Inr (p2, codec'))))"

definition sending_for :: "string \<Rightarrow> json option \<Rightarrow> (json \<times> json option, SendHandler) hm" where
  "sending_for kind codec =
     hbind (hget sendingRtpParametersByKind) (\<lambda>j. hbind (hlift (at_mut j kind)) (\<lambda>(j', p).
     hbind (hmod (\<lambda>h. h\<lparr>sendingRtpParametersByKind := j'\<rparr>)) (\<lambda>_. hlift (reduced_parameters p codec))))"

definition sending_remote_for :: "string \<Rightarrow> json option \<Rightarrow> (json \<times> json option, SendHandler) hm" where
  "sending_remote_for kind codec =
     hbind (hget sendingRemoteRtpParametersByKind) (\<lambda>j. hbind (hlift (at_mut j kind)) (\<lambda>(j', p).
     hbind (hmod (\<lambda>h. h\<lparr>sendingRemoteRtpParametersByKind := j'\<rparr>)) (\<lambda>_. hlift (reduced_parameters p codec))))"

definition first_mime :: "json \<Rightarrow> string result" where
  "first_mime p =
     rbind (read_mut p ''codecs'') (\<lambda>cs. rbind (at_idx cs 0) (\<lambda>(_, c). rbind (read_mut c ''mimeType'') (\<lambda>v.
     rbind (get_string v) (\<lambda>s. Inr (to_lower s)))))"

definition media_at :: "json \<Rightarrow> nat \<Rightarrow> json result" where
  "media_at sdp idx = rbind (read_mut sdp ''media'') (\<lambda>ms. rbind (at_idx ms idx) (\<lambda>(_, m). Inr m))"

definition hacked_offer :: "pc_env \<Rightarrow> string \<Rightarrow> nat \<Rightarrow> i32 \<Rightarrow> string result" where
  "hacked_offer env offer idx spatialLayers =
     rbind (sdp_parse env offer) (\<lambda>sdp. rbind (media_at sdp idx) (\<lambda>m. rbind (addLegacySimulcast m (ucast spatialLayers)) (\<lambda>m'.
     rbind (set_media idx m' sdp) (\<lambda>sdp'. Inr (sdp_write env sdp')))))"

definition spatial_layers :: "RtpEncodingParameters list \<Rightarrow> i32 result" where
  "spatial_layers es =
     rbind (at_const (parseScalabilityMode (case es of e # _ \<Rightarrow> (case scalability_mode e of Some s \<Rightarrow> s | None \<Rightarrow> '''') | [] \<Rightarrow> ''''))
              ''spatialLayers'') get_i32"

text \<open>The block that creates the offer: the mid of the new transceiver, whether the offer was changed for VP9,
  and the parameters with their mid.\<close>

definition send_offer :: "pc_env \<Rightarrow> nat \<Rightarrow> nat \<Rightarrow> RtpEncodingParameters list \<Rightarrow> json \<Rightarrow> (string \<times> bool \<times> json, SendHandler) hm" where
  "send_offer env t idx es p =
     hbind (hcall (PcCreateOffer False) (pc_offer env)) (\<lambda>offer. hbind (hlift (sdp_parse env offer)) (\<lambda>sdp.
     hbind (ensure_transport env ''server'' sdp) (\<lambda>_.
     hbind (hlift (spatial_layers es)) (\<lambda>layers. hbind (hlift (first_mime p)) (\<lambda>mimeType.
     let hack = (length es = 1 \<and> 1 <s layers \<and> mimeType = ''video/vp9'') in
     hbind (hlift (if hack then hacked_offer env offer idx layers else Inr offer)) (\<lambda>offer'.
     hbind (hcall (PcSetLocalDescription True offer') (pc_setLocal env)) (\<lambda>_.
     hbind (hlift (transceiver_mid env t)) (\<lambda>localId.
     hbind (hlift (set_key p ''mid'' (JStr localId))) (\<lambda>p'. hret (localId, hack, p'))))))))))"

definition sent_encodings :: "json \<Rightarrow> RtpEncodingParameters list \<Rightarrow> bool \<Rightarrow> json result" where
  "sent_encodings offerMediaObject es hack =
     (case es of
        [] \<Rightarrow> getRtpEncodings offerMediaObject
      | [e] \<Rightarrow>
          rbind (getRtpEncodings offerMediaObject) (\<lambda>new.
          case elems new of
            [] \<Rightarrow> Inl (Undefined ''end iterator'')
          | x # xs \<Rightarrow> rbind (fillJsonRtpEncodingParameters e x) (\<lambda>x'. Inr (JArr (if hack then [x'] else x' # xs))))
      | _ \<Rightarrow> rbind (mapM (\<lambda>e. fillJsonRtpEncodingParameters e JNull) es) (\<lambda>xs. Inr (JArr xs)))"

definition complete_parameters :: "json \<Rightarrow> RtpEncodingParameters list \<Rightarrow> bool \<Rightarrow> json \<Rightarrow> json result" where
  "complete_parameters offerMediaObject es hack p =
     rbind (getCname offerMediaObject) (\<lambda>cname.
     rbind (at_mut p ''rtcp'') (\<lambda>(p1, rtcp). rbind (set_key rtcp ''cname'' (JStr cname)) (\<lambda>rtcp'. rbind (set_key p1 ''rtcp'' rtcp') (\<lambda>p2.
     rbind (sent_encodings offerMediaObject es hack) (\<lambda>encodings.
     rbind (first_mime p2) (\<lambda>mimeType.
     rbind (if 1 < jsize encodings \<and> mimeType \<in> {''video/vp8'', ''video/h264''}
            then rbind (mapM (\<lambda>e. set_key e ''scalabilityMode'' (JStr ''S1T3'')) (elems encodings)) (\<lambda>xs. Inr (JArr xs))
            else Inr encodings) (\<lambda>encodings'.
       set_key p2 ''encodings'' encodings')))))))"

text \<open>The result is the mid, the transceiver whose sender is returned, and the RTP parameters.  No encodings
  and a null pointer are the same to the code.\<close>

definition Send :: "pc_env \<Rightarrow> (nat \<times> string) option \<Rightarrow> RtpEncodingParameters list \<Rightarrow> json option \<Rightarrow> json option
    \<Rightarrow> (string \<times> nat \<times> json, SendHandler) hm" where
  "Send env track encodings codecOptions codec =
     (case track of
        None \<Rightarrow> hlift (Inl (MscTypeError ''missing track''))
      | Some (trackId, kind) \<Rightarrow>
          let es = assign_rids encodings in
          hbind (sending_for kind codec) (\<lambda>(p, codec'). hbind (sending_remote_for kind codec') (\<lambda>(remote, _).
          hbind (hget remoteSdp) (\<lambda>rs. hbind (hlift (GetNextMediaSectionIdx rs)) (\<lambda>(idx, reuseMid).
          hbind (hcall (PcAddTransceiver trackId es)
                   (case pc_transceiver env of Some t \<Rightarrow> Inr t | None \<Rightarrow> Inl (MscError ''error creating transceiver''))) (\<lambda>t.
          hbind (hcatch (send_offer env t idx es p)
                   (\<lambda>h. log_call (SenderSetTrack t None) True (log_call (SetDirectionInactive t) True h))) (\<lambda>(localId, hack, p1).
          hbind (hlift (sdp_parse env (pc_localDescription env))) (\<lambda>sdp. hbind (hlift (media_at sdp idx)) (\<lambda>media.
          hbind (hlift (complete_parameters media es hack p1)) (\<lambda>p2.
          hbind (hsdp (rs_Send media reuseMid p2 remote codecOptions)) (\<lambda>p3.
          hbind (set_remote env False) (\<lambda>_.
          hbind (hmod (\<lambda>h. h\<lparr>mapMidTransceiver := AList.update localId t (mapMidTransceiver h)\<rparr>)) (\<lambda>_.
            hret (localId, t, p3))))))))))))))"

definition json_at :: "json \<Rightarrow> string \<Rightarrow> json result" where
  "json_at j k = (case j of JObj ps \<Rightarrow> (case obj_get k ps of Some v \<Rightarrow> Inr v | None \<Rightarrow> Inl (JsonOutOfRange 403)) | _ \<Rightarrow> Inl (JsonTypeError 304))"

definition stream_parameters :: "u32 \<Rightarrow> DataChannelInit \<Rightarrow> json" where
  "stream_parameters streamId init =
     JObj (put_all ([(''streamId'', JUInt (ucast (ucast streamId :: 16 word))), (''ordered'', JBool (dci_ordered init)), (''protocol'', JStr (dci_protocol init))]
       @ (case maxRetransmitTime init of Some n \<Rightarrow> [(''maxPacketLifeTime'', JInt (scast n))] | None \<Rightarrow> [])
       @ (case maxRetransmits init of Some n \<Rightarrow> [(''maxRetransmits'', JInt (scast n))] | None \<Rightarrow> [])) [])"

definition send_data_section :: "pc_env \<Rightarrow> (unit, SendHandler) hm" where
  "send_data_section env =
     hbind (hcall (PcCreateOffer False) (pc_offer env)) (\<lambda>offer. hbind (hlift (sdp_parse env offer)) (\<lambda>sdp.
     hbind (hget remoteSdp) (\<lambda>rs. hbind (hlift (GetNextMediaSectionIdx rs)) (\<lambda>_.
     hbind (hlift (read_mut sdp ''media'')) (\<lambda>media.
     hbind (hlift (find_at (\<lambda>m. rbind (json_at m ''type'') (\<lambda>v. rbind (get_string v) (\<lambda>s. Inr (s = ''application'')))) (elems media))) (\<lambda>i.
     case i of
       None \<Rightarrow> hlift (Inl (MscError ''Missing 'application' media section in SDP offer''))
     | Some n \<Rightarrow>
         hbind (ensure_transport env ''server'' sdp) (\<lambda>_.
         hbind (hcall (PcSetLocalDescription True offer) (pc_setLocal env)) (\<lambda>_.
         hbind (hsdpu (SendSctpAssociation (elems media ! n))) (\<lambda>_.
         hbind (set_remote env False) (\<lambda>_.
           hmod (\<lambda>h. h\<lparr>hasDataChannelMediaSection := True\<rparr>)))))))))))"

text \<open>The flag \<open>negotiated\<close>, which is set for every channel, is not part of the record.\<close>

definition SendDataChannel :: "pc_env \<Rightarrow> string \<Rightarrow> DataChannelInit \<Rightarrow> (json, SendHandler) hm" where
  "SendDataChannel env label init =
     hbind (hget nextSendSctpStreamId) (\<lambda>streamId.
     hbind (hlift (validateSctpStreamParameters (stream_parameters streamId init))) (\<lambda>params.
     hbind (hcall (PcCreateDataChannel label (init\<lparr>dci_id := ucast (ucast streamId :: 16 word)\<rparr>)) (pc_dataChannel env)) (\<lambda>_.
     hbind (hmod (\<lambda>h. h\<lparr>nextSendSctpStreamId := (nextSendSctpStreamId h + 1) mod 1024\<rparr>)) (\<lambda>_.
     hbind (hget hasDataChannelMediaSection) (\<lambda>got.
     hbind (if got then hret () else send_data_section env) (\<lambda>_. hret params))))))"

text \<open>A new offer of the peer connection, answered with the remote description.\<close>

definition renegotiate_offer :: "pc_env \<Rightarrow> bool \<Rightarrow> (unit, 'z Handler_scheme) hm" where
  "renegotiate_offer env iceRestart =
     hbind (hcall (PcCreateOffer iceRestart) (pc_offer env)) (\<lambda>offer.
     hbind (hcall (PcSetLocalDescription True offer) (pc_setLocal env)) (\<lambda>_.
     hbind (hlift (sdp_parse env (pc_localDescription env))) (\<lambda>_. set_remote env False)))"

definition StopSending :: "pc_env \<Rightarrow> string \<Rightarrow> (unit, SendHandler) hm" where
  "StopSending env localId =
     hbind (find_transceiver localId) (\<lambda>t.
     hbind (hcall (SenderSetTrack t None) (Inr ())) (\<lambda>_. hbind (hcall (PcRemoveTrack t) (Inr ())) (\<lambda>_.
     hbind (hlift (transceiver_mid env t)) (\<lambda>mid. hbind (hsdpu (CloseMediaSection mid)) (\<lambda>_.
       renegotiate_offer env False)))))"

definition ReplaceTrack :: "string \<Rightarrow> nat option \<Rightarrow> (unit, SendHandler) hm" where
  "ReplaceTrack localId track = hbind (find_transceiver localId) (\<lambda>t. hcall (SenderSetTrack t track) (Inr ()))"

text \<open>The first three encodings are switched on up to the layer; another layer changes nothing.\<close>

definition set_layers :: "u8 \<Rightarrow> RtpEncodingParameters list \<Rightarrow> RtpEncodingParameters list" where
  "set_layers spatialLayer es =
     (if spatialLayer \<in> {1, 2, 3}
      then map (\<lambda>(i, e). if i < 3 then e\<lparr>ep_active := (i < unat spatialLayer)\<rparr> else e) (zip [0..<length es] es) else es)"

definition SetMaxSpatialLayer :: "pc_env \<Rightarrow> string \<Rightarrow> u8 \<Rightarrow> (unit, SendHandler) hm" where
  "SetMaxSpatialLayer env localId spatialLayer =
     hbind (find_transceiver localId) (\<lambda>t. hcall (SenderSetParameters t (set_layers spatialLayer (pc_encodings env))) (pc_setParameters env))"

definition GetSenderStats :: "pc_env \<Rightarrow> string \<Rightarrow> (json, SendHandler) hm" where
  "GetSenderStats env localId = hbind (find_transceiver localId) (\<lambda>t. hcall (PcGetStats (Some t)) (pc_stats env))"

definition SendHandler_RestartIce :: "pc_env \<Rightarrow> json \<Rightarrow> (unit, SendHandler) hm" where
  "SendHandler_RestartIce env iceParameters =
     hbind (hsdpu (UpdateIceParameters iceParameters)) (\<lambda>_. hbind (hget transportReady) (\<lambda>ready.
       if \<not> ready then hret () else renegotiate_offer env True))"

section \<open>The receiving side\<close>

text \<open>The remote description as an offer, answered by the peer connection.\<close>

definition renegotiate_answer :: "pc_env \<Rightarrow> (unit, Handler) hm" where
  "renegotiate_answer env =
     hbind (set_remote env True) (\<lambda>_. hbind (hcall PcCreateAnswer (pc_answer env)) (\<lambda>answer.
       hcall (PcSetLocalDescription False answer) (pc_setLocal env)))"

text \<open>The mid of the RTP parameters, or the number of transceivers so far.\<close>

definition local_id :: "json \<Rightarrow> (string \<times> nat) list \<Rightarrow> string" where
  "local_id rtpParameters m =
     (case jfind rtpParameters ''mid'' of Some (JStr s) \<Rightarrow> if s \<noteq> '''' then s else nat_string (length m) | _ \<Rightarrow> nat_string (length m))"

definition apply_answer :: "pc_env \<Rightarrow> string \<Rightarrow> json \<Rightarrow> json \<Rightarrow> json result" where
  "apply_answer env localId rtpParameters sdp =
     rbind (read_mut sdp ''media'') (\<lambda>media.
     rbind (find_at (\<lambda>m. rbind (string_at m ''mid'') (\<lambda>s. Inr (s = localId))) (elems media)) (\<lambda>i.
       case i of
         None \<Rightarrow> Inl (Undefined ''end iterator'')
       | Some n \<Rightarrow> rbind (applyCodecParameters (sdp_parseParams env) rtpParameters (elems media ! n)) (\<lambda>m'. set_media n m' sdp)))"

text \<open>The result is the mid and the transceiver whose receiver and track are returned.\<close>

definition Receive :: "pc_env \<Rightarrow> string \<Rightarrow> string \<Rightarrow> json \<Rightarrow> (string \<times> nat, Handler) hm" where
  "Receive env consumerId kind rtpParameters =
     hbind (hget mapMidTransceiver) (\<lambda>m. let localId = local_id rtpParameters m in
     hbind (hlift (rbind (at_const rtpParameters ''rtcp'') (\<lambda>rtcp. string_at rtcp ''cname''))) (\<lambda>cname.
     hbind (hsdpu (rs_Receive localId kind rtpParameters cname consumerId)) (\<lambda>_. hbind (set_remote env True) (\<lambda>_.
     hbind (hcall PcCreateAnswer (pc_answer env)) (\<lambda>answer. hbind (hlift (sdp_parse env answer)) (\<lambda>sdp.
     hbind (hlift (apply_answer env localId rtpParameters sdp)) (\<lambda>sdp'. hbind (ensure_transport env ''client'' sdp') (\<lambda>_.
     hbind (hcall (PcSetLocalDescription False (sdp_write env sdp')) (pc_setLocal env)) (\<lambda>_.
     case find_if (\<lambda>t. pc_mid env t = Some localId) (pc_transceivers env) of
       None \<Rightarrow> hlift (Inl (MscError ''new RTCRtpTransceiver not found''))
     | Some t \<Rightarrow> hbind (hmod (\<lambda>h. h\<lparr>mapMidTransceiver := AList.update localId t (mapMidTransceiver h)\<rparr>)) (\<lambda>_. hret (localId, t)))))))))))"

definition recv_data_section :: "pc_env \<Rightarrow> (unit, Handler) hm" where
  "recv_data_section env =
     hbind (hsdpu RecvSctpAssociation) (\<lambda>_. hbind (set_remote env True) (\<lambda>_.
     hbind (hcall PcCreateAnswer (pc_answer env)) (\<lambda>answer.
     hbind (hget transportReady) (\<lambda>ready.
     hbind (if ready then hret () else hbind (hlift (sdp_parse env answer)) (ensure_transport env ''client'')) (\<lambda>_.
     hbind (hcall (PcSetLocalDescription False answer) (pc_setLocal env)) (\<lambda>_.
       hmod (\<lambda>h. h\<lparr>hasDataChannelMediaSection := True\<rparr>)))))))"

definition ReceiveDataChannel :: "pc_env \<Rightarrow> string \<Rightarrow> DataChannelInit \<Rightarrow> (json, Handler) hm" where
  "ReceiveDataChannel env label init =
     hbind (hlift (validateSctpStreamParameters (mk_obj [(''streamId'', JInt (scast (dci_id init))), (''ordered'', JBool (dci_ordered init))]))) (\<lambda>params.
     hbind (hcall (PcCreateDataChannel label init) (pc_dataChannel env)) (\<lambda>_.
     hbind (hget hasDataChannelMediaSection) (\<lambda>got.
     hbind (if got then hret () else recv_data_section env) (\<lambda>_. hret params))))"

definition StopReceiving :: "pc_env \<Rightarrow> string \<Rightarrow> (unit, Handler) hm" where
  "StopReceiving env localId =
     hbind (find_transceiver localId) (\<lambda>t. hbind (hlift (transceiver_mid env t)) (\<lambda>mid.
     hbind (hsdpu (CloseMediaSection mid)) (\<lambda>_. renegotiate_answer env)))"

definition GetReceiverStats :: "pc_env \<Rightarrow> string \<Rightarrow> (json, Handler) hm" where
  "GetReceiverStats env localId = hbind (find_transceiver localId) (\<lambda>t. hcall (PcGetStats (Some t)) (pc_stats env))"

definition RecvHandler_RestartIce :: "pc_env \<Rightarrow> json \<Rightarrow> (unit, Handler) hm" where
  "RecvHandler_RestartIce env iceParameters =
     hbind (hsdpu (UpdateIceParameters iceParameters)) (\<lambda>_. hbind (hget transportReady) (\<lambda>ready.
       if \<not> ready then hret () else renegotiate_answer env))"

end
