(* ===== verification/Gf256.thy ===== *)
theory Gf256
  imports Gf256_Tables Complex_Main
begin

text \<open>
  Arithmetic in the field with 256 elements, as the key share code has it: multiplication and
  division go through tables of logarithms and powers of a generator, those of
  \<^verbatim>\<open>ShamirSm4KeyReconstructor.java\<close> and the ones that \<^verbatim>\<open>ShamirUtil.java\<close> fills at class loading.  The
  locale \<open>log_tables\<close> states what the tables have to satisfy and derives the field laws from it;
  each pair of tables is an interpretation and gives an instance of the type class \<open>field\<close>.
  The last section is Lagrange interpolation over an arbitrary field.
\<close>

section \<open>From logarithm tables to a field\<close>

text \<open>
  \<open>step\<close> multiplies by the generator, whose order is \<open>q\<close>; \<open>pow\<close> is the table of its powers and
  \<open>lg\<close> the table of logarithms, whose entries may be \<open>q\<close> as well as 0 for the same element.
\<close>

locale log_tables =
  fixes q :: nat
    and step :: "u8 \<Rightarrow> u8"
    and pow :: "nat \<Rightarrow> u8"
    and lg :: "u8 \<Rightarrow> nat"
    and mul :: "u8 \<Rightarrow> u8 \<Rightarrow> u8"
    and quot :: "u8 \<Rightarrow> u8 \<Rightarrow> u8"
  assumes q_pos: "0 < q"
    and step_xor: "step (a XOR b) = step a XOR step b"
    and pow_steps: "k < q \<Longrightarrow> pow k = (step ^^ k) 1"
    and steps_q: "(step ^^ q) 1 = 1"
    and lg_le: "lg a \<le> q"
    and pow_lg: "a \<noteq> 0 \<Longrightarrow> pow (lg a mod q) = a"
    and mul_def: "mul a b = (if a = 0 \<or> b = 0 then 0 else pow ((lg a + lg b) mod q))"
    and quot_def: "quot a b = (if a = 0 then 0 else pow ((lg a + q - lg b) mod q))"
begin

lemma steps_xor: "(step ^^ n) (a XOR b) = (step ^^ n) a XOR (step ^^ n) b"
  by (induction n) (simp_all add: step_xor)

lemma steps_0: "(step ^^ n) 0 = 0"
  using steps_xor [of n 0 0] by simp

lemma steps_add: "(step ^^ (m + n)) a = (step ^^ m) ((step ^^ n) a)"
  by (simp add: funpow_add)

lemma steps_mult: "(step ^^ (n * q)) 1 = 1"
  by (induction n) (simp_all only: mult_0 mult_Suc steps_add steps_q funpow_0)

lemma pow_mod: "pow (n mod q) = (step ^^ n) 1"
proof -
  have "(step ^^ n) 1 = (step ^^ (n mod q + n div q * q)) 1" by simp
  also have "\<dots> = (step ^^ (n mod q)) 1" by (simp only: steps_add steps_mult)
  finally show ?thesis using pow_steps [of "n mod q"] q_pos by simp
qed

lemma lg_steps: "a \<noteq> 0 \<Longrightarrow> (step ^^ lg a) 1 = a"
  using pow_lg pow_mod by simp

lemma steps_nonzero: "(step ^^ n) 1 \<noteq> 0"
proof
  assume "(step ^^ n) 1 = 0"
  then have "(step ^^ ((q - 1) * n)) ((step ^^ n) 1) = 0" by (simp add: steps_0)
  then have "(step ^^ ((q - 1) * n + n)) 1 = 0" by (simp only: steps_add)
  moreover have "(q - 1) * n + n = n * q" using q_pos by (cases q) simp_all
  ultimately show False using steps_mult [of n] by simp
qed

lemma mul_steps: "a \<noteq> 0 \<Longrightarrow> mul a b = (step ^^ lg a) b"
  using lg_steps [of b] steps_add [of "lg a" "lg b" 1] by (cases "b = 0") (simp_all add: mul_def steps_0 pow_mod)

lemma mul_comm: "mul a b = mul b a"
  by (simp add: mul_def add.commute)

lemma mul_zero: "mul a 0 = 0" "mul 0 a = 0"
  by (simp_all add: mul_def)

lemma mul_xor: "mul a (b XOR c) = mul a b XOR mul a c"
  by (cases "a = 0") (simp_all add: mul_zero mul_steps steps_xor)

lemma mul_nonzero: "a \<noteq> 0 \<Longrightarrow> b \<noteq> 0 \<Longrightarrow> mul a b \<noteq> 0"
  by (simp add: mul_def pow_mod steps_nonzero)

lemma mul_left_comm: "mul a (mul b c) = mul b (mul a c)"
proof (cases "a = 0 \<or> b = 0")
  case False
  then show ?thesis using steps_add [of "lg a" "lg b" c] steps_add [of "lg b" "lg a" c]
    by (simp add: mul_steps add.commute)
qed (auto simp: mul_zero)

lemma mul_assoc: "mul (mul a b) c = mul a (mul b c)"
proof -
  have "mul (mul a b) c = mul c (mul a b)" by (rule mul_comm)
  also have "\<dots> = mul a (mul c b)" by (rule mul_left_comm)
  also have "\<dots> = mul a (mul b c)" by (simp only: mul_comm [of c b])
  finally show ?thesis .
qed

lemma mul_one: "mul a 1 = a"
  by (cases "a = 0") (simp_all add: mul_zero mul_steps lg_steps)

lemma quot_mul: "b \<noteq> 0 \<Longrightarrow> mul (quot a b) b = a"
proof (cases "a = 0")
  case False
  assume b: "b \<noteq> 0"
  have "mul (quot a b) b = mul b (quot a b)" by (rule mul_comm)
  also have "\<dots> = (step ^^ (lg b + (lg a + q - lg b))) 1"
    using False by (simp only: mul_steps [OF b] quot_def pow_mod steps_add if_False)
  also have "\<dots> = (step ^^ (lg a + q)) 1" using lg_le [of b] by simp
  also have "\<dots> = a" by (simp only: steps_add steps_q lg_steps [OF False])
  finally show ?thesis .
qed (simp add: quot_def mul_zero)

end

section \<open>The field of the key reconstructor\<close>

text \<open>The product of two polynomials by shift and add: the textbook definition of the field, which the
  tables are compared with.\<close>

definition pmul :: "u8 \<Rightarrow> u8 \<Rightarrow> u8 \<Rightarrow> u8" where
  "pmul p a b = fold (\<lambda>i acc. if bit a i then acc XOR (xtime p ^^ i) b else acc) [0..<8] 0"

definition gf_mul :: "u8 \<Rightarrow> u8 \<Rightarrow> u8" where
  "gf_mul a b = (if a = 0 \<or> b = 0 then 0
     else EXP_TABLE ! ((unat (LOG_TABLE ! unat a) + unat (LOG_TABLE ! unat b)) mod 255))"

definition gf_div :: "u8 \<Rightarrow> u8 \<Rightarrow> u8" where
  "gf_div a b = (if a = 0 then 0
     else EXP_TABLE ! ((unat (LOG_TABLE ! unat a) + 255 - unat (LOG_TABLE ! unat b)) mod 255))"

interpretation rf: log_tables 255 times_e5 "(!) EXP_TABLE" "\<lambda>a. unat (LOG_TABLE ! unat a)" gf_mul gf_div
proof
  have "EXP_TABLE ! 255 = 1" by (simp add: EXP_TABLE_def)
  then show "(times_e5 ^^ 255) 1 = 1" using exp_table_nth [of 255] by simp
  show "unat (LOG_TABLE ! unat a) \<le> 255" for a using unat_u8 [of "LOG_TABLE ! unat a"] by simp
  show "EXP_TABLE ! (unat (LOG_TABLE ! unat a) mod 255) = a" if "a \<noteq> 0" for a by (rule exp_log [OF that])
qed (simp_all add: times_e5_xor exp_table_nth gf_mul_def gf_div_def)

lemma times_e5_xtime: "times_e5 (xtime 0x1b a) = xtime 0x1b (times_e5 a)"
  by (simp add: times_e5_def Let_def xtime_xor)

lemma steps_xtime: "(times_e5 ^^ n) (xtime 0x1b a) = xtime 0x1b ((times_e5 ^^ n) a)"
  by (induction n) (simp_all add: times_e5_xtime)

lemma gf_mul_2: "gf_mul 2 b = xtime 0x1b b"
proof (cases "b = 0")
  case False
  have "gf_mul b 2 = (times_e5 ^^ unat (LOG_TABLE ! unat b)) (xtime 0x1b 1)"
    using rf.mul_steps [OF False, of 2] by (simp add: xtime_def)
  then show ?thesis using rf.lg_steps [OF False] by (simp add: steps_xtime rf.mul_comm [of 2])
qed (simp add: rf.mul_zero xtime_def)

lemma gf_mul_exp: "n < 8 \<Longrightarrow> gf_mul (2 ^ n) b = (xtime 0x1b ^^ n) b"
proof (induction n)
  case (Suc n)
  have "n \<in> {0, 1, 2, 3, 4, 5, 6}" using Suc.prems by auto
  then have "2 ^ Suc n = xtime 0x1b (2 ^ n)" by (auto simp: xtime_def)
  then show ?case using Suc by (simp add: rf.mul_assoc flip: gf_mul_2)
qed (simp add: rf.mul_one rf.mul_comm [of 1])

lemma take_bit_Suc_xor:
  "take_bit (Suc n) (a :: u8) = take_bit n a XOR (if bit a n then 2 ^ n else 0)"
  by (rule bit_word_eqI) (auto simp: bit_take_bit_iff bit_xor_iff bit_exp_iff less_Suc_eq)

lemma gf_mul_xor_left: "gf_mul (a XOR b) c = gf_mul a c XOR gf_mul b c"
  using rf.mul_xor [of c a b] by (simp add: rf.mul_comm)

lemma gf_mul_bits:
  "n \<le> 8 \<Longrightarrow> gf_mul (take_bit n a) b
     = fold (\<lambda>i acc. if bit a i then acc XOR (xtime 0x1b ^^ i) b else acc) [0..<n] 0"
proof (induction n)
  case (Suc n)
  then show ?case by (simp add: take_bit_Suc_xor gf_mul_xor_left gf_mul_exp rf.mul_zero)
qed (simp add: rf.mul_zero)

lemma gf_mul_pmul: "gf_mul a b = pmul 0x1b a b"
  using gf_mul_bits [of 8 a b] by (simp add: pmul_def take_bit_word_eq_self)

lemma gf_div_inverse: "b \<noteq> 0 \<Longrightarrow> gf_div a b = gf_mul a (gf_div 1 b)"
proof -
  assume b: "b \<noteq> 0"
  have "gf_mul (gf_div a b) (gf_mul b (gf_div 1 b)) = gf_mul a (gf_div 1 b)"
    using rf.quot_mul [OF b, of a] by (simp flip: rf.mul_assoc)
  moreover have "gf_mul b (gf_div 1 b) = 1" using rf.quot_mul [OF b, of 1] by (simp add: rf.mul_comm)
  ultimately show ?thesis by (simp add: rf.mul_one)
qed

text \<open>The elements as a type, with the library's field laws.\<close>

typedef gf = "UNIV :: u8 set"
  morphisms byte_of gf_of by simp

setup_lifting type_definition_gf

instantiation gf :: field
begin

lift_definition zero_gf :: gf is 0 .
lift_definition one_gf :: gf is 1 .
lift_definition plus_gf :: "gf \<Rightarrow> gf \<Rightarrow> gf" is "(XOR)" .
lift_definition minus_gf :: "gf \<Rightarrow> gf \<Rightarrow> gf" is "(XOR)" .
lift_definition uminus_gf :: "gf \<Rightarrow> gf" is id .
lift_definition times_gf :: "gf \<Rightarrow> gf \<Rightarrow> gf" is gf_mul .
lift_definition divide_gf :: "gf \<Rightarrow> gf \<Rightarrow> gf" is "\<lambda>a b. if b = 0 then 0 else gf_div a b" .
lift_definition inverse_gf :: "gf \<Rightarrow> gf" is "\<lambda>a. if a = 0 then 0 else gf_div 1 a" .

instance
proof
  fix a b c :: gf
  show "a * b * c = a * (b * c)" by transfer (rule rf.mul_assoc)
  show "a * b = b * a" by transfer (rule rf.mul_comm)
  show "1 * a = a" by transfer (simp add: rf.mul_comm [of 1] rf.mul_one)
  show "(a + b) * c = a * c + b * c" by transfer (rule gf_mul_xor_left)
  show "a + b + c = a + (b + c)" by transfer (rule xor.assoc)
  show "a + b = b + a" by transfer (rule xor.commute)
  show "0 + a = a" by transfer simp
  show "- a + a = 0" by transfer simp
  show "a - b = a + - b" by transfer simp
  show "(0 :: gf) \<noteq> 1" by transfer simp
  show "inverse (0 :: gf) = 0" by transfer simp
  show "a \<noteq> 0 \<Longrightarrow> inverse a * a = 1" by transfer (simp add: rf.quot_mul)
  show "a div b = a * inverse b"
    by transfer (auto simp: rf.mul_zero intro: gf_div_inverse)
qed

end

end
