(* ===== verification/Interpolation.thy ===== *)
theory Interpolation
  imports Complex_Main
begin

text \<open>
  Polynomial functions over a field and Lagrange interpolation: a polynomial function of degree
  below \<open>n\<close> is determined by its values at \<open>n\<close> points.  The key share code evaluates exactly this
  formula.
\<close>

section \<open>Polynomial functions\<close>

primrec polydeg :: "nat \<Rightarrow> ('a :: field \<Rightarrow> 'a) \<Rightarrow> bool" where
  "polydeg 0 f = (\<forall>x. f x = 0)"
| "polydeg (Suc n) f = (\<exists>c g. polydeg n g \<and> (\<forall>x. f x = c + x * g x))"

lemma polydeg_add: "polydeg n f \<Longrightarrow> polydeg n g \<Longrightarrow> polydeg n (\<lambda>x. f x + g x)"
proof (induction n arbitrary: f g)
  case (Suc n)
  then obtain c f' d g' where "polydeg n f'" "\<forall>x. f x = c + x * f' x" "polydeg n g'" "\<forall>x. g x = d + x * g' x"
    by auto
  then have "polydeg n (\<lambda>x. f' x + g' x)" "\<forall>x. f x + g x = (c + d) + x * (f' x + g' x)"
    using Suc.IH by (simp_all add: algebra_simps)
  then show ?case by (metis (no_types) polydeg.simps(2))
qed simp

lemma polydeg_scale: "polydeg n f \<Longrightarrow> polydeg n (\<lambda>x. a * f x)"
proof (induction n arbitrary: f)
  case (Suc n)
  then obtain c f' where "polydeg n f'" "\<forall>x. f x = c + x * f' x" by auto
  then have "polydeg n (\<lambda>x. a * f' x)" "\<forall>x. a * f x = a * c + x * (a * f' x)"
    using Suc.IH by (simp_all add: algebra_simps)
  then show ?case by (metis (no_types) polydeg.simps(2))
qed simp

lemma polydeg_zero: "polydeg n (\<lambda>x. 0)"
proof (induction n)
  case (Suc n)
  then show ?case by (auto intro!: exI [of _ 0] exI [of _ "\<lambda>x. 0"])
qed simp

lemma polydeg_Suc: "polydeg n f \<Longrightarrow> polydeg (Suc n) f"
proof (induction n arbitrary: f)
  case 0
  then show ?case by (auto intro!: exI [of _ 0] exI [of _ "\<lambda>x. 0"])
next
  case (Suc n)
  then obtain c f' where f': "polydeg n f'" "\<forall>x. f x = c + x * f' x" by auto
  show ?case using Suc.IH [OF f'(1)] f'(2) polydeg.simps(2) [of "Suc n" f] by blast
qed

lemma polydeg_root_factor: "polydeg n f \<Longrightarrow> polydeg (Suc n) (\<lambda>x. (x - a) * f x)"
proof -
  assume f: "polydeg n f"
  have "polydeg (Suc n) (\<lambda>x. x * f x)" using f polydeg.simps(2) [of n "\<lambda>x. x * f x"] by (metis add_0)
  moreover have "polydeg (Suc n) (\<lambda>x. - a * f x)" by (rule polydeg_Suc [OF polydeg_scale [OF f]])
  moreover have "(\<lambda>x. (x - a) * f x) = (\<lambda>x. x * f x + - a * f x)" by (simp add: fun_eq_iff algebra_simps)
  ultimately show ?thesis by (simp only: polydeg_add)
qed

lemma polydeg_sum: "finite A \<Longrightarrow> (\<And>i. i \<in> A \<Longrightarrow> polydeg n (f i)) \<Longrightarrow> polydeg n (\<lambda>x. \<Sum>i\<in>A. f i x)"
  by (induction A rule: finite_induct) (simp_all add: polydeg_zero polydeg_add)

lemma polydeg_prod: "finite A \<Longrightarrow> polydeg (Suc (card A)) (\<lambda>x. \<Prod>j\<in>A. (x - X j) / d j)"
proof (induction A rule: finite_induct)
  case empty
  then show ?case by (auto intro!: exI [of _ 1] exI [of _ "\<lambda>x. 0"])
next
  case (insert i A)
  have "polydeg (Suc (Suc (card A))) (\<lambda>x. (x - X i) * (1 / d i * (\<Prod>j\<in>A. (x - X j) / d j)))"
    by (rule polydeg_root_factor [OF polydeg_scale [OF insert.IH]])
  then show ?case using insert.hyps by (simp add: algebra_simps del: polydeg.simps)
qed

section \<open>Roots\<close>

lemma polydeg_factor: "polydeg (Suc n) f \<Longrightarrow> \<exists>g. polydeg n g \<and> (\<forall>x. f x = f r + (x - r) * g x)"
proof (induction n arbitrary: f)
  case 0
  then show ?case by (auto intro!: exI [of _ "\<lambda>x. 0"])
next
  case (Suc n)
  then obtain c h where h: "polydeg (Suc n) h" "\<forall>x. f x = c + x * h x" using polydeg.simps(2) by blast
  obtain k where k: "polydeg n k" "\<forall>x. h x = h r + (x - r) * k x" using Suc.IH [OF h(1)] by blast
  let ?g = "\<lambda>x. h x + r * k x"
  have "polydeg (Suc n) ?g" by (intro polydeg_add h(1) polydeg_Suc polydeg_scale k(1))
  moreover have "f x = f r + (x - r) * ?g x" for x
  proof -
    have "r * h x = r * h r + r * ((x - r) * k x)" using k(2) by (metis distrib_left)
    then show ?thesis using h(2) by (simp add: algebra_simps)
  qed
  ultimately show ?case by blast
qed

lemma polydeg_roots:
  "polydeg n f \<Longrightarrow> distinct rs \<Longrightarrow> length rs = n \<Longrightarrow> (\<forall>r \<in> set rs. f r = 0) \<Longrightarrow> f x = 0"
proof (induction n arbitrary: f rs x)
  case (Suc n)
  then obtain r rs' where rs: "rs = r # rs'" by (cases rs) auto
  obtain g where g: "polydeg n g" "\<forall>x. f x = f r + (x - r) * g x" using polydeg_factor [OF Suc.prems(1)] by blast
  have "\<forall>s \<in> set rs'. g s = 0"
  proof
    fix s assume s: "s \<in> set rs'"
    then have "f s = 0" "f r = 0" "s - r \<noteq> 0" using Suc.prems rs by auto
    then show "g s = 0" using spec [OF g(2), of s] by simp
  qed
  then have "g x = 0" using Suc.IH [OF g(1), of rs' x] Suc.prems(2,3) rs by simp
  then show ?case using spec [OF g(2), of x] Suc.prems(4) rs by simp
qed simp

section \<open>Interpolation\<close>

lemma lagrange:
  fixes X :: "nat \<Rightarrow> 'a :: field"
  assumes f: "polydeg n f" and inj: "inj_on X {..<n}"
  shows "f x = (\<Sum>i<n. f (X i) * (\<Prod>j\<in>{..<n} - {i}. (x - X j) / (X i - X j)))"
proof -
  let ?L = "\<lambda>x. \<Sum>i<n. f (X i) * (\<Prod>j\<in>{..<n} - {i}. (x - X j) / (X i - X j))"
  have "polydeg n (\<lambda>x. f (X i) * (\<Prod>j\<in>{..<n} - {i}. (x - X j) / (X i - X j)))" if "i < n" for i
    using polydeg_scale [OF polydeg_prod [of "{..<n} - {i}" X "\<lambda>j. X i - X j"], of "f (X i)"] that by simp
  then have L: "polydeg n ?L" by (intro polydeg_sum) auto
  have "polydeg n (\<lambda>x. f x + - 1 * ?L x)" by (rule polydeg_add [OF f polydeg_scale [OF L]])
  moreover have "?L (X k) = f (X k)" if k: "k < n" for k
  proof -
    have "(\<Prod>j\<in>{..<n} - {i}. (X k - X j) / (X i - X j)) = (if i = k then 1 else 0)" if "i < n" for i
    proof (cases "i = k")
      case True
      then have "(X k - X j) / (X i - X j) = 1" if "j \<in> {..<n} - {i}" for j
        using inj_onD [OF inj, of i j] that \<open>i < n\<close> by auto
      then show ?thesis using True by (simp add: prod.neutral)
    next
      case False
      then show ?thesis using k by (auto intro!: prod_zero bexI [of _ k])
    qed
    then have "?L (X k) = (\<Sum>i<n. f (X i) * (if i = k then 1 else 0))" by (intro sum.cong) auto
    also have "\<dots> = f (X k)" using k by (simp add: if_distrib [of "(*) _"] sum.delta cong: if_cong)
    finally show ?thesis .
  qed
  moreover have "distinct (map X [0..<n])" using inj by (simp add: distinct_map atLeast0LessThan)
  ultimately have "f x + - 1 * ?L x = 0" by (intro polydeg_roots [of n _ "map X [0..<n]"]) auto
  then show ?thesis by simp
qed

end
