(* ===== verification/Shamir.thy ===== *)
theory Shamir
  imports Gf256 Interpolation
begin

text \<open>
  Reconstruction of the room key from key shares: \<^verbatim>\<open>ShamirSm4KeyReconstructor.java\<close>.  A share is the
  text of a byte string whose last byte is the share's x coordinate and whose other bytes are the
  values of one polynomial per key byte.  Java's \<open>int\<close> is a 32-bit word; the exceptions of the Java
  library are \<open>StdException\<close> with the name of the class.  Strings are lists of 8-bit characters: the
  decoder reads its argument as ISO 8859-1 and refuses every character beyond it.
\<close>

section \<open>Arithmetic\<close>

text \<open>Reading an array: a negative index is a word beyond every length.\<close>

definition aload :: "'a list \<Rightarrow> i32 \<Rightarrow> 'a result" where
  "aload t i = (if unat i < length t then Inr (t ! unat i) else Inl (StdException ''ArrayIndexOutOfBoundsException''))"

definition add_gf :: "i32 \<Rightarrow> i32 \<Rightarrow> i32" where
  "add_gf a b = (a XOR b) AND 0xFF"

text \<open>The remainder is taken of numbers from 0 to 510, where signed and unsigned agree.\<close>

definition mult_gf :: "i32 \<Rightarrow> i32 \<Rightarrow> i32 result" where
  "mult_gf a b =
     rbind (aload LOG_TABLE a) (\<lambda>logA.
     rbind (aload LOG_TABLE b) (\<lambda>logB.
       let sum = ((ucast logA + ucast logB) mod 255 :: i32)
       in rbind (aload EXP_TABLE sum) (\<lambda>r.
          Inr (if a = 0 \<or> b = 0 then 0 else ucast r))))"

definition div_gf :: "i32 \<Rightarrow> i32 \<Rightarrow> i32 result" where
  "div_gf a b =
     (if b = 0 then Inl (StdException ''ArithmeticException'')
      else
        rbind (aload LOG_TABLE a) (\<lambda>logA.
        rbind (aload LOG_TABLE b) (\<lambda>logB.
          let diff = ((ucast logA - ucast logB + 255) mod 255 :: i32)
          in rbind (aload EXP_TABLE diff) (\<lambda>r.
             Inr (if a = 0 then 0 else ucast r)))))"

definition interpolatePolynomial :: "i32 list \<Rightarrow> i32 list \<Rightarrow> i32 \<Rightarrow> i32 result" where
  "interpolatePolynomial xSamples ySamples x =
     (if length xSamples \<noteq> length ySamples then Inl (StdException ''IllegalArgumentException'')
      else
        let limit = length xSamples
        in rbind (foldM (\<lambda>i result.
             rbind (foldM (\<lambda>j basis.
               if i = j then Inr basis
               else
                 let num = add_gf x (xSamples ! j);
                     denom = add_gf (xSamples ! i) (xSamples ! j)
                 in rbind (div_gf num denom) (\<lambda>term. mult_gf basis term)) [0..<limit] 1) (\<lambda>basis.
             rbind (mult_gf (ySamples ! i) basis) (\<lambda>t. Inr (add_gf result t)))) [0..<limit] 0) (\<lambda>result.
           Inr (result AND 0xFF)))"

section \<open>Decoding the text of a share\<close>

text \<open>\<open>String.trim\<close> and the loop that appends padding.\<close>

definition trim :: "string \<Rightarrow> string" where
  "trim s = (let low = (\<lambda>c. of_char c \<le> (32 :: nat)) in rev (dropWhile low (rev (dropWhile low s))))"

function pad4 :: "string \<Rightarrow> string" where
  "pad4 s = (if length s mod 4 \<noteq> 0 then pad4 (s @ ''='') else s)"
  by pat_completeness auto
termination
  by (relation "measure (\<lambda>s. (4 - length s mod 4) mod 4)") (auto simp: mod_Suc)

declare pad4.simps [simp del]

definition normalize :: "string \<Rightarrow> string" where
  "normalize s = pad4 (map (\<lambda>c. if c = CHR ''_'' then CHR ''/'' else c)
     (map (\<lambda>c. if c = CHR ''-'' then CHR ''+'' else c) (trim s)))"

text \<open>The decoder of \<^verbatim>\<open>java.util.Base64\<close> on a text whose length is a multiple of four: groups of four
  characters, padding only in the last group, any other character refused; the unused bits of a
  padded group are ignored.\<close>

definition b64_value :: "char \<Rightarrow> nat option" where
  "b64_value c =
     (let n = (of_char c :: nat)
      in if 65 \<le> n \<and> n \<le> 90 then Some (n - 65)
         else if 97 \<le> n \<and> n \<le> 122 then Some (n - 71)
         else if 48 \<le> n \<and> n \<le> 57 then Some (n + 4)
         else if n = 43 then Some 62
         else if n = 47 then Some 63
         else None)"

fun b64_decode :: "string \<Rightarrow> bytes result" where
  "b64_decode [] = Inr []"
| "b64_decode (a # b # c # d # rest) =
     (case (b64_value a, b64_value b, b64_value c, b64_value d) of
        (Some p, Some q, Some r, Some s) \<Rightarrow>
          rbind (b64_decode rest) (\<lambda>bs. Inr (of_nat (4 * p + q div 16) # of_nat (16 * q + r div 4) # of_nat (64 * r + s) # bs))
      | (Some p, Some q, Some r, None) \<Rightarrow>
          if d = CHR ''='' \<and> rest = [] then Inr [of_nat (4 * p + q div 16), of_nat (16 * q + r div 4)]
          else Inl (StdException ''IllegalArgumentException'')
      | (Some p, Some q, None, None) \<Rightarrow>
          if c = CHR ''='' \<and> d = CHR ''='' \<and> rest = [] then Inr [of_nat (4 * p + q div 16)]
          else Inl (StdException ''IllegalArgumentException'')
      | _ \<Rightarrow> Inl (StdException ''IllegalArgumentException''))"
| "b64_decode _ = Inl (StdException ''IllegalArgumentException'')"

section \<open>Reconstruction\<close>

record ShamirShare =
  index :: i32
  share :: "string option"

text \<open>Before API level 26 nothing is decoded and the share stays empty.\<close>

definition decode_share :: "nat \<Rightarrow> string \<Rightarrow> i32 list result" where
  "decode_share sdk s =
     (if 26 \<le> sdk then rbind (b64_decode (normalize s)) (\<lambda>bs. Inr (map ucast bs)) else Inr [])"

text \<open>The check of one entry; \<open>None\<close> is a null entry of the list or a null text.\<close>

definition share_text :: "ShamirShare option \<Rightarrow> string result" where
  "share_text s =
     (case s of
        None \<Rightarrow> Inl (StdException ''IllegalArgumentException'')
      | Some sh \<Rightarrow> (case share sh of Some t \<Rightarrow> Inr t | None \<Rightarrow> Inl (StdException ''IllegalArgumentException'')))"

text \<open>The body of the try block.\<close>

definition recover_bytes :: "nat \<Rightarrow> ShamirShare option list \<Rightarrow> i32 list result" where
  "recover_bytes sdk shares =
     rbind (mapM share_text shares) (\<lambda>texts.
     rbind (mapM (decode_share sdk) texts) (\<lambda>binaryShares.
     let shareLength = length (binaryShares ! 0)
     in if \<not> list_all (\<lambda>bs. length bs = shareLength) binaryShares then Inl (StdException ''IllegalStateException'')
        else if shareLength = 0 then Inl (StdException ''NegativeArraySizeException'')
        else mapM (\<lambda>i. interpolatePolynomial (map (\<lambda>bs. bs ! (shareLength - 1)) binaryShares)
                                             (map (\<lambda>bs. bs ! i) binaryShares) 0) [0..<shareLength - 1]))"

text \<open>The result is null when the list is missing or empty and whenever an exception is caught.\<close>

definition reconstructSm4Key :: "nat \<Rightarrow> ShamirShare option list option \<Rightarrow> string option" where
  "reconstructSm4Key sdk shares =
     (case shares of
        None \<Rightarrow> None
      | Some shs \<Rightarrow>
          if shs = [] then None
          else (case recover_bytes sdk shs of
                  Inl e \<Rightarrow> None
                | Inr secret \<Rightarrow> Some (concat (map (\<lambda>b. hex2 (unat b)) secret))))"

section \<open>The arithmetic is that of the field\<close>

lemma unat_ucast_byte: "unat (ucast (a :: u8) :: i32) = unat a"
proof -
  have "unat a < 2 ^ 32" using unat_u8 [of a] by simp
  then show ?thesis by (simp add: unsigned_ucast_eq take_bit_nat_eq_self)
qed

lemma aload_byte: "length t = 256 \<Longrightarrow> aload t (ucast (a :: u8)) = Inr (t ! unat a)"
  using unat_u8 [of a] by (simp add: aload_def unat_ucast_byte)

lemma aload_unat: "unat i = n mod 255 \<Longrightarrow> length t = 256 \<Longrightarrow> aload t i = Inr (t ! (n mod 255))"
  using mod_less_divisor [of 255 n] by (simp add: aload_def)

lemma unat_sum_mod: "unat ((ucast (a :: u8) + ucast (b :: u8)) mod 255 :: i32) = (unat a + unat b) mod 255"
  using unat_u8 [of a] unat_u8 [of b] by (simp add: unat_mod unat_word_ariths unat_ucast_byte)

lemma unat_diff_mod:
  "unat ((ucast (a :: u8) - ucast (b :: u8) + 255) mod 255 :: i32) = (unat a + 255 - unat b) mod 255"
proof -
  have "(ucast a - ucast b + 255 :: i32) = of_nat (unat a + 255 - unat b)"
    using unat_u8 [of b] by (simp add: of_nat_diff)
  moreover have "unat a + 255 - unat b < 2 ^ 32" using unat_u8 [of a] by simp
  ultimately show ?thesis by (simp add: unat_mod unat_of_nat)
qed

lemma ucast_byte_0: "(ucast (a :: u8) :: i32) = 0 \<longleftrightarrow> a = 0"
  using unat_ucast_byte [of a] by (auto simp flip: unat_eq_zero)

lemma ucast_byte_mask: "(ucast (a :: u8) :: i32) AND 0xFF = ucast a"
proof -
  have "(ucast a :: i32) AND mask 8 = ucast a"
    by (rule bit_word_eqI) (auto simp: bit_and_iff bit_mask_iff bit_ucast_iff dest: bit_imp_le_length)
  then show ?thesis by (simp add: mask_eq_exp_minus_1)
qed

lemma add_gf_byte: "add_gf (ucast (byte_of p)) (ucast (byte_of q)) = ucast (byte_of (p + q))"
  using ucast_byte_mask [of "byte_of p XOR byte_of q"] by (simp add: add_gf_def plus_gf.rep_eq unsigned_xor_eq)

lemma mult_gf_byte: "mult_gf (ucast (byte_of p)) (ucast (byte_of q)) = Inr (ucast (byte_of (p * q)))"
  using aload_unat [OF unat_sum_mod, of EXP_TABLE "LOG_TABLE ! unat (byte_of p)" "LOG_TABLE ! unat (byte_of q)"]
  by (simp add: mult_gf_def aload_byte times_gf.rep_eq gf_mul_def ucast_byte_0 Let_def)

lemma div_gf_byte: "q \<noteq> 0 \<Longrightarrow> div_gf (ucast (byte_of p)) (ucast (byte_of q)) = Inr (ucast (byte_of (p / q)))"
proof -
  assume "q \<noteq> 0"
  then have q: "byte_of q \<noteq> 0" by transfer
  then show ?thesis
    using aload_unat [OF unat_diff_mod, of EXP_TABLE "LOG_TABLE ! unat (byte_of p)" "LOG_TABLE ! unat (byte_of q)"]
    by (simp add: div_gf_def aload_byte divide_gf.rep_eq gf_div_def ucast_byte_0 Let_def)
qed

section \<open>The loops compute Lagrange's formula\<close>

lemma byte_of_eq: "byte_of p = byte_of q \<longleftrightarrow> p = q"
  by (rule byte_of_inject)

lemma basis_loop:
  assumes "\<And>j. j < m \<Longrightarrow> j \<noteq> i \<Longrightarrow> X j \<noteq> X i" and "m \<le> length xs" and "i < length xs"
    and "\<And>j. j < length xs \<Longrightarrow> xs ! j = ucast (byte_of (X j))"
  shows "foldM (\<lambda>j basis. if i = j then Inr basis
             else let num = add_gf (ucast (byte_of x)) (xs ! j); denom = add_gf (xs ! i) (xs ! j)
                  in rbind (div_gf num denom) (\<lambda>term. mult_gf basis term)) [0..<m] 1
    = Inr (ucast (byte_of (\<Prod>j\<in>{..<m} - {i}. (x - X j) / (X i - X j))))"
  using assms(1,2)
proof (induction m)
  case 0
  have "(ucast (byte_of 1) :: i32) = 1" by (simp add: one_gf.rep_eq)
  then show ?case by simp
next
  case (Suc m)
  have minus: "p - q = p + q" for p q :: gf by transfer simp
  show ?case
  proof (cases "i = m")
    case True
    then have "{..<Suc m} - {i} = {..<m} - {i}" by auto
    then show ?thesis using Suc True by (simp add: foldM_append)
  next
    case False
    then have "{..<Suc m} - {i} = insert m ({..<m} - {i})" by auto
    moreover have "X i + X m \<noteq> 0" using Suc.prems(1) [of m] False minus [of "X i" "X m"] by (metis eq_iff_diff_eq_0 lessI)
    ultimately show ?thesis using Suc False assms(3,4)
      by (simp add: foldM_append Let_def add_gf_byte div_gf_byte mult_gf_byte minus mult.commute)
  qed
qed

lemma interpolate_loop:
  assumes "inj_on X {..<length xs}" and "length ys = length xs"
    and "\<And>j. j < length xs \<Longrightarrow> xs ! j = ucast (byte_of (X j))"
    and "\<And>j. j < length xs \<Longrightarrow> ys ! j = ucast (byte_of (Y j))"
  shows "interpolatePolynomial xs ys (ucast (byte_of x))
    = Inr (ucast (byte_of (\<Sum>i<length xs. Y i * (\<Prod>j\<in>{..<length xs} - {i}. (x - X j) / (X i - X j)))))"
proof -
  let ?P = "\<lambda>i. \<Prod>j\<in>{..<length xs} - {i}. (x - X j) / (X i - X j)"
  let ?f = "\<lambda>i result.
             rbind (foldM (\<lambda>j basis. if i = j then Inr basis
               else let num = add_gf (ucast (byte_of x)) (xs ! j); denom = add_gf (xs ! i) (xs ! j)
                    in rbind (div_gf num denom) (\<lambda>term. mult_gf basis term)) [0..<length xs] 1) (\<lambda>basis.
             rbind (mult_gf (ys ! i) basis) (\<lambda>t. Inr (add_gf result t)))"
  have "foldM ?f [0..<m] 0 = Inr (ucast (byte_of (\<Sum>i<m. Y i * ?P i)))" if "m \<le> length xs" for m
    using that
  proof (induction m)
    case 0
    have "(ucast (byte_of 0) :: i32) = 0" by (simp add: zero_gf.rep_eq)
    then show ?case by simp
  next
    case (Suc m)
    have "X j \<noteq> X m" if "j < length xs" "j \<noteq> m" for j
      using inj_onD [OF assms(1), of j m] that Suc.prems by auto
    then have "?f m (ucast (byte_of r)) = Inr (ucast (byte_of (r + Y m * ?P m)))" for r
      using basis_loop [of "length xs" m X xs x] Suc.prems assms(3,4)
      by (simp add: mult_gf_byte add_gf_byte)
    then show ?case using Suc by (simp add: foldM_append)
  qed
  then show ?thesis using assms(2) by (simp add: interpolatePolynomial_def Let_def ucast_byte_mask)
qed

section \<open>The text form of a share\<close>

text \<open>The encoding of RFC 4648 with padding, and its URL-safe variant without.\<close>

definition b64_char :: "nat \<Rightarrow> char" where
  "b64_char n = (if n < 26 then char_of (n + 65) else if n < 52 then char_of (n + 71)
     else if n < 62 then char_of (n - 4) else if n = 62 then CHR ''+'' else CHR ''/'')"

fun b64_body :: "bytes \<Rightarrow> string" where
  "b64_body [] = []"
| "b64_body [a] = [b64_char (unat a div 4), b64_char (unat a mod 4 * 16)]"
| "b64_body [a, b] = [b64_char (unat a div 4), b64_char (unat a mod 4 * 16 + unat b div 16), b64_char (unat b mod 16 * 4)]"
| "b64_body (a # b # c # bs) =
     b64_char (unat a div 4) # b64_char (unat a mod 4 * 16 + unat b div 16)
     # b64_char (unat b mod 16 * 4 + unat c div 64) # b64_char (unat c mod 64) # b64_body bs"

definition b64_encode :: "bytes \<Rightarrow> string" where
  "b64_encode bs = b64_body bs @ replicate ((4 - length (b64_body bs) mod 4) mod 4) (CHR ''='')"

definition b64url_encode :: "bytes \<Rightarrow> string" where
  "b64url_encode bs = map (\<lambda>c. if c = CHR ''+'' then CHR ''-'' else if c = CHR ''/'' then CHR ''_'' else c) (b64_body bs)"

lemma of_char_b64: "n < 64 \<Longrightarrow> of_char (b64_char n) = (if n < 26 then n + 65 else if n < 52 then n + 71
     else if n < 62 then n - 4 else if n = 62 then 43 else (47 :: nat))"
  by (simp add: b64_char_def)

lemma b64_value_char: "n < 64 \<Longrightarrow> b64_value (b64_char n) = Some n"
  unfolding b64_value_def by (auto simp: of_char_b64 Let_def)

lemma b64_value_pad: "b64_value (CHR ''='') = None"
  by (simp add: b64_value_def)

text \<open>The bits that a group of characters carries twice vanish.\<close>

lemma byte_pieces:
  "(256 * w :: u8) = 0" "unat (a :: u8) div 16 div 16 = 0" "unat (a :: u8) div 64 div 4 = 0"
proof -
  have "(256 :: u8) = 0" by simp
  then show "(256 * w :: u8) = 0" by (simp only: mult_zero_left)
qed (use unat_u8 [of a] in \<open>simp_all flip: div_mult2_eq\<close>)

lemma pieces_less:
  fixes a b :: u8
  shows "unat a div 4 < 64" "unat a mod 4 * 16 < 64" "unat a mod 4 * 16 + unat b div 16 < 64" "unat a mod 16 * 4 < 64"
    "unat a mod 16 * 4 + unat b div 64 < 64" "unat a mod 64 < 64"
proof -
  have "unat a div 4 < 64" "unat b div 16 < 16" "unat b div 64 < 4" "unat a mod 4 < 4" "unat a mod 16 < 16" "unat a mod 64 < 64"
    using unat_u8 [of a] unat_u8 [of b] by (simp_all add: less_mult_imp_div_less)
  then show "unat a div 4 < 64" "unat a mod 4 * 16 < 64" "unat a mod 4 * 16 + unat b div 16 < 64" "unat a mod 16 * 4 < 64"
    "unat a mod 16 * 4 + unat b div 64 < 64" "unat a mod 64 < 64" by linarith+
qed

lemma b64_decode_encode: "b64_decode (b64_encode bs) = Inr bs"
proof (induction bs rule: b64_body.induct)
  case (4 a b c bs)
  then show ?case by (simp add: b64_encode_def b64_value_char pieces_less byte_pieces)
qed (simp_all add: b64_encode_def b64_value_char pieces_less byte_pieces b64_value_pad numeral_2_eq_2)

lemma b64_body_chars: "c \<in> set (b64_body bs) \<Longrightarrow> \<exists>n < 64. c = b64_char n"
  by (induction bs rule: b64_body.induct) (auto intro: pieces_less)

lemma pad4_eq: "pad4 s = s @ replicate ((4 - length s mod 4) mod 4) (CHR ''='')"
proof (induction s rule: pad4.induct)
  case (1 s)
  show ?case
  proof (cases "length s mod 4 = 0")
    case False
    then have "(4 - length s mod 4) mod 4 = Suc ((4 - length (s @ ''='') mod 4) mod 4)"
      by (simp add: mod_Suc) presburger
    then show ?thesis using 1 False by (subst pad4.simps) (simp add: replicate_append_same)
  qed (simp add: pad4.simps)
qed

lemma trim_id:
  assumes "\<And>c. c \<in> set s \<Longrightarrow> (32 :: nat) < of_char c"
  shows "trim s = s"
proof (cases "s = []")
  case False
  then have "(32 :: nat) < of_char (hd s)" "(32 :: nat) < of_char (last s)" by (simp_all add: assms)
  then have "dropWhile (\<lambda>c. of_char c \<le> (32 :: nat)) s = s" "dropWhile (\<lambda>c. of_char c \<le> (32 :: nat)) (rev s) = rev s"
    by (simp_all add: dropWhile_eq_self_iff hd_rev)
  then show ?thesis by (simp add: trim_def)
qed (simp add: trim_def)

lemma b64_char_plain: "n < 64 \<Longrightarrow> b64_char n \<noteq> CHR ''-'' \<and> b64_char n \<noteq> CHR ''_'' \<and> (32 :: nat) < of_char (b64_char n)"
  using of_char_b64 [of n] by (auto split: if_splits)

lemma b64_body_plain:
  "c \<in> set (b64_body bs) \<Longrightarrow> c \<noteq> CHR ''-'' \<and> c \<noteq> CHR ''_'' \<and> (32 :: nat) < of_char c"
  using b64_body_chars b64_char_plain by metis

lemma normalize_encode: "normalize (b64_encode bs) = b64_encode bs"
proof -
  have plain: "c \<noteq> CHR ''-'' \<and> c \<noteq> CHR ''_'' \<and> (32 :: nat) < of_char c" if "c \<in> set (b64_encode bs)" for c
    using that b64_body_plain [of c bs] by (auto simp: b64_encode_def)
  have "(n + (4 - n mod 4) mod 4) mod 4 = 0" for n :: nat
  proof -
    have "n mod 4 \<in> {0, 1, 2, 3}" by auto
    then show ?thesis using mod_add_left_eq [of n 4 "(4 - n mod 4) mod 4"] by auto
  qed
  then have "length (b64_encode bs) mod 4 = 0" by (simp only: b64_encode_def length_append length_replicate)
  moreover have "map (\<lambda>c. if c = CHR ''-'' then CHR ''+'' else c) (b64_encode bs) = b64_encode bs"
    "map (\<lambda>c. if c = CHR ''_'' then CHR ''/'' else c) (b64_encode bs) = b64_encode bs"
    using plain by (auto intro!: map_idI)
  ultimately show ?thesis using trim_id [of "b64_encode bs"] plain by (simp add: normalize_def pad4_eq)
qed

lemma normalize_url: "normalize (b64url_encode bs) = b64_encode bs"
proof -
  let ?u = "\<lambda>c. if c = CHR ''+'' then CHR ''-'' else if c = CHR ''/'' then CHR ''_'' else c"
  have "trim (b64url_encode bs) = b64url_encode bs"
    using b64_body_plain by (intro trim_id) (auto simp: b64url_encode_def)
  moreover have "map (\<lambda>c. if c = CHR ''_'' then CHR ''/'' else c)
      (map (\<lambda>c. if c = CHR ''-'' then CHR ''+'' else c) (map ?u (b64_body bs))) = b64_body bs"
    using b64_body_plain by (auto intro!: map_idI simp: comp_def)
  ultimately show ?thesis by (simp add: normalize_def pad4_eq b64_encode_def b64url_encode_def)
qed

section \<open>Sharing and reconstruction\<close>

text \<open>What the server hands out: one polynomial per key byte, the byte is its constant term, and a
  share lists the values of all of them at one point, followed by the point.\<close>

fun polyval :: "gf list \<Rightarrow> gf \<Rightarrow> gf" where
  "polyval [] x = 0"
| "polyval (c # cs) x = c + x * polyval cs x"

definition make_share :: "gf list list \<Rightarrow> gf \<Rightarrow> bytes" where
  "make_share polys x = map (\<lambda>cs. byte_of (polyval cs x)) polys @ [byte_of x]"

definition carries :: "gf list list \<Rightarrow> ShamirShare option \<Rightarrow> gf \<Rightarrow> bool" where
  "carries polys s x = (case s of
     Some sh \<Rightarrow> share sh \<in> {Some (b64_encode (make_share polys x)), Some (b64url_encode (make_share polys x))}
   | None \<Rightarrow> False)"

lemma polyval_0: "cs \<noteq> [] \<Longrightarrow> polyval cs 0 = hd cs"
  by (cases cs) simp_all

lemma polydeg_mono: "polydeg m f \<Longrightarrow> m \<le> n \<Longrightarrow> polydeg n f"
  by (induction n) (auto simp: le_Suc_eq intro: polydeg_Suc simp del: polydeg.simps(2))

lemma polydeg_polyval: "length cs \<le> n \<Longrightarrow> polydeg n (polyval cs)"
proof -
  have "polydeg (length cs) (polyval cs)"
  proof (induction cs)
    case (Cons c cs)
    then show ?case by (auto intro!: exI [of _ c] exI [of _ "polyval cs"])
  qed simp
  then show "length cs \<le> n \<Longrightarrow> polydeg n (polyval cs)" by (rule polydeg_mono)
qed

lemma decode_carried:
  assumes "26 \<le> sdk" and "t \<in> {b64_encode bs, b64url_encode bs}"
  shows "decode_share sdk t = Inr (map ucast bs)"
  using assms by (auto simp: decode_share_def normalize_encode normalize_url b64_decode_encode)

lemma shares_decoded:
  assumes "26 \<le> sdk" and "list_all2 (carries polys) shares xs"
  shows "\<exists>texts. mapM share_text shares = Inr texts
     \<and> mapM (decode_share sdk) texts = Inr (map (\<lambda>x. map ucast (make_share polys x)) xs)"
  using assms(2)
proof (induction rule: list_all2_induct)
  case (Cons s ss x xs)
  then obtain t where t: "share_text s = Inr t" "t \<in> {b64_encode (make_share polys x), b64url_encode (make_share polys x)}"
    by (auto simp: carries_def share_text_def split: option.splits)
  then show ?case using Cons.IH decode_carried [OF assms(1) t(2)] by auto
qed simp

lemma binary_shares_shape:
  assumes "xs \<noteq> []"
  shows "length (map (\<lambda>x. map ucast (make_share polys x) :: i32 list) xs ! 0) = Suc (length polys)"
    and "list_all (\<lambda>bs. length bs = Suc (length polys)) (map (\<lambda>x. map ucast (make_share polys x) :: i32 list) xs)"
  using assms by (simp_all add: make_share_def list_all_iff nth_map [of 0])

lemma byte_interpolated:
  assumes "distinct xs" and "xs \<noteq> []" and "length cs \<le> length xs" and "cs \<noteq> []" and "k = length polys"
    and "i < k" and "polys ! i = cs"
  shows "interpolatePolynomial (map (\<lambda>bs. bs ! k) (map (\<lambda>x. map ucast (make_share polys x)) xs))
      (map (\<lambda>bs. bs ! i) (map (\<lambda>x. map ucast (make_share polys x)) xs)) 0 = Inr (ucast (byte_of (hd cs)))"
proof -
  have "inj_on ((!) xs) {..<length xs}" using assms(1) by (simp add: inj_on_nth)
  moreover have "(0 :: i32) = ucast (byte_of 0)" by (simp add: zero_gf.rep_eq)
  ultimately show ?thesis
    using interpolate_loop [of "(!) xs" "map (\<lambda>bs. bs ! k) (map (\<lambda>x. map ucast (make_share polys x)) xs)"
        "map (\<lambda>bs. bs ! i) (map (\<lambda>x. map ucast (make_share polys x)) xs)" "\<lambda>j. polyval cs (xs ! j)" 0]
      lagrange [OF polydeg_polyval [OF assms(3)], of "(!) xs" 0] assms
    by (simp add: make_share_def nth_append polyval_0)
qed

lemma reconstruct_carried:
  assumes "26 \<le> sdk" and "xs \<noteq> []" and "distinct xs" and "list_all2 (carries polys) shares xs"
    and "\<forall>cs \<in> set polys. cs \<noteq> [] \<and> length cs \<le> length xs"
  shows "reconstructSm4Key sdk (Some shares) = Some (concat (map (\<lambda>cs. hex2 (unat (byte_of (hd cs)))) polys))"
proof -
  let ?bin = "map (\<lambda>x. map ucast (make_share polys x)) xs :: i32 list list"
  have "mapM (\<lambda>i. interpolatePolynomial (map (\<lambda>bs. bs ! length polys) ?bin) (map (\<lambda>bs. bs ! i) ?bin) 0) [0..<length polys]
      = Inr (map (\<lambda>i. ucast (byte_of (hd (polys ! i)))) [0..<length polys])"
    using byte_interpolated [OF assms(3,2) _ _ refl _ refl] assms(5) by (simp add: mapM_Inr_iff list_all2_conv_all_nth)
  moreover note binary_shares_shape [OF assms(2), of polys]
  moreover obtain texts where "mapM share_text shares = Inr texts"
    "mapM (decode_share sdk) texts = Inr ?bin"
    using shares_decoded [OF assms(1,4)] by blast
  ultimately have "recover_bytes sdk shares = Inr (map (\<lambda>i. ucast (byte_of (hd (polys ! i)))) [0..<length polys])"
    by (simp add: recover_bytes_def Let_def)
  moreover have "map (\<lambda>i. ucast (byte_of (hd (polys ! i)))) [0..<length polys] = map (\<lambda>cs. ucast (byte_of (hd cs)) :: i32) polys"
    by (rule nth_equalityI) simp_all
  moreover have "shares \<noteq> []" using assms(2,4) by auto
  ultimately show ?thesis by (simp add: reconstructSm4Key_def unat_ucast_byte comp_def)
qed

section \<open>Properties\<close>

text \<open>C5. Reconstruction of the key: given the texts of at least as many shares as the polynomials
  have coefficients, with pairwise different points, in standard or in URL-safe Base64 and in any
  order, reconstructSm4Key returns the key in hexadecimal.\<close>

theorem shamir_reconstruct:
  assumes "26 \<le> sdk" and "xs \<noteq> []" and "distinct xs" and "list_all2 (carries polys) shares xs"
    and "\<forall>cs \<in> set polys. cs \<noteq> [] \<and> length cs \<le> length xs"
  shows "reconstructSm4Key sdk (Some shares) = Some (concat (map (\<lambda>cs. hex2 (unat (byte_of (hd cs)))) polys))"
  using assms by (rule reconstruct_carried)

theorem shamir_reconstruct_witness:
  "let polys = [[gf_of 0x2b, gf_of 7], [gf_of 0x0f, gf_of 9]]; xs = [gf_of 1, gf_of 5];
       shares = map (\<lambda>x. Some \<lparr>index = 0, share = Some (b64_encode (make_share polys x))\<rparr>) xs
   in reconstructSm4Key 30 (Some shares) = Some ''2b0f''"
  unfolding Let_def
  by (subst shamir_reconstruct [where xs = "[gf_of 1, gf_of 5]" and polys = "[[gf_of 0x2b, gf_of 7], [gf_of 0x0f, gf_of 9]]"])
    (simp_all add: carries_def gf_of_inject gf_of_inverse hex2_def hex_char_def)

text \<open>The table lookups multiply in the field of 256 elements: for every two bytes the product is
  the polynomial product modulo x^8 + x^4 + x^3 + x + 1, and no lookup is out of range.\<close>

theorem mult_is_field_product:
  "mult_gf (ucast a) (ucast b) = Inr (ucast (pmul 0x1b a b))"
  using mult_gf_byte [of "gf_of a" "gf_of b"] by (simp add: gf_of_inverse times_gf.rep_eq gf_mul_pmul)

lemma foldM_steps: "foldM f xs s = Inr t \<Longrightarrow> x \<in> set xs \<Longrightarrow> \<exists>u v. f x u = Inr v"
  by (induction xs arbitrary: s) (auto simp: rbind_Inr_iff)

lemma interpolate_same_point:
  assumes "i < length xs" and "j < length xs" and "i \<noteq> j" and "xs ! i = xs ! j"
  shows "interpolatePolynomial xs ys x \<noteq> Inr r"
proof
  assume "interpolatePolynomial xs ys x = Inr r"
  then obtain t where "foldM (\<lambda>i result.
             rbind (foldM (\<lambda>j basis. if i = j then Inr basis
               else let num = add_gf x (xs ! j); denom = add_gf (xs ! i) (xs ! j)
                    in rbind (div_gf num denom) (\<lambda>term. mult_gf basis term)) [0..<length xs] 1) (\<lambda>basis.
             rbind (mult_gf (ys ! i) basis) (\<lambda>t. Inr (add_gf result t)))) [0..<length xs] 0 = Inr t"
    by (auto simp: interpolatePolynomial_def Let_def rbind_Inr_iff split: if_splits)
  from foldM_steps [OF this, of i] assms(1) obtain b where "foldM (\<lambda>j basis. if i = j then Inr basis
               else let num = add_gf x (xs ! j); denom = add_gf (xs ! i) (xs ! j)
                    in rbind (div_gf num denom) (\<lambda>term. mult_gf basis term)) [0..<length xs] 1 = Inr b"
    by (auto simp: rbind_Inr_iff)
  from foldM_steps [OF this, of j] assms show False by (auto simp: Let_def div_gf_def add_gf_def)
qed

text \<open>C26. Reconstruction never succeeds on two shares with the same point: the division by zero is
  caught and the result is null.\<close>

theorem shamir_duplicate_point:
  assumes "26 \<le> sdk" and "list_all2 (carries polys) shares xs" and "\<not> distinct xs" and "polys \<noteq> []"
  shows "reconstructSm4Key sdk (Some shares) = None"
proof -
  let ?bin = "map (\<lambda>x. map ucast (make_share polys x)) xs :: i32 list list"
  obtain i j where ij: "i < length xs" "j < length xs" "i \<noteq> j" "xs ! i = xs ! j"
    using assms(3) by (auto simp: distinct_conv_nth)
  then have "interpolatePolynomial (map (\<lambda>bs. bs ! length polys) ?bin) ys 0 \<noteq> Inr r" for ys r
    by (intro interpolate_same_point [of i _ j]) simp_all
  then have "mapM (\<lambda>i. interpolatePolynomial (map (\<lambda>bs. bs ! length polys) ?bin) (map (\<lambda>bs. bs ! i) ?bin) 0)
      [0..<length polys] \<noteq> Inr s" for s
    using assms(4) by (auto simp: upt_conv_Cons rbind_Inr_iff)
  moreover have "xs \<noteq> []" using ij by auto
  ultimately have "recover_bytes sdk shares \<noteq> Inr s" for s
    using shares_decoded [OF assms(1,2)] binary_shares_shape [OF \<open>xs \<noteq> []\<close>, of polys] by (auto simp: recover_bytes_def Let_def)
  then show ?thesis by (auto simp: reconstructSm4Key_def split: sum.splits)
qed

theorem shamir_duplicate_point_witness:
  "let s = Some \<lparr>index = 4, share = Some (b64_encode (make_share [[gf_of 3]] (gf_of 9)))\<rparr>
   in reconstructSm4Key 30 (Some [s, s]) = None"
  unfolding Let_def
  by (rule shamir_duplicate_point [where xs = "[gf_of 9, gf_of 9]" and polys = "[[gf_of 3]]"])
    (simp_all add: carries_def)

text \<open>Below Android API level 26, which the manifest allows (minSdk is 24), no key is ever
  reconstructed: the shares are not decoded.\<close>

theorem shamir_old_android:
  assumes "sdk < 26"
  shows "reconstructSm4Key sdk shares = None"
proof -
  have "recover_bytes sdk ss \<noteq> Inr s" if "ss \<noteq> []" for ss s
  proof
    assume "recover_bytes sdk ss = Inr s"
    then obtain texts bin where t: "mapM share_text ss = Inr texts" and b: "mapM (decode_share sdk) texts = Inr bin"
      and "length (bin ! 0) \<noteq> 0"
      by (auto simp: recover_bytes_def rbind_Inr_iff Let_def split: if_splits)
    have "list_all (\<lambda>x. x = []) bin" using mapM_all [OF b, of "\<lambda>x. x = []"] assms by (simp add: decode_share_def)
    moreover have "bin \<noteq> []" using mapM_length [OF t] mapM_length [OF b] that by auto
    ultimately show False using \<open>length (bin ! 0) \<noteq> 0\<close> by (cases bin) simp_all
  qed
  then show ?thesis by (auto simp: reconstructSm4Key_def split: option.splits sum.splits)
qed

theorem shamir_old_android_witness:
  "reconstructSm4Key 24 (Some [Some \<lparr>index = 1, share = Some ''AQI=''\<rparr>]) = None"
  by (rule shamir_old_android) simp

end
