(* ===== verification/Key_Shares.thy ===== *)
theory Key_Shares
  imports Shamir "HOL-Library.AList" "HOL-Library.Multiset"
begin

text \<open>
  The key manager (\<^verbatim>\<open>KNSConnectManager.java\<close>): it collects the key shares that the server sends and
  recovers the key from the three, or the announced number of, shares with the lowest index.  A
  message is given by what the accessors of \<open>JSONObject\<close> return for it, a share being \<open>Inl\<close> when one of
  them throws a JSONException.
\<close>

section \<open>Collecting shares\<close>

type_synonym share_map = "(i32 \<times> string) list"
type_synonym share_entry = "(i32 \<times> string) result"

record KNSConnectManager =
  shamirSharesMap :: share_map
  kns_version :: i32
  has_listener :: bool

definition mk_KNSConnectManager :: KNSConnectManager where
  "mk_KNSConnectManager = \<lparr>shamirSharesMap = [], kns_version = 0, has_listener = False\<rparr>"

text \<open>\<open>Integer.parseInt\<close> in base 16 on two characters: a sign may replace the first digit.\<close>

definition parse_pair :: "char \<Rightarrow> char \<Rightarrow> u8 option" where
  "parse_pair a b =
     (case hex_digit b of
        None \<Rightarrow> None
      | Some y \<Rightarrow>
          if a = CHR ''-'' then Some (- of_nat y)
          else if a = CHR ''+'' then Some (of_nat y)
          else (case hex_digit a of None \<Rightarrow> None | Some x \<Rightarrow> Some (of_nat (16 * x + y))))"

fun parse_pairs :: "string \<Rightarrow> bytes option" where
  "parse_pairs [] = Some []"
| "parse_pairs [a] = None"
| "parse_pairs (a # b # s) =
     (case parse_pair a b of None \<Rightarrow> None | Some x \<Rightarrow> map_option ((#) x) (parse_pairs s))"

definition hexStringToBytes :: "string option \<Rightarrow> bytes option" where
  "hexStringToBytes hexString =
     (case hexString of None \<Rightarrow> None | Some s \<Rightarrow> if length s \<noteq> 32 then None else parse_pairs s)"

definition notifyKeyRecovered :: "KNSConnectManager \<Rightarrow> bytes \<Rightarrow> KNSConnectManager \<times> (bytes \<times> i32) list" where
  "notifyKeyRecovered k keyBytes =
     (let k1 = k\<lparr>kns_version := kns_version k + 1\<rparr>
      in (k1, if has_listener k1 then [(keyBytes, kns_version k1)] else []))"

text \<open>The loop over the share array stops at the first exception and keeps what it stored before.\<close>

fun store_shares :: "share_entry list \<Rightarrow> share_map \<Rightarrow> share_map \<times> exn option" where
  "store_shares [] m = (m, None)"
| "store_shares (Inl e # es) m = (m, Some e)"
| "store_shares (Inr (i, s) # es) m = store_shares es (AList.update i s m)"

text \<open>Recovery from the \<open>n\<close> shares with the lowest index; a negative bound makes \<open>subList\<close> throw, which
  the handlers do not catch.\<close>

definition lowest_shares :: "nat \<Rightarrow> share_map \<Rightarrow> ShamirShare option list" where
  "lowest_shares n m = map (\<lambda>(i, s). Some \<lparr>index = i, share = Some s\<rparr>) (take n (sort_key (\<lambda>p. sint (fst p)) m))"

definition recover_and_notify :: "nat \<Rightarrow> i32 \<Rightarrow> KNSConnectManager \<Rightarrow> (KNSConnectManager \<times> (bytes \<times> i32) list) result" where
  "recover_and_notify sdk n k =
     (if sint n < 0 then Inl (StdException ''IllegalArgumentException'')
      else case hexStringToBytes (reconstructSm4Key sdk (Some (lowest_shares (nat (sint n)) (shamirSharesMap k)))) of
             None \<Rightarrow> Inr (k, [])
           | Some keyBytes \<Rightarrow> if length keyBytes = 16 then Inr (notifyKeyRecovered k keyBytes) else Inr (k, []))"

definition handleRoomSharesPlain ::
  "nat \<Rightarrow> KNSConnectManager \<Rightarrow> i32 \<Rightarrow> share_entry list result \<Rightarrow> (KNSConnectManager \<times> (bytes \<times> i32) list) result" where
  "handleRoomSharesPlain sdk k threshold shares =
     (case shares of
        Inl e \<Rightarrow> Inr (k, [])
      | Inr es \<Rightarrow>
          let (m, ex) = store_shares es (shamirSharesMap k);
              k1 = k\<lparr>shamirSharesMap := m\<rparr>
          in if ex \<noteq> None then Inr (k1, [])
             else if sint threshold \<le> int (length m) then recover_and_notify sdk threshold k1
             else Inr (k1, []))"

definition handleAdditionalSharesProvided ::
  "nat \<Rightarrow> KNSConnectManager \<Rightarrow> share_entry list result \<Rightarrow> (KNSConnectManager \<times> (bytes \<times> i32) list) result" where
  "handleAdditionalSharesProvided sdk k shares =
     (case shares of
        Inl e \<Rightarrow> Inr (k, [])
      | Inr es \<Rightarrow>
          let (m, ex) = store_shares es (shamirSharesMap k);
              k1 = k\<lparr>shamirSharesMap := m\<rparr>
          in if ex \<noteq> None then Inr (k1, [])
             else if 3 \<le> length m then recover_and_notify sdk 3 k1
             else Inr (k1, []))"

definition handleShareFirst :: "KNSConnectManager \<Rightarrow> share_entry \<Rightarrow> KNSConnectManager" where
  "handleShareFirst k e =
     (case e of Inl ex \<Rightarrow> k | Inr (i, s) \<Rightarrow> k\<lparr>shamirSharesMap := AList.update i s (shamirSharesMap k)\<rparr>)"

text \<open>The messages that carry shares; every other message leaves the key state alone.\<close>

datatype server_message =
    room_share_first share_entry
  | additional_shares_provided "share_entry list result"
  | room_shares_plain i32 "share_entry list result"
  | other_message

definition handleServerMessage ::
  "nat \<Rightarrow> KNSConnectManager \<Rightarrow> server_message \<Rightarrow> (KNSConnectManager \<times> (bytes \<times> i32) list) result" where
  "handleServerMessage sdk k msg =
     (case msg of
        room_share_first e \<Rightarrow> Inr (handleShareFirst k e, [])
      | additional_shares_provided es \<Rightarrow> handleAdditionalSharesProvided sdk k es
      | room_shares_plain threshold es \<Rightarrow> handleRoomSharesPlain sdk k threshold es
      | other_message \<Rightarrow> Inr (k, []))"

section \<open>Recovery of the key from shares\<close>

lemma hex_digit_char: "n < 16 \<Longrightarrow> hex_digit (hex_char n) = Some n \<and> hex_char n \<noteq> CHR ''-'' \<and> hex_char n \<noteq> CHR ''+''"
  by (auto simp: numeral_eq_Suc less_Suc_eq hex_char_def hex_digit_def)

lemma parse_pair_hex2: "n < 256 \<Longrightarrow> parse_pair (hex_char (n div 16)) (hex_char (n mod 16)) = Some (of_nat n)"
  using hex_digit_char [of "n div 16"] hex_digit_char [of "n mod 16"] by (simp add: parse_pair_def)

lemma parse_pairs_hex: "parse_pairs (concat (map (\<lambda>b. hex2 (unat b)) bs)) = Some (bs :: bytes)"
  by (induction bs) (simp_all add: hex2_def parse_pair_hex2 unat_u8)

lemma hexStringToBytes_hex:
  assumes "length bs = 16"
  shows "hexStringToBytes (Some (concat (map (\<lambda>b. hex2 (unat b)) bs))) = Some (bs :: bytes)"
proof -
  have "length (concat (map (\<lambda>b. hex2 (unat b)) bs)) = 32" using assms by (simp add: length_concat comp_def hex2_def sum_list_triv)
  then show ?thesis by (simp add: hexStringToBytes_def parse_pairs_hex)
qed

text \<open>The key that the constant terms of the polynomials spell.\<close>

definition shared_key :: "gf list list \<Rightarrow> bytes" where
  "shared_key polys = map (\<lambda>cs. byte_of (hd cs)) polys"

definition three_shares :: "gf list list \<Rightarrow> share_map \<Rightarrow> bool" where
  "three_shares polys m \<longleftrightarrow> length polys = 16 \<and> (\<forall>cs \<in> set polys. cs \<noteq> [] \<and> length cs \<le> 3)
     \<and> (\<exists>xs. distinct xs \<and> length xs = 3 \<and> list_all2 (carries polys) (lowest_shares 3 m) xs)"

lemma length_shared_key: "three_shares polys m \<Longrightarrow> length (shared_key polys) = 16"
  by (simp add: three_shares_def shared_key_def)

lemma recover_three:
  assumes "26 \<le> sdk" and "three_shares polys (shamirSharesMap k)"
  shows "recover_and_notify sdk 3 k = Inr (notifyKeyRecovered k (shared_key polys))"
proof -
  obtain xs where xs: "distinct xs" "length xs = 3" "list_all2 (carries polys) (lowest_shares 3 (shamirSharesMap k)) xs"
    and polys: "\<forall>cs \<in> set polys. cs \<noteq> [] \<and> length cs \<le> length xs"
    using assms(2) by (auto simp: three_shares_def)
  have "xs \<noteq> []" using xs(2) by auto
  then have "reconstructSm4Key sdk (Some (lowest_shares 3 (shamirSharesMap k)))
      = Some (concat (map (\<lambda>b. hex2 (unat b)) (shared_key polys)))"
    using reconstruct_carried [OF assms(1) _ xs(1,3) polys] by (simp add: shared_key_def comp_def)
  then show ?thesis
    using hexStringToBytes_hex [OF length_shared_key [OF assms(2)]] length_shared_key [OF assms(2)]
    by (simp add: recover_and_notify_def)
qed

lemma three_shares_length: "three_shares polys m \<Longrightarrow> 3 \<le> length m"
  by (auto simp: three_shares_def lowest_shares_def dest!: list_all2_lengthD)

text \<open>Later shares with higher indices do not change which shares are used.\<close>

lemma lowest_shares_later:
  assumes "distinct (map fst (m :: share_map))" and "n \<le> length m" and "i \<notin> fst ` set m"
    and "\<forall>p \<in> set (take n (sort_key (\<lambda>p. sint (fst p)) m)). sint (fst p) < sint i"
  shows "take n (sort_key (\<lambda>p. sint (fst p)) (AList.update i s (m :: share_map))) = take n (sort_key (\<lambda>p. sint (fst p)) m)"
proof -
  let ?f = "\<lambda>p :: i32 \<times> string. sint (fst p)" and ?m = "m @ [(i, s)]"
  let ?A = "take n (sort_key ?f m)" and ?B = "drop n (sort_key ?f m)"
  let ?C = "sort_key ?f (?B @ [(i, s)])"
  have upd: "AList.update i s m = ?m" using assms(3) by (induction m) auto
  have "distinct (map fst ?m)" using assms(1,3) by simp
  then have "inj_on fst (set ?m)" by (simp only: distinct_map)
  then have inj: "inj_on ?f (set ?m)" by (auto simp: inj_on_def dest: signed_word_eqI)
  have "sorted (map ?f (?A @ ?B))" by (simp only: append_take_drop_id sorted_sort_key)
  then have "sorted (map ?f (?A @ ?C))"
    using assms(4) by (auto simp: sorted_append simp del: append_take_drop_id)
  moreover have "mset (?A @ ?C) = mset ?m"
    by simp (metis append_take_drop_id mset_append mset_sort union_assoc)
  ultimately have "sort_key ?f ?m = ?A @ ?C" using inj by (intro sort_key_inj_key_eq) simp_all
  then show ?thesis using assms(2) by (simp add: upd)
qed

lemma store_fresh:
  "distinct (map fst (m @ new)) \<Longrightarrow> store_shares (map Inr new) m = (m @ new, None)"
proof (induction new arbitrary: m)
  case (Cons p new)
  obtain i s where p: "p = (i, s)" by force
  have "AList.update i s m = m @ [(i, s)]" using Cons.prems p by (induction m) auto
  then show ?case using Cons.IH [of "m @ [(i, s)]"] Cons.prems p by simp
qed simp

lemma lowest_shares_fresh:
  assumes "distinct (map fst (m @ new))" and "n \<le> length m"
    and "\<forall>p \<in> set (take n (sort_key (\<lambda>p. sint (fst p)) m)). \<forall>q \<in> set new. sint (fst p) < sint (fst q)"
  shows "lowest_shares n (m @ new) = lowest_shares n m"
  using assms
proof (induction new arbitrary: m)
  case (Cons p new)
  obtain i s where p: "p = (i, s)" by force
  have i: "i \<notin> fst ` set m" using Cons.prems p by auto
  then have upd: "AList.update i s m = m @ [(i, s)]" by (induction m) auto
  have *: "take n (sort_key (\<lambda>p. sint (fst p)) (m @ [(i, s)])) = take n (sort_key (\<lambda>p. sint (fst p)) m)"
    using lowest_shares_later [OF _ Cons.prems(2) i, of s] Cons.prems p upd by simp
  then show ?case using Cons.IH [of "m @ [(i, s)]"] Cons.prems p by (simp add: lowest_shares_def)
qed simp

end
