(* ===== verification/Crypto_Jni.thy ===== *)
theory Crypto_Jni
  imports Frame_Crypto
begin

text \<open>
  The JNI layer of the frame encryptor and decryptor (\<^verbatim>\<open>hc_crypto_jni.cpp\<close>,
  \<^verbatim>\<open>hc_crypto_decryptor_jni.cpp\<close>) and the Java classes over it (\<^verbatim>\<open>HCCrypto.java\<close>,
  \<^verbatim>\<open>HCCryptoDecryptor.java\<close>).  Native objects live on an explicit heap with a reference count; a
  Java \<open>long\<close> that holds a native pointer is the position of the object on the heap, counted from 1,
  and 0 is the null pointer.  Using a pointer to a freed object is \<open>Undefined\<close>.
\<close>

section \<open>The native heap\<close>

type_synonym 'o heap = "('o \<times> nat) option list"
type_synonym jptr = nat

definition live :: "'o heap \<Rightarrow> jptr \<Rightarrow> bool" where
  "live h p = (p \<noteq> 0 \<and> p \<le> length h \<and> h ! (p - 1) \<noteq> None)"

definition object_at :: "'o heap \<Rightarrow> jptr \<Rightarrow> 'o" where
  "object_at h p = fst (the (h ! (p - 1)))"

definition refs_at :: "'o heap \<Rightarrow> jptr \<Rightarrow> nat" where
  "refs_at h p = snd (the (h ! (p - 1)))"

definition on_object :: "('o \<Rightarrow> 'o) \<Rightarrow> 'o heap \<Rightarrow> jptr \<Rightarrow> 'o heap result" where
  "on_object f h p =
     (if live h p then Inr (h[p - 1 := Some (f (object_at h p), refs_at h p)]) else Inl (Undefined ''dangling pointer''))"

text \<open>\<open>make_ref_counted\<close> hands out the first reference.\<close>

definition make_ref_counted :: "'o \<Rightarrow> 'o heap \<Rightarrow> 'o heap \<times> jptr" where
  "make_ref_counted obj h = (h @ [Some (obj, 1)], length h + 1)"

definition AddRef :: "'o heap \<Rightarrow> jptr \<Rightarrow> 'o heap result" where
  "AddRef h p =
     (if live h p then Inr (h[p - 1 := Some (object_at h p, refs_at h p + 1)]) else Inl (Undefined ''dangling pointer''))"

definition Release :: "'o heap \<Rightarrow> jptr \<Rightarrow> 'o heap result" where
  "Release h p =
     (if live h p
      then Inr (h[p - 1 := (if refs_at h p \<le> 1 then None else Some (object_at h p, refs_at h p - 1))])
      else Inl (Undefined ''dangling pointer''))"

text \<open>The member of an RTP sender or receiver that holds the frame object: a \<open>scoped_refptr\<close> is
  replaced by another one (0 is empty).\<close>

definition replace_ref :: "'o heap \<Rightarrow> jptr \<Rightarrow> jptr \<Rightarrow> 'o heap result" where
  "replace_ref h old new =
     rbind (if new = 0 then Inr h else AddRef h new) (\<lambda>h1. if old = 0 then Inr h1 else Release h1 old)"

section \<open>The encryptor\<close>

text \<open>The smart pointer is emptied by \<open>release()\<close>, which keeps its reference.\<close>

definition nativeCreateHCCrypto :: "SM4_KEY \<Rightarrow> HCCrypto heap \<Rightarrow> (HCCrypto heap \<times> jptr) result" where
  "nativeCreateHCCrypto junk h =
     (let (h1, p) = make_ref_counted (mk_HCCrypto junk 0xAA 255) h
      in rbind (AddRef h1 p) (\<lambda>h2. Inr (h2, p)))"

definition nativeDestroyHCCrypto :: "HCCrypto heap \<Rightarrow> jptr \<Rightarrow> HCCrypto heap result" where
  "nativeDestroyHCCrypto h p = (if p = 0 then Inr h else Release h p)"

definition nativeEnableSM4Encryption :: "HCCrypto heap \<Rightarrow> jptr \<Rightarrow> bool \<Rightarrow> HCCrypto heap result" where
  "nativeEnableSM4Encryption h p enable =
     (if p = 0 then Inr h else on_object (\<lambda>e. EnableSM4Encryption e enable) h p)"

definition e_nativeSetSM4Key :: "HCCrypto heap \<Rightarrow> jptr \<Rightarrow> bytes option \<Rightarrow> HCCrypto heap result" where
  "e_nativeSetSM4Key h p key =
     (if p = 0 then Inr h
      else case key of
             None \<Rightarrow> Inr h
           | Some k \<Rightarrow> if length k \<noteq> 16 then Inr h else on_object (\<lambda>e. e_SetSM4Key e k) h p)"

definition e_nativeSetSM4CTR :: "HCCrypto heap \<Rightarrow> jptr \<Rightarrow> bytes option \<Rightarrow> HCCrypto heap result" where
  "e_nativeSetSM4CTR h p ctr =
     (if p = 0 then Inr h
      else case ctr of
             None \<Rightarrow> Inr h
           | Some c \<Rightarrow> if length c \<noteq> 16 then Inr h else on_object (\<lambda>e. e_SetSM4CTR e c) h p)"

definition e_nativeSetSM4KeyWithVersion :: "HCCrypto heap \<Rightarrow> jptr \<Rightarrow> bytes option \<Rightarrow> i32 \<Rightarrow> HCCrypto heap result" where
  "e_nativeSetSM4KeyWithVersion h p key version =
     (if p = 0 then Inr h
      else case key of
             None \<Rightarrow> Inr h
           | Some k \<Rightarrow> if length k \<noteq> 16 then Inr h else on_object (\<lambda>e. e_SetSM4KeyWithVersion e k version) h p)"

definition e_nativeGetKeyVersion :: "HCCrypto heap \<Rightarrow> jptr \<Rightarrow> i32 result" where
  "e_nativeGetKeyVersion h p =
     (if p = 0 then Inr 0
      else if live h p then Inr (e_key_version (object_at h p)) else Inl (Undefined ''dangling pointer''))"

section \<open>The decryptor\<close>

definition nativeCreateHCCryptoDecryptor :: "SM4_KEY \<Rightarrow> HCCryptoDecryptor heap \<Rightarrow> (HCCryptoDecryptor heap \<times> jptr) result" where
  "nativeCreateHCCryptoDecryptor junk h =
     (let (h1, p) = make_ref_counted (mk_HCCryptoDecryptor junk 0xAA 255) h
      in rbind (AddRef h1 p) (\<lambda>h2. Inr (h2, p)))"

definition nativeDestroyHCCryptoDecryptor :: "HCCryptoDecryptor heap \<Rightarrow> jptr \<Rightarrow> HCCryptoDecryptor heap result" where
  "nativeDestroyHCCryptoDecryptor h p = (if p = 0 then Inr h else Release h p)"

definition nativeEnableSM4Decryption :: "HCCryptoDecryptor heap \<Rightarrow> jptr \<Rightarrow> bool \<Rightarrow> HCCryptoDecryptor heap result" where
  "nativeEnableSM4Decryption h p enable =
     (if p = 0 then Inr h else on_object (\<lambda>d. EnableSM4Decryption d enable) h p)"

definition d_nativeSetSM4Key :: "HCCryptoDecryptor heap \<Rightarrow> jptr \<Rightarrow> bytes option \<Rightarrow> HCCryptoDecryptor heap result" where
  "d_nativeSetSM4Key h p key =
     (if p = 0 then Inr h
      else case key of
             None \<Rightarrow> Inr h
           | Some k \<Rightarrow> if length k \<noteq> 16 then Inr h else on_object (\<lambda>d. d_SetSM4Key d k) h p)"

definition d_nativeSetSM4CTR :: "HCCryptoDecryptor heap \<Rightarrow> jptr \<Rightarrow> bytes option \<Rightarrow> HCCryptoDecryptor heap result" where
  "d_nativeSetSM4CTR h p ctr =
     (if p = 0 then Inr h
      else case ctr of
             None \<Rightarrow> Inr h
           | Some c \<Rightarrow> if length c \<noteq> 16 then Inr h else on_object (\<lambda>d. d_SetSM4CTR d c) h p)"

definition d_nativeSetSM4KeyWithVersion ::
  "HCCryptoDecryptor heap \<Rightarrow> jptr \<Rightarrow> bytes option \<Rightarrow> i32 \<Rightarrow> HCCryptoDecryptor heap result" where
  "d_nativeSetSM4KeyWithVersion h p key version =
     (if p = 0 then Inr h
      else case key of
             None \<Rightarrow> Inr h
           | Some k \<Rightarrow> if length k \<noteq> 16 then Inr h else on_object (\<lambda>d. d_SetSM4KeyWithVersion d k version) h p)"

definition d_nativeGetKeyVersion :: "HCCryptoDecryptor heap \<Rightarrow> jptr \<Rightarrow> i32 result" where
  "d_nativeGetKeyVersion h p =
     (if p = 0 then Inr 0
      else if live h p then Inr (d_key_version (object_at h p)) else Inl (Undefined ''dangling pointer''))"

section \<open>The Java objects\<close>

text \<open>A Java object is its pointer member.  Every method does nothing once the object has been
  disposed of, and disposing twice is harmless.\<close>

definition HCCrypto_dispose :: "HCCrypto heap \<Rightarrow> jptr \<Rightarrow> (HCCrypto heap \<times> jptr) result" where
  "HCCrypto_dispose h p =
     (if p \<noteq> 0 then rbind (nativeDestroyHCCrypto h p) (\<lambda>h'. Inr (h', 0)) else Inr (h, p))"

definition HCCryptoDecryptor_dispose :: "HCCryptoDecryptor heap \<Rightarrow> jptr \<Rightarrow> (HCCryptoDecryptor heap \<times> jptr) result" where
  "HCCryptoDecryptor_dispose h p =
     (if p \<noteq> 0 then rbind (nativeDestroyHCCryptoDecryptor h p) (\<lambda>h'. Inr (h', 0)) else Inr (h, p))"

definition enableSM4Encryption :: "HCCrypto heap \<Rightarrow> jptr \<Rightarrow> bool \<Rightarrow> HCCrypto heap result" where
  "enableSM4Encryption h p enable = (if p \<noteq> 0 then nativeEnableSM4Encryption h p enable else Inr h)"

definition enableSM4Decryption :: "HCCryptoDecryptor heap \<Rightarrow> jptr \<Rightarrow> bool \<Rightarrow> HCCryptoDecryptor heap result" where
  "enableSM4Decryption h p enable = (if p \<noteq> 0 then nativeEnableSM4Decryption h p enable else Inr h)"

definition e_setSM4Key :: "HCCrypto heap \<Rightarrow> jptr \<Rightarrow> bytes option \<Rightarrow> HCCrypto heap result" where
  "e_setSM4Key h p key = (if p \<noteq> 0 then e_nativeSetSM4Key h p key else Inr h)"

definition e_setSM4CTR :: "HCCrypto heap \<Rightarrow> jptr \<Rightarrow> bytes option \<Rightarrow> HCCrypto heap result" where
  "e_setSM4CTR h p ctr = (if p \<noteq> 0 then e_nativeSetSM4CTR h p ctr else Inr h)"

definition d_setSM4Key :: "HCCryptoDecryptor heap \<Rightarrow> jptr \<Rightarrow> bytes option \<Rightarrow> HCCryptoDecryptor heap result" where
  "d_setSM4Key h p key = (if p \<noteq> 0 then d_nativeSetSM4Key h p key else Inr h)"

definition d_setSM4CTR :: "HCCryptoDecryptor heap \<Rightarrow> jptr \<Rightarrow> bytes option \<Rightarrow> HCCryptoDecryptor heap result" where
  "d_setSM4CTR h p ctr = (if p \<noteq> 0 then d_nativeSetSM4CTR h p ctr else Inr h)"

definition e_setSM4KeyWithVersion :: "HCCrypto heap \<Rightarrow> jptr \<Rightarrow> bytes option \<Rightarrow> i32 \<Rightarrow> HCCrypto heap result" where
  "e_setSM4KeyWithVersion h p key version = (if p \<noteq> 0 then e_nativeSetSM4KeyWithVersion h p key version else Inr h)"

definition d_setSM4KeyWithVersion ::
  "HCCryptoDecryptor heap \<Rightarrow> jptr \<Rightarrow> bytes option \<Rightarrow> i32 \<Rightarrow> HCCryptoDecryptor heap result" where
  "d_setSM4KeyWithVersion h p key version = (if p \<noteq> 0 then d_nativeSetSM4KeyWithVersion h p key version else Inr h)"

section \<open>Laws of the heap\<close>

lemma live_make: "make_ref_counted obj h = (h', p) \<Longrightarrow> live h' p \<and> object_at h' p = obj \<and> refs_at h' p = 1
    \<and> p = length h + 1 \<and> (\<forall>q. live h q \<longrightarrow> live h' q \<and> object_at h' q = object_at h q \<and> refs_at h' q = refs_at h q \<and> q \<noteq> p)
    \<and> (\<forall>q. live h' q \<longrightarrow> q = p \<or> live h q)"
  by (auto simp: make_ref_counted_def live_def object_at_def refs_at_def nth_append split: if_splits)

lemma on_object_ok:
  assumes "live h p"
  shows "\<exists>h'. on_object f h p = Inr h' \<and> length h' = length h \<and> (\<forall>q. live h' q = live h q)
    \<and> (\<forall>q. q \<noteq> p \<longrightarrow> live h q \<longrightarrow> object_at h' q = object_at h q) \<and> object_at h' p = f (object_at h p)
    \<and> (\<forall>q. live h q \<longrightarrow> refs_at h' q = refs_at h q)"
  using assms by (auto simp: on_object_def live_def object_at_def refs_at_def nth_list_update split: if_splits)

lemma AddRef_ok:
  assumes "live h p"
  shows "\<exists>h'. AddRef h p = Inr h' \<and> length h' = length h \<and> (\<forall>q. live h' q = live h q)
    \<and> (\<forall>q. live h q \<longrightarrow> object_at h' q = object_at h q \<and> refs_at h' q = refs_at h q + (if q = p then 1 else 0))"
  using assms by (auto simp: AddRef_def live_def object_at_def refs_at_def nth_list_update split: if_splits)

lemma Release_ok:
  assumes "live h p" and "1 < refs_at h p"
  shows "\<exists>h'. Release h p = Inr h' \<and> length h' = length h \<and> (\<forall>q. live h' q = live h q)
    \<and> (\<forall>q. live h q \<longrightarrow> object_at h' q = object_at h q \<and> refs_at h' q = refs_at h q - (if q = p then 1 else 0))"
  using assms by (auto simp: Release_def live_def object_at_def refs_at_def nth_list_update split: if_splits)

text \<open>A fresh object holds two references, of which the Java side can give back one.\<close>

lemma create_encryptor:
  "\<exists>h'. nativeCreateHCCrypto junk h = Inr (h', length h + 1) \<and> live h' (length h + 1) \<and> refs_at h' (length h + 1) = 2
     \<and> object_at h' (length h + 1) = mk_HCCrypto junk 0xAA 255
     \<and> (\<forall>q. live h q \<longrightarrow> live h' q \<and> object_at h' q = object_at h q \<and> refs_at h' q = refs_at h q \<and> q \<noteq> length h + 1)
     \<and> (\<forall>q. live h' q \<longrightarrow> q = length h + 1 \<or> live h q)"
proof -
  obtain h1 where h1: "make_ref_counted (mk_HCCrypto junk 0xAA 255) h = (h1, length h + 1)"
    by (simp add: make_ref_counted_def)
  note l = live_make [OF h1]
  obtain h2 where "AddRef h1 (length h + 1) = Inr h2" "\<forall>q. live h2 q = live h1 q"
    "\<forall>q. live h1 q \<longrightarrow> object_at h2 q = object_at h1 q \<and> refs_at h2 q = refs_at h1 q + (if q = length h + 1 then 1 else 0)"
    using AddRef_ok l by blast
  then show ?thesis using h1 l by (auto simp: nativeCreateHCCrypto_def)
qed

lemma create_decryptor:
  "\<exists>h'. nativeCreateHCCryptoDecryptor junk h = Inr (h', length h + 1) \<and> live h' (length h + 1) \<and> refs_at h' (length h + 1) = 2
     \<and> object_at h' (length h + 1) = mk_HCCryptoDecryptor junk 0xAA 255
     \<and> (\<forall>q. live h q \<longrightarrow> live h' q \<and> object_at h' q = object_at h q \<and> refs_at h' q = refs_at h q \<and> q \<noteq> length h + 1)
     \<and> (\<forall>q. live h' q \<longrightarrow> q = length h + 1 \<or> live h q)"
proof -
  obtain h1 where h1: "make_ref_counted (mk_HCCryptoDecryptor junk 0xAA 255) h = (h1, length h + 1)"
    by (simp add: make_ref_counted_def)
  note l = live_make [OF h1]
  obtain h2 where "AddRef h1 (length h + 1) = Inr h2" "\<forall>q. live h2 q = live h1 q"
    "\<forall>q. live h1 q \<longrightarrow> object_at h2 q = object_at h1 q \<and> refs_at h2 q = refs_at h1 q + (if q = length h + 1 then 1 else 0)"
    using AddRef_ok l by blast
  then show ?thesis using h1 l by (auto simp: nativeCreateHCCryptoDecryptor_def)
qed

section \<open>Properties\<close>

text \<open>C27. Native objects are never freed: an encryptor that was created, installed on an RTP sender,
  removed from it and disposed of by its Java owner is still allocated, because creation takes two
  references and the Java object gives back one.\<close>

theorem encryptor_leaks:
  "\<exists>h1 p h2 h3 h4. nativeCreateHCCrypto junk h = Inr (h1, p) \<and> replace_ref h1 0 p = Inr h2 \<and> replace_ref h2 p 0 = Inr h3
     \<and> HCCrypto_dispose h3 p = Inr (h4, 0) \<and> live h4 p \<and> refs_at h4 p = 1"
proof -
  let ?p = "length h + 1"
  obtain h1 where 1: "nativeCreateHCCrypto junk h = Inr (h1, ?p)" "live h1 ?p" "refs_at h1 ?p = 2"
    using create_encryptor [of junk h] by blast
  obtain h2 where 2: "AddRef h1 ?p = Inr h2" "live h2 ?p" "refs_at h2 ?p = 3" using AddRef_ok [OF 1(2)] 1 by auto
  obtain h3 where 3: "Release h2 ?p = Inr h3" "live h3 ?p" "refs_at h3 ?p = 2" using Release_ok [OF 2(2)] 2 by auto
  obtain h4 where 4: "Release h3 ?p = Inr h4" "live h4 ?p" "refs_at h4 ?p = 1" using Release_ok [OF 3(2)] 3 by auto
  have "replace_ref h1 0 ?p = Inr h2" "replace_ref h2 ?p 0 = Inr h3" "HCCrypto_dispose h3 ?p = Inr (h4, 0)"
    using 2 3 4 by (simp_all add: replace_ref_def HCCrypto_dispose_def nativeDestroyHCCrypto_def)
  then show ?thesis using 1 4 by blast
qed

end
