(* ===== verification/Room_Client.thy ===== *)
theory Room_Client
  imports Crypto_Jni
begin

text \<open>
  The room client (\<^verbatim>\<open>RoomClient.java\<close>), as far as frame encryption is concerned: it installs frame
  encryptors and decryptors on new tracks and consumers and passes every recovered key on to the
  latest of them.  The creation of the media device is an event.
\<close>

section \<open>Installing keys\<close>

text \<open>The members of \<open>RoomClient\<close> that concern the key, the two native heaps, and the frame objects
  that sit on RTP senders and receivers, in the order of their installation.\<close>

record RoomClient =
  useSM4Encryption :: bool
  openEncryption :: bool
  sm4Key :: bytes
  sm4CTR :: bytes
  isKeyRecovered :: bool
  activeEncryptor :: "jptr option"
  activeDecryptor :: "jptr option"
  currentKeyVersion :: i32
  rtpCapabilities :: "string option"
  encryptors :: "HCCrypto heap"
  decryptors :: "HCCryptoDecryptor heap"
  senders :: "jptr list"
  receivers :: "jptr list"

datatype rc_event = CreateDevice string

definition mk_RoomClient :: RoomClient where
  "mk_RoomClient =
     \<lparr>useSM4Encryption = False, openEncryption = True, sm4Key = DEFAULT_SM4_KEY, sm4CTR = DEFAULT_SM4_CTR,
      isKeyRecovered = False, activeEncryptor = None, activeDecryptor = None, currentKeyVersion = 0,
      rtpCapabilities = None, encryptors = [], decryptors = [], senders = [], receivers = []\<rparr>"

text \<open>The answer to joinRoom.\<close>

definition joinRoom_ack :: "RoomClient \<Rightarrow> string \<Rightarrow> RoomClient \<times> rc_event list" where
  "joinRoom_ack c caps =
     (c\<lparr>rtpCapabilities := Some caps\<rparr>,
      if \<not> openEncryption c \<or> (activeEncryptor c = None \<and> isKeyRecovered c) then [CreateDevice caps] else [])"

text \<open>\<open>addTrack\<close> of a video track, once \<open>produce\<close> has returned a producer.\<close>

definition addTrack :: "SM4_KEY \<Rightarrow> RoomClient \<Rightarrow> RoomClient result" where
  "addTrack junk c =
     rbind (nativeCreateHCCrypto junk (encryptors c)) (\<lambda>(h, p).
       let c1 = c\<lparr>encryptors := h, activeEncryptor := Some p\<rparr>
       in if openEncryption c
          then rbind (enableSM4Encryption h p (useSM4Encryption c)) (\<lambda>h1.
               rbind (e_setSM4KeyWithVersion h1 p (Some (sm4Key c)) (currentKeyVersion c)) (\<lambda>h2.
               rbind (replace_ref h2 0 p) (\<lambda>h3. Inr (c1\<lparr>encryptors := h3, senders := senders c @ [p]\<rparr>))))
          else Inr c1)"

text \<open>What follows \<open>consume\<close> for a consumer of the given kind.\<close>

definition consumed :: "SM4_KEY \<Rightarrow> RoomClient \<Rightarrow> string \<Rightarrow> RoomClient result" where
  "consumed junk c kind =
     (if openEncryption c \<and> kind = ''video''
      then rbind (nativeCreateHCCryptoDecryptor junk (decryptors c)) (\<lambda>(h, p).
           rbind (enableSM4Decryption h p (useSM4Encryption c)) (\<lambda>h1.
           rbind (d_setSM4KeyWithVersion h1 p (Some (sm4Key c)) (currentKeyVersion c)) (\<lambda>h2.
           rbind (replace_ref h2 0 p) (\<lambda>h3.
             Inr (c\<lparr>decryptors := h3, activeDecryptor := Some p, receivers := receivers c @ [p]\<rparr>)))))
      else Inr c)"

definition onKeyRecovered :: "RoomClient \<Rightarrow> bytes \<Rightarrow> i32 \<Rightarrow> (RoomClient \<times> rc_event list) result" where
  "onKeyRecovered c recoveredKey version =
     (let c1 = c\<lparr>sm4Key := recoveredKey, currentKeyVersion := version, isKeyRecovered := True\<rparr>
      in rbind (case activeEncryptor c of
                  Some p \<Rightarrow> rbind (e_setSM4KeyWithVersion (encryptors c) p (Some recoveredKey) version) (\<lambda>h.
                             Inr (c1\<lparr>encryptors := h\<rparr>, []))
                | None \<Rightarrow> Inr (c1, case rtpCapabilities c of Some caps \<Rightarrow> [CreateDevice caps] | None \<Rightarrow> [])) (\<lambda>(c2, ev).
         case activeDecryptor c of
           Some p \<Rightarrow> rbind (d_setSM4KeyWithVersion (decryptors c) p (Some recoveredKey) version) (\<lambda>h.
                      Inr (c2\<lparr>decryptors := h\<rparr>, ev))
         | None \<Rightarrow> Inr (c2, ev)))"

definition setSM4Encryption :: "RoomClient \<Rightarrow> bool \<Rightarrow> RoomClient" where
  "setSM4Encryption c enable = c\<lparr>useSM4Encryption := enable\<rparr>"

definition setOpenEncryption :: "RoomClient \<Rightarrow> bool \<Rightarrow> RoomClient" where
  "setOpenEncryption c enable = c\<lparr>openEncryption := enable\<rparr>"

definition setSM4Key :: "RoomClient \<Rightarrow> bytes option \<Rightarrow> RoomClient" where
  "setSM4Key c key = (case key of None \<Rightarrow> c | Some k \<Rightarrow> if length k \<noteq> 16 then c else c\<lparr>sm4Key := k\<rparr>)"

definition setSM4CTR :: "RoomClient \<Rightarrow> bytes option \<Rightarrow> RoomClient" where
  "setSM4CTR c ctr = (case ctr of None \<Rightarrow> c | Some k \<Rightarrow> if length k \<noteq> 16 then c else c\<lparr>sm4CTR := k\<rparr>)"

section \<open>The room client keeps its frame objects current\<close>

definition enc_ok :: "HCCrypto \<Rightarrow> bool" where
  "enc_ok e \<longleftrightarrow> enc_reachable e \<and> e_sm4_ctr e = DEFAULT_SM4_CTR \<and> \<not> e_fail_encryption e"

definition dec_ok :: "HCCryptoDecryptor \<Rightarrow> bool" where
  "dec_ok d \<longleftrightarrow> dec_reachable d \<and> d_sm4_ctr d = DEFAULT_SM4_CTR \<and> \<not> d_fail_decryption d"

text \<open>Everything on a heap satisfies \<open>P\<close>; the installed objects are live; the active one, if it is
  installed, carries the current key and version.\<close>

definition side_inv :: "('o \<Rightarrow> bool) \<Rightarrow> ('o \<Rightarrow> bytes) \<Rightarrow> ('o \<Rightarrow> i32) \<Rightarrow> bytes \<Rightarrow> i32 \<Rightarrow> 'o heap \<Rightarrow> jptr option \<Rightarrow> jptr list \<Rightarrow> bool" where
  "side_inv P key ver k v h active installed \<longleftrightarrow>
     (\<forall>p. live h p \<longrightarrow> P (object_at h p)) \<and> (\<forall>p \<in> set installed. live h p) \<and>
     (\<forall>p. active = Some p \<longrightarrow> live h p \<and> (p \<in> set installed \<longrightarrow> key (object_at h p) = k \<and> ver (object_at h p) = v))"

definition rc_inv :: "RoomClient \<Rightarrow> bool" where
  "rc_inv c \<longleftrightarrow> length (sm4Key c) = 16
     \<and> side_inv enc_ok e_sm4_key_bytes e_key_version (sm4Key c) (currentKeyVersion c) (encryptors c) (activeEncryptor c) (senders c)
     \<and> side_inv dec_ok d_sm4_key_bytes d_key_version (sm4Key c) (currentKeyVersion c) (decryptors c) (activeDecryptor c) (receivers c)"

lemma side_inv_new:
  assumes "side_inv P key ver k v h a ins" and "P obj"
    and h': "live h' p" "object_at h' p = obj"
      "\<And>q. live h' q \<Longrightarrow> q \<noteq> p \<Longrightarrow> live h q \<and> object_at h' q = object_at h q" "\<And>q. live h q \<Longrightarrow> live h' q"
    and "key obj = k" and "ver obj = v"
  shows "side_inv P key ver k v h' (Some p) (ins @ [p])"
  using assms unfolding side_inv_def by (auto; metis)

lemma side_inv_rekey:
  assumes "side_inv P key ver k v h a ins" and "a = Some p"
    and "\<And>q. live h' q = live h q" and "\<And>q. live h q \<Longrightarrow> q \<noteq> p \<Longrightarrow> object_at h' q = object_at h q"
    and "P (object_at h' p)" and "key (object_at h' p) = k'" and "ver (object_at h' p) = v'"
  shows "side_inv P key ver k' v' h' a ins"
  using assms unfolding side_inv_def by (metis option.inject)

lemma side_inv_none: "side_inv P key ver k v h None ins \<Longrightarrow> side_inv P key ver k' v' h None ins"
  by (simp add: side_inv_def)

lemma enc_ok_new: "length (rk junk) = 32 \<Longrightarrow> enc_ok (mk_HCCrypto junk fk pb)"
  by (simp add: enc_ok_def enc_reachable.new)

lemma dec_ok_new: "length (rk junk) = 32 \<Longrightarrow> dec_ok (mk_HCCryptoDecryptor junk fk pb)"
  by (simp add: dec_ok_def dec_reachable.new)

lemma enc_ok_setters: "enc_ok e \<Longrightarrow> enc_ok (EnableSM4Encryption e b)"
  "enc_ok e \<Longrightarrow> length k = 16 \<Longrightarrow> enc_ok (e_SetSM4KeyWithVersion e k v)"
  by (simp_all add: enc_ok_def enc_reachable.enable enc_reachable.set_key_version)
    (simp_all add: setter_defs)

lemma dec_ok_setters: "dec_ok e \<Longrightarrow> dec_ok (EnableSM4Decryption e b)"
  "dec_ok e \<Longrightarrow> length k = 16 \<Longrightarrow> dec_ok (d_SetSM4KeyWithVersion e k v)"
  by (simp_all add: dec_ok_def dec_reachable.enable dec_reachable.set_key_version)
    (simp_all add: setter_defs)

lemma set_key_fields:
  "length k = 16 \<Longrightarrow> e_sm4_key_bytes (e_SetSM4KeyWithVersion e k v) = k" "e_key_version (e_SetSM4KeyWithVersion e k v) = v"
  "length k = 16 \<Longrightarrow> d_sm4_key_bytes (d_SetSM4KeyWithVersion d k v) = k" "d_key_version (d_SetSM4KeyWithVersion d k v) = v"
  "e_use_sm4 (e_SetSM4KeyWithVersion e k v) = e_use_sm4 e" "d_use_sm4 (d_SetSM4KeyWithVersion d k v) = d_use_sm4 d"
  by (simp_all add: setter_defs)

lemma live_nonzero: "live h p \<Longrightarrow> p \<noteq> 0"
  by (simp add: live_def)

lemma replace_ref_new:
  assumes "live h p"
  shows "\<exists>h'. replace_ref h 0 p = Inr h' \<and> (\<forall>q. live h' q = live h q) \<and> (\<forall>q. live h q \<longrightarrow> object_at h' q = object_at h q)"
  using AddRef_ok [OF assms] live_nonzero [OF assms] by (auto simp: replace_ref_def)

lemma e_setKey_ok:
  assumes "live h p" and "length k = 16"
  shows "\<exists>h'. e_setSM4KeyWithVersion h p (Some k) v = Inr h' \<and> (\<forall>q. live h' q = live h q)
    \<and> (\<forall>q. q \<noteq> p \<longrightarrow> live h q \<longrightarrow> object_at h' q = object_at h q)
    \<and> object_at h' p = e_SetSM4KeyWithVersion (object_at h p) k v"
  using on_object_ok [OF assms(1), of "\<lambda>e. e_SetSM4KeyWithVersion e k v"] live_nonzero [OF assms(1)] assms(2)
  by (auto simp: e_setSM4KeyWithVersion_def e_nativeSetSM4KeyWithVersion_def)

lemma d_setKey_ok:
  assumes "live h p" and "length k = 16"
  shows "\<exists>h'. d_setSM4KeyWithVersion h p (Some k) v = Inr h' \<and> (\<forall>q. live h' q = live h q)
    \<and> (\<forall>q. q \<noteq> p \<longrightarrow> live h q \<longrightarrow> object_at h' q = object_at h q)
    \<and> object_at h' p = d_SetSM4KeyWithVersion (object_at h p) k v"
  using on_object_ok [OF assms(1), of "\<lambda>e. d_SetSM4KeyWithVersion e k v"] live_nonzero [OF assms(1)] assms(2)
  by (auto simp: d_setSM4KeyWithVersion_def d_nativeSetSM4KeyWithVersion_def)

lemma e_enable_ok:
  assumes "live h p"
  shows "\<exists>h'. enableSM4Encryption h p b = Inr h' \<and> (\<forall>q. live h' q = live h q)
    \<and> (\<forall>q. q \<noteq> p \<longrightarrow> live h q \<longrightarrow> object_at h' q = object_at h q)
    \<and> object_at h' p = EnableSM4Encryption (object_at h p) b"
  using on_object_ok [OF assms, of "\<lambda>e. EnableSM4Encryption e b"] live_nonzero [OF assms]
  by (auto simp: enableSM4Encryption_def nativeEnableSM4Encryption_def)

lemma d_enable_ok:
  assumes "live h p"
  shows "\<exists>h'. enableSM4Decryption h p b = Inr h' \<and> (\<forall>q. live h' q = live h q)
    \<and> (\<forall>q. q \<noteq> p \<longrightarrow> live h q \<longrightarrow> object_at h' q = object_at h q)
    \<and> object_at h' p = EnableSM4Decryption (object_at h p) b"
  using on_object_ok [OF assms, of "\<lambda>e. EnableSM4Decryption e b"] live_nonzero [OF assms]
  by (auto simp: enableSM4Decryption_def nativeEnableSM4Decryption_def)

lemma side_inv_spare:
  assumes "side_inv P key ver k v h a ins" and "P obj" and "\<not> live h p"
    and h': "live h' p" "object_at h' p = obj"
      "\<And>q. live h' q \<Longrightarrow> q \<noteq> p \<Longrightarrow> live h q \<and> object_at h' q = object_at h q" "\<And>q. live h q \<Longrightarrow> live h' q"
  shows "side_inv P key ver k v h' (Some p) ins"
  using assms unfolding side_inv_def by (metis option.inject)

lemma install_encryptor:
  assumes "length k = 16"
  shows "\<exists>h1 h2 h3 h4. nativeCreateHCCrypto junk h = Inr (h1, length h + 1)
    \<and> enableSM4Encryption h1 (length h + 1) b = Inr h2 \<and> e_setSM4KeyWithVersion h2 (length h + 1) (Some k) v = Inr h3
    \<and> replace_ref h3 0 (length h + 1) = Inr h4 \<and> live h4 (length h + 1)
    \<and> object_at h4 (length h + 1) = e_SetSM4KeyWithVersion (EnableSM4Encryption (mk_HCCrypto junk 0xAA 255) b) k v
    \<and> (\<forall>q. live h4 q \<longrightarrow> q \<noteq> length h + 1 \<longrightarrow> live h q \<and> object_at h4 q = object_at h q) \<and> (\<forall>q. live h q \<longrightarrow> live h4 q)"
proof -
  let ?p = "length h + 1" and ?o = "mk_HCCrypto junk 0xAA 255"
  obtain h1 where h1: "nativeCreateHCCrypto junk h = Inr (h1, ?p)" "live h1 ?p" "object_at h1 ?p = ?o"
    "\<And>q. live h q \<Longrightarrow> live h1 q \<and> object_at h1 q = object_at h q \<and> q \<noteq> ?p" "\<And>q. live h1 q \<Longrightarrow> q = ?p \<or> live h q"
    using create_encryptor [of junk h] by blast
  obtain h2 where h2: "enableSM4Encryption h1 ?p b = Inr h2" "\<And>q. live h2 q = live h1 q"
    "\<And>q. q \<noteq> ?p \<Longrightarrow> live h1 q \<Longrightarrow> object_at h2 q = object_at h1 q" "object_at h2 ?p = EnableSM4Encryption ?o b"
    using e_enable_ok [OF h1(2), of b] h1(3) by auto
  obtain h3 where h3: "e_setSM4KeyWithVersion h2 ?p (Some k) v = Inr h3" "\<And>q. live h3 q = live h2 q"
    "\<And>q. q \<noteq> ?p \<Longrightarrow> live h2 q \<Longrightarrow> object_at h3 q = object_at h2 q" "object_at h3 ?p = e_SetSM4KeyWithVersion (EnableSM4Encryption ?o b) k v"
    using e_setKey_ok [OF _ assms, of h2 ?p v] h1(2) h2 by auto
  obtain h4 where h4: "replace_ref h3 0 ?p = Inr h4" "\<And>q. live h4 q = live h3 q" "\<And>q. live h3 q \<Longrightarrow> object_at h4 q = object_at h3 q"
    using replace_ref_new [of h3 ?p] h1(2) h2(2) h3(2) by auto
  have "live h4 ?p" "object_at h4 ?p = e_SetSM4KeyWithVersion (EnableSM4Encryption ?o b) k v"
    "\<And>q. live h4 q \<Longrightarrow> q \<noteq> ?p \<Longrightarrow> live h q \<and> object_at h4 q = object_at h q" "\<And>q. live h q \<Longrightarrow> live h4 q"
    using h1 h2 h3 h4 by metis+
  then show ?thesis using h1(1) h2(1) h3(1) h4(1) by blast
qed

lemma install_decryptor:
  assumes "length k = 16"
  shows "\<exists>h1 h2 h3 h4. nativeCreateHCCryptoDecryptor junk h = Inr (h1, length h + 1)
    \<and> enableSM4Decryption h1 (length h + 1) b = Inr h2 \<and> d_setSM4KeyWithVersion h2 (length h + 1) (Some k) v = Inr h3
    \<and> replace_ref h3 0 (length h + 1) = Inr h4 \<and> live h4 (length h + 1)
    \<and> object_at h4 (length h + 1) = d_SetSM4KeyWithVersion (EnableSM4Decryption (mk_HCCryptoDecryptor junk 0xAA 255) b) k v
    \<and> (\<forall>q. live h4 q \<longrightarrow> q \<noteq> length h + 1 \<longrightarrow> live h q \<and> object_at h4 q = object_at h q) \<and> (\<forall>q. live h q \<longrightarrow> live h4 q)"
proof -
  let ?p = "length h + 1" and ?o = "mk_HCCryptoDecryptor junk 0xAA 255"
  obtain h1 where h1: "nativeCreateHCCryptoDecryptor junk h = Inr (h1, ?p)" "live h1 ?p" "object_at h1 ?p = ?o"
    "\<And>q. live h q \<Longrightarrow> live h1 q \<and> object_at h1 q = object_at h q \<and> q \<noteq> ?p" "\<And>q. live h1 q \<Longrightarrow> q = ?p \<or> live h q"
    using create_decryptor [of junk h] by blast
  obtain h2 where h2: "enableSM4Decryption h1 ?p b = Inr h2" "\<And>q. live h2 q = live h1 q"
    "\<And>q. q \<noteq> ?p \<Longrightarrow> live h1 q \<Longrightarrow> object_at h2 q = object_at h1 q" "object_at h2 ?p = EnableSM4Decryption ?o b"
    using d_enable_ok [OF h1(2), of b] h1(3) by auto
  obtain h3 where h3: "d_setSM4KeyWithVersion h2 ?p (Some k) v = Inr h3" "\<And>q. live h3 q = live h2 q"
    "\<And>q. q \<noteq> ?p \<Longrightarrow> live h2 q \<Longrightarrow> object_at h3 q = object_at h2 q" "object_at h3 ?p = d_SetSM4KeyWithVersion (EnableSM4Decryption ?o b) k v"
    using d_setKey_ok [OF _ assms, of h2 ?p v] h1(2) h2 by auto
  obtain h4 where h4: "replace_ref h3 0 ?p = Inr h4" "\<And>q. live h4 q = live h3 q" "\<And>q. live h3 q \<Longrightarrow> object_at h4 q = object_at h3 q"
    using replace_ref_new [of h3 ?p] h1(2) h2(2) h3(2) by auto
  have "live h4 ?p" "object_at h4 ?p = d_SetSM4KeyWithVersion (EnableSM4Decryption ?o b) k v"
    "\<And>q. live h4 q \<Longrightarrow> q \<noteq> ?p \<Longrightarrow> live h q \<and> object_at h4 q = object_at h q" "\<And>q. live h q \<Longrightarrow> live h4 q"
    using h1 h2 h3 h4 by metis+
  then show ?thesis using h1(1) h2(1) h3(1) h4(1) by blast
qed

lemma addTrack_ok:
  assumes "rc_inv c" and "length (rk junk) = 32"
  shows "\<exists>c' p. addTrack junk c = Inr c' \<and> rc_inv c' \<and> activeEncryptor c' = Some p \<and> sm4Key c' = sm4Key c
    \<and> currentKeyVersion c' = currentKeyVersion c \<and> activeDecryptor c' = activeDecryptor c \<and> receivers c' = receivers c
    \<and> decryptors c' = decryptors c
    \<and> (openEncryption c \<longrightarrow> senders c' = senders c @ [p] \<and> e_use_sm4 (object_at (encryptors c') p) = useSM4Encryption c)"
proof -
  let ?h = "encryptors c" and ?p = "length (encryptors c) + 1"
  have key: "length (sm4Key c) = 16"
    and inv: "side_inv enc_ok e_sm4_key_bytes e_key_version (sm4Key c) (currentKeyVersion c) ?h (activeEncryptor c) (senders c)"
    using assms(1) by (simp_all add: rc_inv_def)
  show ?thesis
  proof (cases "openEncryption c")
    case True
    obtain h1 h2 h3 h4 where h: "nativeCreateHCCrypto junk ?h = Inr (h1, ?p)" "enableSM4Encryption h1 ?p (useSM4Encryption c) = Inr h2"
      "e_setSM4KeyWithVersion h2 ?p (Some (sm4Key c)) (currentKeyVersion c) = Inr h3" "replace_ref h3 0 ?p = Inr h4"
      and ok: "live h4 ?p" "object_at h4 ?p = e_SetSM4KeyWithVersion (EnableSM4Encryption (mk_HCCrypto junk 0xAA 255) (useSM4Encryption c))
        (sm4Key c) (currentKeyVersion c)" "\<And>q. live h4 q \<Longrightarrow> q \<noteq> ?p \<Longrightarrow> live ?h q \<and> object_at h4 q = object_at ?h q"
      "\<And>q. live ?h q \<Longrightarrow> live h4 q"
      using install_encryptor [OF key, of junk ?h "useSM4Encryption c" "currentKeyVersion c"] by blast
    have "side_inv enc_ok e_sm4_key_bytes e_key_version (sm4Key c) (currentKeyVersion c) h4 (Some ?p) (senders c @ [?p])"
      by (rule side_inv_new [OF inv _ ok]) (simp_all add: enc_ok_setters enc_ok_new assms(2) key set_key_fields)
    then show ?thesis using True h ok(2) assms(1)
      by (simp add: addTrack_def rc_inv_def set_key_fields) (simp add: setter_defs)
  next
    case False
    obtain h1 where h1: "nativeCreateHCCrypto junk ?h = Inr (h1, ?p)" "live h1 ?p" "object_at h1 ?p = mk_HCCrypto junk 0xAA 255"
      "\<And>q. live ?h q \<Longrightarrow> live h1 q \<and> object_at h1 q = object_at ?h q" "\<And>q. live h1 q \<Longrightarrow> q = ?p \<or> live ?h q"
      using create_encryptor [of junk ?h] by blast
    have "\<not> live ?h ?p" by (simp add: live_def)
    then have "side_inv enc_ok e_sm4_key_bytes e_key_version (sm4Key c) (currentKeyVersion c) h1 (Some ?p) (senders c)"
      by (rule side_inv_spare [OF inv enc_ok_new [OF assms(2)] _ h1(2,3)]) (use h1 in blast)+
    then show ?thesis using False h1(1) assms(1) by (simp add: addTrack_def rc_inv_def)
  qed
qed

lemma consumed_ok:
  assumes "rc_inv c" and "length (rk junk) = 32"
  shows "\<exists>c'. consumed junk c kind = Inr c' \<and> rc_inv c' \<and> sm4Key c' = sm4Key c \<and> encryptors c' = encryptors c
    \<and> currentKeyVersion c' = currentKeyVersion c \<and> activeEncryptor c' = activeEncryptor c \<and> senders c' = senders c
    \<and> (openEncryption c \<longrightarrow> kind = ''video'' \<longrightarrow> (\<exists>p. activeDecryptor c' = Some p \<and> receivers c' = receivers c @ [p]
        \<and> \<not> live (decryptors c) p \<and> d_use_sm4 (object_at (decryptors c') p) = useSM4Encryption c))"
proof (cases "openEncryption c \<and> kind = ''video''")
  case True
  let ?h = "decryptors c" and ?p = "length (decryptors c) + 1"
  have key: "length (sm4Key c) = 16"
    and inv: "side_inv dec_ok d_sm4_key_bytes d_key_version (sm4Key c) (currentKeyVersion c) ?h (activeDecryptor c) (receivers c)"
    using assms(1) by (simp_all add: rc_inv_def)
  obtain h1 h2 h3 h4 where h: "nativeCreateHCCryptoDecryptor junk ?h = Inr (h1, ?p)" "enableSM4Decryption h1 ?p (useSM4Encryption c) = Inr h2"
    "d_setSM4KeyWithVersion h2 ?p (Some (sm4Key c)) (currentKeyVersion c) = Inr h3" "replace_ref h3 0 ?p = Inr h4"
    and ok: "live h4 ?p" "object_at h4 ?p = d_SetSM4KeyWithVersion (EnableSM4Decryption (mk_HCCryptoDecryptor junk 0xAA 255) (useSM4Encryption c))
      (sm4Key c) (currentKeyVersion c)" "\<And>q. live h4 q \<Longrightarrow> q \<noteq> ?p \<Longrightarrow> live ?h q \<and> object_at h4 q = object_at ?h q"
    "\<And>q. live ?h q \<Longrightarrow> live h4 q"
    using install_decryptor [OF key, of junk ?h "useSM4Encryption c" "currentKeyVersion c"] by blast
  have "side_inv dec_ok d_sm4_key_bytes d_key_version (sm4Key c) (currentKeyVersion c) h4 (Some ?p) (receivers c @ [?p])"
    by (rule side_inv_new [OF inv _ ok]) (simp_all add: dec_ok_setters dec_ok_new assms(2) key set_key_fields)
  then show ?thesis using True h ok(2) assms(1)
    by (simp add: consumed_def rc_inv_def set_key_fields) (simp add: setter_defs live_def)
qed (use assms in \<open>auto simp: consumed_def\<close>)

lemma rekey_encryptor:
  assumes "rc_inv c" and "length key = 16"
  shows "\<exists>h. (case activeEncryptor c of None \<Rightarrow> Inr (encryptors c)
      | Some p \<Rightarrow> e_setSM4KeyWithVersion (encryptors c) p (Some key) v) = Inr h
    \<and> side_inv enc_ok e_sm4_key_bytes e_key_version key v h (activeEncryptor c) (senders c)
    \<and> (\<forall>q. live h q = live (encryptors c) q)
    \<and> (\<forall>q. live (encryptors c) q \<longrightarrow> object_at h q = (if activeEncryptor c = Some q
          then e_SetSM4KeyWithVersion (object_at (encryptors c) q) key v else object_at (encryptors c) q))"
proof (cases "activeEncryptor c")
  case None
  then show ?thesis using assms(1) by (auto simp: rc_inv_def intro: side_inv_none)
next
  case (Some p)
  have inv: "side_inv enc_ok e_sm4_key_bytes e_key_version (sm4Key c) (currentKeyVersion c) (encryptors c) (activeEncryptor c) (senders c)"
    using assms(1) by (simp add: rc_inv_def)
  then have p: "live (encryptors c) p" "enc_ok (object_at (encryptors c) p)" using Some by (simp_all add: side_inv_def)
  obtain h where h: "e_setSM4KeyWithVersion (encryptors c) p (Some key) v = Inr h" "\<And>q. live h q = live (encryptors c) q"
    "\<And>q. live (encryptors c) q \<Longrightarrow> q \<noteq> p \<Longrightarrow> object_at h q = object_at (encryptors c) q"
    "object_at h p = e_SetSM4KeyWithVersion (object_at (encryptors c) p) key v"
    using e_setKey_ok [OF p(1) assms(2), of v] by blast
  have "side_inv enc_ok e_sm4_key_bytes e_key_version key v h (activeEncryptor c) (senders c)"
    by (rule side_inv_rekey [OF inv Some h(2,3)]) (simp_all add: h(4) enc_ok_setters p(2) assms(2) set_key_fields)
  then show ?thesis using Some h by auto
qed

lemma rekey_decryptor:
  assumes "rc_inv c" and "length key = 16"
  shows "\<exists>h. (case activeDecryptor c of None \<Rightarrow> Inr (decryptors c)
      | Some p \<Rightarrow> d_setSM4KeyWithVersion (decryptors c) p (Some key) v) = Inr h
    \<and> side_inv dec_ok d_sm4_key_bytes d_key_version key v h (activeDecryptor c) (receivers c)
    \<and> (\<forall>q. live h q = live (decryptors c) q)
    \<and> (\<forall>q. live (decryptors c) q \<longrightarrow> object_at h q = (if activeDecryptor c = Some q
          then d_SetSM4KeyWithVersion (object_at (decryptors c) q) key v else object_at (decryptors c) q))"
proof (cases "activeDecryptor c")
  case None
  then show ?thesis using assms(1) by (auto simp: rc_inv_def intro: side_inv_none)
next
  case (Some p)
  have inv: "side_inv dec_ok d_sm4_key_bytes d_key_version (sm4Key c) (currentKeyVersion c) (decryptors c) (activeDecryptor c) (receivers c)"
    using assms(1) by (simp add: rc_inv_def)
  then have p: "live (decryptors c) p" "dec_ok (object_at (decryptors c) p)" using Some by (simp_all add: side_inv_def)
  obtain h where h: "d_setSM4KeyWithVersion (decryptors c) p (Some key) v = Inr h" "\<And>q. live h q = live (decryptors c) q"
    "\<And>q. live (decryptors c) q \<Longrightarrow> q \<noteq> p \<Longrightarrow> object_at h q = object_at (decryptors c) q"
    "object_at h p = d_SetSM4KeyWithVersion (object_at (decryptors c) p) key v"
    using d_setKey_ok [OF p(1) assms(2), of v] by blast
  have "side_inv dec_ok d_sm4_key_bytes d_key_version key v h (activeDecryptor c) (receivers c)"
    by (rule side_inv_rekey [OF inv Some h(2,3)]) (simp_all add: h(4) dec_ok_setters p(2) assms(2) set_key_fields)
  then show ?thesis using Some h by auto
qed

definition rekeyed_e :: "bytes \<Rightarrow> i32 \<Rightarrow> RoomClient \<Rightarrow> jptr \<Rightarrow> HCCrypto" where
  "rekeyed_e key v c q = (if activeEncryptor c = Some q then e_SetSM4KeyWithVersion (object_at (encryptors c) q) key v
     else object_at (encryptors c) q)"

definition rekeyed_d :: "bytes \<Rightarrow> i32 \<Rightarrow> RoomClient \<Rightarrow> jptr \<Rightarrow> HCCryptoDecryptor" where
  "rekeyed_d key v c q = (if activeDecryptor c = Some q then d_SetSM4KeyWithVersion (object_at (decryptors c) q) key v
     else object_at (decryptors c) q)"

lemma onKeyRecovered_ok:
  assumes "rc_inv c" and "length key = 16"
  shows "\<exists>c' ev. onKeyRecovered c key v = Inr (c', ev) \<and> rc_inv c' \<and> sm4Key c' = key \<and> currentKeyVersion c' = v
    \<and> senders c' = senders c \<and> receivers c' = receivers c
    \<and> activeEncryptor c' = activeEncryptor c \<and> activeDecryptor c' = activeDecryptor c
    \<and> (\<forall>q. live (encryptors c') q = live (encryptors c) q) \<and> (\<forall>q. live (decryptors c') q = live (decryptors c) q)
    \<and> (\<forall>q. live (encryptors c) q \<longrightarrow> object_at (encryptors c') q = rekeyed_e key v c q)
    \<and> (\<forall>q. live (decryptors c) q \<longrightarrow> object_at (decryptors c') q = rekeyed_d key v c q)"
proof -
  obtain h where h: "(case activeEncryptor c of None \<Rightarrow> Inr (encryptors c)
      | Some p \<Rightarrow> e_setSM4KeyWithVersion (encryptors c) p (Some key) v) = Inr h"
    "side_inv enc_ok e_sm4_key_bytes e_key_version key v h (activeEncryptor c) (senders c)"
    "\<forall>q. live h q = live (encryptors c) q" "\<forall>q. live (encryptors c) q \<longrightarrow> object_at h q = rekeyed_e key v c q"
    using rekey_encryptor [OF assms, of v] unfolding rekeyed_e_def by blast
  obtain g where g: "(case activeDecryptor c of None \<Rightarrow> Inr (decryptors c)
      | Some p \<Rightarrow> d_setSM4KeyWithVersion (decryptors c) p (Some key) v) = Inr g"
    "side_inv dec_ok d_sm4_key_bytes d_key_version key v g (activeDecryptor c) (receivers c)"
    "\<forall>q. live g q = live (decryptors c) q" "\<forall>q. live (decryptors c) q \<longrightarrow> object_at g q = rekeyed_d key v c q"
    using rekey_decryptor [OF assms, of v] unfolding rekeyed_d_def by blast
  let ?c = "c\<lparr>sm4Key := key, currentKeyVersion := v, isKeyRecovered := True, encryptors := h, decryptors := g\<rparr>"
  have "\<exists>ev. onKeyRecovered c key v = Inr (?c, ev)"
    using h(1) g(1) by (auto simp: onKeyRecovered_def Let_def split: option.splits)
  moreover have "rc_inv ?c" using h(2) g(2) assms(2) by (simp add: rc_inv_def)
  ultimately show ?thesis using h(3,4) g(3,4) by auto
qed

end
