(* ===== verification/Key_Session.thy ===== *)
theory Key_Session
  imports Key_Shares Room_Client
begin

text \<open>
  The key manager and the room client together: sessions of server messages, tracks, consumers and
  frames in any order, and what two such sessions exchange.
\<close>

section \<open>Sessions\<close>

text \<open>A server message, with the listener of the room client registered.\<close>

definition on_server_message ::
  "nat \<Rightarrow> KNSConnectManager \<times> RoomClient \<Rightarrow> server_message \<Rightarrow> ((KNSConnectManager \<times> RoomClient) \<times> rc_event list) result" where
  "on_server_message sdk kc msg =
     rbind (handleServerMessage sdk (fst kc) msg) (\<lambda>(k, keys).
       rbind (foldM (\<lambda>(key, v) (c, ev). rbind (onKeyRecovered c key v) (\<lambda>(c', ev'). Inr (c', ev @ ev'))) keys (snd kc, []))
         (\<lambda>(c, ev). Inr ((k, c), ev)))"

text \<open>A session: the key manager is a singleton that outlives room clients, so a new client meets it
  in any state and registers its listener.  Then server messages, the answer to joinRoom, new tracks
  and consumers, frames and changes of the settings come in any order.  The setter of the key is
  only used before there is a frame object, the frame objects' other settings not at all.\<close>

inductive session :: "nat \<Rightarrow> KNSConnectManager \<times> RoomClient \<Rightarrow> bool" for sdk where
  start: "session sdk (k\<lparr>has_listener := True\<rparr>, mk_RoomClient)"
| message: "session sdk kc \<Longrightarrow> on_server_message sdk kc msg = Inr (kc', ev) \<Longrightarrow> session sdk kc'"
| join: "session sdk (k, c) \<Longrightarrow> joinRoom_ack c caps = (c', ev) \<Longrightarrow> session sdk (k, c')"
| track: "session sdk (k, c) \<Longrightarrow> length (rk junk) = 32 \<Longrightarrow> addTrack junk c = Inr c' \<Longrightarrow> session sdk (k, c')"
| consumer: "session sdk (k, c) \<Longrightarrow> length (rk junk) = 32 \<Longrightarrow> consumed junk c kind = Inr c' \<Longrightarrow> session sdk (k, c')"
| send: "session sdk (k, c) \<Longrightarrow> p \<in> set (senders c) \<Longrightarrow>
    Encrypt (object_at (encryptors c) p) mt f buf t0 t1 = Inr (e, st, out, n) \<Longrightarrow>
    on_object (\<lambda>_. e) (encryptors c) p = Inr h \<Longrightarrow> session sdk (k, c\<lparr>encryptors := h\<rparr>)"
| receive: "session sdk (k, c) \<Longrightarrow> p \<in> set (receivers c) \<Longrightarrow>
    Decrypt (object_at (decryptors c) p) mt ef buf t0 t1 t2 = Inr (d, st, n, out) \<Longrightarrow>
    on_object (\<lambda>_. d) (decryptors c) p = Inr h \<Longrightarrow> session sdk (k, c\<lparr>decryptors := h\<rparr>)"
| use_sm4: "session sdk (k, c) \<Longrightarrow> session sdk (k, setSM4Encryption c b)"
| open_enc: "session sdk (k, c) \<Longrightarrow> session sdk (k, setOpenEncryption c b)"
| key: "session sdk (k, c) \<Longrightarrow> activeEncryptor c = None \<Longrightarrow> activeDecryptor c = None \<Longrightarrow> session sdk (k, setSM4Key c key)"
| ctr: "session sdk (k, c) \<Longrightarrow> session sdk (k, setSM4CTR c ctr)"

lemma Encrypt_keeps:
  assumes "Encrypt e mt f buf t0 t1 = Inr (e', st, out, n)"
  shows "e_sm4_key_bytes e' = e_sm4_key_bytes e" "e_key_version e' = e_key_version e" "enc_ok e \<Longrightarrow> enc_ok e'"
  using assms enc_reachable.encrypt [OF _ assms]
  by (auto simp: Encrypt_def Let_def enc_stats_def enc_ok_def split: if_splits)

lemma Decrypt_keeps:
  assumes "Decrypt d mt ef buf t0 t1 t2 = Inr (d', st, n, out)"
  shows "d_sm4_key_bytes d' = d_sm4_key_bytes d" "d_key_version d' = d_key_version d" "dec_ok d \<Longrightarrow> dec_ok d'"
  using assms dec_reachable.decrypt [OF _ assms]
  by (auto simp: Decrypt_def Let_def case_prod_beta dec_stats_def check_version_def dec_ok_def split: if_splits)

lemma side_inv_step:
  assumes "side_inv P key ver k v h a ins" and "on_object (\<lambda>_. obj) h p = Inr h'"
    and "P (object_at h p) \<Longrightarrow> P obj" and "key obj = key (object_at h p)" and "ver obj = ver (object_at h p)"
  shows "side_inv P key ver k v h' a ins"
proof -
  have p: "live h p" using assms(2) by (simp add: on_object_def split: if_splits)
  have h': "\<And>q. live h' q = live h q" "\<And>q. q \<noteq> p \<Longrightarrow> live h q \<Longrightarrow> object_at h' q = object_at h q" "object_at h' p = obj"
    using on_object_ok [OF p, of "\<lambda>_. obj"] assms(2) by auto
  then have "key (object_at h' q) = key (object_at h q) \<and> ver (object_at h' q) = ver (object_at h q)
      \<and> (P (object_at h q) \<longrightarrow> P (object_at h' q))" if "live h q" for q
    using assms(3-5) that by (cases "q = p") simp_all
  then show ?thesis using assms(1) h'(1) unfolding side_inv_def by metis
qed

lemma rc_inv_start: "rc_inv mk_RoomClient"
  by (simp add: rc_inv_def mk_RoomClient_def side_inv_def live_def DEFAULT_SM4_KEY_def)

lemma keys_recovered_ok:
  assumes "rc_inv c" and "\<forall>(key, v) \<in> set keys. length key = 16"
  shows "\<exists>c' ev'. foldM (\<lambda>(key, v) (c, ev). rbind (onKeyRecovered c key v) (\<lambda>(c', ev'). Inr (c', ev @ ev'))) keys (c, ev)
    = Inr (c', ev') \<and> rc_inv c'"
  using assms
proof (induction keys arbitrary: c ev)
  case (Cons kv keys)
  obtain key v where kv: "kv = (key, v)" by force
  with Cons.prems obtain c' ev' where "onKeyRecovered c key v = Inr (c', ev')" "rc_inv c'"
    using onKeyRecovered_ok [of c key v] by auto
  then show ?case using Cons kv by simp
qed simp

lemma recovered_keys:
  assumes "handleServerMessage sdk k msg = Inr (k', keys)"
  shows "\<forall>(key, v) \<in> set keys. length key = 16"
  using assms
  by (auto simp: handleServerMessage_def handleRoomSharesPlain_def handleAdditionalSharesProvided_def recover_and_notify_def
      notifyKeyRecovered_def Let_def case_prod_beta split: server_message.splits sum.splits if_splits option.splits)

lemma on_server_message_inv:
  assumes "rc_inv c" and "on_server_message sdk (k, c) msg = Inr ((k', c'), ev)"
  shows "rc_inv c'"
  using assms keys_recovered_ok [OF assms(1), of _ "[]"] recovered_keys [of sdk k msg]
  by (fastforce simp: on_server_message_def rbind_Inr_iff)

lemma session_inv: "session sdk kc \<Longrightarrow> rc_inv (snd kc)"
proof (induction rule: session.induct)
  case (start k)
  then show ?case by (simp add: rc_inv_start)
next
  case (message kc msg kc' ev)
  then show ?case using on_server_message_inv by (metis prod.collapse)
next
  case (track k c junk c')
  then show ?case using addTrack_ok [of c junk] by auto
next
  case (consumer k c junk kind c')
  then show ?case using consumed_ok [of c junk kind] by auto
next
  case (send k c p mt f buf t0 t1 e st out n h)
  then show ?case by (auto simp: rc_inv_def Encrypt_keeps elim!: side_inv_step)
next
  case (receive k c p mt ef buf t0 t1 t2 d st n out h)
  then show ?case by (auto simp: rc_inv_def Decrypt_keeps elim!: side_inv_step)
next
  case (key k c key)
  then show ?case by (auto simp: rc_inv_def setSM4Key_def side_inv_def split: option.splits)
qed (auto simp: joinRoom_ack_def setSM4Encryption_def setOpenEncryption_def setSM4CTR_def rc_inv_def split: option.splits)

section \<open>Frames between two clients\<close>

lemma paired_objects:
  assumes "enc_ok e" and "dec_ok d" and "length key = 16"
  shows "same_key (e_SetSM4KeyWithVersion e key v) (d_SetSM4KeyWithVersion d key v')"
  using assms schedules_agree [OF enc_reachable_inv dec_reachable_inv assms(3), of e d v v'] dec_reachable_inv [of d]
  by (simp add: same_key_def enc_ok_def dec_ok_def) (simp add: setter_defs dec_inv_def)

text \<open>A frame with another version than the receiver's comes out as ciphertext, with status kOk.\<close>

lemma Decrypt_mismatch:
  assumes "enc_ok e" and "dec_ok d" and "encrypts e mt f" and "e_key_version e AND 0x7F \<noteq> d_key_version d"
    and "length frame = length f" and "Encrypt e mt f buf t0 t1 = Inr (e', st, c, n)"
  shows "\<exists>d'. Decrypt d mt c frame s0 s1 s2 = Inr (d', kOk, length f, butlast c)"
proof -
  have "length (e_sm4_ctr e) = 16" using assms(1) by (simp add: enc_ok_def DEFAULT_SM4_CTR_def)
  then have len: "length frame = length (ctr_crypt (e_sm4_key e) (e_sm4_ctr e) f)" using assms(5) by (simp add: ctr.crypt_length)
  have c: "c = ctr_crypt (e_sm4_key e) (e_sm4_ctr e) f @ [0x80 OR (ucast (e_key_version e AND 0x7F) :: u8)]"
    using Encrypt_OK_wire(2) [OF assms(6)] assms(1,3) by (simp add: enc_ok_def postfix_of_wire)
  show ?thesis
    using assms(2,4) Decrypt_split [OF _ len, of d mt "0x80 OR (ucast (e_key_version e AND 0x7F) :: u8)" s0 s1 s2] len assms(5)
    by (auto simp: c check_version_def postfix_flag postfix_version dec_ok_def Let_def)
qed

lemma session_listener: "session sdk kc \<Longrightarrow> has_listener (fst kc)"
proof (induction rule: session.induct)
  case (message kc msg kc' ev)
  then show ?case
    by (auto simp: on_server_message_def handleServerMessage_def handleShareFirst_def handleRoomSharesPlain_def
        handleAdditionalSharesProvided_def recover_and_notify_def notifyKeyRecovered_def rbind_Inr_iff Let_def
        split: server_message.splits sum.splits if_splits option.splits prod.splits)
qed auto

lemma message_delivers:
  assumes "26 \<le> sdk" and "rc_inv c" and "has_listener k"
    and "store_shares es (shamirSharesMap k) = (m, None)" and "three_shares polys m"
  shows "\<exists>c' ev. on_server_message sdk (k, c) (additional_shares_provided (Inr es))
      = Inr ((k\<lparr>shamirSharesMap := m, kns_version := kns_version k + 1\<rparr>, c'), ev)
    \<and> onKeyRecovered c (shared_key polys) (kns_version k + 1) = Inr (c', ev)"
proof -
  let ?k = "k\<lparr>shamirSharesMap := m\<rparr>"
  have "handleServerMessage sdk k (additional_shares_provided (Inr es)) = Inr (notifyKeyRecovered ?k (shared_key polys))"
    using recover_three [OF assms(1), of polys ?k] assms(4,5) three_shares_length [OF assms(5)]
    by (simp add: handleServerMessage_def handleAdditionalSharesProvided_def)
  moreover obtain c' ev where "onKeyRecovered c (shared_key polys) (kns_version k + 1) = Inr (c', ev)"
    using onKeyRecovered_ok [OF assms(2) length_shared_key [OF assms(5)]] by blast
  ultimately show ?thesis using assms(3) by (simp add: on_server_message_def notifyKeyRecovered_def Let_def)
qed

lemma message_rekeys:
  assumes "session sdk (k, c)" and "26 \<le> sdk" and "store_shares es (shamirSharesMap k) = (m, None)" and "three_shares polys m"
  shows "\<exists>c' ev. on_server_message sdk (k, c) (additional_shares_provided (Inr es))
      = Inr ((k\<lparr>shamirSharesMap := m, kns_version := kns_version k + 1\<rparr>, c'), ev)
    \<and> sm4Key c' = shared_key polys \<and> currentKeyVersion c' = kns_version k + 1
    \<and> senders c' = senders c \<and> receivers c' = receivers c
    \<and> activeEncryptor c' = activeEncryptor c \<and> activeDecryptor c' = activeDecryptor c
    \<and> (\<forall>q. live (encryptors c) q \<longrightarrow> object_at (encryptors c') q = rekeyed_e (shared_key polys) (kns_version k + 1) c q)
    \<and> (\<forall>q. live (decryptors c) q \<longrightarrow> object_at (decryptors c') q = rekeyed_d (shared_key polys) (kns_version k + 1) c q)"
proof -
  have inv: "rc_inv c" using session_inv [OF assms(1)] by simp
  obtain c' ev where "on_server_message sdk (k, c) (additional_shares_provided (Inr es))
      = Inr ((k\<lparr>shamirSharesMap := m, kns_version := kns_version k + 1\<rparr>, c'), ev)"
    and *: "onKeyRecovered c (shared_key polys) (kns_version k + 1) = Inr (c', ev)"
    using message_delivers [OF assms(2) inv _ assms(3,4)] session_listener [OF assms(1)] by auto
  then show ?thesis using onKeyRecovered_ok [OF inv length_shared_key [OF assms(4)], of "kns_version k + 1"] by auto
qed

lemma active_objects:
  assumes "session sdk (k, c)"
  shows "activeEncryptor c = Some p \<Longrightarrow> live (encryptors c) p \<and> enc_ok (object_at (encryptors c) p)"
    and "activeDecryptor c = Some q \<Longrightarrow> live (decryptors c) q \<and> dec_ok (object_at (decryptors c) q)"
    and "q \<in> set (receivers c) \<Longrightarrow> live (decryptors c) q \<and> dec_ok (object_at (decryptors c) q)"
  using session_inv [OF assms] by (auto simp: rc_inv_def side_inv_def)

section \<open>A sample session\<close>

text \<open>A client in full mode with one track and a consumer for each of the given kinds, and the three
  shares of a key under the indices from \<open>n\<close> on.\<close>

definition sample_junk :: SM4_KEY where
  "sample_junk = \<lparr>rk = replicate 32 0\<rparr>"

definition sample_client :: "string list \<Rightarrow> RoomClient" where
  "sample_client kinds =
     projr (rbind (addTrack sample_junk (setSM4Encryption mk_RoomClient True))
       (foldM (\<lambda>kind c. consumed sample_junk c kind) kinds))"

definition sample_shares :: "gf list list \<Rightarrow> i32 \<Rightarrow> share_map" where
  "sample_shares polys n = map (\<lambda>(i, x). (i, b64_encode (make_share polys (gf_of x)))) [(n, 1), (n + 1, 2), (n + 2, 3)]"

lemmas sample_eval = sample_client_def addTrack_def consumed_def setSM4Encryption_def mk_RoomClient_def
  nativeCreateHCCrypto_def nativeCreateHCCryptoDecryptor_def make_ref_counted_def AddRef_def live_def object_at_def refs_at_def
  enableSM4Encryption_def nativeEnableSM4Encryption_def enableSM4Decryption_def nativeEnableSM4Decryption_def
  e_setSM4KeyWithVersion_def e_nativeSetSM4KeyWithVersion_def d_setSM4KeyWithVersion_def d_nativeSetSM4KeyWithVersion_def
  on_object_def replace_ref_def DEFAULT_SM4_KEY_def setter_defs Let_def

lemma sample_junk [simp]: "length (rk sample_junk) = 32"
  by (simp add: sample_junk_def)

lemma sample_consumed: "rc_inv c \<Longrightarrow> session sdk (k, c) \<Longrightarrow>
  \<exists>c'. foldM (\<lambda>kind c. consumed sample_junk c kind) kinds c = Inr c' \<and> session sdk (k, c')"
proof (induction kinds arbitrary: c)
  case (Cons kind kinds)
  obtain c1 where "consumed sample_junk c kind = Inr c1" "rc_inv c1"
    using consumed_ok [OF Cons.prems(1), of sample_junk kind] by auto
  moreover have "session sdk (k, c1)" using session.consumer [OF Cons.prems(2) _ calculation(1)] by simp
  ultimately show ?case using Cons.IH by simp
qed simp

lemma sample_session: "session sdk (k\<lparr>has_listener := True\<rparr>, sample_client kinds)"
proof -
  let ?c = "setSM4Encryption mk_RoomClient True" and ?k = "k\<lparr>has_listener := True\<rparr>"
  have s: "session sdk (?k, ?c)" by (intro session.use_sm4 session.start)
  obtain c1 where c1: "addTrack sample_junk ?c = Inr c1" "rc_inv c1"
    using addTrack_ok [of ?c sample_junk] session_inv [OF s] by auto
  then have "session sdk (?k, c1)" using session.track [OF s _ c1(1)] by simp
  then obtain c2 where "foldM (\<lambda>kind c. consumed sample_junk c kind) kinds c1 = Inr c2" "session sdk (?k, c2)"
    using sample_consumed [OF c1(2)] by blast
  then show ?thesis using c1(1) by (simp add: sample_client_def)
qed

lemma sample_fields:
  "activeEncryptor (sample_client [''video'']) = Some 1" "activeDecryptor (sample_client [''video'']) = Some 1"
  "senders (sample_client [''video'']) = [1]"
  "d_use_sm4 (object_at (decryptors (sample_client [''video''])) 1)" "e_use_sm4 (object_at (encryptors (sample_client [''video''])) 1)"
  by (simp_all add: sample_eval)

lemma sample_fields2:
  "activeDecryptor (sample_client [''video'', ''video'']) = Some 2" "receivers (sample_client [''video'', ''video'']) = [1, 2]"
  "d_key_version (object_at (decryptors (sample_client [''video'', ''video''])) 1) = 0"
  by (simp_all add: sample_eval numeral_2_eq_2)

lemma sample_stored:
  "n = 1 \<or> n = 11 \<Longrightarrow> store_shares (map Inr (sample_shares polys n)) (shamirSharesMap \<lparr>shamirSharesMap = [], kns_version = v, has_listener = True\<rparr>)
    = (sample_shares polys n, None)"
  by (auto simp: sample_shares_def)

lemma sample_carried:
  assumes "length polys = 16" and "\<forall>cs \<in> set polys. length cs = 1" and "n = 1 \<or> n = 11"
  shows "three_shares polys (sample_shares polys n)"
proof -
  let ?xs = "[gf_of 1, gf_of 2, gf_of 3]"
  have "list_all2 (carries polys) (lowest_shares 3 (sample_shares polys n)) ?xs" 
    using assms(3) by (auto simp: sample_shares_def lowest_shares_def carries_def)
  moreover have "distinct ?xs" by (simp add: gf_of_inject)
  moreover have "cs \<noteq> [] \<and> length cs \<le> 3" if "cs \<in> set polys" for cs using assms(2) that by fastforce
  moreover have "length ?xs = 3" by simp
  ultimately show ?thesis using assms(1) unfolding three_shares_def by blast
qed


text \<open>The sample session after the key manager has counted \<open>v\<close> keys.\<close>

definition sample_state :: "i32 \<Rightarrow> KNSConnectManager \<times> RoomClient" where
  "sample_state v = (\<lparr>shamirSharesMap = [], kns_version = v, has_listener = True\<rparr>, sample_client [''video''])"

definition sample_polys :: "gf list list" where
  "sample_polys = replicate 16 [gf_of 7]"

lemma sample_state_session: "session sdk (sample_state v)"
  using sample_session [of sdk "\<lparr>shamirSharesMap = [], kns_version = v, has_listener = True\<rparr>"] by (simp add: sample_state_def)

lemma sample_three: "n = 1 \<or> n = 11 \<Longrightarrow> three_shares sample_polys (sample_shares sample_polys n)"
  by (rule sample_carried) (simp_all add: sample_polys_def)

lemma sample_key: "shared_key sample_polys = replicate 16 7"
  by (simp add: sample_polys_def shared_key_def gf_of_inverse)

section \<open>Properties\<close>

text \<open>C6. Whatever happens in a session, every frame object on a sender or receiver is alive, the
  active one holds the client's current key and version, and adding a track or a consumer succeeds
  without touching a freed object.\<close>

theorem session_safe:
  assumes "session sdk (k, c)" and "length (rk junk) = 32"
  shows "(\<forall>p \<in> set (senders c). live (encryptors c) p) \<and> (\<forall>p \<in> set (receivers c). live (decryptors c) p)
    \<and> (\<forall>p. activeEncryptor c = Some p \<and> p \<in> set (senders c) \<longrightarrow>
         rk (e_sm4_key (object_at (encryptors c) p)) = round_keys (sm4Key c)
         \<and> e_key_version (object_at (encryptors c) p) = currentKeyVersion c)
    \<and> (\<forall>p. activeDecryptor c = Some p \<and> p \<in> set (receivers c) \<longrightarrow>
         rk (d_sm4_key (object_at (decryptors c) p)) = round_keys (sm4Key c)
         \<and> d_key_version (object_at (decryptors c) p) = currentKeyVersion c)
    \<and> (\<exists>c'. addTrack junk c = Inr c') \<and> (\<exists>c'. consumed junk c kind = Inr c')"
proof -
  have inv: "rc_inv c" using session_inv [OF assms(1)] by simp
  have "rk (e_sm4_key e) = round_keys (e_sm4_key_bytes e)" if "enc_ok e" for e
    using enc_reachable_inv [of e] that by (simp add: enc_ok_def enc_inv_def)
  moreover have "rk (d_sm4_key d) = round_keys (d_sm4_key_bytes d)" if "dec_ok d" for d
    using dec_reachable_inv [of d] that by (simp add: dec_ok_def dec_inv_def)
  ultimately show ?thesis
    using inv addTrack_ok [OF inv assms(2)] consumed_ok [OF inv assms(2), of kind] by (auto simp: rc_inv_def side_inv_def)
qed

theorem session_safe_witness:
  "let c = sample_client [''video'']; e = object_at (encryptors c) 1
   in rk (e_sm4_key e) = round_keys (sm4Key c) \<and> e_key_version e = currentKeyVersion c"
  using session_safe [OF sample_session [of 30 mk_KNSConnectManager "[''video'']"] sample_junk, of "''audio''",
      THEN conjunct2, THEN conjunct2, THEN conjunct1, THEN spec, of 1]
  unfolding Let_def sample_fields(1,3) by (elim mp) simp

text \<open>C7. Recovery of the room key: when a message completes three shares of a key that was shared
  with threshold 3, the key manager recovers exactly that key, numbers it with its next version, and
  the client's active encryptor and decryptor switch to it.\<close>

theorem key_delivered:
  assumes "session sdk (k, c)" and "26 \<le> sdk" and "store_shares es (shamirSharesMap k) = (m, None)" and "three_shares polys m"
  shows "\<exists>c' ev. on_server_message sdk (k, c) (additional_shares_provided (Inr es))
      = Inr ((k\<lparr>shamirSharesMap := m, kns_version := kns_version k + 1\<rparr>, c'), ev)
    \<and> sm4Key c' = shared_key polys \<and> currentKeyVersion c' = kns_version k + 1
    \<and> (\<forall>p. activeEncryptor c = Some p \<longrightarrow> object_at (encryptors c') p
         = e_SetSM4KeyWithVersion (object_at (encryptors c) p) (shared_key polys) (kns_version k + 1))
    \<and> (\<forall>p. activeDecryptor c = Some p \<longrightarrow> object_at (decryptors c') p
         = d_SetSM4KeyWithVersion (object_at (decryptors c) p) (shared_key polys) (kns_version k + 1))"
  using message_rekeys [OF assms] active_objects(1,2) [OF assms(1)] by (force simp: rekeyed_e_def rekeyed_d_def)

theorem key_delivered_witness:
  "\<exists>k' c' ev. on_server_message 30 (sample_state 0) (additional_shares_provided (Inr (map Inr (sample_shares sample_polys 1))))
      = Inr ((k', c'), ev)
    \<and> sm4Key c' = replicate 16 7 \<and> currentKeyVersion c' = 1"
  using key_delivered [OF sample_state_session [unfolded sample_state_def] _ sample_stored sample_three, of 30 1 0]
  unfolding sample_key sample_state_def by fastforce

text \<open>C3. Two clients that receive shares of the same key, and whose key managers have counted the
  same number of keys, understand each other: a frame that the first one's sender encrypts is
  restored by the second one's active decryptor, if that is in full mode and the new version is below 128.\<close>

theorem clients_exchange:
  assumes "session sdk (k, c)" and "session sdk' (k', c')" and "26 \<le> sdk" and "26 \<le> sdk'"
    and "store_shares es (shamirSharesMap k) = (m, None)" and "store_shares es' (shamirSharesMap k') = (m', None)"
    and "three_shares polys m" and "three_shares polys m'"
    and "kns_version k' = kns_version k" and "unat (kns_version k + 1) < 128"
    and "activeEncryptor c = Some p" and "activeDecryptor c' = Some q" and "d_use_sm4 (object_at (decryptors c') q)"
    and "length buf = length f + 1" and "length frame = length f"
  shows "\<exists>k1 c1 ev1 k2 c2 ev2 e' w d'.
      on_server_message sdk (k, c) (additional_shares_provided (Inr es)) = Inr ((k1, c1), ev1)
    \<and> on_server_message sdk' (k', c') (additional_shares_provided (Inr es')) = Inr ((k2, c2), ev2)
    \<and> Encrypt (object_at (encryptors c1) p) mt f buf t0 t1 = Inr (e', 0, w, Some (length f + 1))
    \<and> Decrypt (object_at (decryptors c2) q) mt w frame s0 s1 s2 = Inr (d', kOk, length f, f)"
proof -
  let ?key = "shared_key polys" and ?v = "kns_version k + 1"
  note p = active_objects(1) [OF assms(1,11)] and q = active_objects(2) [OF assms(2,12)]
  obtain k1 c1 ev1 where 1: "on_server_message sdk (k, c) (additional_shares_provided (Inr es)) = Inr ((k1, c1), ev1)"
    "object_at (encryptors c1) p = e_SetSM4KeyWithVersion (object_at (encryptors c) p) ?key ?v"
    using message_rekeys [OF assms(1,3,5,7)] p assms(11) by (force simp: rekeyed_e_def)
  obtain k2 c2 ev2 where 2: "on_server_message sdk' (k', c') (additional_shares_provided (Inr es')) = Inr ((k2, c2), ev2)"
    "object_at (decryptors c2) q = d_SetSM4KeyWithVersion (object_at (decryptors c') q) ?key ?v"
    using message_rekeys [OF assms(2,4,6,8)] q assms(9,12) by (force simp: rekeyed_d_def)
  have "same_key (object_at (encryptors c1) p) (object_at (decryptors c2) q)"
    using paired_objects [of _ _ ?key ?v ?v] p q length_shared_key [OF assms(7)] by (simp add: 1 2)
  then show ?thesis
    using frame_roundtrip_wire [of "object_at (encryptors c1) p" "object_at (decryptors c2) q" buf f frame mt t0 t1 s0 s1 s2]
      1 2 assms(10,13-15) by (auto simp: set_key_fields)
qed

theorem clients_exchange_witness:
  "\<exists>k1 c1 ev1 k2 c2 ev2 e' w d'.
      on_server_message 30 (sample_state 4) (additional_shares_provided (Inr (map Inr (sample_shares sample_polys 1)))) = Inr ((k1, c1), ev1)
    \<and> on_server_message 26 (sample_state 4) (additional_shares_provided (Inr (map Inr (sample_shares sample_polys 11)))) = Inr ((k2, c2), ev2)
    \<and> Encrypt (object_at (encryptors c1) 1) MEDIA_TYPE_VIDEO [1, 2] [0, 0, 0] 0 1 = Inr (e', 0, w, Some 3)
    \<and> Decrypt (object_at (decryptors c2) 1) MEDIA_TYPE_VIDEO w [0, 0] 0 1 2 = Inr (d', kOk, 2, [1, 2])"
  using clients_exchange [OF sample_state_session [unfolded sample_state_def] sample_state_session [unfolded sample_state_def]
      _ _ sample_stored sample_stored sample_three sample_three _ _ sample_fields(1,2,4),
      of 30 26 1 11 4 4 "[0, 0, 0]" "[1, 2]" "[0, 0]" MEDIA_TYPE_VIDEO 0 1 0 1 2]
  unfolding sample_state_def by fastforce

text \<open>C28. The key version is counted by each key manager for itself.  Two clients that receive shares of
  the same key after a different number of earlier keys hold the same key under different versions:
  what one encrypts the other one hands to its decoder as ciphertext, with status kOk.\<close>

theorem late_joiner:
  assumes "session sdk (k, c)" and "session sdk' (k', c')" and "26 \<le> sdk" and "26 \<le> sdk'"
    and "store_shares es (shamirSharesMap k) = (m, None)" and "store_shares es' (shamirSharesMap k') = (m', None)"
    and "three_shares polys m" and "three_shares polys m'"
    and "kns_version k' \<noteq> kns_version k" and "unat (kns_version k + 1) < 128"
    and "activeEncryptor c = Some p" and "activeDecryptor c' = Some q" and "e_use_sm4 (object_at (encryptors c) p)"
    and "length buf = length f + 1" and "length frame = length f"
  shows "\<exists>k1 c1 ev1 k2 c2 ev2 e' w d'.
      on_server_message sdk (k, c) (additional_shares_provided (Inr es)) = Inr ((k1, c1), ev1)
    \<and> on_server_message sdk' (k', c') (additional_shares_provided (Inr es')) = Inr ((k2, c2), ev2)
    \<and> sm4Key c1 = sm4Key c2
    \<and> Encrypt (object_at (encryptors c1) p) mt f buf t0 t1 = Inr (e', 0, w, Some (length f + 1))
    \<and> Decrypt (object_at (decryptors c2) q) mt w frame s0 s1 s2 = Inr (d', kOk, length f, butlast w)"
proof -
  let ?key = "shared_key polys" and ?v = "kns_version k + 1" and ?v' = "kns_version k' + 1"
  note p = active_objects(1) [OF assms(1,11)] and q = active_objects(2) [OF assms(2,12)]
  obtain k1 c1 ev1 where 1: "on_server_message sdk (k, c) (additional_shares_provided (Inr es)) = Inr ((k1, c1), ev1)"
    "object_at (encryptors c1) p = e_SetSM4KeyWithVersion (object_at (encryptors c) p) ?key ?v" "sm4Key c1 = ?key"
    using message_rekeys [OF assms(1,3,5,7)] p assms(11) by (force simp: rekeyed_e_def)
  obtain k2 c2 ev2 where 2: "on_server_message sdk' (k', c') (additional_shares_provided (Inr es')) = Inr ((k2, c2), ev2)"
    "object_at (decryptors c2) q = d_SetSM4KeyWithVersion (object_at (decryptors c') q) ?key ?v'" "sm4Key c2 = ?key"
    using message_rekeys [OF assms(2,4,6,8)] q assms(12) by (force simp: rekeyed_d_def)
  let ?e = "object_at (encryptors c1) p" and ?d = "object_at (decryptors c2) q"
  have ok: "enc_ok ?e" "dec_ok ?d"
    using p q length_shared_key [OF assms(7)] by (simp_all add: 1 2 enc_ok_setters dec_ok_setters)
  have "encrypts ?e mt f" using assms(13) by (simp add: 1 encrypts_def set_key_fields)
  moreover have "e_key_version ?e AND 0x7F \<noteq> d_key_version ?d"
    using assms(9) version_fits [of ?v] assms(10) by (simp add: 1 2 set_key_fields)
  moreover have "\<not> e_fail_encryption ?e" using ok(1) by (simp add: enc_ok_def)
  ultimately show ?thesis
    using Decrypt_mismatch [OF ok _ _ assms(15)] Encrypt_wire [OF _ assms(14), of ?e mt t0 t1] 1 2 by metis
qed

theorem late_joiner_witness:
  "\<exists>k1 c1 ev1 k2 c2 ev2 e' w d'.
      on_server_message 30 (sample_state 4) (additional_shares_provided (Inr (map Inr (sample_shares sample_polys 1)))) = Inr ((k1, c1), ev1)
    \<and> on_server_message 26 (sample_state 0) (additional_shares_provided (Inr (map Inr (sample_shares sample_polys 11)))) = Inr ((k2, c2), ev2)
    \<and> sm4Key c1 = sm4Key c2
    \<and> Encrypt (object_at (encryptors c1) 1) MEDIA_TYPE_VIDEO [1, 2] [0, 0, 0] 0 1 = Inr (e', 0, w, Some 3)
    \<and> Decrypt (object_at (decryptors c2) 1) MEDIA_TYPE_VIDEO w [0, 0] 0 1 2 = Inr (d', kOk, 2, butlast w)"
proof -
  have "Some 3 = Some (length [1 :: u8, 2] + 1)" "2 = length [1 :: u8, 2]" by simp_all
  then show ?thesis unfolding sample_state_def
    by (simp only:) (rule late_joiner [OF sample_state_session [unfolded sample_state_def] sample_state_session [unfolded sample_state_def]
      _ _ sample_stored sample_stored sample_three sample_three _ _ sample_fields(1,2,5)], simp_all)
qed

text \<open>C29. Only the decryptor created last follows a new key.  In a session with several video consumers
  every other one keeps its key and version when a key is recovered, so the frames of the new key reach
  its decoder as ciphertext, with status kOk.\<close>

theorem stale_consumer:
  assumes "session sdk (k, c)" and "q \<in> set (receivers c)" and "activeDecryptor c \<noteq> Some q"
    and "onKeyRecovered c key v = Inr (c', ev)" and "length key = 16"
    and "enc_reachable e" and "e_sm4_ctr e = DEFAULT_SM4_CTR" and "\<not> e_fail_encryption e" and "e_use_sm4 e"
    and "unat v < 128" and "d_key_version (object_at (decryptors c) q) \<noteq> v"
    and "length buf = length f + 1" and "length frame = length f"
  shows "object_at (decryptors c') q = object_at (decryptors c) q
    \<and> (\<exists>e' w d'. Encrypt (e_SetSM4KeyWithVersion e key v) mt f buf t0 t1 = Inr (e', 0, w, Some (length f + 1))
      \<and> Decrypt (object_at (decryptors c') q) mt w frame s0 s1 s2 = Inr (d', kOk, length f, butlast w))"
proof -
  let ?e = "e_SetSM4KeyWithVersion e key v"
  note q = active_objects(3) [OF assms(1,2)]
  have inv: "rc_inv c" using session_inv [OF assms(1)] by simp
  have same: "object_at (decryptors c') q = object_at (decryptors c) q"
    using onKeyRecovered_ok [OF inv assms(5), of v] q assms(3,4) by (auto simp: rekeyed_d_def)
  have e: "enc_ok ?e" using assms(5-8) by (simp add: enc_ok_setters enc_ok_def [of e])
  moreover have "encrypts ?e mt f" using assms(9) by (simp add: encrypts_def set_key_fields)
  moreover have "e_key_version ?e AND 0x7F \<noteq> d_key_version (object_at (decryptors c) q)"
    using assms(10,11) version_fits [of v] by (simp add: set_key_fields)
  moreover have "\<not> e_fail_encryption ?e" using e by (simp add: enc_ok_def)
  ultimately show ?thesis
    using Decrypt_mismatch [OF e _ _ _ assms(13)] Encrypt_wire [OF _ assms(12), of ?e mt t0 t1] q same by metis
qed

theorem stale_consumer_witness:
  "\<exists>c' ev e' w d'. onKeyRecovered (sample_client [''video'', ''video'']) (replicate 16 9) 1 = Inr (c', ev)
    \<and> Encrypt (e_SetSM4KeyWithVersion (mk_HCCrypto sample_junk 0 0) (replicate 16 9) 1) MEDIA_TYPE_VIDEO [1, 2] [0, 0, 0] 0 1
      = Inr (e', 0, w, Some (length [1 :: u8, 2] + 1))
    \<and> Decrypt (object_at (decryptors c') 1) MEDIA_TYPE_VIDEO w [0, 0] 0 1 2 = Inr (d', kOk, length [1 :: u8, 2], butlast w)"
proof -
  let ?c = "sample_client [''video'', ''video'']" and ?key = "replicate 16 9 :: bytes"
  have s: "session 30 (mk_KNSConnectManager\<lparr>has_listener := True\<rparr>, ?c)" by (rule sample_session)
  have key: "length ?key = 16" by simp
  obtain c' ev where c': "onKeyRecovered ?c ?key 1 = Inr (c', ev)"
    using onKeyRecovered_ok [OF _ key] session_inv [OF s] by fastforce
  have "object_at (decryptors c') 1 = object_at (decryptors ?c) 1
    \<and> (\<exists>e' w d'. Encrypt (e_SetSM4KeyWithVersion (mk_HCCrypto sample_junk 0 0) ?key 1) MEDIA_TYPE_VIDEO [1, 2] [0, 0, 0] 0 1
        = Inr (e', 0, w, Some (length [1 :: u8, 2] + 1))
      \<and> Decrypt (object_at (decryptors c') 1) MEDIA_TYPE_VIDEO w [0, 0] 0 1 2 = Inr (d', kOk, length [1 :: u8, 2], butlast w))"
    by (rule stale_consumer [OF s _ _ c' key enc_reachable.new [OF sample_junk]]) (simp_all add: sample_fields2 sample_fields2(3) [simplified])
  with c' show ?thesis by blast
qed

text \<open>C30. Shares of an earlier key are never dropped, and the three lowest indices are used.  When the
  shares of a new key arrive under higher indices, the client recovers the old key again and installs
  it under a new version.\<close>

theorem stale_shares:
  assumes "session sdk (k, c)" and "26 \<le> sdk" and "three_shares old (shamirSharesMap k)"
    and "distinct (map fst (shamirSharesMap k @ new))"
    and "\<forall>p \<in> set (take 3 (sort_key (\<lambda>p. sint (fst p)) (shamirSharesMap k))). \<forall>q \<in> set new. sint (fst p) < sint (fst q)"
  shows "\<exists>k' c' ev. on_server_message sdk (k, c) (additional_shares_provided (Inr (map Inr new))) = Inr ((k', c'), ev)
    \<and> sm4Key c' = shared_key old \<and> currentKeyVersion c' = kns_version k + 1"
proof -
  let ?m = "shamirSharesMap k @ new"
  have "lowest_shares 3 ?m = lowest_shares 3 (shamirSharesMap k)"
    using lowest_shares_fresh [OF assms(4) three_shares_length [OF assms(3)] assms(5)] .
  then have "three_shares old ?m" using assms(3) by (simp add: three_shares_def)
  then show ?thesis using message_rekeys [OF assms(1,2) store_fresh [OF assms(4)]] by blast
qed

theorem stale_shares_witness:
  "\<exists>k' c' ev. on_server_message 30
      (\<lparr>shamirSharesMap = sample_shares sample_polys 1, kns_version = 1, has_listener = True\<rparr>, sample_client [''video''])
      (additional_shares_provided (Inr (map Inr (sample_shares (replicate 16 [gf_of 8]) 11)))) = Inr ((k', c'), ev)
    \<and> sm4Key c' = replicate 16 7 \<and> currentKeyVersion c' = 2"
proof -
  let ?k = "\<lparr>shamirSharesMap = sample_shares sample_polys 1, kns_version = 1, has_listener = True\<rparr>"
  have s: "session 30 (?k, sample_client [''video''])" using sample_session [of 30 ?k] by simp
  have "kns_version ?k + 1 = 2" by simp
  moreover have "\<exists>k' c' ev. on_server_message 30 (?k, sample_client [''video''])
      (additional_shares_provided (Inr (map Inr (sample_shares (replicate 16 [gf_of 8]) 11)))) = Inr ((k', c'), ev)
    \<and> sm4Key c' = shared_key sample_polys \<and> currentKeyVersion c' = kns_version ?k + 1"
    by (rule stale_shares [OF s]) (simp_all add: sample_three, simp_all add: sample_shares_def)
  ultimately show ?thesis unfolding sample_key by simp
qed

end
