(* ===== verification/Spec2Isabelle.thy ===== *)
theory Spec2Isabelle
  imports Frame_Pipeline Device Native_Caps Remote_Session Handlers Key_Session
begin

text \<open>
  Verification of the encrypted video chat client.

  \<^bold>\<open>The program.\<close>  An Android application (\<^verbatim>\<open>src/app\<close>) talks to a mediasoup server through
  \<^verbatim>\<open>libmediasoupclient\<close>, which drives WebRTC.  The repository adds end-to-end encryption of the media
  frames: WebRTC calls a frame encryptor (\<^verbatim>\<open>HCCrypto\<close>) on every outgoing audio and video frame and a frame
  decryptor (\<^verbatim>\<open>HCCryptoDecryptor\<close>) on every incoming one; both use the SM4 block cipher of GmSSL in counter
  mode.  A key server sends the room key as shares of a polynomial secret sharing; the key manager
  (\<^verbatim>\<open>KNSConnectManager\<close>) recovers it and the room client (\<^verbatim>\<open>RoomClient\<close>) passes it through JNI to the native
  frame objects.

  \<^bold>\<open>Theories.\<close>

  \<^item> \<open>Prelude\<close>: machine integers, exceptions as values (\<open>exn\<close>, \<open>rbind\<close>, \<open>mapM\<close>), byte buffers.
  \<^item> \<open>Endian\<close>, \<open>Sm4_Tables\<close>, \<open>Sm4\<close>: \<^verbatim>\<open>GmSSL-master/include/gmssl/endian.h\<close> and \<^verbatim>\<open>src/sm4.c\<close>.  The four
    tables of the fast implementation are those of the source; the lemmas show that they are the
    rotated S-box images, that the fast and the small routine are the same function and that the
    decrypt schedule inverts the encrypt schedule (locale \<open>block_cipher\<close>, interpreted as \<open>sm4\<close>).
  \<^item> \<open>Sm4_Ctr\<close>: the counter loops of \<^verbatim>\<open>sm4.c\<close> and the incremental interface of \<^verbatim>\<open>sm4_ctr.c\<close>.  They refine
    XOR with the keystream of a 128-bit counter (locale \<open>stream_cipher\<close>, interpreted as \<open>ctr\<close>).
  \<^item> \<open>Frame_Crypto\<close>: \<^verbatim>\<open>api/crypto/hc_crypto.cc\<close> and \<^verbatim>\<open>hc_crypto_decryptor.cc\<close>; the objects' members are
    the records \<open>HCCrypto\<close> and \<open>HCCryptoDecryptor\<close>, one definition per method.  Invariants by rule
    induction over the reachable states, the round trip, key rotation, and the cases where the
    design fails.
  \<^item> \<open>Frame_Pipeline\<close>: the callers inside WebRTC (\<^verbatim>\<open>rtp_sender_video.cc\<close>, \<^verbatim>\<open>channel_send.cc\<close>,
    \<^verbatim>\<open>channel_receive.cc\<close>) and the whole of \<^verbatim>\<open>buffered_frame_decryptor.cc\<close>, over the interface locale
    \<open>frame_decryptor_interface\<close>, interpreted on \<open>HCCryptoDecryptor\<close>.
  \<^item> \<open>H264_Profile\<close>: \<^verbatim>\<open>api/video_codecs/h264_profile_level_id.cc\<close> and the answer generation of
    \<^verbatim>\<open>media/base/sdp_video_format_utils.cc\<close>; levels are ordered as an instance of \<open>linorder\<close>.
  \<^item> \<open>Json\<close>: the values of nlohmann::json with the operations the signalling code uses (locale
    \<open>keyed_store\<close>, interpreted as \<open>jobj\<close>).
  \<^item> \<open>Ortc_Validate\<close>, \<open>Ortc_Contract\<close>: the validators of \<^verbatim>\<open>libmediasoupclient/src/ortc.cpp\<close> and their
    contract (locale \<open>validator\<close>, one interpretation per validator).
  \<^item> \<open>Ortc_Match\<close>, \<open>Ortc_Caps\<close>, \<open>Ortc_Nego\<close>, \<open>Ortc_Derived\<close>: the rest of \<^verbatim>\<open>ortc.cpp\<close>.  \<open>Ortc_Match\<close> has the
    comparison of codecs, \<open>Ortc_Caps\<close> the negotiation and the capabilities and parameters made from its
    result; \<open>Ortc_Nego\<close> has the invariants of the three negotiation loops, \<open>Ortc_Derived\<close> what the results
    satisfy: they are common to both sides, accepted by the validators, and the cases that throw.
  \<^item> \<open>Endpoints\<close>, \<open>Send_Transport\<close>, \<open>Send_Session\<close>, \<open>Recv_Transport\<close>, \<open>Recv_Session\<close>: \<^verbatim>\<open>Transport.cpp\<close>, \<^verbatim>\<open>Producer.cpp\<close>,
    \<^verbatim>\<open>Consumer.cpp\<close>, \<^verbatim>\<open>DataProducer.cpp\<close> and \<^verbatim>\<open>DataConsumer.cpp\<close>.  A transport is a record with its endpoint
    objects and the list of calls that left the library; what those calls return is an argument of the
    operation.  The contract of an endpoint is the locale \<open>endpoint\<close>, that of the two kinds of endpoint of a
    transport is \<open>transport_endpoints\<close>, which extends it (interpretations \<open>sending\<close> and \<open>receiving\<close>).  Sessions
    are the reachable states; their invariant says that endpoints are registered while open and that
    their closing is announced exactly once.
  \<^item> \<open>Device\<close>: \<^verbatim>\<open>Device.cpp\<close>, which joins the negotiation and the transports.
  \<^item> \<open>Media_Section\<close>, \<open>Remote_Sdp\<close>, \<open>Remote_Session\<close>: \<^verbatim>\<open>sdp/MediaSection.cpp\<close> and \<^verbatim>\<open>sdp/RemoteSdp.cpp\<close>, the
    description of the remote side.  Its three copies of the media sections agree in every session.
  \<^item> \<open>Sdp_Utils\<close>, \<open>Sdp_Contract\<close>, \<open>Native_Caps\<close>: \<^verbatim>\<open>sdp/Utils.cpp\<close>, which reads the local description; decimal
    numbers and stream groups are read back as written, and the platform's capabilities pass validation.
  \<^item> \<open>Handlers\<close>: \<^verbatim>\<open>Handler.cpp\<close> and \<^verbatim>\<open>scalabilityMode.cpp\<close>.  An operation takes the answers of the peer
    connection in a record and returns its outcome with the new state.
  \<^item> \<open>Gf256_Tables\<close>, \<open>Gf256\<close>, \<open>Interpolation\<close>: the logarithm tables of \<^verbatim>\<open>ShamirSm4KeyReconstructor.java\<close>; they
    make the bytes a field (locale \<open>log_tables\<close>, interpreted as \<open>rf\<close>; instance \<open>gf :: field\<close>), in which
    Lagrange interpolation recovers a polynomial.
  \<^item> \<open>Shamir\<close>: the reconstructor itself, Base64 text included, and its correctness for shares in the
    format of the server.
  \<^item> \<open>Crypto_Jni\<close>: \<^verbatim>\<open>hc_crypto_jni.cpp\<close>, \<^verbatim>\<open>hc_crypto_decryptor_jni.cpp\<close> and the Java classes over them, on
    an explicit heap of native objects with reference counts.
  \<^item> \<open>Key_Shares\<close>, \<open>Room_Client\<close>, \<open>Key_Session\<close>: \<^verbatim>\<open>KNSConnectManager.java\<close> and \<^verbatim>\<open>RoomClient.java\<close> as far as keys
    are concerned, each with its invariant, and their sessions: server messages, tracks, consumers and
    frames in any order.  What two sessions exchange rests on the round trip of \<open>Frame_Crypto\<close>.

  \<^bold>\<open>Bounds.\<close>  No definition uses fuel, apart from \<open>shift_for\<close> in \<open>Json\<close>, which halves a number below
  \<open>2 ^ 64\<close> at most 64 times.  Sizes that the code keeps in \<^verbatim>\<open>size_t\<close> are 64-bit words where they are
  computed with; hypotheses such as \<open>length f + 1 < 2 ^ 63\<close> say that a buffer of that size can be
  allocated.

  \<^bold>\<open>Not modelled.\<close>  Log output; the Android user interface and network I/O; WebRTC below the hooks listed
  above (codecs, transport, packetisation) and below the calls of \<^verbatim>\<open>PeerConnection.cpp\<close>, whose answers are
  arguments; in the transports the calls of the handlers are events with any outcome; the text form of session descriptions,
  which \<^verbatim>\<open>libsdptransform\<close> reads with a table of std::regex expressions.
\<close>

end
